(* ===== verification/Prelude.thy ===== *)
theory Prelude
  imports Main "HOL-Library.AList" "HOL-Library.Finite_Map" "HOL-Library.Char_ord"
    "HOL-Library.List_Lexorder" "HOL-Library.Word"
begin

text \<open>
  Shared vocabulary of the development: Go errors and their wrapping, the result of a Go call
  (value, error or panic), calls that act on the cluster as functions on a world \<open>'w\<close>, Go maps
  and the functions of the Go packages \<^verbatim>\<open>strings\<close> and \<^verbatim>\<open>errors\<close> that the operator uses, and the
  generic lemmas the component theories rest on.
\<close>

section \<open>Collections of facts\<close>

named_theorems io_defs \<open>unfolding equations of the call combinators\<close>
named_theorems io_elims \<open>inversion of successful calls\<close>

section \<open>Errors\<close>

text \<open>
  A Go error keeps its identity through \<^verbatim>\<open>fmt.Errorf("... %w", err)\<close> and loses it through
  \<^verbatim>\<open>%v\<close>, which only copies the text; the operator relies on the difference when it asks
  \<^verbatim>\<open>errors.Is\<close>, \<^verbatim>\<open>errors.As\<close> or \<^verbatim>\<open>IsNotFound\<close>.
\<close>

datatype api_reason = StatusReasonNotFound | StatusReasonOther string

datatype goerr =
    StatusError api_reason string
  | TransportError nat
  | Sentinel string
  | ErrorMsg string
  | Errorf_w string goerr
  | Errorf_v string goerr

primrec err_chain :: "goerr \<Rightarrow> goerr list" where
  "err_chain (StatusError r s) = [StatusError r s]"
| "err_chain (TransportError n) = [TransportError n]"
| "err_chain (Sentinel s) = [Sentinel s]"
| "err_chain (ErrorMsg s) = [ErrorMsg s]"
| "err_chain (Errorf_w s e) = Errorf_w s e # err_chain e"
| "err_chain (Errorf_v s e) = [Errorf_v s e]"

text \<open>\<^verbatim>\<open>err.Error()\<close>, up to the arguments of the formats that the model leaves out.\<close>

primrec err_text :: "goerr \<Rightarrow> string" where
  "err_text (StatusError r s) = s"
| "err_text (TransportError n) = ''unexpected status code''"
| "err_text (Sentinel s) = s"
| "err_text (ErrorMsg s) = s"
| "err_text (Errorf_w s e) = s @ '': '' @ err_text e"
| "err_text (Errorf_v s e) = s @ '': '' @ err_text e"

definition errors_Is :: "goerr \<Rightarrow> goerr \<Rightarrow> bool" where
  "errors_Is e target = (target \<in> set (err_chain e))"

fun is_api_status :: "goerr \<Rightarrow> bool" where
  "is_api_status (StatusError r s) = True"
| "is_api_status e = False"

text \<open>\<^verbatim>\<open>IsNotFound\<close> looks at the first API status of the chain.\<close>

definition IsNotFound :: "goerr \<Rightarrow> bool" where
  "IsNotFound e =
     (case find is_api_status (err_chain e) of
        Some (StatusError StatusReasonNotFound s) \<Rightarrow> True
      | _ \<Rightarrow> False)"

fun is_transport :: "goerr \<Rightarrow> bool" where
  "is_transport (TransportError n) = True"
| "is_transport e = False"

text \<open>\<^verbatim>\<open>errors.As(err, &te) && te.StatusCode == n\<close>.\<close>

definition transport_status_is :: "nat \<Rightarrow> goerr \<Rightarrow> bool" where
  "transport_status_is n e = (find is_transport (err_chain e) = Some (TransportError n))"

lemma errors_Is_Errorf_w [simp]:
  "t \<noteq> Errorf_w s e \<Longrightarrow> errors_Is (Errorf_w s e) t = errors_Is e t"
  by (simp add: errors_Is_def)

lemma errors_Is_Errorf_v [simp]: "errors_Is (Errorf_v s e) (Sentinel t) = False"
  by (simp add: errors_Is_def)

lemma errors_Is_leaf [simp]:
  "errors_Is (Sentinel s) (Sentinel t) = (s = t)"
  "errors_Is (ErrorMsg m) (Sentinel t) = False"
  "errors_Is (StatusError r m) (Sentinel t) = False"
  by (auto simp: errors_Is_def)

lemma IsNotFound_simps [simp]:
  "IsNotFound (StatusError StatusReasonNotFound s) = True"
  "IsNotFound (StatusError (StatusReasonOther r) s) = False"
  "IsNotFound (ErrorMsg s) = False"
  "IsNotFound (Sentinel s) = False"
  "IsNotFound (TransportError n) = False"
  "IsNotFound (Errorf_w s e) = IsNotFound e"
  "IsNotFound (Errorf_v s e) = False"
  by (auto simp: IsNotFound_def)

lemma transport_status_is_simps [simp]:
  "transport_status_is n (TransportError m) = (m = n)"
  "transport_status_is n (ErrorMsg s) = False"
  "transport_status_is n (StatusError r s) = False"
  "transport_status_is n (Sentinel s) = False"
  "transport_status_is n (Errorf_w s e) = transport_status_is n e"
  "transport_status_is n (Errorf_v s e) = False"
  by (auto simp: transport_status_is_def)

section \<open>Results and calls\<close>

text \<open>
  A call returns a value, returns an error, or panics (a nil dereference or an index out of
  range in Go). A call that talks to the cluster or to a registry is a function on a world
  \<open>'w\<close>, about which nothing is assumed.
\<close>

datatype 'a result = Ok 'a | Err goerr | Panic string

type_synonym ('w, 'a) io = "'w \<Rightarrow> 'a result \<times> 'w"

primrec is_ok :: "'a result \<Rightarrow> bool" where
  "is_ok (Ok a) = True"
| "is_ok (Err e) = False"
| "is_ok (Panic p) = False"

primrec is_panic :: "'a result \<Rightarrow> bool" where
  "is_panic (Ok a) = False"
| "is_panic (Err e) = False"
| "is_panic (Panic p) = True"

primrec bind_res :: "'a result \<Rightarrow> ('a \<Rightarrow> 'b result) \<Rightarrow> 'b result" where
  "bind_res (Ok a) f = f a"
| "bind_res (Err e) f = Err e"
| "bind_res (Panic p) f = Panic p"

primrec map_err :: "(goerr \<Rightarrow> goerr) \<Rightarrow> 'a result \<Rightarrow> 'a result" where
  "map_err g (Ok a) = Ok a"
| "map_err g (Err e) = Err (g e)"
| "map_err g (Panic p) = Panic p"

definition return_io :: "'a \<Rightarrow> ('w, 'a) io" where
  "return_io a = (\<lambda>w. (Ok a, w))"

definition fail_io :: "goerr \<Rightarrow> ('w, 'a) io" where
  "fail_io e = (\<lambda>w. (Err e, w))"

definition lift_io :: "'a result \<Rightarrow> ('w, 'a) io" where
  "lift_io r = (\<lambda>w. (r, w))"

text \<open>\<^verbatim>\<open>x, err := m; if err != nil { return err }\<close>\<close>

definition bind_io :: "('w, 'a) io \<Rightarrow> ('a \<Rightarrow> ('w, 'b) io) \<Rightarrow> ('w, 'b) io" where
  "bind_io m f = (\<lambda>w. case m w of
      (Ok a, w') \<Rightarrow> f a w'
    | (Err e, w') \<Rightarrow> (Err e, w')
    | (Panic p, w') \<Rightarrow> (Panic p, w'))"

text \<open>\<^verbatim>\<open>if err != nil { return fmt.Errorf(..., err) }\<close>\<close>

definition wrap_io :: "(goerr \<Rightarrow> goerr) \<Rightarrow> ('w, 'a) io \<Rightarrow> ('w, 'a) io" where
  "wrap_io g m = (\<lambda>w. case m w of (r, w') \<Rightarrow> (map_err g r, w'))"

text \<open>\<^verbatim>\<open>x, err := m\<close> where the caller goes on and inspects \<open>err\<close> itself.\<close>

definition attempt_io :: "('w, 'a) io \<Rightarrow> ('w, goerr + 'a) io" where
  "attempt_io m = (\<lambda>w. case m w of
      (Ok a, w') \<Rightarrow> (Ok (Inr a), w')
    | (Err e, w') \<Rightarrow> (Ok (Inl e), w')
    | (Panic p, w') \<Rightarrow> (Panic p, w'))"

text \<open>\<^verbatim>\<open>for _, x := range xs { s = body }\<close>, left at the first error.\<close>

primrec for_io :: "('s \<Rightarrow> 'a \<Rightarrow> ('w, 's) io) \<Rightarrow> 's \<Rightarrow> 'a list \<Rightarrow> ('w, 's) io" where
  "for_io body s [] = return_io s"
| "for_io body s (x # xs) = bind_io (body s x) (\<lambda>s'. for_io body s' xs)"

text \<open>
  A component with in-memory state shared between reconcilers runs on a pair of the world and that
  state; its cluster calls only touch the world.
\<close>

definition on_world :: "('w, 'a) io \<Rightarrow> ('w \<times> 's, 'a) io" where
  "on_world m = (\<lambda>(w, s). case m w of (r, w') \<Rightarrow> (r, (w', s)))"

definition modify_mem :: "('s \<Rightarrow> 's) \<Rightarrow> ('w \<times> 's, unit) io" where
  "modify_mem f = (\<lambda>(w, s). (Ok (), (w, f s)))"

definition read_mem :: "('s \<Rightarrow> 'a result) \<Rightarrow> ('w \<times> 's, 'a) io" where
  "read_mem f = (\<lambda>(w, s). (f s, (w, s)))"

text \<open>A call that is given the in-memory object and leaves what the server answered in it.\<close>

definition update_mem :: "('s \<Rightarrow> ('w, 's) io) \<Rightarrow> ('w \<times> 's, unit) io" where
  "update_mem f = (\<lambda>(w, s). case f s w of
      (Ok s', w') \<Rightarrow> (Ok (), (w', s'))
    | (Err e, w') \<Rightarrow> (Err e, (w', s))
    | (Panic p, w') \<Rightarrow> (Panic p, (w', s)))"

text \<open>A call on an object that only lives in this call's memory.\<close>

definition with_mem :: "'s \<Rightarrow> ('w \<times> 's, 'a) io \<Rightarrow> ('w, 'a) io" where
  "with_mem s m = (\<lambda>w. case m (w, s) of (r, (w', s')) \<Rightarrow> (r, w'))"

text \<open>A void method of an in-memory component: it cannot fail.\<close>

definition do_io :: "('w \<Rightarrow> 'w) \<Rightarrow> ('w, unit) io" where
  "do_io f = (\<lambda>w. (Ok (), f w))"

lemma bind_res_Ok_iff [simp]:
  "bind_res r f = Ok b \<longleftrightarrow> (\<exists>a. r = Ok a \<and> f a = Ok b)"
  by (cases r) auto

lemma map_err_Ok_iff [simp]: "map_err g r = Ok a \<longleftrightarrow> r = Ok a"
  by (cases r) auto

lemma map_err_Err_iff [simp]: "map_err g r = Err e \<longleftrightarrow> (\<exists>e0. r = Err e0 \<and> e = g e0)"
  by (cases r) auto

lemma map_err_Panic_iff [simp]: "map_err g r = Panic p \<longleftrightarrow> r = Panic p"
  by (cases r) auto

lemma is_panic_map_err [simp]: "is_panic (map_err g r) = is_panic r"
  by (cases r) auto

lemma is_panic_bind_res [simp]:
  "is_panic (bind_res r f) \<longleftrightarrow> is_panic r \<or> (\<exists>a. r = Ok a \<and> is_panic (f a))"
  by (cases r) auto

lemma is_ok_iff: "is_ok r \<longleftrightarrow> (\<exists>a. r = Ok a)"
  by (cases r) auto

lemma return_io_apply [simp, io_defs]: "return_io a w = (Ok a, w)"
  by (simp add: return_io_def)

lemma fail_io_apply [simp, io_defs]: "fail_io e w = (Err e, w)"
  by (simp add: fail_io_def)

lemma lift_io_apply [simp, io_defs]: "lift_io r w = (r, w)"
  by (simp add: lift_io_def)

lemma bind_io_Ok [simp, io_defs]: "m w = (Ok a, w') \<Longrightarrow> bind_io m f w = f a w'"
  by (simp add: bind_io_def)

lemma bind_io_Err [simp, io_defs]: "m w = (Err e, w') \<Longrightarrow> bind_io m f w = (Err e, w')"
  by (simp add: bind_io_def)

lemma bind_io_Panic [simp, io_defs]: "m w = (Panic p, w') \<Longrightarrow> bind_io m f w = (Panic p, w')"
  by (simp add: bind_io_def)

lemma bind_return [simp]: "bind_io (return_io a) f = f a"
  by (simp add: bind_io_def fun_eq_iff)

lemma bind_lift_Ok [simp]: "bind_io (lift_io (Ok a)) f = f a"
  by (simp add: bind_io_def fun_eq_iff)

lemma bind_assoc: "bind_io (bind_io m f) g = bind_io m (\<lambda>a. bind_io (f a) g)"
  by (auto simp: bind_io_def fun_eq_iff split: prod.splits result.splits)

lemma wrap_io_apply [simp, io_defs]: "m w = (r, w') \<Longrightarrow> wrap_io g m w = (map_err g r, w')"
  by (simp add: wrap_io_def)

lemma attempt_io_Ok [simp, io_defs]: "m w = (Ok a, w') \<Longrightarrow> attempt_io m w = (Ok (Inr a), w')"
  by (simp add: attempt_io_def)

lemma attempt_io_Err [simp, io_defs]: "m w = (Err e, w') \<Longrightarrow> attempt_io m w = (Ok (Inl e), w')"
  by (simp add: attempt_io_def)

lemma attempt_io_Panic [simp, io_defs]: "m w = (Panic p, w') \<Longrightarrow> attempt_io m w = (Panic p, w')"
  by (simp add: attempt_io_def)

lemma on_world_apply [simp, io_defs]: "m w = (r, w') \<Longrightarrow> on_world m (w, s) = (r, (w', s))"
  by (simp add: on_world_def)

lemma modify_mem_apply [simp, io_defs]: "modify_mem f (w, s) = (Ok (), (w, f s))"
  by (simp add: modify_mem_def)

lemma read_mem_apply [simp, io_defs]: "read_mem f (w, s) = (f s, (w, s))"
  by (simp add: read_mem_def)

lemma update_mem_Ok [simp, io_defs]: "f s w = (Ok s', w') \<Longrightarrow> update_mem f (w, s) = (Ok (), (w', s'))"
  by (simp add: update_mem_def)

lemma update_mem_Ok_iff [io_elims]:
  "update_mem f ws = (Ok a, ws') \<longleftrightarrow> (\<exists>w' s'. f (snd ws) (fst ws) = (Ok s', w') \<and> ws' = (w', s'))"
  by (cases ws) (auto simp: update_mem_def split: prod.splits result.splits)

lemma with_mem_Ok_iff [io_elims]:
  "with_mem s m w = (Ok a, w') \<longleftrightarrow> (\<exists>s'. m (w, s) = (Ok a, (w', s')))"
  by (auto simp: with_mem_def split: prod.splits)

lemma do_io_apply [simp, io_defs]: "do_io f w = (Ok (), f w)"
  by (simp add: do_io_def)

lemma do_io_Ok_iff [io_elims]: "do_io f w = (Ok a, w') \<longleftrightarrow> w' = f w"
  by auto

lemma on_world_Ok_iff [io_elims]:
  "on_world m ws = (Ok a, ws') \<longleftrightarrow> (\<exists>w'. m (fst ws) = (Ok a, w') \<and> ws' = (w', snd ws))"
  by (cases ws) (auto simp: on_world_def split: prod.splits)

lemma modify_mem_Ok_iff [io_elims]:
  "modify_mem f ws = (Ok a, ws') \<longleftrightarrow> ws' = (fst ws, f (snd ws))"
  by (cases ws) (auto simp: modify_mem_def)

lemma read_mem_Ok_iff [io_elims]:
  "read_mem f ws = (Ok a, ws') \<longleftrightarrow> f (snd ws) = Ok a \<and> ws' = ws"
  by (cases ws) (auto simp: read_mem_def)

lemma bind_io_Ok_iff [io_elims]:
  "bind_io m f w = (Ok b, w') \<longleftrightarrow> (\<exists>a w1. m w = (Ok a, w1) \<and> f a w1 = (Ok b, w'))"
  by (auto simp: bind_io_def split: prod.splits result.splits)

lemma wrap_io_Ok_iff [io_elims]: "wrap_io g m w = (Ok a, w') \<longleftrightarrow> m w = (Ok a, w')"
  by (auto simp: wrap_io_def split: prod.splits)

lemma attempt_io_Ok_iff [io_elims]:
  "attempt_io m w = (Ok x, w') \<longleftrightarrow>
     (\<exists>a. x = Inr a \<and> m w = (Ok a, w')) \<or> (\<exists>e. x = Inl e \<and> m w = (Err e, w'))"
  by (auto simp: attempt_io_def split: prod.splits result.splits sum.splits)

lemma lift_io_Ok_iff [io_elims]: "lift_io r w = (Ok a, w') \<longleftrightarrow> r = Ok a \<and> w' = w"
  by auto

lemma return_io_Ok_iff [io_elims]: "return_io b w = (Ok a, w') \<longleftrightarrow> a = b \<and> w' = w"
  by auto

lemma fail_io_Ok_iff [io_elims]: "fail_io e w = (Ok a, w') \<longleftrightarrow> False"
  by auto

text \<open>A loop that acts on the elements of a kind and collects their names acts on exactly those
  elements, in their order.\<close>

lemma for_io_collect:
  "for_io (\<lambda>ns x. if P x then bind_io (wrap_io (g x) (act x)) (\<lambda>_. return_io (ns @ [f x])) else return_io ns)
     ns xs w = (Ok r, w') \<longleftrightarrow>
   r = ns @ map f (filter P xs) \<and> for_io (\<lambda>_. act) () (filter P xs) w = (Ok (), w')"
  by (induction xs arbitrary: ns w) (auto simp: io_elims)

text \<open>The operator's lookups of an object that should be unique: one error when there is none, another
  one that reports their number when there are several.\<close>

definition exactly_one :: "goerr \<Rightarrow> (nat \<Rightarrow> goerr) \<Rightarrow> 'a list \<Rightarrow> 'a result" where
  "exactly_one none many xs =
     (case xs of [] \<Rightarrow> Err none | [x] \<Rightarrow> Ok x | _ \<Rightarrow> Err (many (length xs)))"

lemma exactly_one_simps [simp]:
  "exactly_one none many [] = Err none"
  "exactly_one none many [x] = Ok x"
  "exactly_one none many (x # y # xs) = Err (many (Suc (Suc (length xs))))"
  by (simp_all add: exactly_one_def)

lemma exactly_one_Ok_iff [simp]: "exactly_one none many xs = Ok x \<longleftrightarrow> xs = [x]"
  by (auto simp: exactly_one_def split: list.splits)

lemma exactly_one_Err_iff:
  "exactly_one none many xs = Err e \<longleftrightarrow> xs = [] \<and> e = none \<or> 1 < length xs \<and> e = many (length xs)"
  by (auto simp: exactly_one_def split: list.splits)

lemma exactly_one_no_panic [simp]: "\<not> is_panic (exactly_one none many xs)"
  by (auto simp: exactly_one_def split: list.splits)

section \<open>Calls that never panic\<close>

definition no_panic :: "('w, 'a) io \<Rightarrow> bool" where
  "no_panic m = (\<forall>w. \<not> is_panic (fst (m w)))"

lemma no_panicD: "no_panic m \<Longrightarrow> \<not> is_panic (fst (m w))"
  by (simp add: no_panic_def)

lemma no_panic_return [simp]: "no_panic (return_io a)"
  by (simp add: no_panic_def)

lemma no_panic_fail [simp]: "no_panic (fail_io e)"
  by (simp add: no_panic_def)

lemma no_panic_lift [simp]: "no_panic (lift_io r) = (\<not> is_panic r)"
  by (simp add: no_panic_def)

lemma no_panic_bind: "no_panic m \<Longrightarrow> (\<And>a. no_panic (f a)) \<Longrightarrow> no_panic (bind_io m f)"
  by (auto simp: no_panic_def bind_io_def split: prod.splits result.splits)
     (metis fst_conv is_panic.simps(3))

lemma no_panic_wrap [simp]: "no_panic (wrap_io g m) = no_panic m"
  by (simp add: no_panic_def wrap_io_def case_prod_beta)

lemma no_panic_attempt: "no_panic m \<Longrightarrow> no_panic (attempt_io m)"
  by (auto simp: no_panic_def attempt_io_def split: prod.splits result.splits)
     (metis fst_conv is_panic.simps(3))

lemma no_panic_for: "(\<And>s x. no_panic (body s x)) \<Longrightarrow> no_panic (for_io body s xs)"
  by (induction xs arbitrary: s) (auto intro: no_panic_bind)

section \<open>Lists\<close>

lemma find_append: "find P (xs @ ys) = (case find P xs of None \<Rightarrow> find P ys | Some x \<Rightarrow> Some x)"
  by (induction xs) auto

lemma find_SomeD: "find P xs = Some x \<Longrightarrow> P x \<and> x \<in> set xs"
  by (induction xs) (auto split: if_splits)

section \<open>Go strings\<close>

primrec has_prefix :: "string \<Rightarrow> string \<Rightarrow> bool" where
  "has_prefix s [] = True"
| "has_prefix s (c # p) = (case s of [] \<Rightarrow> False | d # s' \<Rightarrow> c = d \<and> has_prefix s' p)"

fun strings_Contains :: "string \<Rightarrow> string \<Rightarrow> bool" where
  "strings_Contains [] sub = (sub = [])"
| "strings_Contains (c # s) sub = (has_prefix (c # s) sub \<or> strings_Contains s sub)"

definition strings_TrimPrefix :: "string \<Rightarrow> string \<Rightarrow> string" where
  "strings_TrimPrefix s p = (if has_prefix s p then drop (length p) s else s)"

definition strings_TrimSuffix :: "string \<Rightarrow> string \<Rightarrow> string" where
  "strings_TrimSuffix s p =
     (if has_prefix (rev s) (rev p) then take (length s - length p) s else s)"

text \<open>Splitting at every character of a class: \<^verbatim>\<open>strings.Split\<close> with a one-character separator,
  and \<^verbatim>\<open>Regexp.Split(s, -1)\<close> for a character class.\<close>

fun split_chars :: "(char \<Rightarrow> bool) \<Rightarrow> string \<Rightarrow> string list" where
  "split_chars P [] = [[]]"
| "split_chars P (c # s) =
     (if P c then [] # split_chars P s
      else (case split_chars P s of [] \<Rightarrow> [[c]] | x # xs \<Rightarrow> (c # x) # xs))"

fun strings_Join :: "string list \<Rightarrow> string \<Rightarrow> string" where
  "strings_Join [] sep = []"
| "strings_Join [x] sep = x"
| "strings_Join (x # y # xs) sep = x @ sep @ strings_Join (y # xs) sep"

text \<open>\<^verbatim>\<open>fmt.Sprintf("%d", n)\<close> of an unsigned number.\<close>

definition digit_char :: "nat \<Rightarrow> char" where
  "digit_char d = char_of (48 + d)"

fun decimal :: "nat \<Rightarrow> string" where
  "decimal n = (if n < 10 then [digit_char n] else decimal (n div 10) @ [digit_char (n mod 10)])"

declare decimal.simps [simp del]

text \<open>\<^verbatim>\<open>filepath.Clean\<close> on the elements of a slash-separated path, and \<^verbatim>\<open>filepath.Join\<close>. The
  accumulator holds the cleaned elements in reverse.\<close>

fun clean_elems :: "bool \<Rightarrow> string list \<Rightarrow> string list \<Rightarrow> string list" where
  "clean_elems rooted acc [] = rev acc"
| "clean_elems rooted acc (x # xs) =
     (if x = [] \<or> x = ''.'' then clean_elems rooted acc xs
      else if x = ''..'' then
        (case acc of
           [] \<Rightarrow> clean_elems rooted (if rooted then [] else [x]) xs
         | y # ys \<Rightarrow> if y = ''..'' then clean_elems rooted (x # acc) xs else clean_elems rooted ys xs)
      else clean_elems rooted (x # acc) xs)"

definition filepath_Clean :: "string \<Rightarrow> string" where
  "filepath_Clean p =
     (let rooted = has_prefix p ''/'';
          body = strings_Join (clean_elems rooted [] (split_chars (\<lambda>c. c = CHR ''/'') p)) ''/'' in
      if rooted then ''/'' @ body else if body = [] then ''.'' else body)"

definition filepath_Join :: "string list \<Rightarrow> string" where
  "filepath_Join elems =
     (case filter (\<lambda>e. e \<noteq> []) elems of
        [] \<Rightarrow> []
      | es \<Rightarrow> filepath_Clean (strings_Join es ''/''))"

lemma has_prefix_iff: "has_prefix s p \<longleftrightarrow> (\<exists>r. s = p @ r)"
  by (induction p arbitrary: s) (auto split: list.splits)

lemma strings_Contains_iff: "strings_Contains s sub \<longleftrightarrow> (\<exists>a b. s = a @ sub @ b)"
proof (induction s)
  case Nil
  then show ?case by auto
next
  case (Cons c s)
  have "(\<exists>a b. c # s = a @ sub @ b) \<longleftrightarrow> has_prefix (c # s) sub \<or> (\<exists>a b. s = a @ sub @ b)"
    unfolding has_prefix_iff by (metis Cons_eq_append_conv append_Cons append_Nil)
  with Cons.IH show ?case by simp
qed

lemma strings_Contains_char: "strings_Contains s [c] \<longleftrightarrow> c \<in> set s"
  by (auto simp: strings_Contains_iff in_set_conv_decomp)

lemma split_chars_not_Nil [simp]: "split_chars P s \<noteq> []"
  by (cases s) (auto split: list.splits)

lemma split_chars_pieces: "x \<in> set (split_chars P s) \<Longrightarrow> c \<in> set x \<Longrightarrow> \<not> P c"
proof (induction s arbitrary: x c)
  case (Cons a s)
  obtain y ys where "split_chars P s = y # ys"
    by (cases "split_chars P s") auto
  with Cons show ?case
    by (cases "P a") (auto, blast+)
qed simp

lemma length_split_chars: "length (split_chars P s) = Suc (length (filter P s))"
  by (induction s) (auto split: list.splits)

lemma split_chars_id: "\<forall>c \<in> set s. \<not> P c \<Longrightarrow> split_chars P s = [s]"
  by (induction s) auto

lemma split_chars_append_sep:
  "\<forall>c \<in> set x. \<not> P c \<Longrightarrow> P d \<Longrightarrow> split_chars P (x @ d # s) = x # split_chars P s"
  by (induction x) auto

text \<open>Splitting undoes joining when no piece contains the separator.\<close>

lemma split_Join:
  assumes "xs \<noteq> []" and "\<forall>x \<in> set xs. d \<notin> set x"
  shows "split_chars (\<lambda>c. c = d) (strings_Join xs [d]) = xs"
  using assms
proof (induction xs "[d]" rule: strings_Join.induct)
  case (3 x y xs)
  then have "split_chars (\<lambda>c. c = d) (x @ d # strings_Join (y # xs) [d]) = x # (y # xs)"
    by (subst split_chars_append_sep) auto
  then show ?case by simp
qed (auto intro!: split_chars_id)

lemma Join_split: "strings_Join (split_chars (\<lambda>c. c = d) s) [d] = s"
proof (induction s)
  case (Cons c s)
  obtain x xs where split: "split_chars (\<lambda>c. c = d) s = x # xs"
    by (cases "split_chars (\<lambda>c. c = d) s") auto
  with Cons show ?case by (cases xs) auto
qed simp

lemma strings_TrimSuffix_append [simp]: "strings_TrimSuffix (s @ p) p = s"
  by (simp add: strings_TrimSuffix_def has_prefix_iff)

lemma strings_TrimSuffix_char:
  "strings_TrimSuffix s [c] = (if s \<noteq> [] \<and> last s = c then butlast s else s)"
  by (cases s rule: rev_cases) (auto simp: strings_TrimSuffix_def has_prefix_iff butlast_conv_take)

text \<open>The decimal form determines the number.\<close>

definition undecimal :: "string \<Rightarrow> nat" where
  "undecimal s = foldl (\<lambda>a c. 10 * a + (of_char c - 48)) 0 s"

lemma of_char_digit_char: "d < 10 \<Longrightarrow> of_char (digit_char d) = (48 + d :: nat)"
  by (simp add: digit_char_def)

lemma undecimal_decimal: "undecimal (decimal n) = n"
proof (induction n rule: decimal.induct)
  case (1 n)
  then show ?case
    by (subst decimal.simps) (auto simp: undecimal_def of_char_digit_char)
qed

lemma decimal_eq_iff [simp]: "decimal m = decimal n \<longleftrightarrow> m = n"
  by (metis undecimal_decimal)

lemma decimal_not_Nil [simp]: "decimal n \<noteq> []"
  by (subst decimal.simps) simp

section \<open>Go maps\<close>

text \<open>
  A map that the code only looks up, updates and compares is a finite map, so that equality is
  equality of maps; the text type of labels, annotations and selectors is \<open>strmap\<close>. A map the
  code ranges over with effects is an association list with distinct keys: Go leaves the order
  of iteration open, and a theorem about every such list covers every order. A field whose
  nil-ness the code tests is an \<open>option\<close> of such a map.
\<close>

type_synonym strmap = "(string, string) fmap"
type_synonym 'v assoc = "(string \<times> 'v) list"

text \<open>Reading a missing key of a \<^verbatim>\<open>map[string]string\<close>, or any key of a nil one, gives "".\<close>

definition sm_get :: "strmap \<Rightarrow> string \<Rightarrow> string" where
  "sm_get m k = (case fmlookup m k of Some v \<Rightarrow> v | None \<Rightarrow> [])"

primrec nil_map :: "strmap option \<Rightarrow> strmap" where
  "nil_map None = fmempty"
| "nil_map (Some m) = m"

definition distinct_keys :: "'v assoc \<Rightarrow> bool" where
  "distinct_keys m = distinct (map fst m)"

lemma sm_get_upd [simp]: "sm_get (fmupd k v m) k' = (if k = k' then v else sm_get m k')"
  by (simp add: sm_get_def)

lemma sm_get_empty [simp]: "sm_get fmempty k = []"
  by (simp add: sm_get_def)

lemma distinct_keys_Nil [simp]: "distinct_keys []"
  by (simp add: distinct_keys_def)

lemma distinct_keys_update [simp]: "distinct_keys m \<Longrightarrow> distinct_keys (AList.update k v m)"
  by (simp add: distinct_keys_def AList.distinct_update)

lemma distinct_keys_delete [simp]: "distinct_keys m \<Longrightarrow> distinct_keys (AList.delete k m)"
  by (simp add: distinct_keys_def AList.distinct_delete)

lemma distinct_keys_filter [simp]: "distinct_keys m \<Longrightarrow> distinct_keys (filter P m)"
  by (simp add: distinct_keys_def distinct_map_filter)

lemma map_of_update [simp]: "map_of (AList.update k v m) = (map_of m)(k \<mapsto> v)"
  by (rule AList.update_conv')

lemma map_of_delete [simp]: "map_of (AList.delete k m) = (map_of m)(k := None)"
  by (rule AList.delete_conv')

lemma map_of_in_set: "distinct_keys m \<Longrightarrow> map_of m k = Some v \<longleftrightarrow> (k, v) \<in> set m"
  by (simp add: distinct_keys_def)

lemma dom_map_of_keys: "dom (map_of m) = fst ` set m"
  by (rule dom_map_of_conv_image_fst)

section \<open>Transition systems\<close>

inductive reachable_from :: "('s \<Rightarrow> 's \<Rightarrow> bool) \<Rightarrow> 's \<Rightarrow> 's \<Rightarrow> bool" for step s0 where
  start: "reachable_from step s0 s0"
| next_step: "reachable_from step s0 s \<Longrightarrow> step s s' \<Longrightarrow> reachable_from step s0 s'"

text \<open>A property that every step keeps holds in every reachable state.\<close>

locale step_invariant =
  fixes step :: "'s \<Rightarrow> 's \<Rightarrow> bool" and inv :: "'s \<Rightarrow> bool"
  assumes step_keeps: "step s s' \<Longrightarrow> inv s \<Longrightarrow> inv s'"
begin

lemma reachable_inv:
  assumes "reachable_from step s0 s" and "inv s0"
  shows "inv s"
  using assms by (induction rule: reachable_from.induct) (auto intro: step_keeps)

end

end
