(* ===== verification/Kube.thy ===== *)
theory Kube
  imports Prelude
begin

text \<open>
  The Kubernetes side the operator programs against: object metadata, owner references, the part
  of the core types the operator reads or writes, and the client. The API server is not part of
  the program: a client of one kind of object is a record of calls on the world, and a statement
  that needs more of it says so in a hypothesis. The helpers of controller-runtime and
  apimachinery that the operator composes with its own code (owner references,
  \<^verbatim>\<open>CreateOrPatch\<close>, finalizers) follow their vendored sources.
\<close>

section \<open>Metadata\<close>

record NamespacedName =
  nn_Namespace :: string
  nn_Name :: string

record OwnerReference =
  or_APIVersion :: string
  or_Kind :: string
  or_Name :: string
  or_UID :: string
  or_Controller :: "bool option"
  or_BlockOwnerDeletion :: "bool option"

record ObjectMeta =
  om_Name :: string
  om_GenerateName :: string
  om_Namespace :: string
  om_UID :: string
  om_Generation :: int
  om_DeletionTimestamp :: "string option"
  om_Labels :: "strmap option"
  om_Annotations :: "strmap option"
  om_OwnerReferences :: "OwnerReference list"
  om_Finalizers :: "string list"

definition empty_meta :: ObjectMeta where
  "empty_meta = \<lparr>om_Name = [], om_GenerateName = [], om_Namespace = [], om_UID = [],
     om_Generation = 0, om_DeletionTimestamp = None, om_Labels = None, om_Annotations = None,
     om_OwnerReferences = [], om_Finalizers = []\<rparr>"

definition ObjectKeyFromObject :: "ObjectMeta \<Rightarrow> NamespacedName" where
  "ObjectKeyFromObject m = \<lparr>nn_Namespace = om_Namespace m, nn_Name = om_Name m\<rparr>"

text \<open>\<^verbatim>\<open>obj.Labels[k]\<close>: the zero value for a missing key and for nil labels.\<close>

definition get_label :: "ObjectMeta \<Rightarrow> string \<Rightarrow> string" where
  "get_label m k = sm_get (nil_map (om_Labels m)) k"

text \<open>An owner is an object with its Go type; the scheme maps that type to its GVK.\<close>

record GVK =
  gvk_APIVersion :: string
  gvk_Kind :: string

record owner_object =
  oo_meta :: ObjectMeta
  oo_type :: string

type_synonym scheme = "string \<Rightarrow> GVK result"

section \<open>Owner references\<close>

definition GetControllerOf :: "ObjectMeta \<Rightarrow> OwnerReference option" where
  "GetControllerOf m = find (\<lambda>r. or_Controller r = Some True) (om_OwnerReferences m)"

definition IsControlledBy :: "ObjectMeta \<Rightarrow> ObjectMeta \<Rightarrow> bool" where
  "IsControlledBy obj owner =
     (case GetControllerOf obj of None \<Rightarrow> False | Some ref \<Rightarrow> or_UID ref = om_UID owner)"

definition parse_group :: "string \<Rightarrow> string option" where
  "parse_group gv =
     (if gv = [] \<or> gv = ''/'' then Some []
      else (case split_chars (\<lambda>c. c = CHR ''/'') gv of
              [v] \<Rightarrow> Some []
            | [g, v] \<Rightarrow> Some g
            | _ \<Rightarrow> None))"

definition referSameObject :: "OwnerReference \<Rightarrow> OwnerReference \<Rightarrow> bool" where
  "referSameObject a b =
     (case parse_group (or_APIVersion a) of
        None \<Rightarrow> False
      | Some ga \<Rightarrow> (case parse_group (or_APIVersion b) of
            None \<Rightarrow> False
          | Some gb \<Rightarrow> ga = gb \<and> or_Kind a = or_Kind b \<and> or_Name a = or_Name b))"

definition validateOwner :: "ObjectMeta \<Rightarrow> ObjectMeta \<Rightarrow> unit result" where
  "validateOwner owner obj =
     (if om_Namespace owner \<noteq> [] then
        (if om_Namespace obj = [] then
           Err (ErrorMsg (''cluster-scoped resource must not have a namespace-scoped owner, owner's namespace ''
                  @ om_Namespace owner))
         else if om_Namespace owner \<noteq> om_Namespace obj then
           Err (ErrorMsg (''cross-namespace owner references are disallowed, owner's namespace ''
                  @ om_Namespace owner @ '', obj's namespace '' @ om_Namespace obj))
         else Ok ())
      else Ok ())"

fun upsert_ref :: "OwnerReference \<Rightarrow> OwnerReference list \<Rightarrow> OwnerReference list" where
  "upsert_ref ref [] = [ref]"
| "upsert_ref ref (r # rs) = (if referSameObject r ref then ref # rs else r # upsert_ref ref rs)"

definition upsertOwnerRef :: "OwnerReference \<Rightarrow> ObjectMeta \<Rightarrow> ObjectMeta" where
  "upsertOwnerRef ref m = m\<lparr>om_OwnerReferences := upsert_ref ref (om_OwnerReferences m)\<rparr>"

definition controller_ref :: "GVK \<Rightarrow> ObjectMeta \<Rightarrow> OwnerReference" where
  "controller_ref gvk owner =
     \<lparr>or_APIVersion = gvk_APIVersion gvk, or_Kind = gvk_Kind gvk, or_Name = om_Name owner,
      or_UID = om_UID owner, or_Controller = Some True, or_BlockOwnerDeletion = Some True\<rparr>"

definition SetControllerReference :: "scheme \<Rightarrow> owner_object \<Rightarrow> ObjectMeta \<Rightarrow> ObjectMeta result" where
  "SetControllerReference sch owner controlled =
     bind_res (validateOwner (oo_meta owner) controlled) (\<lambda>_.
     bind_res (sch (oo_type owner)) (\<lambda>gvk.
       let ref = controller_ref gvk (oo_meta owner) in
       case GetControllerOf controlled of
         Some existing \<Rightarrow>
           if \<not> referSameObject existing ref
           then Err (ErrorMsg (''Object '' @ om_Namespace controlled @ ''/'' @ om_Name controlled
                       @ '' is already owned by another '' @ or_Kind existing @ '' controller ''
                       @ or_Name existing))
           else Ok (upsertOwnerRef ref controlled)
       | None \<Rightarrow> Ok (upsertOwnerRef ref controlled)))"

definition SetOwnerReference :: "scheme \<Rightarrow> owner_object \<Rightarrow> ObjectMeta \<Rightarrow> ObjectMeta result" where
  "SetOwnerReference sch owner obj =
     bind_res (validateOwner (oo_meta owner) obj) (\<lambda>_.
     bind_res (sch (oo_type owner)) (\<lambda>gvk.
       Ok (upsertOwnerRef
             \<lparr>or_APIVersion = gvk_APIVersion gvk, or_Kind = gvk_Kind gvk,
              or_Name = om_Name (oo_meta owner), or_UID = om_UID (oo_meta owner),
              or_Controller = None, or_BlockOwnerDeletion = None\<rparr> obj)))"

definition RemoveFinalizer :: "string \<Rightarrow> ObjectMeta \<Rightarrow> ObjectMeta" where
  "RemoveFinalizer f m = m\<lparr>om_Finalizers := filter (\<lambda>x. x \<noteq> f) (om_Finalizers m)\<rparr>"

section \<open>Core types\<close>

record LocalObjectReference =
  lor_Name :: string

record KeyToPath =
  ktp_Key :: string
  ktp_Path :: string

record SecretVolumeSource =
  svs_SecretName :: string
  svs_Items :: "KeyToPath list"
  svs_Optional :: "bool option"

record ConfigMapProjection =
  cmp_Name :: string
  cmp_Items :: "KeyToPath list"

datatype HostPathType = HostPathDirectory | HostPathDirectoryOrCreate

text \<open>The sources the operator itself writes, and any other one a Module brings along.\<close>

datatype VolumeSource =
    NoVolumeSource
  | HostPathSource string HostPathType
  | SecretSource SecretVolumeSource
  | ProjectedSource "ConfigMapProjection list"
  | OtherVolumeSource string

record Volume =
  vol_Name :: string
  vol_VolumeSource :: VolumeSource

record VolumeMount =
  vm_Name :: string
  vm_ReadOnly :: bool
  vm_MountPath :: string

record EnvVar =
  ev_Name :: string
  ev_Value :: string

record SecurityContext =
  sc_Privileged :: "bool option"
  sc_AllowPrivilegeEscalation :: "bool option"
  sc_CapabilitiesAdd :: "string list"
  sc_RunAsUser :: "int option"
  sc_SELinuxType :: "string option"

record Container =
  c_Name :: string
  c_Image :: string
  c_ImagePullPolicy :: string
  c_Command :: "string list"
  c_Args :: "string list"
  c_Env :: "EnvVar list"
  c_Resources :: string
  c_PostStart :: "string list option"
  c_PreStop :: "string list option"
  c_SecurityContext :: "SecurityContext option"
  c_VolumeMounts :: "VolumeMount list"

record PodSpec =
  ps_Containers :: "Container list"
  ps_ImagePullSecrets :: "LocalObjectReference list"
  ps_NodeSelector :: strmap
  ps_PriorityClassName :: string
  ps_ServiceAccountName :: string
  ps_RestartPolicy :: string
  ps_Volumes :: "Volume list"

record PodTemplateSpec =
  pt_Labels :: strmap
  pt_Finalizers :: "string list"
  pt_Spec :: PodSpec

record Taint =
  taint_Key :: string
  taint_Effect :: string

record Node =
  node_meta :: ObjectMeta
  node_Taints :: "Taint list"
  node_KernelVersion :: string
  node_OSImage :: string

record ConfigMap =
  cm_meta :: ObjectMeta
  cm_Data :: strmap

record Secret =
  secret_meta :: ObjectMeta
  secret_Data :: strmap

record ServiceAccount =
  sa_meta :: ObjectMeta
  sa_Secrets :: "string list"

section \<open>The client\<close>

text \<open>
  The calls on one kind of object. \<open>k_list\<close> takes the label selector and, when given, the
  namespace. Create and the writes return the object as the server stored it, which Go leaves in
  the caller's struct. The second argument of a patch is the object it is computed against.
\<close>

record ('w, 'o) kclient =
  k_get :: "NamespacedName \<Rightarrow> ('w, 'o) io"
  k_list :: "strmap \<Rightarrow> string option \<Rightarrow> ('w, 'o list) io"
  k_create :: "'o \<Rightarrow> ('w, 'o) io"
  k_delete :: "'o \<Rightarrow> ('w, unit) io"
  k_patch :: "'o \<Rightarrow> 'o \<Rightarrow> ('w, 'o) io"
  k_status_patch :: "'o \<Rightarrow> 'o \<Rightarrow> ('w, 'o) io"
  k_status_update :: "'o \<Rightarrow> ('w, 'o) io"

text \<open>A client that serves one object and counts its writes, for evaluating statements.\<close>

definition const_client :: "'o \<Rightarrow> (nat, 'o) kclient" where
  "const_client ob = \<lparr>k_get = \<lambda>_. return_io ob, k_list = \<lambda>_ _. return_io [ob],
     k_create = \<lambda>x w. (Ok x, w + 1), k_delete = \<lambda>_ w. (Ok (), w + 1), k_patch = \<lambda>x _ w. (Ok x, w + 1),
     k_status_patch = \<lambda>x _ w. (Ok x, w + 1), k_status_update = \<lambda>x w. (Ok x, w + 1)\<rparr>"

text \<open>A client of a cluster that has no object of the kind.\<close>

definition absent_client :: "(nat, 'o) kclient" where
  "absent_client = \<lparr>k_get = \<lambda>_. fail_io (StatusError StatusReasonNotFound []), k_list = \<lambda>_ _. return_io [],
     k_create = \<lambda>x w. (Ok x, w + 1), k_delete = \<lambda>_ w. (Ok (), w + 1), k_patch = \<lambda>x _ w. (Ok x, w + 1),
     k_status_patch = \<lambda>x _ w. (Ok x, w + 1), k_status_update = \<lambda>x w. (Ok x, w + 1)\<rparr>"

text \<open>What \<^verbatim>\<open>CreateOrPatch\<close> needs to know of a kind: its metadata and its status.\<close>

record ('o, 's) obj_ops =
  get_meta :: "'o \<Rightarrow> ObjectMeta"
  get_status :: "'o \<Rightarrow> 's"
  set_status :: "'s \<Rightarrow> 'o \<Rightarrow> 'o"

datatype OperationResult =
  OperationResultNone | OperationResultCreated | OperationResultUpdated
  | OperationResultUpdatedStatus | OperationResultUpdatedStatusOnly

definition mutate :: "('o, 's) obj_ops \<Rightarrow> ('o \<Rightarrow> 'o result) \<Rightarrow> NamespacedName \<Rightarrow> 'o \<Rightarrow> 'o result" where
  "mutate ops f key obj =
     bind_res (f obj) (\<lambda>obj'.
       if ObjectKeyFromObject (get_meta ops obj') \<noteq> key
       then Err (ErrorMsg ''MutateFn cannot mutate object name and/or object namespace'')
       else Ok obj')"

definition patch_existing ::
    "('w, 'o) kclient \<Rightarrow> ('o, 's) obj_ops \<Rightarrow> 'o \<Rightarrow> 'o \<Rightarrow> ('w, OperationResult \<times> 'o) io" where
  "patch_existing c ops before after =
     (let same_spec = (set_status ops (get_status ops before) after = before);
          same_status = (get_status ops after = get_status ops before) in
      bind_io (if same_spec then return_io after else k_patch c after before) (\<lambda>obj.
      if same_status
      then return_io (if same_spec then OperationResultNone else OperationResultUpdated, obj)
      else bind_io (k_status_patch c (set_status ops (get_status ops after) obj) before) (\<lambda>obj'.
           return_io (if same_spec then OperationResultUpdatedStatusOnly
                      else OperationResultUpdatedStatus, obj'))))"

definition CreateOrPatch ::
    "('w, 'o) kclient \<Rightarrow> ('o, 's) obj_ops \<Rightarrow> 'o \<Rightarrow> ('o \<Rightarrow> 'o result) \<Rightarrow>
     ('w, OperationResult \<times> 'o) io" where
  "CreateOrPatch c ops obj f =
     (let key = ObjectKeyFromObject (get_meta ops obj) in
      bind_io (attempt_io (k_get c key)) (\<lambda>r. case r of
        Inl e \<Rightarrow>
          if \<not> IsNotFound e then fail_io e
          else bind_io (lift_io (mutate ops f key obj)) (\<lambda>obj'.
               bind_io (k_create c obj') (\<lambda>created.
               return_io (OperationResultCreated, created)))
      | Inr existing \<Rightarrow>
          bind_io (lift_io (mutate ops f key existing)) (\<lambda>desired.
          patch_existing c ops existing desired)))"

section \<open>Lemmas\<close>

lemma om_upsertOwnerRef [simp]:
  "om_Name (upsertOwnerRef r m) = om_Name m"
  "om_Namespace (upsertOwnerRef r m) = om_Namespace m"
  "om_GenerateName (upsertOwnerRef r m) = om_GenerateName m"
  "om_Labels (upsertOwnerRef r m) = om_Labels m"
  "om_Annotations (upsertOwnerRef r m) = om_Annotations m"
  "om_Finalizers (upsertOwnerRef r m) = om_Finalizers m"
  by (simp_all add: upsertOwnerRef_def)

lemma in_upsert_ref: "ref \<in> set (upsert_ref ref rs)"
  by (induction rs) auto

lemma validateOwner_not_panic [simp]: "\<not> is_panic (validateOwner a b)"
  by (simp add: validateOwner_def)

text \<open>What an owner reference call that succeeds has done: the owner is in the list, the rest of
  the metadata is the argument's.\<close>

lemma SetControllerReference_OkE:
  assumes "SetControllerReference sch owner m = Ok m'"
  obtains gvk where "sch (oo_type owner) = Ok gvk"
    and "m' = upsertOwnerRef (controller_ref gvk (oo_meta owner)) m"
    and "GetControllerOf m = None \<or>
         (\<exists>r. GetControllerOf m = Some r \<and> referSameObject r (controller_ref gvk (oo_meta owner)))"
  using assms
  by (cases "GetControllerOf m")
     (auto simp: SetControllerReference_def Let_def split: if_splits)

text \<open>Only the controller of an object can be replaced, so afterwards the first controller in the
  list is the new owner.\<close>

lemma GetControllerOf_upsert:
  assumes "or_Controller ref = Some True"
    and "find (\<lambda>r. or_Controller r = Some True) rs = None \<or>
         (\<exists>r. find (\<lambda>r. or_Controller r = Some True) rs = Some r \<and> referSameObject r ref)"
  shows "find (\<lambda>r. or_Controller r = Some True) (upsert_ref ref rs) = Some ref"
  using assms by (induction rs) (auto split: if_splits)

lemma SetControllerReference_controls:
  assumes "SetControllerReference sch owner m = Ok m'"
  shows "IsControlledBy m' (oo_meta owner)"
proof -
  from assms obtain gvk where m': "m' = upsertOwnerRef (controller_ref gvk (oo_meta owner)) m"
    and "GetControllerOf m = None \<or>
         (\<exists>r. GetControllerOf m = Some r \<and> referSameObject r (controller_ref gvk (oo_meta owner)))"
    by (rule SetControllerReference_OkE)
  then have "GetControllerOf m' = Some (controller_ref gvk (oo_meta owner))"
    unfolding GetControllerOf_def m' upsertOwnerRef_def
    by (simp add: GetControllerOf_upsert controller_ref_def)
  then show ?thesis by (simp add: IsControlledBy_def controller_ref_def)
qed

lemma SetControllerReference_keeps:
  assumes "SetControllerReference sch owner m = Ok m'"
  shows "om_Name m' = om_Name m" "om_Namespace m' = om_Namespace m" "om_Labels m' = om_Labels m"
    "om_Annotations m' = om_Annotations m" "om_GenerateName m' = om_GenerateName m"
  using assms by (auto elim: SetControllerReference_OkE)

text \<open>\<^verbatim>\<open>CreateOrPatch\<close> that succeeds has either created the desired object or sent the desired
  version of the existing one, unless they already agree.\<close>

lemma CreateOrPatch_OkE:
  assumes "CreateOrPatch c ops obj f w = (Ok (res, obj'), w')"
  obtains (created) e w1 desired where "k_get c (ObjectKeyFromObject (get_meta ops obj)) w = (Err e, w1)"
      and "IsNotFound e" and "f obj = Ok desired" and "k_create c desired w1 = (Ok obj', w')"
      and "res = OperationResultCreated"
  | (existing) cur w1 desired where "k_get c (ObjectKeyFromObject (get_meta ops obj)) w = (Ok cur, w1)"
      and "f cur = Ok desired" and "patch_existing c ops cur desired w1 = (Ok (res, obj'), w')"
  using assms
  by (auto simp: CreateOrPatch_def mutate_def Let_def io_elims split: if_splits)

lemma patch_existing_unchanged:
  assumes "get_status ops after = get_status ops before"
    and "set_status ops (get_status ops before) after = before"
  shows "patch_existing c ops before after w = (Ok (OperationResultNone, after), w)"
  using assms by (simp add: patch_existing_def)

lemma CreateOrPatch_existing:
  assumes "k_get c (ObjectKeyFromObject (get_meta ops obj)) w = (Ok cur, w1)" and "f cur = Ok desired"
    and "ObjectKeyFromObject (get_meta ops desired) = ObjectKeyFromObject (get_meta ops obj)"
  shows "CreateOrPatch c ops obj f w = patch_existing c ops cur desired w1"
  using assms by (simp add: CreateOrPatch_def mutate_def Let_def)

section \<open>Setting the same owner again\<close>

definition refs_wellformed :: "ObjectMeta \<Rightarrow> bool" where
  "refs_wellformed m = (\<forall>r \<in> set (om_OwnerReferences m). parse_group (or_APIVersion r) \<noteq> None)"

lemma referSameObject_refl: "parse_group (or_APIVersion r) \<noteq> None \<Longrightarrow> referSameObject r r"
  by (auto simp: referSameObject_def)

lemma referSameObject_sym: "referSameObject a b \<Longrightarrow> referSameObject b a"
  by (auto simp: referSameObject_def split: option.splits)

lemma upsert_ref_idem: "referSameObject ref ref \<Longrightarrow> upsert_ref ref (upsert_ref ref rs) = upsert_ref ref rs"
  by (induction rs) auto

lemma SetControllerReference_again:
  assumes set: "SetControllerReference sch owner m = Ok m'" and wf: "refs_wellformed m'"
  shows "SetControllerReference sch owner m' = Ok m'"
proof -
  from set obtain gvk where gvk: "sch (oo_type owner) = Ok gvk"
    and m': "m' = upsertOwnerRef (controller_ref gvk (oo_meta owner)) m"
    and ctl: "GetControllerOf m = None \<or>
         (\<exists>r. GetControllerOf m = Some r \<and> referSameObject r (controller_ref gvk (oo_meta owner)))"
    by (rule SetControllerReference_OkE)
  let ?ref = "controller_ref gvk (oo_meta owner)"
  have "GetControllerOf m' = Some ?ref"
    using ctl unfolding GetControllerOf_def m' upsertOwnerRef_def
    by (simp add: GetControllerOf_upsert controller_ref_def)
  moreover have refl: "referSameObject ?ref ?ref"
    using wf in_upsert_ref[of ?ref "om_OwnerReferences m"]
    by (intro referSameObject_refl) (auto simp: refs_wellformed_def m' upsertOwnerRef_def)
  moreover have "upsertOwnerRef ?ref m' = m'"
    by (simp add: m' upsertOwnerRef_def upsert_ref_idem refl)
  moreover have "validateOwner (oo_meta owner) m' = Ok ()"
    using set by (auto simp: SetControllerReference_def validateOwner_def m' split: if_splits)
  ultimately show ?thesis using gvk by (simp add: SetControllerReference_def)
qed

section \<open>Objects the operator keeps as desired\<close>

text \<open>
  The objects a reconciler maintains through \<^verbatim>\<open>CreateOrPatch\<close>: the mutate function keeps the
  object's key and is settled on its own output.
\<close>

locale desired_object =
  fixes ops :: "('o, 's) obj_ops" and desired :: "'o \<Rightarrow> 'o result"
  assumes desired_key: "desired x = Ok y \<Longrightarrow>
      ObjectKeyFromObject (get_meta ops y) = ObjectKeyFromObject (get_meta ops x)"
    and desired_again: "desired x = Ok y \<Longrightarrow> refs_wellformed (get_meta ops y) \<Longrightarrow> desired y = Ok y"
    and status_restore: "set_status ops (get_status ops x) x = x"
begin

text \<open>When the cluster already has what a previous run wrote, the object is read and nothing is
  written.\<close>

lemma converged_no_write:
  assumes "k_get c (ObjectKeyFromObject (get_meta ops obj)) w = (Ok cur, w1)"
    and "ObjectKeyFromObject (get_meta ops cur) = ObjectKeyFromObject (get_meta ops obj)"
    and "desired old = Ok cur" and "refs_wellformed (get_meta ops cur)"
  shows "CreateOrPatch c ops obj desired w = (Ok (OperationResultNone, cur), w1)"
  using assms desired_again[OF assms(3,4)]
  by (simp add: CreateOrPatch_existing patch_existing_unchanged status_restore)

text \<open>The mutate function is never the reason for a failure of the key check.\<close>

lemma mutate_desired: "mutate ops desired (ObjectKeyFromObject (get_meta ops x)) x = desired x"
  by (cases "desired x") (auto simp: mutate_def dest: desired_key)

end

end
