(* ===== verification/Api_Types.thy ===== *)
theory Api_Types
  imports Kube
begin

text \<open>
  The custom resources of the operator: \<^verbatim>\<open>Module\<close>, \<^verbatim>\<open>PreflightValidation\<close>,
  \<^verbatim>\<open>PreflightValidationOCP\<close> (api/v1beta1) and \<^verbatim>\<open>ManagedClusterModule\<close> (api-hub/v1beta1), the
  \<^verbatim>\<open>ModuleLoaderData\<close> derived from them (internal/api) and the constants (internal/constants).
  A pointer field is an \<open>option\<close>, an \<^verbatim>\<open>int32\<close> a \<open>32 word\<close>.
\<close>

section \<open>Module\<close>

record BuildArg =
  ba_Name :: string
  ba_Value :: string

record TLSOptions =
  tls_Insecure :: bool
  tls_InsecureSkipTLSVerify :: bool

record KanikoParams =
  kaniko_Tag :: string

record Build =
  b_BuildArgs :: "BuildArg list"
  b_DockerfileConfigMap :: "LocalObjectReference option"
  b_BaseImageRegistryTLS :: TLSOptions
  b_Secrets :: "LocalObjectReference list"
  b_KanikoParams :: "KanikoParams option"

record Sign =
  s_UnsignedImage :: string
  s_UnsignedImageRegistryTLS :: TLSOptions
  s_KeySecret :: "LocalObjectReference option"
  s_CertSecret :: "LocalObjectReference option"
  s_FilesToSign :: "string list"

record KernelMapping =
  km_Build :: "Build option"
  km_Sign :: "Sign option"
  km_ContainerImage :: string
  km_Literal :: string
  km_RegistryTLS :: "TLSOptions option"
  km_Regexp :: string

record ModprobeArgs =
  mpa_Load :: "string list"
  mpa_Unload :: "string list"

record ModprobeSpec =
  mp_ModuleName :: string
  mp_Parameters :: "string list"
  mp_DirName :: string
  mp_Args :: "ModprobeArgs option"
  mp_RawArgs :: "ModprobeArgs option"
  mp_FirmwarePath :: string

record ModuleLoaderContainerSpec =
  mlc_Build :: "Build option"
  mlc_Sign :: "Sign option"
  mlc_ContainerImage :: string
  mlc_ImagePullPolicy :: string
  mlc_KernelMappings :: "KernelMapping list"
  mlc_Modprobe :: ModprobeSpec
  mlc_RegistryTLS :: TLSOptions

record ModuleLoaderSpec =
  ml_Container :: ModuleLoaderContainerSpec
  ml_ServiceAccountName :: string

record DevicePluginContainerSpec =
  dpc_Command :: "string list"
  dpc_Args :: "string list"
  dpc_Env :: "EnvVar list"
  dpc_Image :: string
  dpc_ImagePullPolicy :: string
  dpc_Resources :: string
  dpc_VolumeMounts :: "VolumeMount list"

record DevicePluginSpec =
  dp_Container :: DevicePluginContainerSpec
  dp_ServiceAccountName :: string
  dp_Volumes :: "Volume list"

record ModuleSpec =
  ms_DevicePlugin :: "DevicePluginSpec option"
  ms_ModuleLoader :: ModuleLoaderSpec
  ms_ImageRepoSecret :: "LocalObjectReference option"
  ms_Selector :: strmap

record DaemonSetStatus =
  dst_NodesMatchingSelectorNumber :: "32 word"
  dst_DesiredNumber :: "32 word"
  dst_AvailableNumber :: "32 word"

record ModuleStatus =
  mst_DevicePlugin :: DaemonSetStatus
  mst_ModuleLoader :: DaemonSetStatus

record Module =
  mod_meta :: ObjectMeta
  mod_Spec :: ModuleSpec
  mod_Status :: ModuleStatus

abbreviation mod_Name :: "Module \<Rightarrow> string" where
  "mod_Name m \<equiv> om_Name (mod_meta m)"

abbreviation mod_Namespace :: "Module \<Rightarrow> string" where
  "mod_Namespace m \<equiv> om_Namespace (mod_meta m)"

abbreviation mod_Container :: "Module \<Rightarrow> ModuleLoaderContainerSpec" where
  "mod_Container m \<equiv> ml_Container (ms_ModuleLoader (mod_Spec m))"

definition module_owner :: "Module \<Rightarrow> owner_object" where
  "module_owner m = \<lparr>oo_meta = mod_meta m, oo_type = ''Module''\<rparr>"

section \<open>Module loader data\<close>

record ModuleLoaderData =
  mld_KernelVersion :: string
  mld_ImageRepoSecret :: "LocalObjectReference option"
  mld_Selector :: strmap
  mld_Name :: string
  mld_Namespace :: string
  mld_ServiceAccountName :: string
  mld_Build :: "Build option"
  mld_Sign :: "Sign option"
  mld_ContainerImage :: string
  mld_ImagePullPolicy :: string
  mld_Modprobe :: ModprobeSpec
  mld_RegistryTLS :: "TLSOptions option"
  mld_Owner :: owner_object

section \<open>Preflight validation\<close>

definition VerificationTrue :: string where "VerificationTrue = ''True''"
definition VerificationFalse :: string where "VerificationFalse = ''False''"
definition VerificationStageImage :: string where "VerificationStageImage = ''Image''"
definition VerificationStageBuild :: string where "VerificationStageBuild = ''Build''"
definition VerificationStageSign :: string where "VerificationStageSign = ''Sign''"
definition VerificationStageRequeued :: string where "VerificationStageRequeued = ''Requeued''"
definition VerificationStageDone :: string where "VerificationStageDone = ''Done''"

lemmas verification_consts = VerificationTrue_def VerificationFalse_def VerificationStageImage_def
  VerificationStageBuild_def VerificationStageSign_def VerificationStageRequeued_def
  VerificationStageDone_def

record PreflightValidationSpec =
  pvs_KernelVersion :: string
  pvs_PushBuiltImage :: bool

record CRStatus =
  cr_VerificationStatus :: string
  cr_StatusReason :: string
  cr_VerificationStage :: string
  cr_LastTransitionTime :: string

text \<open>\<^verbatim>\<open>CRStatuses\<close> is nil until the first status is written; the reconciler ranges over it.\<close>

record PreflightValidationStatus =
  pvst_CRStatuses :: "CRStatus assoc option"

record PreflightValidation =
  pv_meta :: ObjectMeta
  pv_Spec :: PreflightValidationSpec
  pv_Status :: PreflightValidationStatus

record PreflightValidationOCPSpec =
  pvos_ReleaseImage :: string
  pvos_UseRTKernel :: bool
  pvos_PushBuiltImage :: bool

record PreflightValidationOCP =
  pvo_meta :: ObjectMeta
  pvo_Spec :: PreflightValidationOCPSpec
  pvo_Status :: PreflightValidationStatus

section \<open>Hub\<close>

record ManagedClusterModuleSpec =
  mcms_ModuleSpec :: ModuleSpec
  mcms_SpokeNamespace :: string
  mcms_Selector :: strmap

record ManagedClusterModuleStatus =
  mcmst_NumberDesired :: "32 word"
  mcmst_NumberApplied :: "32 word"
  mcmst_NumberDegraded :: "32 word"

record ManagedClusterModule =
  mcm_meta :: ObjectMeta
  mcm_Spec :: ManagedClusterModuleSpec
  mcm_Status :: ManagedClusterModuleStatus

section \<open>Constants\<close>

definition OCPBuilderServiceAccountName :: string where
  "OCPBuilderServiceAccountName = ''builder''"

definition ModuleNameLabel :: string where
  "ModuleNameLabel = ''kmm.node.kubernetes.io/module.name''"

definition NodeLabelerFinalizer :: string where
  "NodeLabelerFinalizer = ''kmm.node.kubernetes.io/node-labeler''"

definition TargetKernelTarget :: string where
  "TargetKernelTarget = ''kmm.node.kubernetes.io/target-kernel''"

definition JobType :: string where
  "JobType = ''kmm.node.kubernetes.io/job-type''"

definition JobHashAnnotation :: string where
  "JobHashAnnotation = ''kmm.node.kubernetes.io/last-hash''"

definition KernelLabel :: string where
  "KernelLabel = ''kmm.node.kubernetes.io/kernel-version.full''"

definition ManagedClusterModuleNameLabel :: string where
  "ManagedClusterModuleNameLabel = ''kmm.node.kubernetes.io/managedclustermodule.name''"

definition KernelVersionsClusterClaimName :: string where
  "KernelVersionsClusterClaimName = ''kernel-versions.kmm.node.kubernetes.io''"

definition DockerfileCMKey :: string where "DockerfileCMKey = ''dockerfile''"
definition PublicSignDataKey :: string where "PublicSignDataKey = ''cert''"
definition PrivateSignDataKey :: string where "PrivateSignDataKey = ''key''"

lemma label_constants_distinct [simp]:
  "ModuleNameLabel \<noteq> TargetKernelTarget" "TargetKernelTarget \<noteq> ModuleNameLabel"
  "ModuleNameLabel \<noteq> JobType" "JobType \<noteq> ModuleNameLabel"
  "TargetKernelTarget \<noteq> JobType" "JobType \<noteq> TargetKernelTarget"
  "ModuleNameLabel \<noteq> KernelLabel" "KernelLabel \<noteq> ModuleNameLabel"
  by (simp_all add: ModuleNameLabel_def TargetKernelTarget_def JobType_def KernelLabel_def)

lemma verification_consts_distinct [simp]:
  "VerificationTrue \<noteq> VerificationFalse" "VerificationFalse \<noteq> VerificationTrue"
  by (simp_all add: verification_consts)

section \<open>Sample objects\<close>

text \<open>Small concrete objects on which statements of the development are evaluated.\<close>

definition no_tls :: TLSOptions where
  "no_tls = \<lparr>tls_Insecure = False, tls_InsecureSkipTLSVerify = False\<rparr>"

definition sample_mapping :: "string \<Rightarrow> string \<Rightarrow> KernelMapping" where
  "sample_mapping lit img = \<lparr>km_Build = None, km_Sign = None, km_ContainerImage = img, km_Literal = lit,
     km_RegistryTLS = None, km_Regexp = []\<rparr>"

definition sample_modprobe :: ModprobeSpec where
  "sample_modprobe = \<lparr>mp_ModuleName = ''kmod'', mp_Parameters = [], mp_DirName = ''/opt'', mp_Args = None,
     mp_RawArgs = None, mp_FirmwarePath = []\<rparr>"

definition sample_container :: "KernelMapping list \<Rightarrow> ModuleLoaderContainerSpec" where
  "sample_container kms = \<lparr>mlc_Build = None, mlc_Sign = None, mlc_ContainerImage = ''default'',
     mlc_ImagePullPolicy = [], mlc_KernelMappings = kms, mlc_Modprobe = sample_modprobe,
     mlc_RegistryTLS = no_tls\<rparr>"

definition sample_meta :: "string \<Rightarrow> ObjectMeta" where
  "sample_meta n = empty_meta\<lparr>om_Name := n, om_Namespace := ''ns'', om_UID := ''uid-'' @ n\<rparr>"

definition zero_ds_status :: DaemonSetStatus where
  "zero_ds_status = \<lparr>dst_NodesMatchingSelectorNumber = 0, dst_DesiredNumber = 0, dst_AvailableNumber = 0\<rparr>"

definition sample_module :: "KernelMapping list \<Rightarrow> Module" where
  "sample_module kms = \<lparr>mod_meta = sample_meta ''md'',
     mod_Spec = \<lparr>ms_DevicePlugin = None,
       ms_ModuleLoader = \<lparr>ml_Container = sample_container kms, ml_ServiceAccountName = []\<rparr>,
       ms_ImageRepoSecret = None, ms_Selector = fmempty\<rparr>,
     mod_Status = \<lparr>mst_DevicePlugin = zero_ds_status, mst_ModuleLoader = zero_ds_status\<rparr>\<rparr>"

definition sample_build :: Build where
  "sample_build = \<lparr>b_BuildArgs = [], b_DockerfileConfigMap = Some \<lparr>lor_Name = ''dockerfile-cm''\<rparr>,
     b_BaseImageRegistryTLS = no_tls, b_Secrets = [], b_KanikoParams = None\<rparr>"

definition sample_sign :: Sign where
  "sample_sign = \<lparr>s_UnsignedImage = [], s_UnsignedImageRegistryTLS = no_tls,
     s_KeySecret = Some \<lparr>lor_Name = ''key-secret''\<rparr>, s_CertSecret = Some \<lparr>lor_Name = ''cert-secret''\<rparr>,
     s_FilesToSign = []\<rparr>"

definition sample_mld :: "Build option \<Rightarrow> Sign option \<Rightarrow> ModuleLoaderData" where
  "sample_mld b s = \<lparr>mld_KernelVersion = ''5.14.0-70'', mld_ImageRepoSecret = None, mld_Selector = fmempty,
     mld_Name = ''md'', mld_Namespace = ''ns'', mld_ServiceAccountName = [], mld_Build = b, mld_Sign = s,
     mld_ContainerImage = ''quay.io/org/kmod'', mld_ImagePullPolicy = [], mld_Modprobe = sample_modprobe,
     mld_RegistryTLS = Some no_tls, mld_Owner = module_owner (sample_module [])\<rparr>"

lemmas sample_defs = no_tls_def sample_mapping_def sample_modprobe_def sample_container_def
  sample_meta_def zero_ds_status_def sample_module_def sample_build_def sample_sign_def sample_mld_def

end
