(* ===== verification/Kernel_Mapper.thy ===== *)
theory Kernel_Mapper
  imports Api_Types
begin

text \<open>
  From a Module and a kernel version to the data of its module loader: template variables
  (internal/utils/replaceStrings.go), merging of build and sign settings (internal/build/helper.go,
  internal/sign/helper.go), image names (internal/module/helper.go) and the kernel mapper itself
  (internal/module/kernelmapper.go). The regular-expression engine and the envsubst template
  parser are arguments: \<open>rx\<close> is \<^verbatim>\<open>regexp.MatchString\<close>, \<open>subst\<close> is the parser for an environment.
\<close>

type_synonym regexp_engine = "string \<Rightarrow> string \<Rightarrow> bool result"
type_synonym template_engine = "string list \<Rightarrow> string \<Rightarrow> string result"

section \<open>Template variables\<close>

text \<open>\<^verbatim>\<open>kernelRegexp.Split(kernel, -1)\<close> for the class \<^verbatim>\<open>[.,-]\<close>.\<close>

definition kernelRegexp_Split :: "string \<Rightarrow> string list" where
  "kernelRegexp_Split kver =
     split_chars (\<lambda>c. c = CHR ''.'' \<or> c = CHR '','' \<or> c = CHR ''-'') kver"

text \<open>The code indexes the first three components, which panics when there are fewer.\<close>

definition KernelComponentsAsEnvVars :: "string \<Rightarrow> string list result" where
  "KernelComponentsAsEnvVars kver =
     (let fields = kernelRegexp_Split kver in
      if length fields < 3 then Panic ''index out of range''
      else Ok [''KERNEL_FULL_VERSION='' @ kver,
               ''KERNEL_VERSION='' @ kver,
               ''KERNEL_XYZ='' @ strings_Join (take 3 fields) ''.'',
               ''KERNEL_X='' @ fields ! 0,
               ''KERNEL_Y='' @ fields ! 1,
               ''KERNEL_Z='' @ fields ! 2])"

fun ReplaceInTemplates :: "template_engine \<Rightarrow> string list \<Rightarrow> string list \<Rightarrow> string list result" where
  "ReplaceInTemplates subst envvars [] = Ok []"
| "ReplaceInTemplates subst envvars (v # vs) =
     bind_res (map_err (Errorf_v (''failed to substitute '' @ v)) (subst envvars v)) (\<lambda>s.
     bind_res (ReplaceInTemplates subst envvars vs) (\<lambda>ss. Ok (s # ss)))"

section \<open>Build settings\<close>

definition overridesMap :: "BuildArg list \<Rightarrow> BuildArg assoc" where
  "overridesMap overrides = fold (\<lambda>ov m. AList.update (ba_Name ov) ov m) overrides []"

fun override_loop :: "BuildArg assoc \<Rightarrow> BuildArg list \<Rightarrow> string list \<Rightarrow> BuildArg list \<times> string list" where
  "override_loop m [] unused = ([], unused)"
| "override_loop m (a # args) unused =
     (case map_of m (ba_Name a) of
        Some ov \<Rightarrow> (case override_loop m args (removeAll (ba_Name a) unused) of
                     (args', unused') \<Rightarrow> (ov # args', unused'))
      | None \<Rightarrow> (case override_loop m args unused of (args', unused') \<Rightarrow> (a # args', unused')))"

text \<open>\<^verbatim>\<open>sets.String.List\<close> is sorted.\<close>

definition ApplyBuildArgOverrides :: "BuildArg list \<Rightarrow> BuildArg list \<Rightarrow> BuildArg list" where
  "ApplyBuildArgOverrides args overrides =
     (let m = overridesMap overrides in
      case override_loop m args (map fst m) of
        (args', unused) \<Rightarrow> args' @ map (\<lambda>n. the (map_of m n)) (sort unused))"

fun GetRelevantBuild :: "Build option \<Rightarrow> Build option \<Rightarrow> Build option" where
  "GetRelevantBuild None mappingBuild = mappingBuild"
| "GetRelevantBuild (Some moduleBuild) None = Some moduleBuild"
| "GetRelevantBuild (Some moduleBuild) (Some mappingBuild) =
     Some (moduleBuild\<lparr>
       b_DockerfileConfigMap :=
         (if b_DockerfileConfigMap mappingBuild \<noteq> None then b_DockerfileConfigMap mappingBuild
          else b_DockerfileConfigMap moduleBuild),
       b_BuildArgs := ApplyBuildArgOverrides (b_BuildArgs moduleBuild) (b_BuildArgs mappingBuild),
       b_Secrets := b_Secrets moduleBuild @ b_Secrets mappingBuild\<rparr>)"

definition GetBuildLabels :: "ModuleLoaderData \<Rightarrow> strmap" where
  "GetBuildLabels mld =
     fmupd TargetKernelTarget (mld_KernelVersion mld)
       (fmupd ModuleNameLabel (mld_Name mld) fmempty)"

section \<open>Sign settings\<close>

fun merge_sign :: "Sign option \<Rightarrow> Sign option \<Rightarrow> Sign option" where
  "merge_sign None mappingSign = mappingSign"
| "merge_sign (Some moduleSign) None = Some moduleSign"
| "merge_sign (Some moduleSign) (Some mappingSign) =
     Some (moduleSign\<lparr>
       s_UnsignedImage :=
         (if s_UnsignedImage mappingSign \<noteq> [] then s_UnsignedImage mappingSign
          else s_UnsignedImage moduleSign),
       s_KeySecret :=
         (if s_KeySecret mappingSign \<noteq> None then s_KeySecret mappingSign
          else s_KeySecret moduleSign),
       s_CertSecret :=
         (if s_CertSecret mappingSign \<noteq> None then s_CertSecret mappingSign
          else s_CertSecret moduleSign),
       s_FilesToSign := s_FilesToSign moduleSign @ s_FilesToSign mappingSign\<rparr>)"

definition GetRelevantSign ::
    "template_engine \<Rightarrow> Sign option \<Rightarrow> Sign option \<Rightarrow> string \<Rightarrow> Sign result" where
  "GetRelevantSign subst moduleSign mappingSign kver =
     bind_res (KernelComponentsAsEnvVars kver) (\<lambda>env.
     case merge_sign moduleSign mappingSign of
       None \<Rightarrow> Panic ''nil pointer dereference''
     | Some signConfig \<Rightarrow>
         bind_res (ReplaceInTemplates subst env [s_UnsignedImage signConfig]) (\<lambda>unsignedImage.
         bind_res (ReplaceInTemplates subst env (s_FilesToSign signConfig)) (\<lambda>filesToSign.
         Ok (signConfig\<lparr>s_UnsignedImage := unsignedImage ! 0, s_FilesToSign := filesToSign\<rparr>))))"

section \<open>Image names\<close>

definition AppendToTag :: "string \<Rightarrow> string \<Rightarrow> string" where
  "AppendToTag name tag =
     (let separator = (if strings_Contains name '':'' then ''_'' else '':'') in
      name @ separator @ tag)"

definition IntermediateImageName :: "string \<Rightarrow> string \<Rightarrow> string \<Rightarrow> string" where
  "IntermediateImageName name namespace targetImage =
     AppendToTag targetImage (namespace @ ''_'' @ name @ ''_kmm_unsigned'')"

definition ShouldBeBuilt :: "ModuleLoaderData \<Rightarrow> bool" where
  "ShouldBeBuilt mld = (mld_Build mld \<noteq> None)"

definition ShouldBeSigned :: "ModuleLoaderData \<Rightarrow> bool" where
  "ShouldBeSigned mld = (mld_Sign mld \<noteq> None)"

section \<open>The kernel mapper\<close>

fun findKernelMapping :: "regexp_engine \<Rightarrow> KernelMapping list \<Rightarrow> string \<Rightarrow> KernelMapping result" where
  "findKernelMapping rx [] kernelVersion = Err (ErrorMsg ''no suitable mapping found'')"
| "findKernelMapping rx (m # ms) kernelVersion =
     (if km_Literal m \<noteq> [] \<and> km_Literal m = kernelVersion then Ok m
      else if km_Regexp m = [] then findKernelMapping rx ms kernelVersion
      else case rx (km_Regexp m) kernelVersion of
             Err e \<Rightarrow> Err (Errorf_v (''could not match regexp '' @ km_Regexp m
                              @ '' against kernel '' @ kernelVersion) e)
           | Panic p \<Rightarrow> Panic p
           | Ok matches \<Rightarrow> if matches then Ok m else findKernelMapping rx ms kernelVersion)"

definition prepareModuleLoaderData ::
    "template_engine \<Rightarrow> KernelMapping \<Rightarrow> Module \<Rightarrow> string \<Rightarrow> ModuleLoaderData result" where
  "prepareModuleLoaderData subst mapping md kernelVersion =
     (let container = mod_Container md;
          build = (if km_Build mapping \<noteq> None \<or> mlc_Build container \<noteq> None
                   then GetRelevantBuild (mlc_Build container) (km_Build mapping) else None) in
      bind_res
        (if km_Sign mapping \<noteq> None \<or> mlc_Sign container \<noteq> None
         then bind_res
                (map_err (Errorf_v (''failed to get the relevant Sign configuration for kernel ''
                            @ kernelVersion))
                  (GetRelevantSign subst (mlc_Sign container) (km_Sign mapping) kernelVersion))
                (\<lambda>s. Ok (Some s))
         else Ok None) (\<lambda>sign.
      Ok \<lparr>mld_KernelVersion = kernelVersion,
          mld_ImageRepoSecret = ms_ImageRepoSecret (mod_Spec md),
          mld_Selector = ms_Selector (mod_Spec md),
          mld_Name = mod_Name md,
          mld_Namespace = mod_Namespace md,
          mld_ServiceAccountName = ml_ServiceAccountName (ms_ModuleLoader (mod_Spec md)),
          mld_Build = build,
          mld_Sign = sign,
          mld_ContainerImage =
            (if km_ContainerImage mapping = [] then mlc_ContainerImage container
             else km_ContainerImage mapping),
          mld_ImagePullPolicy = [],
          mld_Modprobe = mlc_Modprobe container,
          mld_RegistryTLS =
            (if km_RegistryTLS mapping = None then Some (mlc_RegistryTLS container)
             else km_RegistryTLS mapping),
          mld_Owner = module_owner md\<rparr>))"

definition replaceTemplates :: "template_engine \<Rightarrow> ModuleLoaderData \<Rightarrow> ModuleLoaderData result" where
  "replaceTemplates subst mld =
     bind_res (KernelComponentsAsEnvVars (mld_KernelVersion mld)) (\<lambda>env.
     bind_res
       (map_err (Errorf_v ''failed to substitute templates in the ContainerImage field'')
         (ReplaceInTemplates subst env [mld_ContainerImage mld])) (\<lambda>replaced.
     Ok (mld\<lparr>mld_ContainerImage := replaced ! 0\<rparr>)))"

definition GetModuleLoaderDataForKernel ::
    "regexp_engine \<Rightarrow> template_engine \<Rightarrow> Module \<Rightarrow> string \<Rightarrow> ModuleLoaderData result" where
  "GetModuleLoaderDataForKernel rx subst md kernelVersion =
     bind_res
       (map_err (Errorf_v (''failed to find mapping for kernel '' @ kernelVersion))
         (findKernelMapping rx (mlc_KernelMappings (mod_Container md)) kernelVersion)) (\<lambda>m.
     bind_res
       (map_err (Errorf_v (''failed to prepare module loader data for kernel '' @ kernelVersion))
         (prepareModuleLoaderData subst m md kernelVersion)) (\<lambda>mld.
     map_err (Errorf_v (''failed to replace templates in module loader data for kernel ''
                @ kernelVersion))
       (replaceTemplates subst mld)))"

section \<open>Template variables: lemmas\<close>

lemma KernelComponents_Ok_iff:
  "(\<exists>env. KernelComponentsAsEnvVars k = Ok env) \<longleftrightarrow> 3 \<le> length (kernelRegexp_Split k)"
  by (auto simp: KernelComponentsAsEnvVars_def Let_def)

lemma KernelComponents_not_Err [simp]: "KernelComponentsAsEnvVars k \<noteq> Err e"
  by (simp add: KernelComponentsAsEnvVars_def Let_def)

lemma length_ReplaceInTemplates:
  "ReplaceInTemplates subst env vs = Ok ss \<Longrightarrow> length ss = length vs"
  by (induction vs arbitrary: ss) auto

lemma ReplaceInTemplates_Ok_iff:
  "ReplaceInTemplates subst env vs = Ok ss \<longleftrightarrow> list_all2 (\<lambda>v s. subst env v = Ok s) vs ss"
proof (induction vs arbitrary: ss)
  case (Cons v vs)
  then show ?case by (cases ss) auto
qed auto

section \<open>Build arguments: lemmas\<close>

lemma map_of_overrides_fold:
  "map_of (fold (\<lambda>ov m. AList.update (ba_Name ov) ov m) os m) n =
     (case find (\<lambda>ov. ba_Name ov = n) (rev os) of Some ov \<Rightarrow> Some ov | None \<Rightarrow> map_of m n)"
  by (induction os arbitrary: m) (auto simp: find_append split: option.splits)

text \<open>The map holds, for each name, the last override of that name.\<close>

lemma map_of_overridesMap: "map_of (overridesMap os) n = find (\<lambda>ov. ba_Name ov = n) (rev os)"
  by (simp add: overridesMap_def map_of_overrides_fold split: option.splits)

lemma distinct_overridesMap: "distinct_keys (overridesMap os)"
proof -
  have "distinct_keys m \<Longrightarrow> distinct_keys (fold (\<lambda>ov m. AList.update (ba_Name ov) ov m) os m)" for m
    by (induction os arbitrary: m) auto
  then show ?thesis by (simp add: overridesMap_def)
qed

lemma overridesMap_name: "map_of (overridesMap os) n = Some ov \<Longrightarrow> ba_Name ov = n"
  by (auto simp: map_of_overridesMap dest: find_SomeD)

lemma overridesMap_None: "map_of (overridesMap os) n = None \<longleftrightarrow> n \<notin> ba_Name ` set os"
  by (auto simp: map_of_overridesMap find_None_iff)

lemma overridesMap_keys: "fst ` set (overridesMap os) = ba_Name ` set os"
  unfolding dom_map_of_keys[symmetric] by (auto simp: dom_def overridesMap_None)

lemma overridesMap_Some:
  assumes "n \<in> ba_Name ` set os"
  obtains ov where "map_of (overridesMap os) n = Some ov" "ba_Name ov = n"
  using assms overridesMap_None[of os n] overridesMap_name[of os n]
  by (cases "map_of (overridesMap os) n") auto

definition overridden :: "BuildArg list \<Rightarrow> BuildArg \<Rightarrow> BuildArg" where
  "overridden os a = (case map_of (overridesMap os) (ba_Name a) of Some ov \<Rightarrow> ov | None \<Rightarrow> a)"

lemma ba_Name_overridden [simp]: "ba_Name (overridden os a) = ba_Name a"
  by (auto simp: overridden_def dest: overridesMap_name split: option.splits)

lemma overridden_id: "ba_Name a \<notin> ba_Name ` set os \<Longrightarrow> overridden os a = a"
  by (simp add: overridden_def overridesMap_None[symmetric])

lemma override_loop_args:
  "fst (override_loop (overridesMap os) args unused) = map (overridden os) args"
  by (induction "overridesMap os" args unused rule: override_loop.induct)
     (auto simp: overridden_def split: option.splits prod.splits)

lemma override_loop_unused:
  assumes "set unused \<subseteq> dom (map_of m)"
  shows "snd (override_loop m args unused) = filter (\<lambda>n. n \<notin> ba_Name ` set args) unused"
  using assms
proof (induction m args unused rule: override_loop.induct)
  case (2 m a args unused)
  show ?case
  proof (cases "map_of m (ba_Name a)")
    case None
    with 2 have "ba_Name a \<notin> set unused" by auto
    with None 2 show ?thesis by (auto split: prod.splits intro!: filter_cong)
  next
    case (Some ov)
    moreover from Some 2
    have "snd (override_loop m args (removeAll (ba_Name a) unused))
            = filter (\<lambda>n. n \<notin> ba_Name ` set args) (removeAll (ba_Name a) unused)"
      by auto
    ultimately show ?thesis
      by (auto split: prod.splits simp: removeAll_filter_not_eq intro!: filter_cong)
  qed
qed simp

text \<open>The loop of the code, as one expression: each argument is replaced by its override, and the
  overrides that replaced nothing follow in the order of their names.\<close>

definition unused_overrides :: "BuildArg list \<Rightarrow> BuildArg list \<Rightarrow> string list" where
  "unused_overrides args os =
     sort (filter (\<lambda>n. n \<notin> ba_Name ` set args) (map fst (overridesMap os)))"

lemma ApplyBuildArgOverrides_eq:
  "ApplyBuildArgOverrides args os =
     map (overridden os) args
     @ map (\<lambda>n. the (map_of (overridesMap os) n)) (unused_overrides args os)"
proof -
  have "snd (override_loop (overridesMap os) args (map fst (overridesMap os)))
          = filter (\<lambda>n. n \<notin> ba_Name ` set args) (map fst (overridesMap os))"
    by (rule override_loop_unused) (simp add: dom_map_of_keys)
  then show ?thesis
    using override_loop_args[of os args "map fst (overridesMap os)"]
    by (simp add: ApplyBuildArgOverrides_def unused_overrides_def Let_def case_prod_beta)
qed

lemma set_unused_overrides:
  "set (unused_overrides args os) = ba_Name ` set os - ba_Name ` set args"
  using overridesMap_keys[of os] by (auto simp: unused_overrides_def)

lemma override_of_unused:
  "n \<in> set (unused_overrides args os) \<Longrightarrow>
     ba_Name (the (map_of (overridesMap os) n)) = n \<and> n \<in> ba_Name ` set os"
  by (metis DiffD1 option.sel overridesMap_Some set_unused_overrides)

text \<open>An element of the result is the override of some argument, or an unused override.\<close>

lemma Apply_cases:
  assumes "a \<in> set (ApplyBuildArgOverrides args os)"
  obtains (arg) x where "x \<in> set args" "a = overridden os x"
  | (extra) "map_of (overridesMap os) (ba_Name a) = Some a" "ba_Name a \<notin> ba_Name ` set args"
proof -
  from assms consider x where "x \<in> set args" "a = overridden os x"
    | n where "n \<in> set (unused_overrides args os)" "a = the (map_of (overridesMap os) n)"
    unfolding ApplyBuildArgOverrides_eq by auto
  then show thesis
  proof cases
    case 2
    then have "n \<in> ba_Name ` set os" "n \<notin> ba_Name ` set args"
      by (auto simp: set_unused_overrides)
    moreover from this(1) obtain ov where "map_of (overridesMap os) n = Some ov" "ba_Name ov = n"
      by (rule overridesMap_Some)
    ultimately show thesis using 2 extra by auto
  qed (rule arg)
qed

lemma names_ApplyBuildArgOverrides:
  "ba_Name ` set (ApplyBuildArgOverrides args os) = ba_Name ` set args \<union> ba_Name ` set os"
proof -
  have "ba_Name ` set (map (\<lambda>n. the (map_of (overridesMap os) n)) (unused_overrides args os))
          = set (unused_overrides args os)"
    by (simp add: image_image override_of_unused)
  then show ?thesis
    unfolding ApplyBuildArgOverrides_eq set_append image_Un
    by (auto simp: image_image set_unused_overrides)
qed

lemma Apply_overrides_values:
  assumes "a \<in> set (ApplyBuildArgOverrides args os)" and "ba_Name a \<in> ba_Name ` set os"
  shows "find (\<lambda>ov. ba_Name ov = ba_Name a) (rev os) = Some a"
  using assms(1)
proof (cases rule: Apply_cases)
  case (arg x)
  from assms(2) obtain ov where ov: "map_of (overridesMap os) (ba_Name a) = Some ov"
    by (rule overridesMap_Some)
  moreover from arg have "ba_Name x = ba_Name a" by simp
  with arg ov have "a = ov" by (simp add: overridden_def del: ba_Name_overridden)
  ultimately show ?thesis by (simp add: map_of_overridesMap)
qed (simp add: map_of_overridesMap)

lemma Apply_keeps_other_args:
  "filter (\<lambda>a. ba_Name a \<notin> ba_Name ` set os) (ApplyBuildArgOverrides args os)
     = filter (\<lambda>a. ba_Name a \<notin> ba_Name ` set os) args"
proof -
  let ?P = "\<lambda>a. ba_Name a \<notin> ba_Name ` set os"
  have "filter ?P (map (overridden os) args) = filter ?P args"
    by (induction args) (auto simp: overridden_id)
  moreover have "\<not> ?P (the (map_of (overridesMap os) n))" if "n \<in> set (unused_overrides args os)" for n
    using that by (simp add: override_of_unused)
  ultimately show ?thesis
    unfolding ApplyBuildArgOverrides_eq by (auto simp: filter_empty_conv)
qed

text \<open>Applying the same overrides again changes nothing.\<close>

lemma Apply_idem:
  "ApplyBuildArgOverrides (ApplyBuildArgOverrides args os) os = ApplyBuildArgOverrides args os"
proof -
  let ?r = "ApplyBuildArgOverrides args os"
  have "overridden os a = a" if "a \<in> set ?r" for a
  proof (cases "ba_Name a \<in> ba_Name ` set os")
    case True
    with that have "map_of (overridesMap os) (ba_Name a) = Some a"
      by (simp add: map_of_overridesMap Apply_overrides_values)
    then show ?thesis by (simp add: overridden_def)
  qed (rule overridden_id)
  then have "map (overridden os) ?r = ?r" by (simp add: map_idI)
  moreover have "unused_overrides ?r os = []"
    unfolding set_empty[symmetric] set_unused_overrides names_ApplyBuildArgOverrides by auto
  ultimately show ?thesis by (subst ApplyBuildArgOverrides_eq) simp
qed

section \<open>The kernel mapper: lemmas\<close>

text \<open>A mapping matches by its literal or, failing that, by its regular expression; it is passed
  over when neither applies.\<close>

definition km_matches :: "regexp_engine \<Rightarrow> string \<Rightarrow> KernelMapping \<Rightarrow> bool" where
  "km_matches rx k m =
     (km_Literal m \<noteq> [] \<and> km_Literal m = k \<or> km_Regexp m \<noteq> [] \<and> rx (km_Regexp m) k = Ok True)"

definition km_skipped :: "regexp_engine \<Rightarrow> string \<Rightarrow> KernelMapping \<Rightarrow> bool" where
  "km_skipped rx k m =
     ((km_Literal m = [] \<or> km_Literal m \<noteq> k) \<and>
      (km_Regexp m = [] \<or> rx (km_Regexp m) k = Ok False))"

lemma km_matches_not_skipped: "km_matches rx k m \<Longrightarrow> \<not> km_skipped rx k m"
  by (auto simp: km_matches_def km_skipped_def)

lemma findKernelMapping_Cons:
  "km_matches rx k m \<Longrightarrow> findKernelMapping rx (m # ms) k = Ok m"
  "km_skipped rx k m \<Longrightarrow> findKernelMapping rx (m # ms) k = findKernelMapping rx ms k"
  by (auto simp: km_matches_def km_skipped_def)

lemma findKernelMapping_Cons_Ok:
  assumes "findKernelMapping rx (m # ms) k = Ok r"
  shows "km_matches rx k m \<and> r = m \<or> km_skipped rx k m \<and> findKernelMapping rx ms k = Ok r"
  using assms by (auto simp: km_matches_def km_skipped_def split: if_splits result.splits bool.splits)

lemma findKernelMapping_Ok_iff:
  "findKernelMapping rx ms k = Ok m \<longleftrightarrow>
     (\<exists>pre post. ms = pre @ m # post \<and> (\<forall>x \<in> set pre. km_skipped rx k x) \<and> km_matches rx k m)"
proof (induction ms)
  case Nil
  then show ?case by simp
next
  case (Cons x ms)
  show ?case
  proof
    assume "findKernelMapping rx (x # ms) k = Ok m"
    then consider "km_matches rx k x" "m = x"
      | "km_skipped rx k x" "findKernelMapping rx ms k = Ok m"
      using findKernelMapping_Cons_Ok by blast
    then show "\<exists>pre post. x # ms = pre @ m # post \<and> (\<forall>y \<in> set pre. km_skipped rx k y) \<and> km_matches rx k m"
    proof cases
      case 1
      then show ?thesis by (intro exI[of _ "[]"] exI[of _ ms]) simp
    next
      case 2
      with Cons obtain pre post where "ms = pre @ m # post" "\<forall>y \<in> set pre. km_skipped rx k y"
        "km_matches rx k m" by auto
      with 2 show ?thesis by (intro exI[of _ "x # pre"] exI[of _ post] conjI) auto
    qed
  next
    assume "\<exists>pre post. x # ms = pre @ m # post \<and> (\<forall>y \<in> set pre. km_skipped rx k y) \<and> km_matches rx k m"
    then obtain pre post where split: "x # ms = pre @ m # post"
      and pre: "\<forall>y \<in> set pre. km_skipped rx k y" and m: "km_matches rx k m" by blast
    show "findKernelMapping rx (x # ms) k = Ok m"
    proof (cases pre)
      case Nil
      with split m show ?thesis
        by (simp add: findKernelMapping_Cons(1) del: findKernelMapping.simps)
    next
      case (Cons y ys)
      with split pre m Cons.IH have "findKernelMapping rx ms k = Ok m" by auto
      with Cons split pre show ?thesis
        by (simp add: findKernelMapping_Cons(2) del: findKernelMapping.simps)
    qed
  qed
qed

lemma findKernelMapping_none:
  "\<forall>m \<in> set ms. km_skipped rx k m \<Longrightarrow>
     findKernelMapping rx ms k = Err (ErrorMsg ''no suitable mapping found'')"
  by (induction ms) (simp_all add: findKernelMapping_Cons(2) del: findKernelMapping.simps(2))

lemma GetMLD_OkE:
  assumes "GetModuleLoaderDataForKernel rx subst md k = Ok mld"
  obtains m mld0 env image where
    "findKernelMapping rx (mlc_KernelMappings (mod_Container md)) k = Ok m"
    "prepareModuleLoaderData subst m md k = Ok mld0"
    "KernelComponentsAsEnvVars k = Ok env"
    "subst env (mld_ContainerImage mld0) = Ok image"
    "mld = mld0\<lparr>mld_ContainerImage := image\<rparr>"
  using assms
  by (auto simp: GetModuleLoaderDataForKernel_def replaceTemplates_def
        prepareModuleLoaderData_def Let_def)

lemma prepareMLD_fields:
  assumes "prepareModuleLoaderData subst m md k = Ok mld"
  shows "mld_KernelVersion mld = k" "mld_Name mld = mod_Name md"
    "mld_Namespace mld = mod_Namespace md" "mld_Selector mld = ms_Selector (mod_Spec md)"
    "mld_Owner mld = module_owner md" "\<exists>t. mld_RegistryTLS mld = Some t"
    "mld_Build mld = GetRelevantBuild (mlc_Build (mod_Container md)) (km_Build m)"
    "mld_ContainerImage mld =
       (if km_ContainerImage m = [] then mlc_ContainerImage (mod_Container md) else km_ContainerImage m)"
    "mld_Sign mld \<noteq> None \<longleftrightarrow> km_Sign m \<noteq> None \<or> mlc_Sign (mod_Container md) \<noteq> None"
    "mld_ImagePullPolicy mld = []"
  using assms by (auto simp: prepareModuleLoaderData_def Let_def split: if_splits)

lemma GetRelevantBuild_None_iff: "GetRelevantBuild a b = None \<longleftrightarrow> a = None \<and> b = None"
  by (cases a; cases b) auto

text \<open>Panics come from the kernel components only, when the engines do not panic.\<close>

lemma findKernelMapping_panic:
  assumes "\<forall>r s. \<not> is_panic (rx r s)"
  shows "\<not> is_panic (findKernelMapping rx ms k)"
proof (induction ms)
  case (Cons m ms)
  from assms have "\<not> is_panic (rx (km_Regexp m) k)" by blast
  with Cons show ?case by (cases "rx (km_Regexp m) k") auto
qed simp

lemma ReplaceInTemplates_panic:
  assumes "\<forall>env t. \<not> is_panic (subst env t)"
  shows "\<not> is_panic (ReplaceInTemplates subst env ts)"
proof (induction ts)
  case (Cons t ts)
  from assms have "\<not> is_panic (subst env t)" by blast
  with Cons show ?case by (cases "subst env t"; cases "ReplaceInTemplates subst env ts") auto
qed simp

lemma KernelComponents_panic: "is_panic (KernelComponentsAsEnvVars k) \<longleftrightarrow> length (kernelRegexp_Split k) < 3"
  by (simp add: KernelComponentsAsEnvVars_def Let_def)

lemma merge_sign_None_iff: "merge_sign a b = None \<longleftrightarrow> a = None \<and> b = None"
  by (cases a; cases b) auto

lemma GetMLD_found_short:
  assumes "findKernelMapping rx (mlc_KernelMappings (mod_Container md)) k = Ok m"
    and "length (kernelRegexp_Split k) < 3"
  shows "is_panic (GetModuleLoaderDataForKernel rx subst md k)"
  using assms
  by (simp add: GetModuleLoaderDataForKernel_def prepareModuleLoaderData_def GetRelevantSign_def
      KernelComponentsAsEnvVars_def replaceTemplates_def Let_def)

lemma GetMLD_found_long:
  assumes found: "findKernelMapping rx (mlc_KernelMappings (mod_Container md)) k = Ok m"
    and "\<not> length (kernelRegexp_Split k) < 3" and subst: "\<forall>env t. \<not> is_panic (subst env t)"
  shows "\<not> is_panic (GetModuleLoaderDataForKernel rx subst md k)"
proof -
  from assms(2) obtain env where env: "KernelComponentsAsEnvVars k = Ok env"
    by (auto simp: KernelComponentsAsEnvVars_def Let_def)
  have "\<not> is_panic (GetRelevantSign subst a b k)" if "a \<noteq> None \<or> b \<noteq> None" for a b
    using that merge_sign_None_iff[of a b] ReplaceInTemplates_panic[OF subst]
    by (auto simp: GetRelevantSign_def env simp del: ReplaceInTemplates.simps split: option.splits)
  then have "\<not> is_panic (prepareModuleLoaderData subst m md k)"
    by (auto simp: prepareModuleLoaderData_def Let_def)
  then show ?thesis
    using found env ReplaceInTemplates_panic[OF subst]
    by (auto simp: GetModuleLoaderDataForKernel_def replaceTemplates_def prepareMLD_fields(1)
        simp del: ReplaceInTemplates.simps)
qed

section \<open>The kernel mapper as an interface\<close>

text \<open>What the reconcilers rely on: the data is for the kernel and the Module they asked for, and
  carries registry TLS options.\<close>

locale kernel_mapper =
  fixes get_mld :: "Module \<Rightarrow> string \<Rightarrow> ModuleLoaderData result"
  assumes mld_kernel: "get_mld md k = Ok mld \<Longrightarrow> mld_KernelVersion mld = k"
    and mld_module: "get_mld md k = Ok mld \<Longrightarrow>
      mld_Name mld = mod_Name md \<and> mld_Namespace mld = mod_Namespace md \<and>
      mld_Selector mld = ms_Selector (mod_Spec md) \<and> mld_Owner mld = module_owner md"
    and mld_tls: "get_mld md k = Ok mld \<Longrightarrow> mld_RegistryTLS mld \<noteq> None"

interpretation km: kernel_mapper "GetModuleLoaderDataForKernel rx subst" for rx subst
  by unfold_locales (auto elim!: GetMLD_OkE simp: prepareMLD_fields(1-5) dest: prepareMLD_fields(6))

section \<open>Properties\<close>

text \<open>
  The mapping chosen for a kernel is the first one that matches it: every mapping before it
  has neither the kernel as its literal nor a matching regular expression.
\<close>

theorem kernel_mapping_is_first_match:
  "findKernelMapping rx ms k = Ok m \<longleftrightarrow>
     (\<exists>pre post. ms = pre @ m # post \<and> (\<forall>x \<in> set pre. km_skipped rx k x) \<and> km_matches rx k m)"
  by (rule findKernelMapping_Ok_iff)

theorem kernel_mapping_is_first_match_witness:
  "(\<exists>pre post. [sample_mapping ''5.8'' ''a'', sample_mapping ''5.9'' ''b'', sample_mapping ''5.9'' ''c'']
       = pre @ sample_mapping ''5.9'' ''b'' # post \<and>
     (\<forall>x \<in> set pre. km_skipped (\<lambda>r s. Ok (r = s)) ''5.9'' x) \<and>
     km_matches (\<lambda>r s. Ok (r = s)) ''5.9'' (sample_mapping ''5.9'' ''b''))"
  by (subst kernel_mapping_is_first_match[symmetric]) (simp add: sample_mapping_def)

text \<open>
  C12. When the mapper returns data for a kernel, the data is about that kernel and that Module, its
  image is the substituted image of the first matching mapping (the container's own image when the
  mapping names none), and building and signing are requested exactly when the mapping or the
  container asks for them.
\<close>

theorem module_loader_data_of_first_mapping:
  assumes "GetModuleLoaderDataForKernel rx subst md k = Ok mld"
  shows "\<exists>m env.
    findKernelMapping rx (mlc_KernelMappings (mod_Container md)) k = Ok m \<and>
    KernelComponentsAsEnvVars k = Ok env \<and>
    subst env (if km_ContainerImage m = [] then mlc_ContainerImage (mod_Container md)
               else km_ContainerImage m) = Ok (mld_ContainerImage mld) \<and>
    mld_KernelVersion mld = k \<and> mld_Name mld = mod_Name md \<and> mld_Namespace mld = mod_Namespace md \<and>
    (ShouldBeBuilt mld \<longleftrightarrow> mlc_Build (mod_Container md) \<noteq> None \<or> km_Build m \<noteq> None) \<and>
    (ShouldBeSigned mld \<longleftrightarrow> km_Sign m \<noteq> None \<or> mlc_Sign (mod_Container md) \<noteq> None)"
proof -
  from assms obtain m mld0 env img where found:
      "findKernelMapping rx (mlc_KernelMappings (mod_Container md)) k = Ok m"
    and prep: "prepareModuleLoaderData subst m md k = Ok mld0"
    and env: "KernelComponentsAsEnvVars k = Ok env"
    and img: "subst env (mld_ContainerImage mld0) = Ok img"
    and mld: "mld = mld0\<lparr>mld_ContainerImage := img\<rparr>"
    by (rule GetMLD_OkE)
  have "ShouldBeBuilt mld \<longleftrightarrow> mlc_Build (mod_Container md) \<noteq> None \<or> km_Build m \<noteq> None"
    unfolding ShouldBeBuilt_def mld using prepareMLD_fields(7)[OF prep]
    by (simp add: GetRelevantBuild_None_iff)
  moreover have "ShouldBeSigned mld \<longleftrightarrow> km_Sign m \<noteq> None \<or> mlc_Sign (mod_Container md) \<noteq> None"
    unfolding ShouldBeSigned_def mld using prepareMLD_fields(9)[OF prep] by simp
  moreover have "subst env (if km_ContainerImage m = [] then mlc_ContainerImage (mod_Container md)
      else km_ContainerImage m) = Ok (mld_ContainerImage mld)"
    using img prepareMLD_fields(8)[OF prep] mld by simp
  ultimately show ?thesis
    using found env prepareMLD_fields(1-3)[OF prep] mld by (intro exI[of _ m] exI[of _ env]) simp
qed

theorem module_loader_data_of_first_mapping_witness:
  "\<exists>m env. findKernelMapping (\<lambda>r s. Ok (r = s)) [sample_mapping ''5.14.0-70'' []] ''5.14.0-70'' = Ok m
      \<and> KernelComponentsAsEnvVars ''5.14.0-70'' = Ok env
      \<and> km_ContainerImage m = [] \<and> ''default'' @ last env = ''defaultKERNEL_Z=0''"
proof -
  have "GetModuleLoaderDataForKernel (\<lambda>r s. Ok (r = s)) (\<lambda>env t. Ok (t @ last env))
      (sample_module [sample_mapping ''5.14.0-70'' []]) ''5.14.0-70''
    = Ok ((sample_mld None None)\<lparr>mld_ContainerImage := ''defaultKERNEL_Z=0'',
        mld_Owner := module_owner (sample_module [sample_mapping ''5.14.0-70'' []])\<rparr>)"
    by (simp add: GetModuleLoaderDataForKernel_def prepareModuleLoaderData_def replaceTemplates_def
        KernelComponentsAsEnvVars_def kernelRegexp_Split_def sample_defs module_owner_def)
  from module_loader_data_of_first_mapping[OF this] show ?thesis
    by (auto simp: sample_defs)
qed

text \<open>
  Overriding build arguments: the names are those of both lists, an argument that is overridden
  has the value of the last override of its name, the other arguments are kept in their order, and
  applying the overrides twice is applying them once.
\<close>

theorem build_arg_overrides:
  "ba_Name ` set (ApplyBuildArgOverrides args os) = ba_Name ` set args \<union> ba_Name ` set os \<and>
   (\<forall>a \<in> set (ApplyBuildArgOverrides args os). ba_Name a \<in> ba_Name ` set os \<longrightarrow>
      find (\<lambda>ov. ba_Name ov = ba_Name a) (rev os) = Some a) \<and>
   filter (\<lambda>a. ba_Name a \<notin> ba_Name ` set os) (ApplyBuildArgOverrides args os)
     = filter (\<lambda>a. ba_Name a \<notin> ba_Name ` set os) args \<and>
   ApplyBuildArgOverrides (ApplyBuildArgOverrides args os) os = ApplyBuildArgOverrides args os"
  by (intro conjI ballI impI names_ApplyBuildArgOverrides Apply_overrides_values
      Apply_keeps_other_args Apply_idem)

theorem build_arg_overrides_witness:
  "find (\<lambda>ov. ba_Name ov = ''A'') [\<lparr>ba_Name = ''A'', ba_Value = ''2''\<rparr>] =
     Some \<lparr>ba_Name = ''A'', ba_Value = ''2''\<rparr>"
  using build_arg_overrides[of "[\<lparr>ba_Name = ''A'', ba_Value = ''1''\<rparr>]"
      "[\<lparr>ba_Name = ''A'', ba_Value = ''2''\<rparr>]"]
  by (simp add: ApplyBuildArgOverrides_def overridesMap_def)

text \<open>
  C28. With regular-expression and template engines that do not panic, the mapper panics exactly on
  a kernel that some mapping matches and that has fewer than three components.
\<close>

theorem mapper_panics_iff_short_kernel:
  assumes "\<forall>r s. \<not> is_panic (rx r s)" and "\<forall>env t. \<not> is_panic (subst env t)"
  shows "is_panic (GetModuleLoaderDataForKernel rx subst md k) \<longleftrightarrow>
    is_ok (findKernelMapping rx (mlc_KernelMappings (mod_Container md)) k) \<and>
    length (kernelRegexp_Split k) < 3"
proof (cases "findKernelMapping rx (mlc_KernelMappings (mod_Container md)) k")
  case (Ok m)
  show ?thesis
  proof (cases "length (kernelRegexp_Split k) < 3")
    case True
    with Ok show ?thesis by (simp add: GetMLD_found_short)
  next
    case False
    with Ok assms(2) show ?thesis by (simp add: GetMLD_found_long)
  qed
next
  case (Err e)
  then show ?thesis by (simp add: GetModuleLoaderDataForKernel_def)
next
  case (Panic p)
  with assms(1) findKernelMapping_panic show ?thesis by (metis is_panic.simps(3))
qed

theorem mapper_panics_iff_short_kernel_witness:
  "is_panic (GetModuleLoaderDataForKernel (\<lambda>r s. Ok (r = s)) (\<lambda>env t. Ok t)
      (sample_module [sample_mapping ''5.14'' ''img'']) ''5.14'')"
  by (subst mapper_panics_iff_short_kernel) (simp_all add: sample_defs kernelRegexp_Split_def)

end
