(* ===== verification/Jobs.thy ===== *)
theory Jobs
  imports Api_Types
begin

text \<open>
  Jobs and the statuses of the build and sign stages (internal/utils/jobhelper.go), the secret
  volumes the stages mount (internal/utils/volume_helper.go), and two interfaces the build and the
  sign manager share: one object per stage that is replaced when its hash changes, and a stage that
  is skipped when its image is already in the registry.
\<close>

section \<open>Statuses\<close>

definition JobTypeBuild :: string where "JobTypeBuild = ''build''"
definition JobTypeSign :: string where "JobTypeSign = ''sign''"
definition StatusCompleted :: string where "StatusCompleted = ''completed''"
definition StatusCreated :: string where "StatusCreated = ''created''"
definition StatusInProgress :: string where "StatusInProgress = ''in progress''"
definition StatusFailed :: string where "StatusFailed = ''failed''"

definition ErrNoMatchingJob :: goerr where "ErrNoMatchingJob = Sentinel ''no matching job''"

lemma status_distinct [simp]:
  "StatusCompleted \<noteq> StatusCreated" "StatusCreated \<noteq> StatusCompleted"
  "StatusCompleted \<noteq> StatusInProgress" "StatusInProgress \<noteq> StatusCompleted"
  "StatusCompleted \<noteq> StatusFailed" "StatusFailed \<noteq> StatusCompleted"
  "StatusInProgress \<noteq> StatusFailed" "StatusFailed \<noteq> StatusInProgress"
  "StatusCreated \<noteq> StatusFailed" "StatusFailed \<noteq> StatusCreated"
  "StatusCreated \<noteq> StatusInProgress" "StatusInProgress \<noteq> StatusCreated"
  by (simp_all add: StatusCompleted_def StatusCreated_def StatusInProgress_def StatusFailed_def)

section \<open>Jobs\<close>

record Job =
  job_meta :: ObjectMeta
  job_Completions :: "32 word option"
  job_BackoffLimit :: "32 word option"
  job_Template :: PodTemplateSpec
  job_Active :: "32 word"
  job_Succeeded :: "32 word"
  job_Failed :: "32 word"

definition IsJobChanged :: "Job \<Rightarrow> Job \<Rightarrow> bool result" where
  "IsJobChanged existingJob newJob =
     (case om_Annotations (job_meta existingJob) of
        None \<Rightarrow> Err (ErrorMsg (''annotations are not present in the existing job ''
                         @ om_Name (job_meta existingJob)))
      | Some existingAnnotations \<Rightarrow>
          Ok (sm_get existingAnnotations JobHashAnnotation
                \<noteq> sm_get (nil_map (om_Annotations (job_meta newJob))) JobHashAnnotation))"

definition moduleLabels :: "string \<Rightarrow> string \<Rightarrow> strmap" where
  "moduleLabels moduleName jobType =
     fmupd JobType jobType (fmupd ModuleNameLabel moduleName fmempty)"

definition moduleKernelLabels :: "string \<Rightarrow> string \<Rightarrow> string \<Rightarrow> strmap" where
  "moduleKernelLabels moduleName targetKernel jobType =
     fmupd TargetKernelTarget targetKernel (moduleLabels moduleName jobType)"

definition JobLabels :: "string \<Rightarrow> string \<Rightarrow> string \<Rightarrow> strmap" where
  "JobLabels modName targetKernel jobType = moduleKernelLabels modName targetKernel jobType"

definition getJobs :: "('w, Job) kclient \<Rightarrow> string \<Rightarrow> strmap \<Rightarrow> ('w, Job list) io" where
  "getJobs jobs namespace labels =
     wrap_io (Errorf_v ''could not list jobs'') (k_list jobs labels (Some namespace))"

definition filterJobsByOwner :: "Job list \<Rightarrow> ObjectMeta \<Rightarrow> Job list" where
  "filterJobsByOwner js owner = filter (\<lambda>j. IsControlledBy (job_meta j) owner) js"

definition GetModuleJobByKernel ::
    "('w, Job) kclient \<Rightarrow> string \<Rightarrow> string \<Rightarrow> string \<Rightarrow> string \<Rightarrow> ObjectMeta \<Rightarrow> ('w, Job) io" where
  "GetModuleJobByKernel jobs modName namespace targetKernel jobType owner =
     bind_io
       (wrap_io (Errorf_v (''failed to get module '' @ modName @ '', jobs by kernel '' @ targetKernel))
         (getJobs jobs namespace (moduleKernelLabels modName targetKernel jobType))) (\<lambda>js.
     lift_io (exactly_one ErrNoMatchingJob
       (\<lambda>n. ErrorMsg (''expected 0 or 1 '' @ jobType @ '' job, got '' @ decimal n))
       (filterJobsByOwner js owner)))"

definition GetModuleJobs ::
    "('w, Job) kclient \<Rightarrow> string \<Rightarrow> string \<Rightarrow> string \<Rightarrow> ObjectMeta \<Rightarrow> ('w, Job list) io" where
  "GetModuleJobs jobs modName namespace jobType owner =
     bind_io
       (wrap_io (Errorf_v (''failed to get jobs for module '' @ modName @ '', namespace '' @ namespace))
         (getJobs jobs namespace (moduleLabels modName jobType))) (\<lambda>js.
     return_io (filterJobsByOwner js owner))"

definition DeleteJob :: "('w, Job) kclient \<Rightarrow> Job \<Rightarrow> ('w, unit) io" where
  "DeleteJob jobs job = k_delete jobs job"

definition CreateJob :: "('w, Job) kclient \<Rightarrow> Job \<Rightarrow> ('w, Job) io" where
  "CreateJob jobs jobTemplate = k_create jobs jobTemplate"

definition GetJobStatus :: "Job \<Rightarrow> string result" where
  "GetJobStatus job =
     (if job_Succeeded job = 1 then Ok StatusCompleted
      else if job_Active job = 1 then Ok StatusInProgress
      else if job_Failed job = 1 then Ok StatusFailed
      else Err (ErrorMsg ''unknown status''))"

section \<open>Secret volumes\<close>

definition volumeNameFromSecretRef :: "LocalObjectReference \<Rightarrow> string" where
  "volumeNameFromSecretRef ref = ''secret-'' @ lor_Name ref"

definition MakeSecretVolume :: "LocalObjectReference option \<Rightarrow> string \<Rightarrow> string \<Rightarrow> Volume" where
  "MakeSecretVolume secretRef key path =
     (case secretRef of
        None \<Rightarrow> \<lparr>vol_Name = [], vol_VolumeSource = NoVolumeSource\<rparr>
      | Some ref \<Rightarrow>
          \<lparr>vol_Name = volumeNameFromSecretRef ref,
           vol_VolumeSource = SecretSource
             \<lparr>svs_SecretName = lor_Name ref,
              svs_Items = (if key \<noteq> [] then [\<lparr>ktp_Key = key, ktp_Path = path\<rparr>] else []),
              svs_Optional = None\<rparr>\<rparr>)"

definition MakeSecretVolumeMount :: "LocalObjectReference option \<Rightarrow> string \<Rightarrow> VolumeMount" where
  "MakeSecretVolumeMount secretRef mountPath =
     (case secretRef of
        None \<Rightarrow> \<lparr>vm_Name = [], vm_ReadOnly = False, vm_MountPath = []\<rparr>
      | Some ref \<Rightarrow> \<lparr>vm_Name = volumeNameFromSecretRef ref, vm_ReadOnly = True, vm_MountPath = mountPath\<rparr>)"

section \<open>Lemmas\<close>

lemma moduleKernelLabels_lookup [simp]:
  "fmlookup (moduleKernelLabels n k t) ModuleNameLabel = Some n"
  "fmlookup (moduleKernelLabels n k t) TargetKernelTarget = Some k"
  "fmlookup (moduleKernelLabels n k t) JobType = Some t"
  by (simp_all add: moduleKernelLabels_def moduleLabels_def)

text \<open>The labels of a job identify its Module, kernel and type.\<close>

lemma moduleKernelLabels_inj:
  "moduleKernelLabels n k t = moduleKernelLabels n' k' t' \<longleftrightarrow> n = n' \<and> k = k' \<and> t = t'"
  by (metis moduleKernelLabels_lookup option.inject)

lemma GetModuleJobByKernel_OkE:
  assumes "GetModuleJobByKernel jobs n ns k t owner w = (Ok j, w')"
  obtains js where "k_list jobs (moduleKernelLabels n k t) (Some ns) w = (Ok js, w')"
    and "filterJobsByOwner js owner = [j]"
  using assms
  by (auto simp: GetModuleJobByKernel_def getJobs_def io_elims)

lemma GetModuleJobByKernel_owned:
  assumes "GetModuleJobByKernel jobs n ns k t owner w = (Ok j, w')"
  shows "IsControlledBy (job_meta j) owner"
proof -
  from assms obtain js where "filterJobsByOwner js owner = [j]"
    by (rule GetModuleJobByKernel_OkE)
  then have "j \<in> set (filter (\<lambda>j. IsControlledBy (job_meta j) owner) js)"
    by (simp add: filterJobsByOwner_def)
  then show ?thesis by simp
qed

lemma GetModuleJobByKernel_none:
  assumes "GetModuleJobByKernel jobs n ns k t owner w = (Err e, w')" and "errors_Is e ErrNoMatchingJob"
  shows "\<exists>js. k_list jobs (moduleKernelLabels n k t) (Some ns) w = (Ok js, w') \<and> filterJobsByOwner js owner = []"
  using assms
  by (cases "k_list jobs (moduleKernelLabels n k t) (Some ns) w")
     (auto simp: GetModuleJobByKernel_def getJobs_def bind_io_def wrap_io_def ErrNoMatchingJob_def
        exactly_one_Err_iff split: result.split_asm prod.split_asm)

section \<open>One object per stage, replaced when its hash changes\<close>

text \<open>
  Build and sign manager keep one object per Module and kernel: they create it when there is none,
  delete it when the freshly made template has another hash, and report its status otherwise.
\<close>

locale hashed_object_sync =
  fixes make :: "('w, 'o) io" and existing :: "('w, 'o) io" and create :: "'o \<Rightarrow> ('w, 'o) io"
    and delete :: "'o \<Rightarrow> ('w, unit) io" and changed :: "'o \<Rightarrow> 'o \<Rightarrow> bool result"
    and status :: "'o \<Rightarrow> string result" and none :: goerr and sync :: "('w, string) io"
  assumes sync_absent: "make w = (Ok t, w1) \<Longrightarrow> existing w1 = (Err e, w2) \<Longrightarrow> errors_Is e none \<Longrightarrow>
      create t w2 = (Ok c, w3) \<Longrightarrow> sync w = (Ok StatusCreated, w3)"
    and sync_changed: "make w = (Ok t, w1) \<Longrightarrow> existing w1 = (Ok cur, w2) \<Longrightarrow> changed cur t = Ok True \<Longrightarrow>
      delete cur w2 = (d, w3) \<Longrightarrow> \<not> is_panic d \<Longrightarrow> sync w = (Ok StatusInProgress, w3)"
    and sync_unchanged: "make w = (Ok t, w1) \<Longrightarrow> existing w1 = (Ok cur, w2) \<Longrightarrow>
      changed cur t = Ok False \<Longrightarrow> sync w = (status cur, w2)"
    and sync_OkD: "sync w = (Ok st, w') \<Longrightarrow> \<exists>t w1. make w = (Ok t, w1) \<and>
      ((\<exists>e w2 c. existing w1 = (Err e, w2) \<and> errors_Is e none \<and> create t w2 = (Ok c, w') \<and> st = StatusCreated) \<or>
       (\<exists>cur w2 d. existing w1 = (Ok cur, w2) \<and> changed cur t = Ok True \<and> delete cur w2 = (d, w')
          \<and> \<not> is_panic d \<and> st = StatusInProgress) \<or>
       (\<exists>cur. existing w1 = (Ok cur, w') \<and> changed cur t = Ok False \<and> status cur = Ok st))"
    and status_never_created: "status cur \<noteq> Ok StatusCreated"
begin

text \<open>A stage is only ever reported completed on the strength of an object that exists, was made
  from the same inputs and says so itself.\<close>

lemma sync_completed_iff:
  "sync w = (Ok StatusCompleted, w') \<longleftrightarrow>
     (\<exists>t w1 cur. make w = (Ok t, w1) \<and> existing w1 = (Ok cur, w') \<and> changed cur t = Ok False \<and>
        status cur = Ok StatusCompleted)"
  using sync_OkD[of w StatusCompleted w'] sync_unchanged by fastforce

text \<open>The stage reports that it created its object exactly when there was none and it did.\<close>

lemma sync_created_iff:
  "sync w = (Ok StatusCreated, w') \<longleftrightarrow>
     (\<exists>t w1 e w2 c. make w = (Ok t, w1) \<and> existing w1 = (Err e, w2) \<and> errors_Is e none \<and>
        create t w2 = (Ok c, w'))"
  using sync_OkD[of w StatusCreated w'] sync_absent status_never_created by fastforce

end

section \<open>A stage that produces an image\<close>

text \<open>
  What the reconcilers rely on in both managers: a stage has to run exactly when the Module asks
  for it and the image it would produce is not in the registry.
\<close>

text \<open>When a stage counts as done: it is not asked for, its image is there, or its synchronisation
  says it completed.\<close>

definition stage_done :: "bool \<Rightarrow> ('w, bool) io \<Rightarrow> ('w, string) io \<Rightarrow> 'w \<Rightarrow> 'w \<Rightarrow> bool" where
  "stage_done asked exists sync w w' \<longleftrightarrow>
     (if asked
      then exists w = (Ok True, w') \<or> (\<exists>w1. exists w = (Ok False, w1) \<and> sync w1 = (Ok StatusCompleted, w'))
      else w' = w)"

locale image_stage =
  fixes needed :: "ModuleLoaderData \<Rightarrow> bool" and target :: "ModuleLoaderData \<Rightarrow> string"
    and image_exists :: "ModuleLoaderData \<Rightarrow> string \<Rightarrow> ('w, bool) io"
    and should_sync :: "ModuleLoaderData \<Rightarrow> ('w, bool) io"
  assumes should_sync_not_needed: "\<not> needed mld \<Longrightarrow> should_sync mld w = (Ok False, w)"
    and should_sync_needed: "needed mld \<Longrightarrow> should_sync mld w = (Ok b, w') \<longleftrightarrow>
      image_exists mld (target mld) w = (Ok (\<not> b), w')"
begin

lemma should_sync_False_iff:
  "should_sync mld w = (Ok False, w') \<longleftrightarrow>
     (if needed mld then image_exists mld (target mld) w = (Ok True, w') else w' = w)"
  by (auto simp: should_sync_not_needed should_sync_needed)

lemma should_sync_True_iff:
  "should_sync mld w = (Ok True, w') \<longleftrightarrow>
     needed mld \<and> image_exists mld (target mld) w = (Ok False, w')"
  by (cases "needed mld") (auto simp: should_sync_not_needed should_sync_needed)

lemma run_stage_True_iff:
  "bind_io (wrap_io g1 (should_sync mld)) (\<lambda>s. if \<not> s then return_io True
     else bind_io (wrap_io g2 sync) (\<lambda>st. return_io (st = StatusCompleted))) w = (Ok True, w') \<longleftrightarrow>
   stage_done (needed mld) (image_exists mld (target mld)) sync w w'" (is "?run = _ \<longleftrightarrow> _")
proof -
  have "?run = (Ok True, w') \<longleftrightarrow> should_sync mld w = (Ok False, w') \<or>
      (\<exists>w1. should_sync mld w = (Ok True, w1) \<and> sync w1 = (Ok StatusCompleted, w'))"
    by (auto simp: io_elims split: if_split_asm)
  then show ?thesis
    by (auto simp: stage_done_def should_sync_False_iff should_sync_True_iff)
qed

end

end
