(* ===== verification/Registry.thy ===== *)
theory Registry
  imports Kernel_Mapper Jobs
begin

text \<open>
  Access to container registries: credentials (internal/auth/auth.go), manifests, layers and the
  files in them (internal/registry/registry.go) and the existence check the stages use
  (internal/module/helper.go). The registry client (crane), the keychain constructors and the JSON
  decoder are arguments.
\<close>

section \<open>Credentials\<close>

datatype RegistryAuthGetter =
    registrySecretAuthGetter NamespacedName
  | serviceAccountRegistryAuthGetter string string

record ('w, 'k) auth_env =
  ae_secrets :: "('w, Secret) kclient"
  ae_NewFromPullSecrets :: "Secret list \<Rightarrow> ('w, 'k) io"
  ae_New :: "string \<Rightarrow> string \<Rightarrow> ('w, 'k) io"

fun GetKeyChain :: "('w, 'k) auth_env \<Rightarrow> RegistryAuthGetter \<Rightarrow> ('w, 'k) io" where
  "GetKeyChain env (registrySecretAuthGetter nsn) =
     bind_io (wrap_io (Errorf_w ''cannot find secret'') (k_get (ae_secrets env) nsn)) (\<lambda>secret.
     wrap_io (Errorf_w ''could not create a keycahin from secret'')
       (ae_NewFromPullSecrets env [secret]))"
| "GetKeyChain env (serviceAccountRegistryAuthGetter namespace serviceAccountName) =
     wrap_io (Errorf_v ''could not get the service account's pull secrets'')
       (ae_New env namespace serviceAccountName)"

definition NewRegistryAuthGetterFrom :: "ModuleLoaderData \<Rightarrow> RegistryAuthGetter" where
  "NewRegistryAuthGetterFrom mld =
     (case mld_ImageRepoSecret mld of
        Some secret \<Rightarrow>
          registrySecretAuthGetter \<lparr>nn_Namespace = mld_Namespace mld, nn_Name = lor_Name secret\<rparr>
      | None \<Rightarrow> serviceAccountRegistryAuthGetter (mld_Namespace mld) OCPBuilderServiceAccountName)"

definition NewClusterAuthGetter :: RegistryAuthGetter where
  "NewClusterAuthGetter =
     registrySecretAuthGetter \<lparr>nn_Namespace = ''openshift-config'', nn_Name = ''pull-secret''\<rparr>"

section \<open>Images, layers and the registry client\<close>

record tar_entry =
  te_Name :: string
  te_Data :: string
  te_ReadErr :: "goerr option"

text \<open>The entries \<^verbatim>\<open>tar.Reader.Next\<close> yields, and the error that ends them when it is not EOF.\<close>

type_synonym tar_stream = "tar_entry list \<times> goerr option"

record Layer =
  layer_Uncompressed :: "tar_stream result"
  layer_MediaType :: "string result"

record Image =
  img_Layers :: "Layer list result"
  img_MediaType :: "string result"

datatype ('k, 'a) crane_option =
  crane_Insecure | crane_SkipTLSVerify | crane_WithAuthFromKeychain 'k | crane_WithAuth 'a

record ('w, 'k, 'a) crane =
  crane_Manifest :: "string \<Rightarrow> ('k, 'a) crane_option list \<Rightarrow> ('w, string) io"
  crane_PullLayer :: "string \<Rightarrow> ('k, 'a) crane_option list \<Rightarrow> ('w, Layer) io"
  crane_Pull :: "string \<Rightarrow> ('k, 'a) crane_option list \<Rightarrow> ('w, Image) io"
  crane_Push :: "Image \<Rightarrow> string \<Rightarrow> ('k, 'a) crane_option list \<Rightarrow> ('w, unit) io"

record Hash =
  hash_Algorithm :: string
  hash_Hex :: string

record Descriptor =
  desc_Architecture :: "string option"
  desc_Digest :: Hash

text \<open>\<^verbatim>\<open>json.Unmarshal\<close> at the types the code decodes: the whole object, of which only
  \<^verbatim>\<open>mediaType\<close> is read, an img manifest and an index manifest.\<close>

record json_decoder =
  json_mediaType :: "string \<Rightarrow> string option result result"
  json_Layers :: "string \<Rightarrow> Hash list result"
  json_Manifests :: "string \<Rightarrow> Descriptor list result"

record ('k, 'a) RepoPullConfig =
  repo :: string
  authOptions :: "('k, 'a) crane_option list"

section \<open>Manifests\<close>

text \<open>\<^verbatim>\<open>strings.Split(image, "@")\<close> has a second part, else \<^verbatim>\<open>strings.Split(image, ":")\<close>.\<close>

definition repo_of_image :: "string \<Rightarrow> string" where
  "repo_of_image img =
     (let hash = split_chars (\<lambda>c. c = CHR ''@'') img in
      if length hash > 1 then hash ! 0
      else let tag = split_chars (\<lambda>c. c = CHR '':'') img in
           if length tag > 1 then tag ! 0 else [])"

definition tls_crane_options :: "bool \<Rightarrow> bool \<Rightarrow> ('k, 'a) crane_option list" where
  "tls_crane_options insecure skipTLSVerify =
     (if insecure then [crane_Insecure] else []) @ (if skipTLSVerify then [crane_SkipTLSVerify] else [])"

definition getPullOptions ::
    "('w, 'k) auth_env \<Rightarrow> string \<Rightarrow> TLSOptions option \<Rightarrow> RegistryAuthGetter option \<Rightarrow>
     ('w, ('k, 'a) RepoPullConfig) io" where
  "getPullOptions env img tlsOptions getter =
     (if repo_of_image img = []
      then fail_io (ErrorMsg (''image url '' @ img @ '' is not valid, does not contain hash or tag''))
      else let options = (case tlsOptions of
                 None \<Rightarrow> []
               | Some t \<Rightarrow> tls_crane_options (tls_Insecure t) (tls_InsecureSkipTLSVerify t)) in
           case getter of
             None \<Rightarrow> return_io \<lparr>repo = repo_of_image img, authOptions = options\<rparr>
           | Some g \<Rightarrow>
               bind_io (wrap_io (Errorf_w ''cannot get keychain from the registry auth getter'')
                 (GetKeyChain env g)) (\<lambda>keyChain.
               return_io \<lparr>repo = repo_of_image img,
                          authOptions = options @ [crane_WithAuthFromKeychain keyChain]\<rparr>))"

fun find_arch_digest :: "string \<Rightarrow> Descriptor list \<Rightarrow> string result" where
  "find_arch_digest arch [] = Err (ErrorMsg (''Failed to find manifest for architecture '' @ arch))"
| "find_arch_digest arch (d # ds) =
     (if desc_Architecture d = Some arch
      then Ok (hash_Algorithm (desc_Digest d) @ '':'' @ hash_Hex (desc_Digest d))
      else find_arch_digest arch ds)"

definition getImageDigestFromMultiImage :: "json_decoder \<Rightarrow> string \<Rightarrow> string \<Rightarrow> string result" where
  "getImageDigestFromMultiImage js arch manifestListStream =
     bind_res (map_err (Errorf_w ''failed to unmarshal manifest stream'')
       (json_Manifests js manifestListStream)) (\<lambda>manifests.
     find_arch_digest arch manifests)"

definition getManifestStreamFromImage ::
    "('w, 'k, 'a) crane \<Rightarrow> json_decoder \<Rightarrow> string \<Rightarrow> string \<Rightarrow> string \<Rightarrow> ('k, 'a) crane_option list \<Rightarrow>
     ('w, string) io" where
  "getManifestStreamFromImage cr js arch img rep options =
     bind_io (wrap_io (Errorf_w (''failed to get crane manifest from image '' @ img))
       (crane_Manifest cr img options)) (\<lambda>manifest.
     bind_io (lift_io (map_err (Errorf_w ''failed to unmarshal crane manifest'')
       (json_mediaType js manifest))) (\<lambda>nested.
     bind_io (lift_io (map_err (Errorf_w ''unmarshalled manifests invalid format'') nested)) (\<lambda>mt.
     case mt of
       None \<Rightarrow> fail_io (ErrorMsg (''mediaType is missing from the image '' @ img @ '' manifest''))
     | Some imageMediaType \<Rightarrow>
         if strings_Contains imageMediaType ''manifest.list'' then
           bind_io (lift_io (map_err (Errorf_w ''failed to get arch digets from multi arch image'')
             (getImageDigestFromMultiImage js arch manifest))) (\<lambda>archDigest.
           wrap_io (Errorf_w ''failed to get crane manifest for the arch image'')
             (crane_Manifest cr (rep @ ''@'' @ archDigest) options))
         else return_io manifest)))"

text \<open>The registry as the operator sees it: credentials, client, decoder and architecture.\<close>

record ('w, 'k, 'a) registry_env =
  re_auth :: "('w, 'k) auth_env"
  re_crane :: "('w, 'k, 'a) crane"
  re_json :: json_decoder
  re_GOARCH :: string

definition getImageManifest ::
    "('w, 'k, 'a) registry_env \<Rightarrow> string \<Rightarrow> TLSOptions option \<Rightarrow> RegistryAuthGetter option \<Rightarrow>
     ('w, string \<times> ('k, 'a) RepoPullConfig) io" where
  "getImageManifest re img tlsOptions getter =
     bind_io (wrap_io (Errorf_w (''failed to get pull options for image '' @ img))
       (getPullOptions (re_auth re) img tlsOptions getter)) (\<lambda>pullConfig.
     bind_io (wrap_io (Errorf_w (''failed to get manifest stream from image '' @ img))
       (getManifestStreamFromImage (re_crane re) (re_json re) (re_GOARCH re) img (repo pullConfig)
          (authOptions pullConfig))) (\<lambda>manifest.
     return_io (manifest, pullConfig)))"

definition ImageExists ::
    "('w, 'k, 'a) registry_env \<Rightarrow> string \<Rightarrow> TLSOptions option \<Rightarrow> RegistryAuthGetter option \<Rightarrow>
     ('w, bool) io" where
  "ImageExists re img tlsOptions getter =
     bind_io (attempt_io (getImageManifest re img tlsOptions getter)) (\<lambda>r. case r of
       Inl e \<Rightarrow> if transport_status_is 404 e then return_io False
               else fail_io (Errorf_w (''could not get image '' @ img) e)
     | Inr _ \<Rightarrow> return_io True)"

text \<open>\<^verbatim>\<open>module.ImageExists\<close>, with the Module's credentials and TLS options.\<close>

definition module_ImageExists ::
    "('w, 'k, 'a) registry_env \<Rightarrow> ModuleLoaderData \<Rightarrow> string \<Rightarrow> ('w, bool) io" where
  "module_ImageExists re mld imageName =
     wrap_io (Errorf_v ''could not check if the image is available'')
       (ImageExists re imageName (mld_RegistryTLS mld) (Some (NewRegistryAuthGetterFrom mld)))"

section \<open>Layers\<close>

definition getLayersDigestsFromManifestStream :: "json_decoder \<Rightarrow> string \<Rightarrow> string list result" where
  "getLayersDigestsFromManifestStream js manifestStream =
     bind_res (map_err (Errorf_w ''failed to unmarshal manifest stream'')
       (json_Layers js manifestStream)) (\<lambda>layers.
     Ok (map (\<lambda>h. hash_Algorithm h @ '':'' @ hash_Hex h) layers))"

definition GetLayersDigests ::
    "('w, 'k, 'a) registry_env \<Rightarrow> string \<Rightarrow> TLSOptions option \<Rightarrow> RegistryAuthGetter option \<Rightarrow>
     ('w, string list \<times> ('k, 'a) RepoPullConfig) io" where
  "GetLayersDigests re img tlsOptions getter =
     bind_io (wrap_io (Errorf_w (''failed to get manifest from image '' @ img))
       (getImageManifest re img tlsOptions getter)) (\<lambda>(manifest, pullConfig).
     bind_io (lift_io (map_err (Errorf_w (''failed to get layers digests from manifest of the image '' @ img))
       (getLayersDigestsFromManifestStream (re_json re) manifest))) (\<lambda>digests.
     return_io (digests, pullConfig)))"

definition GetLayerByDigest ::
    "('w, 'k, 'a) registry_env \<Rightarrow> string \<Rightarrow> ('k, 'a) RepoPullConfig \<Rightarrow> ('w, Layer) io" where
  "GetLayerByDigest re digest pullConfig =
     crane_PullLayer (re_crane re) (repo pullConfig @ ''@'' @ digest) (authOptions pullConfig)"

text \<open>The last digest: the code indexes with \<^verbatim>\<open>len(digests)-1\<close>, which panics on an empty list.\<close>

definition LastLayer ::
    "('w, 'k, 'a) registry_env \<Rightarrow> string \<Rightarrow> TLSOptions option \<Rightarrow> RegistryAuthGetter option \<Rightarrow>
     ('w, Layer) io" where
  "LastLayer re img po getter =
     bind_io (wrap_io (Errorf_v (''failed to get layers digests from image '' @ img))
       (GetLayersDigests re img po getter)) (\<lambda>(digests, repoConfig).
     if digests = [] then lift_io (Panic ''index out of range'')
     else GetLayerByDigest re (last digests) repoConfig)"

fun find_header :: "string \<Rightarrow> tar_entry list \<Rightarrow> goerr option \<Rightarrow> tar_entry result" where
  "find_header headerName [] (Some e) = Err (Errorf_w ''failed to get next entry from targz'' e)"
| "find_header headerName [] None =
     Err (ErrorMsg (''header '' @ headerName @ '' not found in the layer''))"
| "find_header headerName (h # hs) ending =
     (if te_Name h = headerName then Ok h else find_header headerName hs ending)"

definition getHeaderReaderFromLayer :: "Layer \<Rightarrow> string \<Rightarrow> tar_entry result" where
  "getHeaderReaderFromLayer layer headerName =
     bind_res (map_err (Errorf_v ''failed to get layerreader from layer'') (layer_Uncompressed layer))
       (\<lambda>(entries, ending). find_header headerName entries ending)"

definition GetHeaderDataFromLayer :: "Layer \<Rightarrow> string \<Rightarrow> string result" where
  "GetHeaderDataFromLayer layer headerName =
     bind_res (map_err (Errorf_v (''failed to get reader for the header '' @ headerName))
       (getHeaderReaderFromLayer layer headerName)) (\<lambda>h.
     case te_ReadErr h of
       Some e \<Rightarrow> Err (Errorf_v (''failed to read header '' @ headerName @ '' data'') e)
     | None \<Rightarrow> Ok (te_Data h))"

definition module_path :: "string \<Rightarrow> string \<Rightarrow> string \<Rightarrow> string" where
  "module_path pathPrefix kernelVersion moduleFileName =
     filepath_Join [strings_TrimPrefix pathPrefix ''/'', ''lib/modules'', kernelVersion, moduleFileName]"

definition VerifyModuleExists :: "Layer \<Rightarrow> string \<Rightarrow> string \<Rightarrow> string \<Rightarrow> bool" where
  "VerifyModuleExists layer pathPrefix kernelVersion moduleFileName =
     is_ok (getHeaderReaderFromLayer layer (module_path pathPrefix kernelVersion moduleFileName))"

section \<open>Walking and extending images\<close>

text \<open>\<open>fn\<close> is the callback, with whatever data it closes over. A tar error ends the walk of a layer
  like EOF does.\<close>

fun walk_entries :: "(tar_entry \<Rightarrow> ('w, unit) io) \<Rightarrow> tar_entry list \<Rightarrow> ('w, unit) io" where
  "walk_entries fn [] = return_io ()"
| "walk_entries fn (h # hs) =
     bind_io (wrap_io (Errorf_v (''died processing file '' @ te_Name h)) (fn h)) (\<lambda>_. walk_entries fn hs)"

fun walk_layers :: "(tar_entry \<Rightarrow> ('w, unit) io) \<Rightarrow> Layer list \<Rightarrow> ('w, unit) io" where
  "walk_layers fn [] = return_io ()"
| "walk_layers fn (l # ls) =
     bind_io (lift_io (map_err (Errorf_v ''could not get layer'') (layer_Uncompressed l))) (\<lambda>(entries, _).
     bind_io (walk_entries fn entries) (\<lambda>_. walk_layers fn ls))"

definition WalkFilesInImage :: "Image \<Rightarrow> (tar_entry \<Rightarrow> ('w, unit) io) \<Rightarrow> ('w, unit) io" where
  "WalkFilesInImage img fn =
     bind_io (lift_io (map_err (Errorf_v ''could not get the layers from the fetched image'')
       (img_Layers img))) (\<lambda>layers.
     walk_layers fn (rev layers))"

definition GetLayerMediaType :: "Image \<Rightarrow> string result" where
  "GetLayerMediaType img =
     bind_res (map_err (Errorf_v ''could not get the layers from image'') (img_Layers img)) (\<lambda>layers.
     if layers = [] then Panic ''index out of range'' else layer_MediaType (last layers))"

text \<open>\<^verbatim>\<open>tarball.LayerFromFile\<close>, \<^verbatim>\<open>mutate.AppendLayers\<close> and \<^verbatim>\<open>mutate.MediaType\<close> are arguments. The
  error of \<^verbatim>\<open>image.MediaType()\<close> is dropped, which leaves the empty media type.\<close>

definition AddLayerToImage ::
    "(string \<Rightarrow> string \<Rightarrow> ('w, Layer) io) \<Rightarrow> (Image \<Rightarrow> Layer \<Rightarrow> Image result) \<Rightarrow>
     (Image \<Rightarrow> string \<Rightarrow> Image) \<Rightarrow> string \<Rightarrow> Image \<Rightarrow> ('w, Image) io" where
  "AddLayerToImage layerFromFile appendLayers setMediaType tarfile img =
     bind_io (lift_io (GetLayerMediaType img)) (\<lambda>mt.
     bind_io (wrap_io (Errorf_v ''failed to generate layer from tar'') (layerFromFile tarfile mt)) (\<lambda>signedLayer.
     bind_io (lift_io (map_err (Errorf_v ''failed to append layer'') (appendLayers img signedLayer))) (\<lambda>newImage.
     bind_io (attempt_io (lift_io (img_MediaType img))) (\<lambda>imt.
     return_io (setMediaType newImage (case imt of Inr t \<Rightarrow> t | Inl _ \<Rightarrow> []))))))"

definition getTransportOptions :: "bool \<Rightarrow> bool \<Rightarrow> ('k, 'a) crane_option list" where
  "getTransportOptions insecure skipTLSVerify = tls_crane_options insecure skipTLSVerify"

definition WriteImageByName ::
    "('w, 'k, 'a) crane \<Rightarrow> string \<Rightarrow> Image \<Rightarrow> 'a \<Rightarrow> bool \<Rightarrow> bool \<Rightarrow> ('w, unit) io" where
  "WriteImageByName cr imageName img auth insecure skipTLSVerify =
     wrap_io (Errorf_v ''failed to push signed image'')
       (crane_Push cr img imageName (getTransportOptions insecure skipTLSVerify @ [crane_WithAuth auth]))"

definition GetImageByName ::
    "('w, 'k, 'a) crane \<Rightarrow> string \<Rightarrow> 'a \<Rightarrow> bool \<Rightarrow> bool \<Rightarrow> ('w, Image) io" where
  "GetImageByName cr imageName auth insecure skipTLSVerify =
     wrap_io (Errorf_v ''could not get image'')
       (crane_Pull cr imageName (getTransportOptions insecure skipTLSVerify @ [crane_WithAuth auth]))"

section \<open>Lemmas\<close>

lemma find_header_Ok_iff:
  "find_header n es ending = Ok h \<longleftrightarrow> find (\<lambda>e. te_Name e = n) es = Some h"
  by (induction n es ending rule: find_header.induct) auto

lemma is_ok_find_header: "is_ok (find_header n es ending) \<longleftrightarrow> n \<in> te_Name ` set es"
  by (induction n es ending rule: find_header.induct) auto

lemma is_ok_getHeaderReader:
  "is_ok (getHeaderReaderFromLayer layer n) \<longleftrightarrow>
     (\<exists>es ending. layer_Uncompressed layer = Ok (es, ending) \<and> n \<in> te_Name ` set es)"
  by (cases "layer_Uncompressed layer") (auto simp: getHeaderReaderFromLayer_def is_ok_find_header)

lemma find_arch_digest_Ok_iff:
  "find_arch_digest arch ds = Ok dg \<longleftrightarrow>
     (\<exists>d. find (\<lambda>d. desc_Architecture d = Some arch) ds = Some d \<and>
        dg = hash_Algorithm (desc_Digest d) @ '':'' @ hash_Hex (desc_Digest d))"
  by (induction ds) auto

lemma GetHeaderDataFromLayer_Ok_iff:
  "GetHeaderDataFromLayer layer n = Ok data \<longleftrightarrow>
     (\<exists>es ending h. layer_Uncompressed layer = Ok (es, ending) \<and>
        find (\<lambda>e. te_Name e = n) es = Some h \<and> te_ReadErr h = None \<and> data = te_Data h)"
  by (auto simp: GetHeaderDataFromLayer_def getHeaderReaderFromLayer_def find_header_Ok_iff
      split: option.split_asm prod.splits)

text \<open>The walk visits the layers from the top of the image down, each in the order of its archive.\<close>

lemma walk_entries_append:
  "walk_entries fn (xs @ ys) = bind_io (walk_entries fn xs) (\<lambda>_. walk_entries fn ys)"
  by (induction xs) (simp_all add: bind_assoc)

lemma walk_layers_flat:
  assumes "list_all2 (\<lambda>l es. \<exists>ending. layer_Uncompressed l = Ok (es, ending)) ls ess"
  shows "walk_layers fn ls = walk_entries fn (concat ess)"
  using assms
proof (induction ls ess rule: list_all2_induct)
  case (Cons l ls es ess)
  then show ?case by (auto simp: walk_entries_append)
qed simp

lemma repo_of_image_simple:
  assumes "CHR '':'' \<notin> set r" "CHR ''@'' \<notin> set r" "CHR ''@'' \<notin> set t"
  shows "repo_of_image (r @ '':'' @ t) = r"
proof -
  have "split_chars (\<lambda>c. c = CHR '':'') (r @ CHR '':'' # t) = r # split_chars (\<lambda>c. c = CHR '':'') t"
    using assms(1) by (intro split_chars_append_sep) auto
  moreover have "split_chars (\<lambda>c. c = CHR ''@'') (r @ CHR '':'' # t) = [r @ CHR '':'' # t]"
    using assms(2,3) by (intro split_chars_id) auto
  ultimately show ?thesis by (simp add: repo_of_image_def length_split_chars)
qed

text \<open>The split is at the first colon, so the port of a registry host cuts the repository short.\<close>

lemma repo_of_image_with_port:
  "repo_of_image ''registry:5000/org/kmod:v1'' = ''registry''"
  by (simp add: repo_of_image_def)

section \<open>Properties\<close>


text \<open>A registry that has no image at all.\<close>

definition empty_registry :: "(nat, unit, unit) registry_env" where
  "empty_registry =
     \<lparr>re_auth = \<lparr>ae_secrets = const_client \<lparr>secret_meta = empty_meta, secret_Data = fmempty\<rparr>,
        ae_NewFromPullSecrets = \<lambda>_. return_io (), ae_New = \<lambda>_ _. return_io ()\<rparr>,
      re_crane = \<lparr>crane_Manifest = \<lambda>_ _. fail_io (TransportError 404),
        crane_PullLayer = \<lambda>_ _. fail_io (TransportError 404),
        crane_Pull = \<lambda>_ _. fail_io (TransportError 404), crane_Push = \<lambda>_ _ _. return_io ()\<rparr>,
      re_json = \<lparr>json_mediaType = \<lambda>_. Ok (Ok None), json_Layers = \<lambda>_. Ok [], json_Manifests = \<lambda>_. Ok []\<rparr>,
      re_GOARCH = ''amd64''\<rparr>"


text \<open>
  A kernel module counts as present in a layer exactly when the layer can be opened and an entry
  read from it has the module's path, the cleaned join of the directory without its leading slash,
  lib/modules, the kernel version and the file name.
\<close>

theorem module_in_layer_iff_entry:
  "VerifyModuleExists layer pathPrefix kver fileName \<longleftrightarrow>
     (\<exists>es ending. layer_Uncompressed layer = Ok (es, ending) \<and>
        filepath_Join [strings_TrimPrefix pathPrefix ''/'', ''lib/modules'', kver, fileName] \<in> te_Name ` set es)"
  by (simp add: VerifyModuleExists_def is_ok_getHeaderReader module_path_def)

end
