(* ===== verification/Dtk_Mapping.thy ===== *)
theory Dtk_Mapping
  imports Api_Types
begin

text \<open>
  The in-memory mapping from kernel version to OS image to driver-toolkit image
  (internal/syncronizedmap) and the two reconcilers that fill it: the node reconciler, which also
  labels the node with its kernel version (controllers/node_kernel_reconciler.go), and the image
  stream reconciler (controllers/imagestream_reconciler.go).
\<close>

section \<open>The mapping\<close>

record kernelOsDtkMapping =
  kernelToOs :: strmap
  osToDtk :: strmap

definition NewKernelOsDtkMapping :: kernelOsDtkMapping where
  "NewKernelOsDtkMapping = \<lparr>kernelToOs = fmempty, osToDtk = fmempty\<rparr>"

definition SetNodeInfo :: "string \<Rightarrow> string \<Rightarrow> kernelOsDtkMapping \<Rightarrow> kernelOsDtkMapping" where
  "SetNodeInfo kernelVersion osImage skom =
     skom\<lparr>kernelToOs := fmupd kernelVersion osImage (kernelToOs skom)\<rparr>"

definition SetImageStreamInfo :: "string \<Rightarrow> string \<Rightarrow> kernelOsDtkMapping \<Rightarrow> kernelOsDtkMapping" where
  "SetImageStreamInfo osImage dtkImage skom =
     skom\<lparr>osToDtk := fmupd osImage dtkImage (osToDtk skom)\<rparr>"

definition GetImage :: "kernelOsDtkMapping \<Rightarrow> string \<Rightarrow> string result" where
  "GetImage skom kernelVersion =
     (case fmlookup (kernelToOs skom) kernelVersion of
        None \<Rightarrow> Err (ErrorMsg (''could not find kernel '' @ kernelVersion
                        @ '' in kernel --> OS mapping''))
      | Some osImage \<Rightarrow>
          (case fmlookup (osToDtk skom) osImage of
             None \<Rightarrow> Err (ErrorMsg (''could not find osImage '' @ osImage @ '' in OS --> DTK mapping''))
           | Some dtk \<Rightarrow> Ok dtk))"

section \<open>The node reconciler\<close>

definition is_digit :: "char \<Rightarrow> bool" where
  "is_digit c = (CHR ''0'' \<le> c \<and> c \<le> CHR ''9'')"

text \<open>\<^verbatim>\<open>\d+\.\d+\.\d+\-\d\<close> at the head of a string. A digit is never a separator, so the greedy
  repetitions do not backtrack.\<close>

definition match_os_version :: "string \<Rightarrow> string option" where
  "match_os_version s =
     (let a = takeWhile is_digit s; r1 = dropWhile is_digit s;
          b = takeWhile is_digit (tl r1); r2 = dropWhile is_digit (tl r1);
          c = takeWhile is_digit (tl r2); r3 = dropWhile is_digit (tl r2) in
      if a \<noteq> [] \<and> take 1 r1 = ''.'' \<and> b \<noteq> [] \<and> take 1 r2 = ''.'' \<and> c \<noteq> [] \<and> take 1 r3 = ''-''
      then (case tl r3 of
              [] \<Rightarrow> None
            | d # _ \<Rightarrow> if is_digit d then Some (a @ ''.'' @ b @ ''.'' @ c @ ''-'' @ [d]) else None)
      else None)"

text \<open>\<^verbatim>\<open>osVersionRegexp.FindString\<close>: the leftmost match, or "".\<close>

fun osVersion_FindString :: "string \<Rightarrow> string" where
  "osVersion_FindString [] = []"
| "osVersion_FindString (ch # s) =
     (case match_os_version (ch # s) of Some v \<Rightarrow> v | None \<Rightarrow> osVersion_FindString s)"

definition trim_kernel :: "string \<Rightarrow> string" where
  "trim_kernel v = strings_TrimSuffix v ''+''"

text \<open>The reconciler runs on the world and the shared mapping: when the patch of the node fails,
  the mapping has already been written.\<close>

definition NodeKernel_Reconcile ::
    "('w, Node) kclient \<Rightarrow> string \<Rightarrow> string \<Rightarrow> ('w \<times> kernelOsDtkMapping, unit) io" where
  "NodeKernel_Reconcile nodes labelName reqName =
     bind_io (wrap_io (Errorf_v ''could not get node'')
       (on_world (k_get nodes \<lparr>nn_Namespace = [], nn_Name = reqName\<rparr>))) (\<lambda>node.
     let kernelVersion = trim_kernel (node_KernelVersion node);
         osImageVersion = osVersion_FindString (node_OSImage node) in
     if osImageVersion = []
     then fail_io (ErrorMsg (''could not get node '' @ om_Name (node_meta node) @ '' osImageVersion''))
     else bind_io (modify_mem (SetNodeInfo kernelVersion osImageVersion)) (\<lambda>_.
          let labels = fmupd labelName kernelVersion (nil_map (om_Labels (node_meta node)));
              node' = node\<lparr>node_meta := (node_meta node)\<lparr>om_Labels := Some labels\<rparr>\<rparr> in
          bind_io (wrap_io (Errorf_v ''could not patch the node'')
            (on_world (k_patch nodes node' node))) (\<lambda>_.
          return_io ())))"

section \<open>The image stream reconciler\<close>

text \<open>\<^verbatim>\<open>From\<close> is a pointer in a tag; the reconciler dereferences it.\<close>

record TagReference =
  tag_Name :: string
  tag_From :: "string option"

record ImageStream =
  is_meta :: ObjectMeta
  is_Tags :: "TagReference list"

definition imagestream_tag :: "unit \<Rightarrow> TagReference \<Rightarrow> ('w \<times> kernelOsDtkMapping, unit) io" where
  "imagestream_tag u t =
     (if tag_Name t \<noteq> ''latest'' then
        (case tag_From t of
           None \<Rightarrow> lift_io (Panic ''nil pointer dereference'')
         | Some dtkImage \<Rightarrow> modify_mem (SetImageStreamInfo (tag_Name t) dtkImage))
      else return_io ())"

definition ImageStream_Reconcile ::
    "('w, ImageStream) kclient \<Rightarrow> NamespacedName \<Rightarrow> ('w \<times> kernelOsDtkMapping, unit) io" where
  "ImageStream_Reconcile imagestreams nsn =
     bind_io (wrap_io (Errorf_v ''could not get imagestream'') (on_world (k_get imagestreams nsn))) (\<lambda>strm.
     for_io imagestream_tag () (is_Tags strm))"

section \<open>The mapping as an interface\<close>

text \<open>
  What the clients of the mapping (the build maker and the reconcilers) rely on. \<open>os_of\<close> and
  \<open>dtk_of\<close> are the two views a lookup goes through.
\<close>

locale dtk_mapping =
  fixes set_node :: "string \<Rightarrow> string \<Rightarrow> 'm \<Rightarrow> 'm"
    and set_stream :: "string \<Rightarrow> string \<Rightarrow> 'm \<Rightarrow> 'm"
    and get_image :: "'m \<Rightarrow> string \<Rightarrow> string result"
    and os_of :: "'m \<Rightarrow> string \<Rightarrow> string option"
    and dtk_of :: "'m \<Rightarrow> string \<Rightarrow> string option"
  assumes os_of_set_node: "os_of (set_node k os m) = (os_of m)(k \<mapsto> os)"
    and dtk_of_set_node: "dtk_of (set_node k os m) = dtk_of m"
    and os_of_set_stream: "os_of (set_stream os img m) = os_of m"
    and dtk_of_set_stream: "dtk_of (set_stream os img m) = (dtk_of m)(os \<mapsto> img)"
    and get_image_Ok: "get_image m k = Ok img \<longleftrightarrow> (\<exists>os. os_of m k = Some os \<and> dtk_of m os = Some img)"
    and get_image_no_panic: "\<not> is_panic (get_image m k)"
begin

lemmas mapping_laws = os_of_set_node dtk_of_set_node os_of_set_stream dtk_of_set_stream

text \<open>The write order of the two reconcilers does not matter.\<close>

lemma registered_image:
  "get_image (set_stream os img (set_node k os m)) k = Ok img"
  "get_image (set_node k os (set_stream os img m)) k = Ok img"
  by (simp_all add: get_image_Ok mapping_laws)

text \<open>A node whose kernel is already served keeps its image when another kernel is registered.\<close>

lemma register_other_kernel:
  assumes "k' \<noteq> k" and "get_image m k' = Ok img"
  shows "get_image (set_node k os m) k' = Ok img"
  using assms by (simp add: get_image_Ok mapping_laws)

text \<open>A new image for an OS reaches every kernel of that OS at once, and no kernel of another OS.\<close>

lemma stream_reaches_kernels:
  assumes "os_of m k = Some os"
  shows "get_image (set_stream os' img m) k = Ok img' \<longleftrightarrow>
    (if os' = os then img' = img else get_image m k = Ok img')"
  using assms by (auto simp: get_image_Ok mapping_laws)

end

interpretation dtk: dtk_mapping SetNodeInfo SetImageStreamInfo GetImage
    "\<lambda>m. fmlookup (kernelToOs m)" "\<lambda>m. fmlookup (osToDtk m)"
  by unfold_locales
     (auto simp: SetNodeInfo_def SetImageStreamInfo_def GetImage_def fun_eq_iff split: option.splits)

section \<open>Lemmas\<close>

lemma osToDtk_SetNodeInfo [simp]: "osToDtk (SetNodeInfo k v m) = osToDtk m"
  by (simp add: SetNodeInfo_def)

lemma kernelToOs_SetImageStreamInfo [simp]: "kernelToOs (SetImageStreamInfo k v m) = kernelToOs m"
  by (simp add: SetImageStreamInfo_def)

text \<open>The shape of a version found in an OS image string.\<close>

definition os_version_shape :: "string \<Rightarrow> bool" where
  "os_version_shape v =
     (\<exists>a b c d. v = a @ ''.'' @ b @ ''.'' @ c @ ''-'' @ [d] \<and> a \<noteq> [] \<and> b \<noteq> [] \<and> c \<noteq> [] \<and>
        (\<forall>x \<in> set (a @ b @ c @ [d]). is_digit x))"

lemma match_os_version_shape:
  assumes "match_os_version s = Some v"
  shows "os_version_shape v"
proof -
  let ?a = "takeWhile is_digit s"
  let ?b = "takeWhile is_digit (tl (dropWhile is_digit s))"
  let ?c = "takeWhile is_digit (tl (dropWhile is_digit (tl (dropWhile is_digit s))))"
  from assms obtain d where "v = ?a @ ''.'' @ ?b @ ''.'' @ ?c @ ''-'' @ [d]" "is_digit d"
    "?a \<noteq> []" "?b \<noteq> []" "?c \<noteq> []"
    by (auto simp: match_os_version_def Let_def split: if_splits list.splits)
  then show ?thesis
    unfolding os_version_shape_def by (intro exI) (auto dest: set_takeWhileD)
qed

lemma match_os_version_prefix:
  assumes "match_os_version s = Some v"
  shows "\<exists>r. s = v @ r"
proof -
  have step: "takeWhile is_digit t @ [ch] @ tl (dropWhile is_digit t) = t"
    if "take 1 (dropWhile is_digit t) = [ch]" for t ch
    using that takeWhile_dropWhile_id[of is_digit t] by (cases "dropWhile is_digit t") auto
  define r1 where "r1 = tl (dropWhile is_digit s)"
  define r2 where "r2 = tl (dropWhile is_digit r1)"
  define r3 where "r3 = tl (dropWhile is_digit r2)"
  from assms obtain d r where
      v: "v = takeWhile is_digit s @ ''.'' @ takeWhile is_digit r1 @ ''.'' @ takeWhile is_digit r2 @ ''-'' @ [d]"
    and r3: "r3 = d # r"
    and sep: "take 1 (dropWhile is_digit s) = ''.''" "take 1 (dropWhile is_digit r1) = ''.''"
      "take 1 (dropWhile is_digit r2) = ''-''"
    by (auto simp: match_os_version_def Let_def r1_def r2_def r3_def split: if_splits list.splits)
  have "s = takeWhile is_digit s @ ''.'' @ r1" "r1 = takeWhile is_digit r1 @ ''.'' @ r2"
    "r2 = takeWhile is_digit r2 @ ''-'' @ r3"
    using step[OF sep(1)] step[OF sep(2)] step[OF sep(3)] by (simp_all add: r1_def r2_def r3_def)
  then have "s = v @ r" unfolding v r3 by (metis append.assoc append_Cons append_Nil)
  then show ?thesis by blast
qed

lemma osVersion_FindString_shape:
  "osVersion_FindString s \<noteq> [] \<Longrightarrow>
     os_version_shape (osVersion_FindString s) \<and> strings_Contains s (osVersion_FindString s)"
proof (induction s rule: osVersion_FindString.induct)
  case (2 ch s)
  show ?case
  proof (cases "match_os_version (ch # s)")
    case None
    with 2 show ?thesis by auto
  next
    case (Some v)
    then have found: "osVersion_FindString (ch # s) = v" by simp
    from Some obtain r where "ch # s = [] @ v @ r" using match_os_version_prefix by fastforce
    then have "strings_Contains (ch # s) v" unfolding strings_Contains_iff by blast
    then show ?thesis using found match_os_version_shape[OF Some] by simp
  qed
qed simp

lemma imagestream_tag_apply [simp]:
  "tag_Name t = ''latest'' \<Longrightarrow> imagestream_tag u t ws = (Ok (), ws)"
  "tag_Name t \<noteq> ''latest'' \<Longrightarrow> tag_From t = Some img \<Longrightarrow>
     imagestream_tag u t (w, m) = (Ok (), (w, SetImageStreamInfo (tag_Name t) img m))"
  by (simp_all add: imagestream_tag_def)

lemma for_imagestream_tags:
  assumes "\<forall>t \<in> set ts. tag_Name t = ''latest'' \<or> tag_From t \<noteq> None"
  shows "\<exists>m'. for_io imagestream_tag () ts (w, m) = (Ok (), (w, m')) \<and> kernelToOs m' = kernelToOs m \<and>
    (\<forall>os. fmlookup (osToDtk m') os =
       (case find (\<lambda>t. tag_Name t = os \<and> os \<noteq> ''latest'') (rev ts) of
          Some t \<Rightarrow> tag_From t | None \<Rightarrow> fmlookup (osToDtk m) os))"
  using assms
proof (induction ts arbitrary: m)
  case (Cons t ts)
  show ?case
  proof (cases "tag_Name t = ''latest''")
    case True
    with Cons obtain m' where "for_io imagestream_tag () ts (w, m) = (Ok (), (w, m'))"
      "kernelToOs m' = kernelToOs m"
      "\<forall>os. fmlookup (osToDtk m') os =
         (case find (\<lambda>t. tag_Name t = os \<and> os \<noteq> ''latest'') (rev ts) of
            Some t \<Rightarrow> tag_From t | None \<Rightarrow> fmlookup (osToDtk m) os)" by fastforce
    with True show ?thesis
      by (intro exI[of _ m']) (auto simp: find_append split: option.splits)
  next
    case False
    with Cons.prems obtain img where img: "tag_From t = Some img" by auto
    let ?m = "SetImageStreamInfo (tag_Name t) img m"
    from Cons obtain m' where "for_io imagestream_tag () ts (w, ?m) = (Ok (), (w, m'))"
      "kernelToOs m' = kernelToOs ?m"
      "\<forall>os. fmlookup (osToDtk m') os =
         (case find (\<lambda>t. tag_Name t = os \<and> os \<noteq> ''latest'') (rev ts) of
            Some t \<Rightarrow> tag_From t | None \<Rightarrow> fmlookup (osToDtk ?m) os)" by fastforce
    with False img show ?thesis
      by (intro exI[of _ m'])
         (auto simp: SetImageStreamInfo_def find_append split: option.splits)
  qed
qed simp

text \<open>What a successful run of the node reconciler has read, patched and recorded.\<close>

lemma NodeKernel_Reconcile_OkE:
  assumes "NodeKernel_Reconcile nodes lbl n (w, m) = (Ok (), (w', m'))"
  obtains node w1 stored where "k_get nodes \<lparr>nn_Namespace = [], nn_Name = n\<rparr> w = (Ok node, w1)"
    and "osVersion_FindString (node_OSImage node) \<noteq> []"
    and "m' = SetNodeInfo (trim_kernel (node_KernelVersion node)) (osVersion_FindString (node_OSImage node)) m"
    and "k_patch nodes
           (node\<lparr>node_meta := (node_meta node)\<lparr>om_Labels :=
              Some (fmupd lbl (trim_kernel (node_KernelVersion node)) (nil_map (om_Labels (node_meta node))))\<rparr>\<rparr>)
           node w1 = (Ok stored, w')"
  using assms by (auto simp: NodeKernel_Reconcile_def Let_def io_elims split: if_splits)

definition tags_wellformed :: "ImageStream \<Rightarrow> bool" where
  "tags_wellformed strm = (\<forall>t \<in> set (is_Tags strm). tag_Name t = ''latest'' \<or> tag_From t \<noteq> None)"

lemma for_imagestream_tags_Ok:
  "for_io imagestream_tag () ts (w, m) = (Ok (), ws) \<Longrightarrow>
     \<forall>t \<in> set ts. tag_Name t = ''latest'' \<or> tag_From t \<noteq> None"
proof (induction ts arbitrary: w m)
  case (Cons t ts)
  then obtain w1 m1 where "imagestream_tag () t (w, m) = (Ok (), (w1, m1))"
    and "for_io imagestream_tag () ts (w1, m1) = (Ok (), ws)"
    by (auto simp: io_elims)
  moreover from this(1) have "tag_Name t = ''latest'' \<or> tag_From t \<noteq> None"
    by (auto simp: imagestream_tag_def io_elims split: if_splits option.splits)
  ultimately show ?case using Cons.IH by simp
qed simp

text \<open>The images a stream defines: per tag name the image of its last tag, "latest" left out.\<close>

definition stream_images :: "ImageStream \<Rightarrow> strmap \<Rightarrow> string \<Rightarrow> string option" where
  "stream_images strm m os =
     (case find (\<lambda>t. tag_Name t = os \<and> os \<noteq> ''latest'') (rev (is_Tags strm)) of
        Some t \<Rightarrow> tag_From t | None \<Rightarrow> fmlookup m os)"

lemma ImageStream_Reconcile_OkE:
  assumes "ImageStream_Reconcile imagestreams nsn (w, m) = (Ok (), (w', m'))"
  obtains strm where "k_get imagestreams nsn w = (Ok strm, w')" and "kernelToOs m' = kernelToOs m"
    and "fmlookup (osToDtk m') = stream_images strm (osToDtk m)" and "tags_wellformed strm"
proof -
  from assms obtain strm w1 where get: "k_get imagestreams nsn w = (Ok strm, w1)"
    and loop: "for_io imagestream_tag () (is_Tags strm) (w1, m) = (Ok (), (w', m'))"
    by (auto simp: ImageStream_Reconcile_def io_elims)
  from for_imagestream_tags[OF for_imagestream_tags_Ok[OF loop], of w1 m] loop get
    for_imagestream_tags_Ok[OF loop]
  show thesis by (auto intro!: that[of strm] simp: tags_wellformed_def stream_images_def)
qed

lemma os_version_not_latest: "os_version_shape v \<Longrightarrow> v \<noteq> ''latest''"
proof
  assume shape: "os_version_shape v" and v: "v = ''latest''"
  from shape have "CHR ''.'' \<in> set v" by (auto simp: os_version_shape_def)
  with v show False by simp
qed

lemma GetImage_of_stream:
  assumes "fmlookup (kernelToOs m2) k = Some (osVersion_FindString osImage)"
    and "osVersion_FindString osImage \<noteq> []" and "tags_wellformed strm"
    and "fmlookup (osToDtk m2) = stream_images strm m"
    and found: "find (\<lambda>t. tag_Name t = osVersion_FindString osImage) (rev (is_Tags strm)) = Some t"
  shows "\<exists>img. tag_From t = Some img \<and> GetImage m2 k = Ok img"
proof -
  have not_latest: "osVersion_FindString osImage \<noteq> ''latest''"
    using assms(2) osVersion_FindString_shape os_version_not_latest by blast
  moreover from find_SomeD[OF found] assms(3) not_latest obtain img where "tag_From t = Some img"
    by (auto simp: tags_wellformed_def)
  ultimately show ?thesis
    using assms(1,4) found by (simp add: dtk.get_image_Ok stream_images_def)
qed

section \<open>Properties\<close>

text \<open>
  Node and image stream reconciliation in either order make the driver toolkit of a node's
  kernel available: after both succeeded, the image of the node's kernel version (without a
  trailing "+") is the image of the last tag of the stream named like the OS version found in the
  node's OS image.
\<close>

theorem dtk_image_after_both_reconcilers:
  assumes "NodeKernel_Reconcile nodes lbl n (w, m) = (Ok (), (w1, m1)) \<and>
      ImageStream_Reconcile imagestreams nsn (w1, m1) = (Ok (), (w2, m2)) \<and>
      fst (k_get nodes \<lparr>nn_Namespace = [], nn_Name = n\<rparr> w) = Ok node \<and>
      fst (k_get imagestreams nsn w1) = Ok strm
    \<or> ImageStream_Reconcile imagestreams nsn (w, m) = (Ok (), (w1, m1)) \<and>
      NodeKernel_Reconcile nodes lbl n (w1, m1) = (Ok (), (w2, m2)) \<and>
      fst (k_get imagestreams nsn w) = Ok strm \<and>
      fst (k_get nodes \<lparr>nn_Namespace = [], nn_Name = n\<rparr> w1) = Ok node"
    and "find (\<lambda>t. tag_Name t = osVersion_FindString (node_OSImage node)) (rev (is_Tags strm)) = Some t"
  shows "\<exists>img. tag_From t = Some img \<and> GetImage m2 (trim_kernel (node_KernelVersion node)) = Ok img"
proof (rule GetImage_of_stream[OF _ _ _ _ assms(2)])
  let ?k = "trim_kernel (node_KernelVersion node)"
  let ?os = "osVersion_FindString (node_OSImage node)"
  have "fmlookup (kernelToOs m2) ?k = Some ?os \<and> ?os \<noteq> [] \<and> tags_wellformed strm \<and>
      fmlookup (osToDtk m2) = stream_images strm (osToDtk m)"
    using assms(1)
    by (elim disjE conjE; elim NodeKernel_Reconcile_OkE ImageStream_Reconcile_OkE)
       (simp_all add: SetNodeInfo_def)
  then show "fmlookup (kernelToOs m2) ?k = Some ?os" "?os \<noteq> []" "tags_wellformed strm"
    "fmlookup (osToDtk m2) = stream_images strm (osToDtk m)" by simp_all
qed

text \<open>
  A node that was reconciled carries its kernel version without a trailing "+" under the kernel
  label and keeps its other labels, and the OS recorded for that version is a string of the shape
  digits.digits.digits-digit that occurs in the node's OS image.
\<close>

theorem node_kernel_label_patched:
  assumes "NodeKernel_Reconcile nodes lbl n (w, m) = (Ok (), (w', m'))"
  shows "\<exists>node w1 labels os stored.
    k_get nodes \<lparr>nn_Namespace = [], nn_Name = n\<rparr> w = (Ok node, w1) \<and>
    k_patch nodes (node\<lparr>node_meta := (node_meta node)\<lparr>om_Labels := Some labels\<rparr>\<rparr>) node w1 = (Ok stored, w') \<and>
    sm_get labels lbl = trim_kernel (node_KernelVersion node) \<and>
    (\<forall>l. l = lbl \<or> sm_get labels l = get_label (node_meta node) l) \<and>
    fmlookup (kernelToOs m') (trim_kernel (node_KernelVersion node)) = Some os \<and>
    os_version_shape os \<and> strings_Contains (node_OSImage node) os"
proof -
  from assms obtain node w1 stored where
      run: "k_get nodes \<lparr>nn_Namespace = [], nn_Name = n\<rparr> w = (Ok node, w1)"
      "osVersion_FindString (node_OSImage node) \<noteq> []"
      "m' = SetNodeInfo (trim_kernel (node_KernelVersion node)) (osVersion_FindString (node_OSImage node)) m"
      "k_patch nodes
           (node\<lparr>node_meta := (node_meta node)\<lparr>om_Labels :=
              Some (fmupd lbl (trim_kernel (node_KernelVersion node)) (nil_map (om_Labels (node_meta node))))\<rparr>\<rparr>)
           node w1 = (Ok stored, w')"
    by (rule NodeKernel_Reconcile_OkE)
  show ?thesis
    by (rule exI[of _ node], rule exI[of _ w1],
        rule exI[of _ "fmupd lbl (trim_kernel (node_KernelVersion node)) (nil_map (om_Labels (node_meta node)))"],
        rule exI[of _ "osVersion_FindString (node_OSImage node)"], rule exI[of _ stored])
       (use run osVersion_FindString_shape in \<open>simp add: get_label_def SetNodeInfo_def\<close>)
qed

text \<open>A one-node, one-stream cluster on which the two statements are evaluated.\<close>

definition sample_node :: Node where
  "sample_node = \<lparr>node_meta = sample_meta ''node'', node_Taints = [], node_KernelVersion = ''5.14.0-70+'',
     node_OSImage = ''OS 411.86.2022-0 (x)''\<rparr>"

definition sample_stream :: ImageStream where
  "sample_stream = \<lparr>is_meta = sample_meta ''dtk'',
     is_Tags = [\<lparr>tag_Name = ''411.86.2022-0'', tag_From = Some ''dtk-img''\<rparr>]\<rparr>"

lemma sample_node_reconciled:
  "NodeKernel_Reconcile (const_client sample_node) KernelLabel ''node'' (0, NewKernelOsDtkMapping) =
     (Ok (), (1, SetNodeInfo ''5.14.0-70'' ''411.86.2022-0'' NewKernelOsDtkMapping))"
  by (simp add: NodeKernel_Reconcile_def const_client_def sample_node_def trim_kernel_def
      strings_TrimSuffix_char match_os_version_def is_digit_def Let_def bind_io_def on_world_def
      wrap_io_def modify_mem_def)

theorem dtk_image_after_both_reconcilers_witness:
  "\<exists>m2. GetImage m2 (trim_kernel (node_KernelVersion sample_node)) = Ok ''dtk-img''"
proof -
  have stream: "ImageStream_Reconcile (const_client sample_stream) \<lparr>nn_Namespace = ''ns'', nn_Name = ''dtk''\<rparr>
      (1, m) = (Ok (), (1, SetImageStreamInfo ''411.86.2022-0'' ''dtk-img'' m))" for m
    by (simp add: ImageStream_Reconcile_def const_client_def sample_stream_def bind_io_def on_world_def
        wrap_io_def imagestream_tag_def)
  have get: "fst (k_get (const_client sample_node) x (0::nat)) = Ok sample_node"
    "fst (k_get (const_client sample_stream) y (1::nat)) = Ok sample_stream" for x y
    by (simp_all add: const_client_def)
  have "find (\<lambda>t. tag_Name t = osVersion_FindString (node_OSImage sample_node)) (rev (is_Tags sample_stream))
      = Some \<lparr>tag_Name = ''411.86.2022-0'', tag_From = Some ''dtk-img''\<rparr>"
    by (simp add: sample_stream_def sample_node_def match_os_version_def is_digit_def Let_def)
  from dtk_image_after_both_reconcilers[OF disjI1 this, OF conjI[OF sample_node_reconciled
        conjI[OF stream conjI[OF get]]]] show ?thesis by auto
qed

theorem node_kernel_label_patched_witness:
  "\<exists>labels. sm_get labels KernelLabel = ''5.14.0-70''"
proof -
  obtain node labels w1 where
      "k_get (const_client sample_node) \<lparr>nn_Namespace = [], nn_Name = ''node''\<rparr> 0 = (Ok node, w1)"
    and "sm_get labels KernelLabel = trim_kernel (node_KernelVersion node)"
    using node_kernel_label_patched[OF sample_node_reconciled] by (elim exE conjE) (rule that)
  then show ?thesis
    by (auto simp: const_client_def sample_node_def trim_kernel_def strings_TrimSuffix_char)
qed

end
