(* ===== verification/Build_Manager.thy ===== *)
theory Build_Manager
  imports Registry Dtk_Mapping
begin

text \<open>
  The build stage on OpenShift Builds: the Build made for a Module and kernel
  (internal/build/buildconfig/maker.go) and the manager that creates, replaces and reads it
  (internal/build/buildconfig/manager.go, interface internal/build/manager.go). The hash function
  (hashstructure) is an argument.
\<close>

section \<open>Builds\<close>

record BuildVolume =
  bv_Name :: string
  bv_Secret :: SecretVolumeSource
  bv_DestinationPath :: string

record BuildOutput =
  bo_To :: "(string \<times> string) option"
  bo_PushSecret :: "LocalObjectReference option"

record BuildSource =
  bs_Dockerfile :: "string option"
  bs_Type :: string

record OcpBuild =
  ob_meta :: ObjectMeta
  ob_ServiceAccount :: string
  ob_Source :: BuildSource
  ob_StrategyType :: string
  ob_BuildArgs :: "EnvVar list"
  ob_Volumes :: "BuildVolume list"
  ob_Output :: BuildOutput
  ob_NodeSelector :: strmap
  ob_MountTrustedCA :: "bool option"
  ob_Phase :: string
  ob_LogSnippet :: string

section \<open>The maker\<close>

definition dtkBuildArg :: string where "dtkBuildArg = ''DTK_AUTO''"

definition buildHashAnnotation :: string where
  "buildHashAnnotation = ''kmm.node.kubernetes.io/last-hash''"

definition envVarsFromKMMBuildArgs :: "BuildArg list \<Rightarrow> EnvVar list" where
  "envVarsFromKMMBuildArgs args = map (\<lambda>ba. \<lparr>ev_Name = ba_Name ba, ev_Value = ba_Value ba\<rparr>) args"

definition buildVolumesFromBuildSecrets :: "LocalObjectReference list \<Rightarrow> BuildVolume list" where
  "buildVolumesFromBuildSecrets secrets =
     map (\<lambda>s. \<lparr>bv_Name = ''secret-'' @ lor_Name s,
               bv_Secret = \<lparr>svs_SecretName = lor_Name s, svs_Items = [], svs_Optional = Some False\<rparr>,
               bv_DestinationPath = ''/run/secrets/'' @ lor_Name s\<rparr>) secrets"

definition getDockerfileData ::
    "('w, ConfigMap) kclient \<Rightarrow> Build option \<Rightarrow> string \<Rightarrow> ('w, string) io" where
  "getDockerfileData cms buildConfig namespace =
     (case buildConfig of
        None \<Rightarrow> lift_io (Panic ''nil pointer dereference'')
      | Some b \<Rightarrow>
          (case b_DockerfileConfigMap b of
             None \<Rightarrow> lift_io (Panic ''nil pointer dereference'')
           | Some ref \<Rightarrow>
               bind_io (wrap_io (Errorf_v (''failed to get dockerfile ConfigMap '' @ lor_Name ref))
                 (k_get cms \<lparr>nn_Namespace = namespace, nn_Name = lor_Name ref\<rparr>)) (\<lambda>cm.
               case fmlookup (cm_Data cm) DockerfileCMKey of
                 None \<Rightarrow> fail_io (ErrorMsg (''invalid Dockerfile ConfigMap '' @ lor_Name ref
                            @ '' format, '' @ DockerfileCMKey @ '' key is missing''))
               | Some data \<Rightarrow> return_io data)))"

text \<open>\<open>dtk\<close> is the lookup in the shared driver-toolkit mapping.\<close>

definition dtk_overrides :: "(string \<Rightarrow> ('w, string) io) \<Rightarrow> string \<Rightarrow> string \<Rightarrow> ('w, BuildArg list) io" where
  "dtk_overrides dtk kernelVersion dockerfileData =
     (let overrides = [\<lparr>ba_Name = ''KERNEL_VERSION'', ba_Value = kernelVersion\<rparr>] in
      if strings_Contains dockerfileData dtkBuildArg
      then bind_io (wrap_io (Errorf_v (''could not get DTK image for kernel '' @ kernelVersion))
             (dtk kernelVersion)) (\<lambda>dtkImage.
           return_io (overrides @ [\<lparr>ba_Name = dtkBuildArg, ba_Value = dtkImage\<rparr>]))
      else return_io overrides)"

definition build_target :: "ModuleLoaderData \<Rightarrow> string" where
  "build_target mld =
     (if ShouldBeSigned mld
      then IntermediateImageName (mld_Name mld) (mld_Namespace mld) (mld_ContainerImage mld)
      else mld_ContainerImage mld)"

definition MakeBuildTemplate ::
    "('w, ConfigMap) kclient \<Rightarrow> scheme \<Rightarrow> (BuildSource \<Rightarrow> 64 word result) \<Rightarrow> (string \<Rightarrow> ('w, string) io) \<Rightarrow>
     ModuleLoaderData \<Rightarrow> bool \<Rightarrow> owner_object \<Rightarrow> ('w, OcpBuild) io" where
  "MakeBuildTemplate cms sch hash dtk mld pushImage owner =
     bind_io (wrap_io (Errorf_v ''failed to get dockerfile data from configmap'')
       (getDockerfileData cms (mld_Build mld) (mld_Namespace mld))) (\<lambda>dockerfileData.
     bind_io (dtk_overrides dtk (mld_KernelVersion mld) dockerfileData) (\<lambda>overrides.
     let kmmBuild = the (mld_Build mld);
         buildArgs = ApplyBuildArgOverrides (b_BuildArgs kmmBuild) overrides;
         buildTarget = (if pushImage
           then \<lparr>bo_To = Some (''DockerImage'', build_target mld), bo_PushSecret = mld_ImageRepoSecret mld\<rparr>
           else \<lparr>bo_To = None, bo_PushSecret = None\<rparr>);
         sourceConfig = \<lparr>bs_Dockerfile = Some dockerfileData, bs_Type = ''Dockerfile''\<rparr> in
     bind_io (lift_io (map_err (Errorf_v ''could not hash Build's Buildsource template'')
       (hash sourceConfig))) (\<lambda>sourceConfigHash.
     let meta = empty_meta\<lparr>om_GenerateName := mld_Name mld @ ''-'',
                  om_Namespace := mld_Namespace mld,
                  om_Labels := Some (GetBuildLabels mld),
                  om_Annotations := Some (fmupd buildHashAnnotation (decimal (unat sourceConfigHash)) fmempty)\<rparr> in
     bind_io (lift_io (map_err (Errorf_v ''could not set the owner reference'')
       (SetControllerReference sch owner meta))) (\<lambda>owned.
     return_io
       \<lparr>ob_meta = owned,
        ob_ServiceAccount = OCPBuilderServiceAccountName,
        ob_Source = sourceConfig,
        ob_StrategyType = ''Docker'',
        ob_BuildArgs = envVarsFromKMMBuildArgs buildArgs,
        ob_Volumes = buildVolumesFromBuildSecrets (b_Secrets kmmBuild),
        ob_Output = buildTarget,
        ob_NodeSelector = mld_Selector mld,
        ob_MountTrustedCA = Some True,
        ob_Phase = [],
        ob_LogSnippet = []\<rparr>))))"

section \<open>The manager\<close>

definition errNoMatchingBuild :: goerr where "errNoMatchingBuild = Sentinel ''no matching Build''"

definition GetBuild :: "('w, OcpBuild) kclient \<Rightarrow> ModuleLoaderData \<Rightarrow> ('w, OcpBuild) io" where
  "GetBuild builds mld =
     bind_io (wrap_io (Errorf_v ''could not list Build'')
       (k_list builds (GetBuildLabels mld) (Some (mld_Namespace mld)))) (\<lambda>items.
     lift_io (exactly_one errNoMatchingBuild
       (\<lambda>n. ErrorMsg (''expected 0 or 1 Builds, got '' @ decimal n)) items))"

definition isBuildChanged :: "OcpBuild \<Rightarrow> OcpBuild \<Rightarrow> bool result" where
  "isBuildChanged existingBuild newBuild =
     (case om_Annotations (ob_meta existingBuild) of
        None \<Rightarrow> Err (ErrorMsg (''annotations are not present in the existing Build ''
                         @ om_Name (ob_meta existingBuild)))
      | Some existingAnnotations \<Rightarrow>
          Ok (sm_get existingAnnotations buildHashAnnotation
                \<noteq> sm_get (nil_map (om_Annotations (ob_meta newBuild))) buildHashAnnotation))"

definition build_status :: "OcpBuild \<Rightarrow> string result" where
  "build_status b =
     (if ob_Phase b = ''Complete'' then Ok StatusCompleted
      else if ob_Phase b = ''New'' \<or> ob_Phase b = ''Pending'' \<or> ob_Phase b = ''Running'' then Ok StatusInProgress
      else if ob_Phase b = ''Failed'' then Err (ErrorMsg (''build failed: '' @ ob_LogSnippet b))
      else Err (ErrorMsg ''unknown status''))"

definition Build_GarbageCollect :: "string \<Rightarrow> string \<Rightarrow> owner_object \<Rightarrow> ('w, string list) io" where
  "Build_GarbageCollect modName namespace owner = return_io []"

definition Build_ShouldSync :: "('w, 'k, 'a) registry_env \<Rightarrow> ModuleLoaderData \<Rightarrow> ('w, bool) io" where
  "Build_ShouldSync re mld =
     (if \<not> ShouldBeBuilt mld then return_io False
      else let targetImage = (if ShouldBeSigned mld
                 then IntermediateImageName (mld_Name mld) (mld_Namespace mld) (mld_ContainerImage mld)
                 else mld_ContainerImage mld) in
           bind_io (wrap_io (Errorf_w (''failed to check existence of image '' @ targetImage))
             (module_ImageExists re mld targetImage)) (\<lambda>exists.
           return_io (\<not> exists)))"

definition Build_Sync ::
    "('w, ConfigMap) kclient \<Rightarrow> ('w, OcpBuild) kclient \<Rightarrow> scheme \<Rightarrow> (BuildSource \<Rightarrow> 64 word result) \<Rightarrow>
     (string \<Rightarrow> ('w, string) io) \<Rightarrow> ModuleLoaderData \<Rightarrow> bool \<Rightarrow> owner_object \<Rightarrow> ('w, string) io" where
  "Build_Sync cms builds sch hash dtk mld pushImage owner =
     bind_io (wrap_io (Errorf_v ''could not make Build template'')
       (MakeBuildTemplate cms sch hash dtk mld pushImage owner)) (\<lambda>buildTemplate.
     bind_io (attempt_io (GetBuild builds mld)) (\<lambda>r. case r of
       Inl e \<Rightarrow>
         if \<not> errors_Is e errNoMatchingBuild then fail_io (Errorf_v ''error getting the build'' e)
         else bind_io (wrap_io (Errorf_v ''could not create Build'') (k_create builds buildTemplate)) (\<lambda>_.
              return_io StatusCreated)
     | Inr build \<Rightarrow>
         bind_io (lift_io (map_err (Errorf_v ''could not determine if Build has changed'')
           (isBuildChanged build buildTemplate))) (\<lambda>changed.
         if changed
         then bind_io (attempt_io (k_delete builds build)) (\<lambda>_. return_io StatusInProgress)
         else lift_io (build_status build))))"

section \<open>The manager as a stage\<close>

lemma build_status_never_created: "build_status b \<noteq> Ok StatusCreated"
  by (simp add: build_status_def)

lemma attempt_delete: "delete x w = (d, w') \<Longrightarrow> \<not> is_panic d \<Longrightarrow>
    bind_io (attempt_io (delete x)) (\<lambda>_. return_io s) w = (Ok s, w')"
  by (cases d) (simp_all add: bind_io_def attempt_io_def)

lemma attempt_delete_OkD: "bind_io (attempt_io (delete x)) (\<lambda>_. return_io s) w = (Ok s', w') \<Longrightarrow>
    \<exists>d. delete x w = (d, w') \<and> \<not> is_panic d \<and> s' = s"
  by (auto simp: io_elims)

lemma Build_Sync_OkD:
  assumes "Build_Sync cms builds sch hash dtk mld push owner w = (Ok st, w')"
  shows "\<exists>t w1. MakeBuildTemplate cms sch hash dtk mld push owner w = (Ok t, w1) \<and>
      ((\<exists>e w2 c. GetBuild builds mld w1 = (Err e, w2) \<and> errors_Is e errNoMatchingBuild \<and>
          k_create builds t w2 = (Ok c, w') \<and> st = StatusCreated) \<or>
       (\<exists>cur w2 d. GetBuild builds mld w1 = (Ok cur, w2) \<and> isBuildChanged cur t = Ok True \<and>
          k_delete builds cur w2 = (d, w') \<and> \<not> is_panic d \<and> st = StatusInProgress) \<or>
       (\<exists>cur. GetBuild builds mld w1 = (Ok cur, w') \<and> isBuildChanged cur t = Ok False \<and>
          build_status cur = Ok st))"
proof -
  from assms obtain t w1 where t: "MakeBuildTemplate cms sch hash dtk mld push owner w = (Ok t, w1)"
    by (auto simp: Build_Sync_def io_elims)
  with assms show ?thesis
    by (cases "GetBuild builds mld w1")
       (auto simp: Build_Sync_def io_elims dest!: attempt_delete_OkD split: if_split_asm)
qed

interpretation build_sync: hashed_object_sync
    "MakeBuildTemplate cms sch hash dtk mld push owner" "GetBuild builds mld" "k_create builds"
    "k_delete builds" isBuildChanged build_status errNoMatchingBuild
    "Build_Sync cms builds sch hash dtk mld push owner"
  for cms builds sch hash dtk mld push owner
proof unfold_locales
  show "Build_Sync cms builds sch hash dtk mld push owner w = (Ok StatusInProgress, w3)"
    if "MakeBuildTemplate cms sch hash dtk mld push owner w = (Ok t, w1)" "GetBuild builds mld w1 = (Ok cur, w2)"
      "isBuildChanged cur t = Ok True" "k_delete builds cur w2 = (d, w3)" "\<not> is_panic d" for w t w1 cur w2 d w3
    using that by (cases d) (simp_all add: Build_Sync_def)
qed (use Build_Sync_OkD in \<open>auto simp: Build_Sync_def build_status_never_created\<close>)

interpretation build_stage: image_stage ShouldBeBuilt build_target "module_ImageExists re" "Build_ShouldSync re"
  for re
  by unfold_locales (auto simp: Build_ShouldSync_def build_target_def Let_def io_elims split: if_splits)

section \<open>Lemmas\<close>

lemma getDockerfileData_OkE:
  assumes "getDockerfileData cms bc ns w = (Ok data, w')"
  obtains kb ref cm where "bc = Some kb" and "b_DockerfileConfigMap kb = Some ref"
    and "k_get cms \<lparr>nn_Namespace = ns, nn_Name = lor_Name ref\<rparr> w = (Ok cm, w')"
    and "fmlookup (cm_Data cm) DockerfileCMKey = Some data"
proof -
  from assms obtain kb ref where kb: "bc = Some kb" "b_DockerfileConfigMap kb = Some ref"
    by (auto simp: getDockerfileData_def io_elims split: option.split_asm)
  with assms obtain cm w1 where get: "k_get cms \<lparr>nn_Namespace = ns, nn_Name = lor_Name ref\<rparr> w = (Ok cm, w1)"
    by (auto simp: getDockerfileData_def io_elims)
  with assms kb show thesis
    by (cases "fmlookup (cm_Data cm) DockerfileCMKey") (auto simp: getDockerfileData_def intro: that)
qed

lemma MakeBuildTemplate_OkE:
  assumes "MakeBuildTemplate cms sch hash dtk mld push owner w = (Ok b, w')"
  obtains dockerfile overrides h w1 where
    "getDockerfileData cms (mld_Build mld) (mld_Namespace mld) w = (Ok dockerfile, w1)"
    "dtk_overrides dtk (mld_KernelVersion mld) dockerfile w1 = (Ok overrides, w')"
    "ob_BuildArgs b = envVarsFromKMMBuildArgs
       (ApplyBuildArgOverrides (b_BuildArgs (the (mld_Build mld))) overrides)"
    "ob_Source b = \<lparr>bs_Dockerfile = Some dockerfile, bs_Type = ''Dockerfile''\<rparr>"
    "hash (ob_Source b) = Ok h"
    "om_Annotations (ob_meta b) = Some (fmupd buildHashAnnotation (decimal (unat h)) fmempty)"
    "om_Labels (ob_meta b) = Some (GetBuildLabels mld)"
    "IsControlledBy (ob_meta b) (oo_meta owner)"
    "ob_Output b = (if push
           then \<lparr>bo_To = Some (''DockerImage'', build_target mld), bo_PushSecret = mld_ImageRepoSecret mld\<rparr>
           else \<lparr>bo_To = None, bo_PushSecret = None\<rparr>)"
proof -
  from assms obtain df os h owned w1 where
      df: "getDockerfileData cms (mld_Build mld) (mld_Namespace mld) w = (Ok df, w1)"
    and os: "dtk_overrides dtk (mld_KernelVersion mld) df w1 = (Ok os, w')"
    and h: "hash \<lparr>bs_Dockerfile = Some df, bs_Type = ''Dockerfile''\<rparr> = Ok h"
    and owned: "SetControllerReference sch owner
      (empty_meta\<lparr>om_GenerateName := mld_Name mld @ ''-'', om_Namespace := mld_Namespace mld,
         om_Labels := Some (GetBuildLabels mld),
         om_Annotations := Some (fmupd buildHashAnnotation (decimal (unat h)) fmempty)\<rparr>) = Ok owned"
    and b: "ob_meta b = owned" "ob_Source b = \<lparr>bs_Dockerfile = Some df, bs_Type = ''Dockerfile''\<rparr>"
      "ob_BuildArgs b = envVarsFromKMMBuildArgs (ApplyBuildArgOverrides (b_BuildArgs (the (mld_Build mld))) os)"
      "ob_Output b = (if push
           then \<lparr>bo_To = Some (''DockerImage'', build_target mld), bo_PushSecret = mld_ImageRepoSecret mld\<rparr>
           else \<lparr>bo_To = None, bo_PushSecret = None\<rparr>)"
    by (auto simp: MakeBuildTemplate_def Let_def io_elims)
  show thesis
    by (rule that[OF df os]) (use b h owned in \<open>simp_all add: SetControllerReference_keeps[OF owned]
        SetControllerReference_controls[OF owned]\<close>)
qed

lemma AppendToTag_neq: "AppendToTag name tag \<noteq> name"
  by (simp add: AppendToTag_def Let_def)

lemma build_target_signed: "ShouldBeSigned mld \<Longrightarrow> build_target mld \<noteq> mld_ContainerImage mld"
  by (simp add: build_target_def IntermediateImageName_def AppendToTag_neq)

text \<open>Which build arguments the template fixes, whatever the Module says.\<close>

lemma forced_build_arg:
  assumes "find (\<lambda>ov. ba_Name ov = n) (rev os) = Some \<lparr>ba_Name = n, ba_Value = v\<rparr>"
  shows "(\<exists>ev \<in> set (envVarsFromKMMBuildArgs (ApplyBuildArgOverrides args os)). ev_Name ev = n) \<and>
    (\<forall>ev \<in> set (envVarsFromKMMBuildArgs (ApplyBuildArgOverrides args os)). ev_Name ev = n \<longrightarrow> ev_Value ev = v)"
proof -
  have n: "n \<in> ba_Name ` set os" using find_SomeD[OF assms] by force
  then have "n \<in> ba_Name ` set (ApplyBuildArgOverrides args os)"
    by (simp add: names_ApplyBuildArgOverrides)
  moreover have "ba_Value a = v" if "a \<in> set (ApplyBuildArgOverrides args os)" "ba_Name a = n" for a
    using Apply_overrides_values[OF that(1)] that(2) n assms by (cases a) auto
  ultimately show ?thesis by (auto simp: envVarsFromKMMBuildArgs_def)
qed

lemma dtk_overrides_OkE:
  assumes "dtk_overrides dtk k d w = (Ok os, w')"
  shows "find (\<lambda>ov. ba_Name ov = ''KERNEL_VERSION'') (rev os) = Some \<lparr>ba_Name = ''KERNEL_VERSION'', ba_Value = k\<rparr>"
    and "strings_Contains d dtkBuildArg \<Longrightarrow> \<exists>img. dtk k w = (Ok img, w') \<and>
      find (\<lambda>ov. ba_Name ov = dtkBuildArg) (rev os) = Some \<lparr>ba_Name = dtkBuildArg, ba_Value = img\<rparr>"
  using assms by (auto simp: dtk_overrides_def dtkBuildArg_def Let_def io_elims split: if_splits)

lemma GetBuild_OkE: "GetBuild builds mld w = (Ok b, w') \<longleftrightarrow>
    k_list builds (GetBuildLabels mld) (Some (mld_Namespace mld)) w = (Ok [b], w')"
  by (auto simp: GetBuild_def io_elims)

lemma Build_Sync_never_failed: "Build_Sync cms builds sch hash dtk mld push owner w \<noteq> (Ok StatusFailed, w')"
  using Build_Sync_OkD[of cms builds sch hash dtk mld push owner w StatusFailed w']
  by (auto simp: build_status_def split: if_splits)

section \<open>Properties\<close>

text \<open>
  C13. A Build made for a Module and kernel builds the Dockerfile of the configured ConfigMap with
  KERNEL_VERSION set to that kernel whatever the Module's own arguments say, and with DTK_AUTO set
  to the driver toolkit image of the kernel when the Dockerfile mentions it; the Build is controlled
  by its owner and labelled with Module and kernel, and a Module that is also signed is built into
  an intermediate image, never into the image its nodes run.
\<close>

theorem build_template_correct:
  assumes "MakeBuildTemplate cms sch hash dtk mld push owner w = (Ok b, w')"
  shows "\<exists>kb ref cm dockerfile w1.
    mld_Build mld = Some kb \<and> b_DockerfileConfigMap kb = Some ref \<and>
    k_get cms \<lparr>nn_Namespace = mld_Namespace mld, nn_Name = lor_Name ref\<rparr> w = (Ok cm, w1) \<and>
    fmlookup (cm_Data cm) DockerfileCMKey = Some dockerfile \<and> bs_Dockerfile (ob_Source b) = Some dockerfile \<and>
    (\<exists>ev \<in> set (ob_BuildArgs b). ev_Name ev = ''KERNEL_VERSION'') \<and>
    (\<forall>ev \<in> set (ob_BuildArgs b). ev_Name ev = ''KERNEL_VERSION'' \<longrightarrow> ev_Value ev = mld_KernelVersion mld) \<and>
    (strings_Contains dockerfile dtkBuildArg \<longrightarrow> (\<exists>img. dtk (mld_KernelVersion mld) w1 = (Ok img, w') \<and>
       (\<exists>ev \<in> set (ob_BuildArgs b). ev_Name ev = dtkBuildArg) \<and>
       (\<forall>ev \<in> set (ob_BuildArgs b). ev_Name ev = dtkBuildArg \<longrightarrow> ev_Value ev = img))) \<and>
    IsControlledBy (ob_meta b) (oo_meta owner) \<and> om_Labels (ob_meta b) = Some (GetBuildLabels mld) \<and>
    (bo_To (ob_Output b) = (if push then Some (''DockerImage'', build_target mld) else None)) \<and>
    (ShouldBeSigned mld \<longrightarrow> build_target mld \<noteq> mld_ContainerImage mld)"
proof -
  from assms obtain dockerfile os w1 where
      df: "getDockerfileData cms (mld_Build mld) (mld_Namespace mld) w = (Ok dockerfile, w1)"
    and os: "dtk_overrides dtk (mld_KernelVersion mld) dockerfile w1 = (Ok os, w')"
    and args: "ob_BuildArgs b = envVarsFromKMMBuildArgs
       (ApplyBuildArgOverrides (b_BuildArgs (the (mld_Build mld))) os)"
    and src: "ob_Source b = \<lparr>bs_Dockerfile = Some dockerfile, bs_Type = ''Dockerfile''\<rparr>"
    and meta: "om_Labels (ob_meta b) = Some (GetBuildLabels mld)" "IsControlledBy (ob_meta b) (oo_meta owner)"
    and out: "ob_Output b = (if push
           then \<lparr>bo_To = Some (''DockerImage'', build_target mld), bo_PushSecret = mld_ImageRepoSecret mld\<rparr>
           else \<lparr>bo_To = None, bo_PushSecret = None\<rparr>)"
    by (rule MakeBuildTemplate_OkE)
  from df obtain kb ref cm where "mld_Build mld = Some kb" "b_DockerfileConfigMap kb = Some ref"
    "k_get cms \<lparr>nn_Namespace = mld_Namespace mld, nn_Name = lor_Name ref\<rparr> w = (Ok cm, w1)"
    "fmlookup (cm_Data cm) DockerfileCMKey = Some dockerfile"
    by (rule getDockerfileData_OkE)
  moreover note forced_build_arg[OF dtk_overrides_OkE(1)[OF os], of "b_BuildArgs (the (mld_Build mld))",
      folded args]
  moreover have "\<exists>img. dtk (mld_KernelVersion mld) w1 = (Ok img, w') \<and>
       (\<exists>ev \<in> set (ob_BuildArgs b). ev_Name ev = dtkBuildArg) \<and>
       (\<forall>ev \<in> set (ob_BuildArgs b). ev_Name ev = dtkBuildArg \<longrightarrow> ev_Value ev = img)"
    if "strings_Contains dockerfile dtkBuildArg"
    using dtk_overrides_OkE(2)[OF os that] forced_build_arg unfolding args by blast
  ultimately show ?thesis
    using meta src out build_target_signed by auto
qed

text \<open>A template made for the sample Module from a Dockerfile that asks for the driver toolkit.\<close>

definition sample_dockerfile :: ConfigMap where
  "sample_dockerfile = \<lparr>cm_meta = sample_meta ''dockerfile-cm'',
     cm_Data = fmupd DockerfileCMKey ''FROM DTK_AUTO'' fmempty\<rparr>"

abbreviation sample_build_template :: "(nat, OcpBuild) io" where
  "sample_build_template \<equiv> MakeBuildTemplate (const_client sample_dockerfile)
     (\<lambda>_. Ok \<lparr>gvk_APIVersion = ''v1'', gvk_Kind = ''Module''\<rparr>) (\<lambda>_. Ok 7) (\<lambda>_. return_io ''dtk-img'')
     (sample_mld (Some sample_build) (Some sample_sign)) True (module_owner (sample_module []))"

lemma sample_build_template_Ok: "\<exists>b. sample_build_template 0 = (Ok b, 0)"
  by (simp add: MakeBuildTemplate_def getDockerfileData_def dtk_overrides_def const_client_def
      sample_dockerfile_def sample_defs module_owner_def SetControllerReference_def validateOwner_def
      GetControllerOf_def empty_meta_def dtkBuildArg_def bind_io_def wrap_io_def Let_def)

theorem build_template_correct_witness:
  "\<exists>b. sample_build_template 0 = (Ok b, 0) \<and>
     (\<forall>ev \<in> set (ob_BuildArgs b). ev_Name ev = ''KERNEL_VERSION'' \<longrightarrow> ev_Value ev = ''5.14.0-70'')"
proof -
  obtain b where b: "sample_build_template 0 = (Ok b, 0)"
    using sample_build_template_Ok by blast
  have "\<forall>ev \<in> set (ob_BuildArgs b). ev_Name ev = ''KERNEL_VERSION'' \<longrightarrow>
      ev_Value ev = mld_KernelVersion (sample_mld (Some sample_build) (Some sample_sign))"
    using build_template_correct[OF b] by (elim exE conjE)
  with b show ?thesis by (auto simp: sample_mld_def)
qed

text \<open>
  C14. The build stage is reported completed exactly when the namespace has one Build with the
  Module's and kernel's labels, its recorded hash is the hash of the Build the Module now asks for,
  and its phase is Complete.
\<close>

theorem build_completed_iff:
  "Build_Sync cms builds sch hash dtk mld push owner w = (Ok StatusCompleted, w') \<longleftrightarrow>
     (\<exists>t w1 cur ann. MakeBuildTemplate cms sch hash dtk mld push owner w = (Ok t, w1) \<and>
        k_list builds (GetBuildLabels mld) (Some (mld_Namespace mld)) w1 = (Ok [cur], w') \<and>
        om_Annotations (ob_meta cur) = Some ann \<and>
        sm_get ann buildHashAnnotation = sm_get (nil_map (om_Annotations (ob_meta t))) buildHashAnnotation \<and>
        ob_Phase cur = ''Complete'')"
proof -
  have "isBuildChanged cur t = Ok False \<and> build_status cur = Ok StatusCompleted \<longleftrightarrow>
     (\<exists>ann. om_Annotations (ob_meta cur) = Some ann \<and>
        sm_get ann buildHashAnnotation = sm_get (nil_map (om_Annotations (ob_meta t))) buildHashAnnotation \<and>
        ob_Phase cur = ''Complete'')" for cur t
    by (auto simp: isBuildChanged_def build_status_def split: option.splits if_splits)
  then show ?thesis
    unfolding build_sync.sync_completed_iff GetBuild_OkE by metis
qed

end
