(* ===== verification/Ca_Helper.thy ===== *)
theory Ca_Helper
  imports Api_Types
begin

text \<open>
  The ConfigMaps with the cluster's and the service network's certificate authorities, one of each
  per namespace, owned by every Module that uses them (internal/ca/helper.go).
\<close>

definition clusterCAType :: string where "clusterCAType = ''cluster''"
definition serviceCAType :: string where "serviceCAType = ''service''"
definition typeKey :: string where "typeKey = ''kmm.node.kubernetes.io/ca.type''"

record CaConfigMap =
  ca_KeyName :: string
  ca_Name :: string

definition errConfigMapNotFound :: goerr where
  "errConfigMapNotFound = Sentinel ''ConfigMap not found''"

definition getConfigMap :: "('w, ConfigMap) kclient \<Rightarrow> string \<Rightarrow> string \<Rightarrow> ('w, ConfigMap) io" where
  "getConfigMap cms namespace caType =
     bind_io (wrap_io (Errorf_v ''could not list ConfigMaps'')
       (k_list cms (fmupd typeKey caType fmempty) (Some namespace))) (\<lambda>items.
     lift_io (exactly_one errConfigMapNotFound
       (\<lambda>l. ErrorMsg (''expected 1 ConfigMap, got '' @ decimal l)) items))"

definition GetClusterCA :: "('w, ConfigMap) kclient \<Rightarrow> string \<Rightarrow> ('w, CaConfigMap) io" where
  "GetClusterCA cms namespace =
     bind_io (wrap_io (Errorf_v ''could not get CA ConfigMap'') (getConfigMap cms namespace clusterCAType)) (\<lambda>cm.
     return_io \<lparr>ca_KeyName = ''ca-bundle.crt'', ca_Name = om_Name (cm_meta cm)\<rparr>)"

definition GetServiceCA :: "('w, ConfigMap) kclient \<Rightarrow> string \<Rightarrow> ('w, CaConfigMap) io" where
  "GetServiceCA cms namespace =
     bind_io (wrap_io (Errorf_v ''could not get CA ConfigMap'') (getConfigMap cms namespace serviceCAType)) (\<lambda>cm.
     return_io \<lparr>ca_KeyName = ''service-ca.crt'', ca_Name = om_Name (cm_meta cm)\<rparr>)"

definition new_cluster_cm :: "string \<Rightarrow> ConfigMap" where
  "new_cluster_cm namespace =
     \<lparr>cm_meta = empty_meta\<lparr>om_GenerateName := ''kmm-cluster-ca-'', om_Namespace := namespace,
        om_Labels := Some (fmupd ''config.openshift.io/inject-trusted-cabundle'' ''true''
                            (fmupd typeKey clusterCAType fmempty))\<rparr>,
      cm_Data = fmempty\<rparr>"

definition new_service_cm :: "string \<Rightarrow> ConfigMap" where
  "new_service_cm namespace =
     \<lparr>cm_meta = empty_meta\<lparr>om_GenerateName := ''kmm-service-ca-'', om_Namespace := namespace,
        om_Annotations := Some (fmupd ''service.beta.openshift.io/inject-cabundle'' ''true'' fmempty),
        om_Labels := Some (fmupd typeKey serviceCAType fmempty)\<rparr>,
      cm_Data = fmempty\<rparr>"

definition getOrCreateClusterCAConfigMap :: "('w, ConfigMap) kclient \<Rightarrow> string \<Rightarrow> ('w, ConfigMap) io" where
  "getOrCreateClusterCAConfigMap cms namespace =
     bind_io (attempt_io (getConfigMap cms namespace clusterCAType)) (\<lambda>r. case r of
       Inr cm \<Rightarrow> return_io cm
     | Inl e \<Rightarrow>
         if \<not> errors_Is e errConfigMapNotFound
         then fail_io (Errorf_v ''could not get the cluster CA ConfigMap'' e)
         else wrap_io (Errorf_v ''could not create the cluster CA ConfigMap'')
                (k_create cms (new_cluster_cm namespace)))"

definition getOrCreateServiceCAConfigMap :: "('w, ConfigMap) kclient \<Rightarrow> string \<Rightarrow> ('w, ConfigMap) io" where
  "getOrCreateServiceCAConfigMap cms namespace =
     bind_io (attempt_io (getConfigMap cms namespace serviceCAType)) (\<lambda>r. case r of
       Inr cm \<Rightarrow> return_io cm
     | Inl e \<Rightarrow>
         if \<not> errors_Is e errConfigMapNotFound
         then fail_io (Errorf_v ''could not get the cluster CA ConfigMap'' e)
         else wrap_io (Errorf_v ''could not create the cluster CA ConfigMap'')
                (k_create cms (new_service_cm namespace)))"

definition syncConfigMapOwners ::
    "('w, ConfigMap) kclient \<Rightarrow> scheme \<Rightarrow> ConfigMap \<Rightarrow> owner_object \<Rightarrow> ('w, unit) io" where
  "syncConfigMapOwners cms sch cm owner =
     bind_io (lift_io (map_err
       (Errorf_v (''could not set '' @ om_Namespace (oo_meta owner) @ ''/'' @ om_Name (oo_meta owner)
          @ '' as the owner of the ConfigMap''))
       (SetOwnerReference sch owner (cm_meta cm)))) (\<lambda>m.
     bind_io (wrap_io (Errorf_v ''error patching ConfigMap'')
       (k_patch cms (cm\<lparr>cm_meta := m\<rparr>) cm)) (\<lambda>_.
     return_io ()))"

definition ca_Sync ::
    "('w, ConfigMap) kclient \<Rightarrow> scheme \<Rightarrow> string \<Rightarrow> owner_object \<Rightarrow> ('w, unit) io" where
  "ca_Sync cms sch namespace owner =
     bind_io (wrap_io (Errorf_v ''could not get the cluster CA ConfigMap'')
       (getOrCreateClusterCAConfigMap cms namespace)) (\<lambda>clusterCM.
     bind_io (wrap_io (Errorf_v ''could not sync the cluster CA ConfigMap owners'')
       (syncConfigMapOwners cms sch clusterCM owner)) (\<lambda>_.
     bind_io (wrap_io (Errorf_v ''could not get the service CA ConfigMap'')
       (getOrCreateServiceCAConfigMap cms namespace)) (\<lambda>serviceCM.
     bind_io (wrap_io (Errorf_v ''could not sync the service CA ConfigMap owners'')
       (syncConfigMapOwners cms sch serviceCM owner)) (\<lambda>_.
     return_io ()))))"

section \<open>Lemmas\<close>

lemma getConfigMap_OkE:
  assumes "getConfigMap cms ns t w = (Ok cm, w')"
  shows "k_list cms (fmupd typeKey t fmempty) (Some ns) w = (Ok [cm], w')"
  using assms by (auto simp: getConfigMap_def io_elims)

lemma getConfigMap_not_found:
  assumes "getConfigMap cms ns t w = (Err e, w')" and "errors_Is e errConfigMapNotFound"
  shows "k_list cms (fmupd typeKey t fmempty) (Some ns) w = (Ok [], w')"
  using assms
  by (auto simp: getConfigMap_def bind_io_def wrap_io_def errConfigMapNotFound_def
      exactly_one_Err_iff split: result.split_asm prod.split_asm)

text \<open>A ConfigMap obtained for a type is the one the namespace has or, when it has none, a new one.\<close>

definition obtained_cm ::
    "('w, ConfigMap) kclient \<Rightarrow> string \<Rightarrow> string \<Rightarrow> ConfigMap \<Rightarrow> 'w \<Rightarrow> ConfigMap \<Rightarrow> 'w \<Rightarrow> bool" where
  "obtained_cm cms ns t fresh w cm w' \<longleftrightarrow>
     k_list cms (fmupd typeKey t fmempty) (Some ns) w = (Ok [cm], w') \<or>
     (\<exists>w1. k_list cms (fmupd typeKey t fmempty) (Some ns) w = (Ok [], w1) \<and> k_create cms fresh w1 = (Ok cm, w'))"

lemma getOrCreate_obtained:
  "getOrCreateClusterCAConfigMap cms ns w = (Ok cm, w') \<Longrightarrow>
     obtained_cm cms ns clusterCAType (new_cluster_cm ns) w cm w'"
  "getOrCreateServiceCAConfigMap cms ns w = (Ok cm, w') \<Longrightarrow>
     obtained_cm cms ns serviceCAType (new_service_cm ns) w cm w'"
  by (auto simp: getOrCreateClusterCAConfigMap_def getOrCreateServiceCAConfigMap_def obtained_cm_def
      io_elims dest: getConfigMap_OkE getConfigMap_not_found split: if_splits)

text \<open>Patching the owners adds the owner and keeps every owner that is another object.\<close>

definition owners_patched ::
    "('w, ConfigMap) kclient \<Rightarrow> owner_object \<Rightarrow> ConfigMap \<Rightarrow> 'w \<Rightarrow> 'w \<Rightarrow> bool" where
  "owners_patched cms owner cm w w' \<longleftrightarrow>
     (\<exists>ref refs stored.
        k_patch cms (cm\<lparr>cm_meta := (cm_meta cm)\<lparr>om_OwnerReferences := refs\<rparr>\<rparr>) cm w = (Ok stored, w') \<and>
        ref \<in> set refs \<and> or_Name ref = om_Name (oo_meta owner) \<and> or_UID ref = om_UID (oo_meta owner) \<and>
        (\<forall>r \<in> set (om_OwnerReferences (cm_meta cm)). \<not> referSameObject r ref \<longrightarrow> r \<in> set refs))"

lemma upsert_ref_keeps: "r \<in> set rs \<Longrightarrow> \<not> referSameObject r ref \<Longrightarrow> r \<in> set (upsert_ref ref rs)"
  by (induction rs) auto

lemma syncConfigMapOwners_Ok:
  assumes "syncConfigMapOwners cms sch cm owner w = (Ok (), w')"
  shows "owners_patched cms owner cm w w'"
proof -
  from assms obtain m stored where own: "SetOwnerReference sch owner (cm_meta cm) = Ok m"
    and patch: "k_patch cms (cm\<lparr>cm_meta := m\<rparr>) cm w = (Ok stored, w')"
    by (auto simp: syncConfigMapOwners_def io_elims)
  from own obtain ref where m: "m = upsertOwnerRef ref (cm_meta cm)"
    and "or_Name ref = om_Name (oo_meta owner)" "or_UID ref = om_UID (oo_meta owner)"
    by (auto simp: SetOwnerReference_def)
  with patch show ?thesis
    unfolding owners_patched_def
    by (intro exI[of _ ref] exI[of _ "upsert_ref ref (om_OwnerReferences (cm_meta cm))"] exI[of _ stored])
       (auto simp: upsertOwnerRef_def in_upsert_ref intro: upsert_ref_keeps)
qed

section \<open>Properties\<close>

text \<open>
  After a successful synchronisation both certificate ConfigMaps of the namespace are there, the
  one each that existed or a new one where there was none, and both have been patched to be owned by
  the Module, with the other owners they had.
\<close>

theorem ca_sync_owns_both:
  assumes "ca_Sync cms sch ns owner w = (Ok (), w')"
  shows "\<exists>cluster w1 w2 service w3.
    obtained_cm cms ns clusterCAType (new_cluster_cm ns) w cluster w1 \<and>
    owners_patched cms owner cluster w1 w2 \<and>
    obtained_cm cms ns serviceCAType (new_service_cm ns) w2 service w3 \<and>
    owners_patched cms owner service w3 w'"
proof -
  from assms obtain cluster w1 w2 service w3 where
      "getOrCreateClusterCAConfigMap cms ns w = (Ok cluster, w1)"
    and "syncConfigMapOwners cms sch cluster owner w1 = (Ok (), w2)"
    and "getOrCreateServiceCAConfigMap cms ns w2 = (Ok service, w3)"
    and "syncConfigMapOwners cms sch service owner w3 = (Ok (), w')"
    by (auto simp: ca_Sync_def io_elims)
  then show ?thesis by (blast dest: getOrCreate_obtained syncConfigMapOwners_Ok)
qed

theorem ca_sync_owns_both_witness:
  "\<exists>cluster w1. obtained_cm (const_client \<lparr>cm_meta = sample_meta ''ca'', cm_Data = fmempty\<rparr>) ''ns''
     clusterCAType (new_cluster_cm ''ns'') 0 cluster w1"
proof -
  have "ca_Sync (const_client \<lparr>cm_meta = sample_meta ''ca'', cm_Data = fmempty\<rparr>)
      (\<lambda>_. Ok \<lparr>gvk_APIVersion = ''v1'', gvk_Kind = ''Module''\<rparr>) ''ns'' (module_owner (sample_module [])) 0
    = (Ok (), 2)"
    by (simp add: ca_Sync_def getOrCreateClusterCAConfigMap_def getOrCreateServiceCAConfigMap_def
        getConfigMap_def syncConfigMapOwners_def const_client_def SetOwnerReference_def validateOwner_def
        module_owner_def sample_module_def sample_meta_def empty_meta_def bind_io_def wrap_io_def attempt_io_def)
  from ca_sync_owns_both[OF this] show ?thesis by blast
qed

end
