(* ===== verification/Sign_Manager.thy ===== *)
theory Sign_Manager
  imports Registry Ca_Helper
begin

text \<open>
  The sign stage: the job that signs the modules of an image (internal/sign/job/signer.go) and the
  manager that creates, replaces, reads and collects it (internal/sign/job/manager.go, interface
  internal/sign/manager.go). The hash function (hashstructure) is an argument.
\<close>

section \<open>The signer\<close>

record hashData =
  hd_PrivateKeyData :: string
  hd_PublicKeyData :: string
  hd_PodTemplate :: PodTemplateSpec

record 'w signer_env =
  se_configmaps :: "('w, ConfigMap) kclient"
  se_serviceaccounts :: "('w, ServiceAccount) kclient"
  se_secrets :: "('w, Secret) kclient"
  se_scheme :: scheme
  se_hash :: "hashData \<Rightarrow> 64 word result"
  se_RELATED_IMAGES_SIGN :: string

definition getHashValue ::
    "(hashData \<Rightarrow> 64 word result) \<Rightarrow> PodTemplateSpec \<Rightarrow> string \<Rightarrow> string \<Rightarrow> 64 word result" where
  "getHashValue hash podTemplate publicKeyData privateKeyData =
     map_err (Errorf_v ''could not hash job's spec template and dockefile'')
       (hash \<lparr>hd_PrivateKeyData = privateKeyData, hd_PublicKeyData = publicKeyData,
              hd_PodTemplate = podTemplate\<rparr>)"

definition getSecretData ::
    "('w, Secret) kclient \<Rightarrow> string \<Rightarrow> string \<Rightarrow> string \<Rightarrow> ('w, string) io" where
  "getSecretData secrets secretName secretDataKey namespace =
     bind_io (wrap_io (Errorf_v (''failed to get Secret '' @ namespace @ ''/'' @ secretName))
       (k_get secrets \<lparr>nn_Namespace = namespace, nn_Name = secretName\<rparr>)) (\<lambda>secret.
     lift_io (case fmlookup (secret_Data secret) secretDataKey of
       None \<Rightarrow> Err (ErrorMsg (''invalid Secret '' @ namespace @ ''/'' @ secretName @ '' format, ''
                       @ secretDataKey @ '' key is missing''))
     | Some data \<Rightarrow> Ok data))"

definition getSAImageRepoSecret ::
    "('w, ServiceAccount) kclient \<Rightarrow> ModuleLoaderData \<Rightarrow> string \<Rightarrow> ('w, string list) io" where
  "getSAImageRepoSecret sas mld accountName =
     bind_io (k_get sas \<lparr>nn_Namespace = mld_Namespace mld, nn_Name = accountName\<rparr>) (\<lambda>sa.
     return_io (sa_Secrets sa))"

definition getHashAnnotationValue ::
    "'w signer_env \<Rightarrow> string \<Rightarrow> string \<Rightarrow> string \<Rightarrow> PodTemplateSpec \<Rightarrow> ('w, 64 word) io" where
  "getHashAnnotationValue se privateSecret publicSecret namespace podTemplate =
     bind_io (wrap_io (Errorf_v (''failed to get private secret '' @ privateSecret @ '' for signing''))
       (getSecretData (se_secrets se) privateSecret PrivateSignDataKey namespace)) (\<lambda>privateKeyData.
     bind_io (wrap_io (Errorf_v (''failed to get public secret '' @ publicSecret @ '' for signing''))
       (getSecretData (se_secrets se) publicSecret PublicSignDataKey namespace)) (\<lambda>publicKeyData.
     lift_io (getHashValue (se_hash se) podTemplate publicKeyData privateKeyData)))"

text \<open>The arguments of the signing container, up to the secret directory. The code dereferences the
  registry TLS options when it pushes, and the sign configuration always.\<close>

definition sign_push_args :: "ModuleLoaderData \<Rightarrow> bool \<Rightarrow> string list result" where
  "sign_push_args mld pushImage =
     (if pushImage
      then (case mld_RegistryTLS mld of
              None \<Rightarrow> Panic ''nil pointer dereference''
            | Some t \<Rightarrow> Ok ([''-signedimage'', mld_ContainerImage mld]
                          @ (if tls_Insecure t then [''--insecure''] else [])
                          @ (if tls_InsecureSkipTLSVerify t then [''--skip-tls-verify''] else [])))
      else Ok [''-no-push''])"

definition sign_file_args :: "Sign \<Rightarrow> string list" where
  "sign_file_args signConfig =
     [''-key'', ''/signingkey/key.priv'', ''-cert'', ''/signingcert/public.der'']
     @ (if s_FilesToSign signConfig \<noteq> []
        then [''-filestosign'', strings_Join (s_FilesToSign signConfig) '':''] else [])
     @ (if tls_Insecure (s_UnsignedImageRegistryTLS signConfig) then [''--insecure-pull''] else [])
     @ (if tls_InsecureSkipTLSVerify (s_UnsignedImageRegistryTLS signConfig)
        then [''--skip-tls-verify-pull''] else [])"

definition sign_args :: "ModuleLoaderData \<Rightarrow> string \<Rightarrow> bool \<Rightarrow> string list result" where
  "sign_args mld imageToSign pushImage =
     bind_res (sign_push_args mld pushImage) (\<lambda>push_args.
     case mld_Sign mld of
       None \<Rightarrow> Panic ''nil pointer dereference''
     | Some signConfig \<Rightarrow>
         bind_res
           (if imageToSign \<noteq> [] then Ok imageToSign
            else if s_UnsignedImage signConfig \<noteq> [] then Ok (s_UnsignedImage signConfig)
            else Err (ErrorMsg ''no image to sign given'')) (\<lambda>unsigned.
         Ok (push_args @ [''-unsignedimage'', unsigned] @ sign_file_args signConfig)))"

definition trustedCAMountPath :: string where
  "trustedCAMountPath = ''/etc/pki/ca-trust/extracted/pem''"

definition sign_volumes :: "Sign \<Rightarrow> CaConfigMap \<Rightarrow> CaConfigMap \<Rightarrow> Volume list" where
  "sign_volumes signConfig clusterCACM servingCACM =
     [MakeSecretVolume (s_KeySecret signConfig) ''key'' ''key.priv'',
      MakeSecretVolume (s_CertSecret signConfig) ''cert'' ''public.der'',
      \<lparr>vol_Name = ''trusted-ca'',
       vol_VolumeSource = ProjectedSource
         [\<lparr>cmp_Name = ca_Name clusterCACM,
           cmp_Items = [\<lparr>ktp_Key = ca_KeyName clusterCACM, ktp_Path = ''tls-ca-bundle.pem''\<rparr>]\<rparr>,
          \<lparr>cmp_Name = ca_Name servingCACM,
           cmp_Items = [\<lparr>ktp_Key = ca_KeyName servingCACM, ktp_Path = ''ocp-service-ca-bundle.pem''\<rparr>]\<rparr>]\<rparr>]"

definition sign_mounts :: "Sign \<Rightarrow> VolumeMount list" where
  "sign_mounts signConfig =
     [MakeSecretVolumeMount (s_CertSecret signConfig) ''/signingcert'',
      MakeSecretVolumeMount (s_KeySecret signConfig) ''/signingkey'',
      \<lparr>vm_Name = ''trusted-ca'', vm_ReadOnly = True, vm_MountPath = trustedCAMountPath\<rparr>]"

text \<open>The registry credentials: the Module's secret, then the builder account's secrets.\<close>

definition secret_volumes :: "LocalObjectReference option \<Rightarrow> string list \<Rightarrow> Volume list" where
  "secret_volumes imageSecret buildImageSecret =
     (case imageSecret of None \<Rightarrow> [] | Some s \<Rightarrow> [MakeSecretVolume (Some s) [] []])
     @ map (\<lambda>n. MakeSecretVolume (Some \<lparr>lor_Name = n\<rparr>) [] []) buildImageSecret"

definition secret_mounts :: "LocalObjectReference option \<Rightarrow> string list \<Rightarrow> VolumeMount list" where
  "secret_mounts imageSecret buildImageSecret =
     (case imageSecret of
        None \<Rightarrow> []
      | Some s \<Rightarrow> [MakeSecretVolumeMount (Some s) (''/docker_config/'' @ lor_Name s)])
     @ map (\<lambda>n. MakeSecretVolumeMount (Some \<lparr>lor_Name = n\<rparr>)
                  (''/docker_config/'' @ OCPBuilderServiceAccountName @ ''/'' @ n)) buildImageSecret"

definition sign_pod_template ::
    "'w signer_env \<Rightarrow> ModuleLoaderData \<Rightarrow> Sign \<Rightarrow> string list \<Rightarrow> CaConfigMap \<Rightarrow> CaConfigMap \<Rightarrow>
     string list \<Rightarrow> PodTemplateSpec" where
  "sign_pod_template se mld signConfig args clusterCACM servingCACM buildImageSecret =
     \<lparr>pt_Labels = fmempty, pt_Finalizers = [],
      pt_Spec = \<lparr>
        ps_Containers =
          [\<lparr>c_Name = ''signimage'', c_Image = se_RELATED_IMAGES_SIGN se, c_ImagePullPolicy = [],
            c_Command = [], c_Args = args @ [''-secretdir'', ''/docker_config/''],
            c_Env = [\<lparr>ev_Name = ''SSL_CERT_DIR'', ev_Value = trustedCAMountPath\<rparr>],
            c_Resources = [], c_PostStart = None, c_PreStop = None, c_SecurityContext = None,
            c_VolumeMounts = sign_mounts signConfig
              @ secret_mounts (mld_ImageRepoSecret mld) buildImageSecret\<rparr>],
        ps_ImagePullSecrets = [],
        ps_NodeSelector = mld_Selector mld,
        ps_PriorityClassName = [],
        ps_ServiceAccountName = [],
        ps_RestartPolicy = ''Never'',
        ps_Volumes = sign_volumes signConfig clusterCACM servingCACM
          @ secret_volumes (mld_ImageRepoSecret mld) buildImageSecret\<rparr>\<rparr>"

text \<open>The names of key and certificate secret are read through their pointers.\<close>

definition sign_secret_names :: "Sign \<Rightarrow> (string \<times> string) result" where
  "sign_secret_names signConfig =
     (case (s_KeySecret signConfig, s_CertSecret signConfig) of
        (Some k, Some c) \<Rightarrow> Ok (lor_Name k, lor_Name c)
      | _ \<Rightarrow> Panic ''nil pointer dereference'')"

definition MakeJobTemplate ::
    "'w signer_env \<Rightarrow> ModuleLoaderData \<Rightarrow> strmap \<Rightarrow> string \<Rightarrow> bool \<Rightarrow> owner_object \<Rightarrow> ('w, Job) io" where
  "MakeJobTemplate se mld labels imageToSign pushImage owner =
     bind_io (lift_io (sign_args mld imageToSign pushImage)) (\<lambda>args.
     bind_io (wrap_io (Errorf_v ''could not get the cluster CA ConfigMap'')
       (GetClusterCA (se_configmaps se) (mld_Namespace mld))) (\<lambda>clusterCACM.
     bind_io (wrap_io (Errorf_v ''could not get the serving CA ConfigMap'')
       (GetServiceCA (se_configmaps se) (mld_Namespace mld))) (\<lambda>servingCACM.
     bind_io (wrap_io (Errorf_v (''Failed to get secrets for service account '' @ OCPBuilderServiceAccountName))
       (getSAImageRepoSecret (se_serviceaccounts se) mld OCPBuilderServiceAccountName)) (\<lambda>buildImageSecret.
     let signConfig = the (mld_Sign mld);
         specTemplate = sign_pod_template se mld signConfig args clusterCACM servingCACM buildImageSecret in
     bind_io (lift_io (sign_secret_names signConfig)) (\<lambda>(keyName, certName).
     bind_io (wrap_io (Errorf_v ''could not hash job's definitions'')
       (getHashAnnotationValue se keyName certName (mld_Namespace mld) specTemplate)) (\<lambda>specTemplateHash.
     bind_io (lift_io (map_err (Errorf_v ''could not set the owner reference'')
       (SetControllerReference (se_scheme se) owner
          (empty_meta\<lparr>om_GenerateName := mld_Name mld @ ''-sign-'',
             om_Namespace := mld_Namespace mld,
             om_Labels := Some labels,
             om_Annotations := Some (fmupd JobHashAnnotation (decimal (unat specTemplateHash)) fmempty)\<rparr>)))) (\<lambda>owned.
     return_io
       \<lparr>job_meta = owned, job_Completions = Some 1, job_BackoffLimit = Some 0,
        job_Template = specTemplate, job_Active = 0, job_Succeeded = 0, job_Failed = 0\<rparr>)))))))"

section \<open>The manager\<close>

definition Sign_GarbageCollect ::
    "('w, Job) kclient \<Rightarrow> string \<Rightarrow> string \<Rightarrow> ObjectMeta \<Rightarrow> ('w, string list) io" where
  "Sign_GarbageCollect jobs modName namespace owner =
     bind_io (wrap_io (Errorf_v (''failed to get sign jobs for module '' @ modName))
       (GetModuleJobs jobs modName namespace JobTypeSign owner)) (\<lambda>js.
     for_io (\<lambda>deleteNames job.
        if job_Succeeded job = 1
        then bind_io (wrap_io (Errorf_v (''failed to delete build job '' @ om_Name (job_meta job)))
               (DeleteJob jobs job)) (\<lambda>_.
             return_io (deleteNames @ [om_Name (job_meta job)]))
        else return_io deleteNames) [] js)"

definition Sign_ShouldSync :: "('w, 'k, 'a) registry_env \<Rightarrow> ModuleLoaderData \<Rightarrow> ('w, bool) io" where
  "Sign_ShouldSync re mld =
     (if \<not> ShouldBeSigned mld then return_io False
      else bind_io (wrap_io (Errorf_w (''failed to check existence of image '' @ mld_ContainerImage mld))
             (module_ImageExists re mld (mld_ContainerImage mld))) (\<lambda>exists.
           return_io (\<not> exists)))"

definition Sign_Sync ::
    "'w signer_env \<Rightarrow> ('w, Job) kclient \<Rightarrow> ModuleLoaderData \<Rightarrow> string \<Rightarrow> bool \<Rightarrow> owner_object \<Rightarrow>
     ('w, string) io" where
  "Sign_Sync se jobs mld imageToSign pushImage owner =
     (let labels = JobLabels (mld_Name mld) (mld_KernelVersion mld) ''sign'' in
      bind_io (wrap_io (Errorf_v ''could not make Job template'')
        (MakeJobTemplate se mld labels imageToSign pushImage owner)) (\<lambda>jobTemplate.
      bind_io (attempt_io (GetModuleJobByKernel jobs (mld_Name mld) (mld_Namespace mld)
        (mld_KernelVersion mld) JobTypeSign (oo_meta owner))) (\<lambda>r. case r of
        Inl e \<Rightarrow>
          if \<not> errors_Is e ErrNoMatchingJob then fail_io (Errorf_v ''error getting the signing job'' e)
          else bind_io (wrap_io (Errorf_v ''could not create Signing Job'') (CreateJob jobs jobTemplate)) (\<lambda>_.
               return_io StatusCreated)
      | Inr job \<Rightarrow>
          bind_io (lift_io (map_err (Errorf_v ''could not determine if job has changed'')
            (IsJobChanged job jobTemplate))) (\<lambda>changed.
          if changed
          then bind_io (attempt_io (DeleteJob jobs job)) (\<lambda>_. return_io StatusInProgress)
          else lift_io (GetJobStatus job)))))"

section \<open>The manager as a stage\<close>

lemma GetJobStatus_never_created: "GetJobStatus j \<noteq> Ok StatusCreated"
  by (simp add: GetJobStatus_def)

abbreviation sign_labels :: "ModuleLoaderData \<Rightarrow> strmap" where
  "sign_labels mld \<equiv> JobLabels (mld_Name mld) (mld_KernelVersion mld) ''sign''"

abbreviation get_sign_job :: "('w, Job) kclient \<Rightarrow> ModuleLoaderData \<Rightarrow> owner_object \<Rightarrow> ('w, Job) io" where
  "get_sign_job jobs mld owner \<equiv>
     GetModuleJobByKernel jobs (mld_Name mld) (mld_Namespace mld) (mld_KernelVersion mld) JobTypeSign
       (oo_meta owner)"

lemma Sign_Sync_OkD:
  assumes "Sign_Sync se jobs mld img push owner w = (Ok st, w')"
  shows "\<exists>t w1. MakeJobTemplate se mld (sign_labels mld) img push owner w = (Ok t, w1) \<and>
      ((\<exists>e w2 c. get_sign_job jobs mld owner w1 = (Err e, w2) \<and> errors_Is e ErrNoMatchingJob \<and>
          CreateJob jobs t w2 = (Ok c, w') \<and> st = StatusCreated) \<or>
       (\<exists>cur w2 d. get_sign_job jobs mld owner w1 = (Ok cur, w2) \<and> IsJobChanged cur t = Ok True \<and>
          DeleteJob jobs cur w2 = (d, w') \<and> \<not> is_panic d \<and> st = StatusInProgress) \<or>
       (\<exists>cur. get_sign_job jobs mld owner w1 = (Ok cur, w') \<and> IsJobChanged cur t = Ok False \<and>
          GetJobStatus cur = Ok st))"
proof -
  from assms obtain t w1 where "MakeJobTemplate se mld (sign_labels mld) img push owner w = (Ok t, w1)"
    by (auto simp: Sign_Sync_def Let_def io_elims)
  with assms show ?thesis
    by (cases "get_sign_job jobs mld owner w1")
       (auto simp: Sign_Sync_def Let_def io_elims split: if_split_asm)
qed

interpretation sign_sync: hashed_object_sync
    "MakeJobTemplate se mld (sign_labels mld) img push owner" "get_sign_job jobs mld owner" "CreateJob jobs"
    "DeleteJob jobs" IsJobChanged GetJobStatus ErrNoMatchingJob "Sign_Sync se jobs mld img push owner"
  for se jobs mld img push owner
proof unfold_locales
  show "Sign_Sync se jobs mld img push owner w = (Ok StatusInProgress, w3)"
    if "MakeJobTemplate se mld (sign_labels mld) img push owner w = (Ok t, w1)"
      "get_sign_job jobs mld owner w1 = (Ok cur, w2)"
      "IsJobChanged cur t = Ok True" "DeleteJob jobs cur w2 = (d, w3)" "\<not> is_panic d" for w t w1 cur w2 d w3
    using that by (cases d) (simp_all add: Sign_Sync_def)
qed (use Sign_Sync_OkD in \<open>auto simp: Sign_Sync_def Let_def GetJobStatus_never_created\<close>)

interpretation sign_stage: image_stage ShouldBeSigned mld_ContainerImage "module_ImageExists re"
    "Sign_ShouldSync re"
  for re
  by unfold_locales (auto simp: Sign_ShouldSync_def io_elims)

section \<open>Lemmas\<close>

text \<open>What the signing container is told: where to push, what to sign.\<close>

definition image_to_sign :: "Sign \<Rightarrow> string \<Rightarrow> string" where
  "image_to_sign sc imageToSign = (if imageToSign \<noteq> [] then imageToSign else s_UnsignedImage sc)"

lemma sign_args_Ok:
  assumes "sign_args mld img push = Ok args"
  shows "\<exists>sc push_args rest. mld_Sign mld = Some sc \<and> image_to_sign sc img \<noteq> [] \<and>
    args = push_args @ [''-unsignedimage'', image_to_sign sc img] @ rest \<and>
    (if push then take 2 push_args = [''-signedimage'', mld_ContainerImage mld] else push_args = [''-no-push''])"
proof -
  from assms obtain sc push_args where "mld_Sign mld = Some sc" "sign_push_args mld push = Ok push_args"
    by (auto simp: sign_args_def split: option.split_asm)
  moreover from this(2)
  have "if push then take 2 push_args = [''-signedimage'', mld_ContainerImage mld] else push_args = [''-no-push'']"
    by (auto simp: sign_push_args_def split: if_split_asm option.split_asm)
  ultimately show ?thesis
    using assms
    by (intro exI[of _ sc] exI[of _ push_args] exI[of _ "sign_file_args sc"])
       (auto simp: sign_args_def image_to_sign_def split: if_split_asm)
qed

lemma getSecretData_Ok_iff:
  "getSecretData secrets n key ns w = (Ok d, w') \<longleftrightarrow>
     (\<exists>s. k_get secrets \<lparr>nn_Namespace = ns, nn_Name = n\<rparr> w = (Ok s, w') \<and> fmlookup (secret_Data s) key = Some d)"
  by (auto simp: getSecretData_def io_elims split: option.splits)

lemma sign_secret_names_Ok_iff:
  "sign_secret_names sc = Ok (k, c) \<longleftrightarrow>
     (\<exists>kr cr. s_KeySecret sc = Some kr \<and> s_CertSecret sc = Some cr \<and> lor_Name kr = k \<and> lor_Name cr = c)"
  by (auto simp: sign_secret_names_def split: option.splits)

text \<open>The hash of a job is the hash of both keys as they are in their secrets and of its template.\<close>

definition job_hash_of ::
    "'w signer_env \<Rightarrow> Sign \<Rightarrow> string \<Rightarrow> PodTemplateSpec \<Rightarrow> 'w \<Rightarrow> 64 word \<Rightarrow> 'w \<Rightarrow> bool" where
  "job_hash_of se sc ns tmpl w h w' \<longleftrightarrow>
     (\<exists>kr cr ks cs priv pub w1. s_KeySecret sc = Some kr \<and> s_CertSecret sc = Some cr \<and>
        k_get (se_secrets se) \<lparr>nn_Namespace = ns, nn_Name = lor_Name kr\<rparr> w = (Ok ks, w1) \<and>
        fmlookup (secret_Data ks) PrivateSignDataKey = Some priv \<and>
        k_get (se_secrets se) \<lparr>nn_Namespace = ns, nn_Name = lor_Name cr\<rparr> w1 = (Ok cs, w') \<and>
        fmlookup (secret_Data cs) PublicSignDataKey = Some pub \<and>
        se_hash se \<lparr>hd_PrivateKeyData = priv, hd_PublicKeyData = pub, hd_PodTemplate = tmpl\<rparr> = Ok h)"

lemma getHashAnnotationValue_Ok:
  assumes "sign_secret_names sc = Ok (k, c)"
    and "getHashAnnotationValue se k c ns tmpl w = (Ok h, w')"
  shows "job_hash_of se sc ns tmpl w h w'"
proof -
  from assms(2) obtain priv pub w1 where
      "getSecretData (se_secrets se) k PrivateSignDataKey ns w = (Ok priv, w1)"
      "getSecretData (se_secrets se) c PublicSignDataKey ns w1 = (Ok pub, w')"
      "se_hash se \<lparr>hd_PrivateKeyData = priv, hd_PublicKeyData = pub, hd_PodTemplate = tmpl\<rparr> = Ok h"
    by (auto simp: getHashAnnotationValue_def getHashValue_def io_elims)
  with assms(1) show ?thesis
    unfolding job_hash_of_def sign_secret_names_Ok_iff getSecretData_Ok_iff by blast
qed

lemma MakeJobTemplate_OkE:
  assumes "MakeJobTemplate se mld labels img push owner w = (Ok j, w')"
  obtains args k c h w1 where "sign_args mld img push = Ok args"
    and "sign_secret_names (the (mld_Sign mld)) = Ok (k, c)"
    and "getHashAnnotationValue se k c (mld_Namespace mld) (job_Template j) w1 = (Ok h, w')"
    and "om_Annotations (job_meta j) = Some (fmupd JobHashAnnotation (decimal (unat h)) fmempty)"
    and "om_Labels (job_meta j) = Some labels"
    and "IsControlledBy (job_meta j) (oo_meta owner)"
    and "map c_Args (ps_Containers (pt_Spec (job_Template j))) = [args @ [''-secretdir'', ''/docker_config/'']]"
proof -
  from assms obtain args ca1 ca2 sec k c h owned w1 where
      args: "sign_args mld img push = Ok args"
    and names: "sign_secret_names (the (mld_Sign mld)) = Ok (k, c)"
    and h: "getHashAnnotationValue se k c (mld_Namespace mld)
        (sign_pod_template se mld (the (mld_Sign mld)) args ca1 ca2 sec) w1 = (Ok h, w')"
    and owned: "SetControllerReference (se_scheme se) owner
          (empty_meta\<lparr>om_GenerateName := mld_Name mld @ ''-sign-'', om_Namespace := mld_Namespace mld,
             om_Labels := Some labels,
             om_Annotations := Some (fmupd JobHashAnnotation (decimal (unat h)) fmempty)\<rparr>) = Ok owned"
    and j: "job_meta j = owned" "job_Template j = sign_pod_template se mld (the (mld_Sign mld)) args ca1 ca2 sec"
    by (auto simp: MakeJobTemplate_def Let_def io_elims)
  show thesis
    by (rule that[OF args names h[folded j(2)]])
       (use j owned in \<open>simp_all add: sign_pod_template_def SetControllerReference_keeps[OF owned]
          SetControllerReference_controls[OF owned]\<close>)
qed

section \<open>Properties\<close>

text \<open>
  C19. A signing job made for a Module pushes the Module's final image when it pushes at all, signs
  the image it was given or else the configured unsigned image, is controlled by its owner, carries
  the given labels, and records the hash of its own pod template together with the private and
  public key the two configured secrets hold.
\<close>

theorem sign_job_template_correct:
  assumes "MakeJobTemplate se mld labels img push owner w = (Ok j, w')"
  shows "\<exists>sc push_args rest h w1.
    mld_Sign mld = Some sc \<and> image_to_sign sc img \<noteq> [] \<and>
    map c_Args (ps_Containers (pt_Spec (job_Template j)))
      = [push_args @ [''-unsignedimage'', image_to_sign sc img] @ rest] \<and>
    (if push then take 2 push_args = [''-signedimage'', mld_ContainerImage mld] else push_args = [''-no-push'']) \<and>
    job_hash_of se sc (mld_Namespace mld) (job_Template j) w1 h w' \<and>
    om_Labels (job_meta j) = Some labels \<and>
    sm_get (nil_map (om_Annotations (job_meta j))) JobHashAnnotation = decimal (unat h) \<and>
    IsControlledBy (job_meta j) (oo_meta owner)"
proof -
  from assms obtain args k c h w1 where args: "sign_args mld img push = Ok args"
    and names: "sign_secret_names (the (mld_Sign mld)) = Ok (k, c)"
    and h: "getHashAnnotationValue se k c (mld_Namespace mld) (job_Template j) w1 = (Ok h, w')"
    and meta: "om_Annotations (job_meta j) = Some (fmupd JobHashAnnotation (decimal (unat h)) fmempty)"
      "om_Labels (job_meta j) = Some labels" "IsControlledBy (job_meta j) (oo_meta owner)"
    and cont: "map c_Args (ps_Containers (pt_Spec (job_Template j))) = [args @ [''-secretdir'', ''/docker_config/'']]"
    by (rule MakeJobTemplate_OkE)
  from sign_args_Ok[OF args] obtain sc push_args rest where sc: "mld_Sign mld = Some sc"
      "image_to_sign sc img \<noteq> []" "args = push_args @ [''-unsignedimage'', image_to_sign sc img] @ rest"
      "if push then take 2 push_args = [''-signedimage'', mld_ContainerImage mld] else push_args = [''-no-push'']"
    by blast
  from getHashAnnotationValue_Ok[OF names h] sc(1)
  have "job_hash_of se sc (mld_Namespace mld) (job_Template j) w1 h w'" by simp
  with sc meta cont show ?thesis
    by (intro exI[of _ sc] exI[of _ push_args] exI[of _ "rest @ [''-secretdir'', ''/docker_config/'']"]
        exI[of _ h] exI[of _ w1]) simp
qed

text \<open>The sample Module signed in a namespace that has the certificates and the keys.\<close>

definition sample_signer :: "nat signer_env" where
  "sample_signer = \<lparr>se_configmaps = const_client \<lparr>cm_meta = sample_meta ''ca'', cm_Data = fmempty\<rparr>,
     se_serviceaccounts = const_client \<lparr>sa_meta = sample_meta ''builder'', sa_Secrets = []\<rparr>,
     se_secrets = const_client \<lparr>secret_meta = sample_meta ''keys'',
       secret_Data = fmupd PrivateSignDataKey ''priv'' (fmupd PublicSignDataKey ''pub'' fmempty)\<rparr>,
     se_scheme = \<lambda>_. Ok \<lparr>gvk_APIVersion = ''v1'', gvk_Kind = ''Module''\<rparr>,
     se_hash = \<lambda>_. Ok 7, se_RELATED_IMAGES_SIGN = ''signimage''\<rparr>"

abbreviation sample_sign_job :: "(nat, Job) io" where
  "sample_sign_job \<equiv> MakeJobTemplate sample_signer (sample_mld None (Some sample_sign)) fmempty ''unsigned''
     True (module_owner (sample_module []))"

lemma sample_sign_job_Ok: "\<exists>j. sample_sign_job 0 = (Ok j, 0)"
  by (simp add: MakeJobTemplate_def sign_args_def sign_push_args_def GetClusterCA_def GetServiceCA_def getConfigMap_def
      getSAImageRepoSecret_def sign_secret_names_def getHashAnnotationValue_def getSecretData_def getHashValue_def
      sample_signer_def const_client_def sample_defs module_owner_def SetControllerReference_def
      validateOwner_def GetControllerOf_def empty_meta_def PrivateSignDataKey_def PublicSignDataKey_def
      bind_io_def wrap_io_def Let_def)

theorem sign_job_template_correct_witness:
  "\<exists>j h. sample_sign_job 0 = (Ok j, 0) \<and>
     sm_get (nil_map (om_Annotations (job_meta j))) JobHashAnnotation = decimal (unat (h :: 64 word))"
proof -
  obtain j where j: "sample_sign_job 0 = (Ok j, 0)"
    using sample_sign_job_Ok by blast
  obtain h :: "64 word" where
      "sm_get (nil_map (om_Annotations (job_meta j))) JobHashAnnotation = decimal (unat h)"
    using sign_job_template_correct[OF j] by (elim exE conjE) (rule that)
  with j show ?thesis by blast
qed

text \<open>
  C18. Signing is reported completed exactly when one job with the Module's and kernel's labels is
  controlled by the owner, its recorded hash is that of the job the Module now asks for, and it
  succeeded.
\<close>

theorem sign_completed_iff:
  "Sign_Sync se jobs mld img push owner w = (Ok StatusCompleted, w') \<longleftrightarrow>
     (\<exists>t w1 js cur ann. MakeJobTemplate se mld (sign_labels mld) img push owner w = (Ok t, w1) \<and>
        k_list jobs (sign_labels mld) (Some (mld_Namespace mld)) w1 = (Ok js, w') \<and>
        filterJobsByOwner js (oo_meta owner) = [cur] \<and>
        om_Annotations (job_meta cur) = Some ann \<and>
        sm_get ann JobHashAnnotation = sm_get (nil_map (om_Annotations (job_meta t))) JobHashAnnotation \<and>
        job_Succeeded cur = 1)"
proof -
  have "get_sign_job jobs mld owner w1 = (Ok cur, w') \<and> IsJobChanged cur t = Ok False \<and>
      GetJobStatus cur = Ok StatusCompleted \<longleftrightarrow>
    (\<exists>js ann. k_list jobs (sign_labels mld) (Some (mld_Namespace mld)) w1 = (Ok js, w') \<and>
       filterJobsByOwner js (oo_meta owner) = [cur] \<and> om_Annotations (job_meta cur) = Some ann \<and>
       sm_get ann JobHashAnnotation = sm_get (nil_map (om_Annotations (job_meta t))) JobHashAnnotation \<and>
       job_Succeeded cur = 1)" for cur t w1
    by (auto simp: GetModuleJobByKernel_def getJobs_def JobLabels_def JobTypeSign_def IsJobChanged_def
        GetJobStatus_def io_elims split: option.splits if_splits)
  then show ?thesis
    unfolding sign_sync.sync_completed_iff by simp blast
qed

text \<open>
  Garbage collection of signing jobs deletes exactly the succeeded ones among the jobs of the
  Module that its owner controls, in the order the cluster lists them, and reports their names; no
  unfinished or failed job and no job of another owner is touched.
\<close>

theorem sign_garbage_collection:
  "Sign_GarbageCollect jobs modName ns owner w = (Ok names, w') \<longleftrightarrow>
     (\<exists>js w1. k_list jobs (moduleLabels modName JobTypeSign) (Some ns) w = (Ok js, w1) \<and>
        (let done = filter (\<lambda>j. IsControlledBy (job_meta j) owner \<and> job_Succeeded j = 1) js in
         names = map (\<lambda>j. om_Name (job_meta j)) done \<and>
         for_io (\<lambda>_. k_delete jobs) () done w1 = (Ok (), w')))"
  by (auto simp: Sign_GarbageCollect_def GetModuleJobs_def getJobs_def filterJobsByOwner_def
      DeleteJob_def io_elims for_io_collect Let_def)

end
