(* ===== verification/Stage_System.thy ===== *)
theory Stage_System
  imports Build_Manager Sign_Manager Dtk_Mapping
begin

text \<open>
  The build and sign managers over time, against an API server whose objects they see through a cache.
  The managers run unchanged; the server names, stores and deletes the objects, the cache catches up, the inputs of
  the stages change and the objects make progress on their own.
\<close>

section \<open>The server and the cache\<close>

text \<open>\<^verbatim>\<open>cl_fails\<close>: writes fail at the moment. \<^verbatim>\<open>cl_rest\<close> is what the makers read.\<close>

record ('o, 'x) cluster =
  cl_objects :: "'o list"
  cl_cache :: "'o list"
  cl_next :: nat
  cl_fails :: bool
  cl_rest :: 'x

definition selected :: "strmap \<Rightarrow> string option \<Rightarrow> ObjectMeta \<Rightarrow> bool" where
  "selected sel ns m \<longleftrightarrow> fmsubset sel (nil_map (om_Labels m)) \<and> (case ns of None \<Rightarrow> True | Some n \<Rightarrow> om_Namespace m = n)"

definition named :: "nat \<Rightarrow> ObjectMeta \<Rightarrow> ObjectMeta" where
  "named n m = (if om_Name m = [] then m\<lparr>om_Name := om_GenerateName m @ decimal n\<rparr> else m)"

definition write_failed :: goerr where
  "write_failed = TransportError 0"

definition store_client ::
    "('o \<Rightarrow> ObjectMeta) \<Rightarrow> ((ObjectMeta \<Rightarrow> ObjectMeta) \<Rightarrow> 'o \<Rightarrow> 'o) \<Rightarrow> (('o, 'x) cluster, 'o) kclient" where
  "store_client meta upd =
     (let missing = (\<lambda>x w. \<forall>y \<in> set (cl_objects w). ObjectKeyFromObject (meta y) \<noteq> ObjectKeyFromObject (meta x));
          put = (\<lambda>x w. if cl_fails w then (Err write_failed, w)
            else if missing x w then (Err (StatusError StatusReasonNotFound (om_Name (meta x))), w)
            else (Ok x, w\<lparr>cl_objects := map (\<lambda>y. if ObjectKeyFromObject (meta y) = ObjectKeyFromObject (meta x) then x else y) (cl_objects w)\<rparr>))
      in \<lparr>k_get = \<lambda>key w. (case find (\<lambda>x. ObjectKeyFromObject (meta x) = key) (cl_cache w) of
            Some x \<Rightarrow> Ok x | None \<Rightarrow> Err (StatusError StatusReasonNotFound (nn_Name key)), w),
        k_list = \<lambda>sel ns w. (Ok (filter (\<lambda>x. selected sel ns (meta x)) (cl_cache w)), w),
        k_create = \<lambda>x w. if cl_fails w then (Err write_failed, w)
          else let c = upd (named (cl_next w)) x in (Ok c, w\<lparr>cl_objects := cl_objects w @ [c], cl_next := Suc (cl_next w)\<rparr>),
        k_delete = \<lambda>x w. if cl_fails w then (Err write_failed, w)
          else if missing x w then (Err (StatusError StatusReasonNotFound (om_Name (meta x))), w)
          else (Ok (), w\<lparr>cl_objects := filter (\<lambda>y. ObjectKeyFromObject (meta y) \<noteq> ObjectKeyFromObject (meta x)) (cl_objects w)\<rparr>),
        k_patch = \<lambda>x _. put x, k_status_patch = \<lambda>x _. put x, k_status_update = put\<rparr>)"

text \<open>The kinds that the makers only read.\<close>

definition read_client ::
    "('x \<Rightarrow> NamespacedName \<Rightarrow> 'a result) \<Rightarrow> ('x \<Rightarrow> strmap \<Rightarrow> string option \<Rightarrow> 'a list result) \<Rightarrow> (('o, 'x) cluster, 'a) kclient" where
  "read_client get list =
     \<lparr>k_get = \<lambda>key w. (get (cl_rest w) key, w), k_list = \<lambda>sel ns w. (list (cl_rest w) sel ns, w),
      k_create = \<lambda>_. fail_io write_failed, k_delete = \<lambda>_. fail_io write_failed, k_patch = \<lambda>_ _. fail_io write_failed,
      k_status_patch = \<lambda>_ _. fail_io write_failed, k_status_update = \<lambda>_. fail_io write_failed\<rparr>"

record stage_inputs =
  in_configmap :: "NamespacedName \<Rightarrow> ConfigMap result"
  in_configmaps :: "strmap \<Rightarrow> string option \<Rightarrow> ConfigMap list result"
  in_serviceaccount :: "NamespacedName \<Rightarrow> ServiceAccount result"
  in_secret :: "NamespacedName \<Rightarrow> Secret result"
  in_mapping :: kernelOsDtkMapping

definition configmap_reader :: "(('o, stage_inputs) cluster, ConfigMap) kclient" where
  "configmap_reader = read_client in_configmap in_configmaps"

definition dtk_reader :: "string \<Rightarrow> (('o, stage_inputs) cluster, string) io" where
  "dtk_reader k w = (GetImage (in_mapping (cl_rest w)) k, w)"

definition signer_reader :: "scheme \<Rightarrow> (hashData \<Rightarrow> 64 word result) \<Rightarrow> string \<Rightarrow> ('o, stage_inputs) cluster signer_env" where
  "signer_reader sch hash img = \<lparr>se_configmaps = configmap_reader,
     se_serviceaccounts = read_client in_serviceaccount (\<lambda>_ _ _. Ok []),
     se_secrets = read_client in_secret (\<lambda>_ _ _. Ok []), se_scheme = sch, se_hash = hash, se_RELATED_IMAGES_SIGN = img\<rparr>"

section \<open>Runs of one stage\<close>

datatype stage_act = Syncs "string result" | Observes | Progresses | Others | Inputs | Faults | Deletes

text \<open>\<^verbatim>\<open>mine\<close> are the objects of the stage. They are known by their key, and stay the stage's as they make progress;
  what the API server does with the objects of other stages does not matter. With \<^verbatim>\<open>fresh\<close> the manager only runs when the cache is
  up to date.\<close>

inductive stage_step ::
    "(('o, 'x) cluster, string) io \<Rightarrow> ('o \<Rightarrow> bool) \<Rightarrow> bool \<Rightarrow> ('o, 'x) cluster \<Rightarrow> stage_act \<Rightarrow> ('o, 'x) cluster \<Rightarrow> bool"
  for sync mine fresh where
  syncs: "(fresh \<longrightarrow> cl_cache w = cl_objects w) \<Longrightarrow> sync w = (r, w') \<Longrightarrow> stage_step sync mine fresh w (Syncs r) w'"
| observes: "stage_step sync mine fresh w Observes (w\<lparr>cl_cache := cl_objects w\<rparr>)"
| progresses: "list_all2 (\<lambda>x y. mine x = mine y) (cl_objects w) xs \<Longrightarrow>
    stage_step sync mine fresh w Progresses (w\<lparr>cl_objects := xs\<rparr>)"
| others: "filter mine xs = filter mine (cl_objects w) \<Longrightarrow> stage_step sync mine fresh w Others (w\<lparr>cl_objects := xs\<rparr>)"
| inputs: "stage_step sync mine fresh w Inputs (w\<lparr>cl_rest := x\<rparr>)"
| faults: "stage_step sync mine fresh w Faults (w\<lparr>cl_fails := b\<rparr>)"
| deletes: "stage_step sync mine fresh w Deletes (w\<lparr>cl_objects := filter p (cl_objects w)\<rparr>)"

inductive stage_steps ::
    "(('o, 'x) cluster, string) io \<Rightarrow> ('o \<Rightarrow> bool) \<Rightarrow> bool \<Rightarrow> ('o, 'x) cluster \<Rightarrow> stage_act list \<Rightarrow> ('o, 'x) cluster \<Rightarrow> bool"
  for sync mine fresh where
  none: "stage_steps sync mine fresh w [] w"
| more: "stage_steps sync mine fresh w as w1 \<Longrightarrow> stage_step sync mine fresh w1 a w2 \<Longrightarrow> stage_steps sync mine fresh w (as @ [a]) w2"

definition objects_of :: "('o \<Rightarrow> bool) \<Rightarrow> ('o, 'x) cluster \<Rightarrow> 'o list" where
  "objects_of mine w = filter mine (cl_objects w)"

lemma filter_filter_le: "length (filter q (filter p xs)) \<le> length (filter q xs)"
  by (induction xs) auto

lemma length_filter_same: "list_all2 (\<lambda>x y. p x = p y) xs ys \<Longrightarrow> length (filter p ys) = length (filter p xs)"
  by (induction rule: list_all2_induct) auto

text \<open>What a manager promises of one synchronisation, whatever it returns.\<close>

locale stored_sync =
  fixes sync :: "(('o, 'x) cluster, string) io" and mine :: "'o \<Rightarrow> bool" and ready :: "('o, 'x) cluster \<Rightarrow> bool"
  assumes effect: "sync w = (r, w') \<Longrightarrow> cl_cache w' = cl_cache w \<and>
      (cl_objects w' = cl_objects w \<or>
       filter mine (cl_cache w) = [] \<and> (\<exists>c. mine c \<and> cl_objects w' = cl_objects w @ [c]) \<or>
       (\<exists>p. length (filter mine (cl_cache w)) = 1 \<and> cl_objects w' = filter p (cl_objects w)))"
    and many: "2 \<le> length (filter mine (cl_cache w)) \<Longrightarrow> \<exists>r. sync w = (r, w) \<and> \<not> is_ok r"
    and creates: "ready w \<Longrightarrow> filter mine (cl_cache w) = [] \<Longrightarrow>
      \<exists>c w'. sync w = (Ok StatusCreated, w') \<and> mine c \<and> cl_objects w' = cl_objects w @ [c] \<and> cl_cache w' = cl_cache w \<and> ready w'"
begin

text \<open>With an up-to-date cache there is never more than one object.\<close>

lemma one_step:
  "stage_step sync mine True w a w' \<Longrightarrow> length (objects_of mine w) \<le> 1 \<Longrightarrow> length (objects_of mine w') \<le> 1"
proof (induction rule: stage_step.induct)
  case (syncs w r w')
  have c: "cl_cache w = cl_objects w" using syncs(1) by simp
  from effect[OF syncs(2)] consider "cl_objects w' = cl_objects w"
    | x where "filter mine (cl_objects w) = []" "cl_objects w' = cl_objects w @ [x]"
    | p where "cl_objects w' = filter p (cl_objects w)" unfolding c by blast
  then show ?case
    by cases (use syncs.prems in \<open>simp_all add: objects_of_def order_trans[OF filter_filter_le] del: filter_filter\<close>)
next
  case (progresses w xs)
  then show ?case by (simp add: objects_of_def length_filter_same)
next
  case (deletes w p)
  then show ?case
    by (simp add: objects_of_def order_trans[OF filter_filter_le] del: filter_filter)
qed (simp_all add: objects_of_def)

lemma one_object:
  "stage_steps sync mine True w as w' \<Longrightarrow> length (objects_of mine w) \<le> 1 \<Longrightarrow> length (objects_of mine w') \<le> 1"
  by (induction rule: stage_steps.induct) (blast intro: one_step)+

text \<open>Two synchronisations that the cache has not caught up with in between create two objects.\<close>

lemma lagging_cache_duplicates:
  assumes "ready w" "cl_cache w = cl_objects w" "objects_of mine w = []"
  shows "\<exists>w'. stage_steps sync mine False w [Syncs (Ok StatusCreated), Syncs (Ok StatusCreated)] w' \<and> length (objects_of mine w') = 2"
proof -
  have "filter mine (cl_cache w) = []" using assms(2,3) by (simp add: objects_of_def)
  from creates[OF assms(1) this] obtain c w1 where 1: "sync w = (Ok StatusCreated, w1)" "mine c"
    "cl_objects w1 = cl_objects w @ [c]" "cl_cache w1 = cl_cache w" "ready w1" by blast
  then have "filter mine (cl_cache w1) = []" using assms(2,3) by (simp add: objects_of_def)
  from creates[OF 1(5) this] obtain d w2 where 2: "sync w1 = (Ok StatusCreated, w2)" "mine d"
    "cl_objects w2 = cl_objects w1 @ [d]" by blast
  have "stage_step sync mine False w (Syncs (Ok StatusCreated)) w1" "stage_step sync mine False w1 (Syncs (Ok StatusCreated)) w2"
    using 1(1) 2(1) by (auto intro: stage_step.syncs)
  with stage_steps.more[OF stage_steps.more[OF stage_steps.none]]
  have "stage_steps sync mine False w [Syncs (Ok StatusCreated), Syncs (Ok StatusCreated)] w2" by fastforce
  moreover have "length (objects_of mine w2) = 2" using 1 2 assms(3) by (simp add: objects_of_def)
  ultimately show ?thesis by blast
qed

text \<open>From then on the manager reports an error and leaves the objects alone, until someone else deletes one.\<close>

lemma duplicates_step:
  "stage_step sync mine fresh w a w' \<Longrightarrow> a \<noteq> Deletes \<Longrightarrow>
     2 \<le> length (objects_of mine w) \<and> 2 \<le> length (filter mine (cl_cache w)) \<Longrightarrow>
     2 \<le> length (objects_of mine w') \<and> 2 \<le> length (filter mine (cl_cache w')) \<and> (\<forall>r. a = Syncs r \<longrightarrow> \<not> is_ok r)"
proof (induction rule: stage_step.induct)
  case (syncs w r w')
  obtain r' where "sync w = (r', w)" "\<not> is_ok r'" using many syncs.prems by blast
  with syncs show ?case by auto
next
  case (progresses w xs)
  then show ?case by (simp add: objects_of_def length_filter_same)
qed (simp_all add: objects_of_def)

lemma duplicates_stay:
  "stage_steps sync mine fresh w as w' \<Longrightarrow> Deletes \<notin> set as \<Longrightarrow>
     2 \<le> length (objects_of mine w) \<and> 2 \<le> length (filter mine (cl_cache w)) \<Longrightarrow>
     2 \<le> length (objects_of mine w') \<and> 2 \<le> length (filter mine (cl_cache w')) \<and> (\<forall>r. Syncs r \<in> set as \<longrightarrow> \<not> is_ok r)"
proof (induction rule: stage_steps.induct)
  case (more w as w1 a w2)
  then show ?case using duplicates_step[OF more(2)] by auto
qed simp

end


section \<open>The makers only read\<close>

definition only_reads :: "(('o, 'x) cluster, 'a) io \<Rightarrow> bool" where
  "only_reads m \<longleftrightarrow> (\<exists>f. \<forall>w. m w = (f (cl_rest w), w))"

lemma only_reads_basic [simp]: "only_reads (return_io a)" "only_reads (fail_io e)" "only_reads (lift_io r)"
  by (auto simp: only_reads_def)

lemma only_reads_bind:
  assumes "only_reads m" "\<And>a. only_reads (f a)"
  shows "only_reads (bind_io m f)"
proof -
  obtain g where g: "m w = (g (cl_rest w), w)" for w using assms(1) unfolding only_reads_def by blast
  obtain k where k: "f a w = (k a (cl_rest w), w)" for a w using assms(2) unfolding only_reads_def by metis
  show ?thesis unfolding only_reads_def
    by (rule exI[of _ "\<lambda>x. case g x of Ok a \<Rightarrow> k a x | Err e \<Rightarrow> Err e | Panic p \<Rightarrow> Panic p"])
      (simp add: bind_io_def g k split: result.split)
qed

lemma only_reads_wrap: "only_reads m \<Longrightarrow> only_reads (wrap_io g m)"
  by (fastforce simp: only_reads_def)

lemma only_reads_clients [simp]:
  "only_reads (k_get configmap_reader key)" "only_reads (k_list configmap_reader sel ns)" "only_reads (dtk_reader k)"
  "only_reads (k_get (read_client get list) key)"
  by (auto simp: only_reads_def configmap_reader_def read_client_def dtk_reader_def)

lemmas only_reads_intros = only_reads_bind only_reads_wrap

lemma MakeBuildTemplate_reads:
  "only_reads (MakeBuildTemplate configmap_reader sch hash dtk_reader mld push owner)"
  unfolding MakeBuildTemplate_def getDockerfileData_def dtk_overrides_def Let_def
  by (auto intro!: only_reads_intros split: option.split)

lemma MakeJobTemplate_reads:
  "only_reads (MakeJobTemplate (signer_reader sch hash img) mld labels source push owner)"
  unfolding MakeJobTemplate_def GetClusterCA_def GetServiceCA_def getConfigMap_def getSAImageRepoSecret_def
    getHashAnnotationValue_def getSecretData_def signer_reader_def Let_def
  by (auto intro!: only_reads_intros split: prod.split)


section \<open>The two managers on the server\<close>

definition build_store :: "((OcpBuild, 'x) cluster, OcpBuild) kclient" where
  "build_store = store_client ob_meta (\<lambda>f b. b\<lparr>ob_meta := f (ob_meta b)\<rparr>)"

definition job_store :: "((Job, 'x) cluster, Job) kclient" where
  "job_store = store_client job_meta (\<lambda>f j. j\<lparr>job_meta := f (job_meta j)\<rparr>)"

definition build_of :: "ModuleLoaderData \<Rightarrow> OcpBuild \<Rightarrow> bool" where
  "build_of mld b = selected (GetBuildLabels mld) (Some (mld_Namespace mld)) (ob_meta b)"

definition sign_job_of :: "ModuleLoaderData \<Rightarrow> owner_object \<Rightarrow> Job \<Rightarrow> bool" where
  "sign_job_of mld owner j = (selected (sign_labels mld) (Some (mld_Namespace mld)) (job_meta j) \<and>
     IsControlledBy (job_meta j) (oo_meta owner))"

lemmas store_defs = build_store_def job_store_def store_client_def

lemma store_writes:
  "k_create build_store b v = (if cl_fails v then (Err write_failed, v)
     else (Ok (b\<lparr>ob_meta := named (cl_next v) (ob_meta b)\<rparr>),
       v\<lparr>cl_objects := cl_objects v @ [b\<lparr>ob_meta := named (cl_next v) (ob_meta b)\<rparr>], cl_next := Suc (cl_next v)\<rparr>))"
  "k_create job_store j w = (if cl_fails w then (Err write_failed, w)
     else (Ok (j\<lparr>job_meta := named (cl_next w) (job_meta j)\<rparr>),
       w\<lparr>cl_objects := cl_objects w @ [j\<lparr>job_meta := named (cl_next w) (job_meta j)\<rparr>], cl_next := Suc (cl_next w)\<rparr>))"
  "k_delete build_store b v = (if cl_fails v then (Err write_failed, v)
     else if \<forall>y \<in> set (cl_objects v). ObjectKeyFromObject (ob_meta y) \<noteq> ObjectKeyFromObject (ob_meta b)
     then (Err (StatusError StatusReasonNotFound (om_Name (ob_meta b))), v)
     else (Ok (), v\<lparr>cl_objects := filter (\<lambda>y. ObjectKeyFromObject (ob_meta y) \<noteq> ObjectKeyFromObject (ob_meta b)) (cl_objects v)\<rparr>))"
  "k_delete job_store j w = (if cl_fails w then (Err write_failed, w)
     else if \<forall>y \<in> set (cl_objects w). ObjectKeyFromObject (job_meta y) \<noteq> ObjectKeyFromObject (job_meta j)
     then (Err (StatusError StatusReasonNotFound (om_Name (job_meta j))), w)
     else (Ok (), w\<lparr>cl_objects := filter (\<lambda>y. ObjectKeyFromObject (job_meta y) \<noteq> ObjectKeyFromObject (job_meta j)) (cl_objects w)\<rparr>))"
  by (simp_all add: store_defs Let_def)

lemma GetBuild_store:
  "GetBuild build_store mld w = (exactly_one errNoMatchingBuild
     (\<lambda>n. ErrorMsg (''expected 0 or 1 Builds, got '' @ decimal n)) (filter (build_of mld) (cl_cache w)), w)"
  by (simp add: GetBuild_def store_defs build_of_def[abs_def] Let_def)

lemma get_sign_job_store:
  "get_sign_job job_store mld owner w = (exactly_one ErrNoMatchingJob
     (\<lambda>n. ErrorMsg (''expected 0 or 1 '' @ JobTypeSign @ '' job, got '' @ decimal n)) (filter (sign_job_of mld owner) (cl_cache w)), w)"
  by (simp add: GetModuleJobByKernel_def getJobs_def filterJobsByOwner_def store_defs sign_job_of_def[abs_def] Let_def
      JobLabels_def JobTypeSign_def conj_commute)

lemma errors_Is_self [simp]: "errors_Is errNoMatchingBuild errNoMatchingBuild" "errors_Is ErrNoMatchingJob ErrNoMatchingJob"
  by (simp_all add: errNoMatchingBuild_def ErrNoMatchingJob_def)


text \<open>The object a manager creates is one of its stage.\<close>

lemma named_keeps [simp]:
  "om_Labels (named n m) = om_Labels m" "om_Namespace (named n m) = om_Namespace m" "IsControlledBy (named n m) o' = IsControlledBy m o'"
  by (simp_all add: named_def IsControlledBy_def GetControllerOf_def)

lemma build_template_mine:
  assumes "MakeBuildTemplate cms sch hash dtk mld push owner w = (Ok t, w')"
  shows "build_of mld (t\<lparr>ob_meta := named n (ob_meta t)\<rparr>)"
proof -
  have "om_Namespace (ob_meta t) = mld_Namespace mld"
    using assms by (auto simp: MakeBuildTemplate_def Let_def io_elims SetControllerReference_keeps)
  moreover have "om_Labels (ob_meta t) = Some (GetBuildLabels mld)" using assms by (rule MakeBuildTemplate_OkE)
  ultimately show ?thesis by (simp add: build_of_def selected_def fmsubset.rep_eq)
qed


lemma job_template_mine:
  assumes "MakeJobTemplate se mld (sign_labels mld) img push owner w = (Ok t, w')"
  shows "sign_job_of mld owner (t\<lparr>job_meta := named n (job_meta t)\<rparr>)"
proof -
  have "om_Namespace (job_meta t) = mld_Namespace mld"
    using assms by (auto simp: MakeJobTemplate_def Let_def io_elims SetControllerReference_keeps)
  moreover have "om_Labels (job_meta t) = Some (sign_labels mld)" "IsControlledBy (job_meta t) (oo_meta owner)"
    using assms by (auto elim: MakeJobTemplate_OkE)
  ultimately show ?thesis by (simp add: sign_job_of_def selected_def fmsubset.rep_eq)
qed

text \<open>One synchronisation, case by case.\<close>

lemma stored_cases:
  fixes xs :: "'o list"
  obtains (none) "xs = []" | (one) x where "xs = [x]" | (many) "2 \<le> length xs"
  by (cases xs; cases "tl xs") auto

abbreviation stored_Build_Sync where
  "stored_Build_Sync sch hash mld push owner \<equiv> Build_Sync configmap_reader build_store sch hash dtk_reader mld push owner"

abbreviation stored_Sign_Sync where
  "stored_Sign_Sync sch hash img mld source push owner \<equiv> Sign_Sync (signer_reader sch hash img) job_store mld source push owner"

definition build_ready ::
    "scheme \<Rightarrow> (BuildSource \<Rightarrow> 64 word result) \<Rightarrow> ModuleLoaderData \<Rightarrow> bool \<Rightarrow> owner_object \<Rightarrow> (OcpBuild, stage_inputs) cluster \<Rightarrow> bool" where
  "build_ready sch hash mld push owner w \<longleftrightarrow>
     \<not> cl_fails w \<and> is_ok (fst (MakeBuildTemplate configmap_reader sch hash dtk_reader mld push owner w))"

definition sign_ready ::
    "scheme \<Rightarrow> (hashData \<Rightarrow> 64 word result) \<Rightarrow> string \<Rightarrow> ModuleLoaderData \<Rightarrow> string \<Rightarrow> bool \<Rightarrow> owner_object \<Rightarrow> (Job, stage_inputs) cluster \<Rightarrow> bool" where
  "sign_ready sch hash img mld source push owner w \<longleftrightarrow>
     \<not> cl_fails w \<and> is_ok (fst (MakeJobTemplate (signer_reader sch hash img) mld (sign_labels mld) source push owner w))"

lemma exactly_one_many: "2 \<le> length xs \<Longrightarrow> exactly_one none many xs = Err (many (length xs))"
  by (cases xs; cases "tl xs") auto

lemma Build_Sync_effect:
  assumes "stored_Build_Sync sch hash mld push owner w = (r, w')"
  shows "cl_cache w' = cl_cache w \<and>
      (cl_objects w' = cl_objects w \<or>
       filter (build_of mld) (cl_cache w) = [] \<and> (\<exists>c. build_of mld c \<and> cl_objects w' = cl_objects w @ [c]) \<or>
       (\<exists>p. length (filter (build_of mld) (cl_cache w)) = 1 \<and> cl_objects w' = filter p (cl_objects w)))"
proof -
  obtain f where f: "\<And>w :: (OcpBuild, stage_inputs) cluster. MakeBuildTemplate configmap_reader sch hash dtk_reader mld push owner w = (f (cl_rest w), w)"
    using MakeBuildTemplate_reads[of sch hash mld push owner] unfolding only_reads_def by blast
  show ?thesis
  proof (cases "f (cl_rest w)")
    case (Ok t)
    with f have t: "MakeBuildTemplate configmap_reader sch hash dtk_reader mld push owner w = (Ok t, w)" by simp
    note mine = build_template_mine[OF t]
    show ?thesis
    proof (cases rule: stored_cases[of "filter (build_of mld) (cl_cache w)"])
      case none
      then show ?thesis using assms t mine
        by (auto simp: Build_Sync_def GetBuild_store store_writes bind_io_def wrap_io_def attempt_io_def
            split: if_split_asm)
    next
      case (one x)
      then show ?thesis using assms t
        by (auto simp: Build_Sync_def GetBuild_store store_writes bind_io_def wrap_io_def attempt_io_def
            split: if_split_asm result.split_asm)
    next
      case many
      then show ?thesis using assms t
        by (auto simp: Build_Sync_def GetBuild_store exactly_one_many bind_io_def wrap_io_def attempt_io_def errNoMatchingBuild_def)
    qed
  qed (use assms f in \<open>auto simp: Build_Sync_def bind_io_def wrap_io_def\<close>)
qed


lemma Sign_Sync_effect:
  assumes "stored_Sign_Sync sch hash img mld source push owner w = (r, w')"
  shows "cl_cache w' = cl_cache w \<and>
      (cl_objects w' = cl_objects w \<or>
       filter (sign_job_of mld owner) (cl_cache w) = [] \<and> (\<exists>c. sign_job_of mld owner c \<and> cl_objects w' = cl_objects w @ [c]) \<or>
       (\<exists>p. length (filter (sign_job_of mld owner) (cl_cache w)) = 1 \<and> cl_objects w' = filter p (cl_objects w)))"
proof -
  let ?make = "MakeJobTemplate (signer_reader sch hash img) mld (sign_labels mld) source push owner"
  obtain f where f: "\<And>w :: (Job, stage_inputs) cluster. ?make w = (f (cl_rest w), w)"
    using MakeJobTemplate_reads[of sch hash img mld "sign_labels mld" source push owner] unfolding only_reads_def by blast
  show ?thesis
  proof (cases "f (cl_rest w)")
    case (Ok t)
    with f have t: "?make w = (Ok t, w)" by simp
    note mine = job_template_mine[OF t]
    show ?thesis
    proof (cases rule: stored_cases[of "filter (sign_job_of mld owner) (cl_cache w)"])
      case none
      then show ?thesis using assms t mine
        by (auto simp: Sign_Sync_def get_sign_job_store CreateJob_def store_writes Let_def bind_io_def wrap_io_def attempt_io_def
            split: if_split_asm)
    next
      case (one x)
      then show ?thesis using assms t
        by (auto simp: Sign_Sync_def get_sign_job_store DeleteJob_def store_writes Let_def bind_io_def wrap_io_def attempt_io_def
            split: if_split_asm result.split_asm)
    next
      case many
      then show ?thesis using assms t
        by (auto simp: Sign_Sync_def get_sign_job_store exactly_one_many Let_def bind_io_def wrap_io_def attempt_io_def ErrNoMatchingJob_def)
    qed
  qed (use assms f in \<open>auto simp: Sign_Sync_def bind_io_def wrap_io_def Let_def\<close>)
qed

interpretation stored_build: stored_sync "stored_Build_Sync sch hash mld push owner" "build_of mld" "build_ready sch hash mld push owner"
  for sch hash mld push owner
proof (unfold_locales, goal_cases)
  case (1 w r w')
  then show ?case by (rule Build_Sync_effect)
next
  case (2 w)
  obtain r where "MakeBuildTemplate configmap_reader sch hash dtk_reader mld push owner w = (r, w)"
    using MakeBuildTemplate_reads[of sch hash mld push owner] unfolding only_reads_def by blast
  with 2 show ?case
    by (cases r) (auto simp: Build_Sync_def GetBuild_store exactly_one_many bind_io_def wrap_io_def attempt_io_def errNoMatchingBuild_def)
next
  case (3 w)
  obtain f where f: "\<And>w :: (OcpBuild, stage_inputs) cluster. MakeBuildTemplate configmap_reader sch hash dtk_reader mld push owner w = (f (cl_rest w), w)"
    using MakeBuildTemplate_reads[of sch hash mld push owner] unfolding only_reads_def by blast
  with 3(1) obtain t where t: "f (cl_rest w) = Ok t" "\<not> cl_fails w" by (cases "f (cl_rest w)") (auto simp: build_ready_def)
  then have m: "MakeBuildTemplate configmap_reader sch hash dtk_reader mld push owner w = (Ok t, w)" using f by simp
  from t 3(2) f show ?case
    by (intro exI[of _ "t\<lparr>ob_meta := named (cl_next w) (ob_meta t)\<rparr>"])
      (auto simp: Build_Sync_def GetBuild_store store_writes bind_io_def wrap_io_def attempt_io_def build_ready_def
        build_template_mine[OF m])
qed

interpretation stored_sign: stored_sync "stored_Sign_Sync sch hash img mld source push owner" "sign_job_of mld owner"
    "sign_ready sch hash img mld source push owner"
  for sch hash img mld source push owner
proof (unfold_locales, goal_cases)
  case (1 w r w')
  then show ?case by (rule Sign_Sync_effect)
next
  case (2 w)
  obtain r where "MakeJobTemplate (signer_reader sch hash img) mld (sign_labels mld) source push owner w = (r, w)"
    using MakeJobTemplate_reads[of sch hash img mld "sign_labels mld" source push owner] unfolding only_reads_def by blast
  with 2 show ?case
    by (cases r) (auto simp: Sign_Sync_def get_sign_job_store exactly_one_many Let_def bind_io_def wrap_io_def attempt_io_def ErrNoMatchingJob_def)
next
  case (3 w)
  let ?make = "MakeJobTemplate (signer_reader sch hash img) mld (sign_labels mld) source push owner"
  obtain f where f: "\<And>w :: (Job, stage_inputs) cluster. ?make w = (f (cl_rest w), w)"
    using MakeJobTemplate_reads[of sch hash img mld "sign_labels mld" source push owner] unfolding only_reads_def by blast
  with 3(1) obtain t where t: "f (cl_rest w) = Ok t" "\<not> cl_fails w" by (cases "f (cl_rest w)") (auto simp: sign_ready_def)
  then have m: "?make w = (Ok t, w)" using f by simp
  from t 3(2) f show ?case
    by (intro exI[of _ "t\<lparr>job_meta := named (cl_next w) (job_meta t)\<rparr>"])
      (auto simp: Sign_Sync_def get_sign_job_store CreateJob_def store_writes Let_def bind_io_def wrap_io_def attempt_io_def
        sign_ready_def job_template_mine[OF m])
qed


section \<open>Properties\<close>

text \<open>C15. A Module never has more than one Build for a kernel: whatever happens to the objects, the inputs and the API
  server in between, synchronisations that see the current objects keep it that way.\<close>

theorem one_build_per_kernel:
  assumes "stage_steps (Build_Sync configmap_reader build_store sch hash dtk_reader mld push owner) (build_of mld) True w as w'"
    and "length (objects_of (build_of mld) w) \<le> 1"
  shows "length (objects_of (build_of mld) w') \<le> 1"
  using assms by (rule stored_build.one_object)

text \<open>The same of signing jobs.\<close>

lemma one_sign_job_per_kernel:
  assumes "stage_steps (Sign_Sync (signer_reader sch hash img) job_store mld source push owner) (sign_job_of mld owner) True w as w'"
    and "length (objects_of (sign_job_of mld owner) w) \<le> 1"
  shows "length (objects_of (sign_job_of mld owner) w') \<le> 1"
  using assms by (rule stored_sign.one_object)

abbreviation build_runs where
  "build_runs sch hash mld push owner \<equiv>
     stage_steps (Build_Sync configmap_reader build_store sch hash dtk_reader mld push owner) (build_of mld) False"

text \<open>C16. The manager finds its Build by labels in the cache and lets the server choose the name: when it runs twice before
  the cache has seen the first Build, there are two, and from the moment the cache has caught up every
  synchronisation fails and both stay, until someone else deletes one.\<close>

theorem lagging_cache_blocks_builds:
  assumes "build_ready sch hash mld push owner w" "cl_cache w = cl_objects w" "objects_of (build_of mld) w = []"
  shows "\<exists>w1. build_runs sch hash mld push owner w [Syncs (Ok StatusCreated), Syncs (Ok StatusCreated), Observes] w1 \<and>
    (\<forall>as w2. build_runs sch hash mld push owner w1 as w2 \<longrightarrow> Deletes \<notin> set as \<longrightarrow>
      2 \<le> length (objects_of (build_of mld) w2) \<and> (\<forall>r. Syncs r \<in> set as \<longrightarrow> \<not> is_ok r))"
proof -
  obtain w1 where w1: "build_runs sch hash mld push owner w [Syncs (Ok StatusCreated), Syncs (Ok StatusCreated)] w1" "length (objects_of (build_of mld) w1) = 2"
    using stored_build.lagging_cache_duplicates[OF assms(1-3)] by blast
  let ?w = "w1\<lparr>cl_cache := cl_objects w1\<rparr>"
  have r: "build_runs sch hash mld push owner w [Syncs (Ok StatusCreated), Syncs (Ok StatusCreated), Observes] ?w"
    using stage_steps.more[OF w1(1) stage_step.observes] by simp
  have two: "2 \<le> length (objects_of (build_of mld) ?w) \<and> 2 \<le> length (filter (build_of mld) (cl_cache ?w))"
    using w1(2) by (simp add: objects_of_def)
  have "2 \<le> length (objects_of (build_of mld) w2) \<and> (\<forall>r. Syncs r \<in> set as \<longrightarrow> \<not> is_ok r)"
    if "build_runs sch hash mld push owner ?w as w2" "Deletes \<notin> set as" for as w2
    using stored_build.duplicates_stay[OF that(1) that(2) two] by simp
  with r show ?thesis by blast
qed

lemma lagging_cache_blocks_sign_jobs:
  assumes "stage_steps (Sign_Sync (signer_reader sch hash img) job_store mld source push owner) (sign_job_of mld owner) fresh w as w'"
    and "Deletes \<notin> set as" "cl_cache w = cl_objects w" "2 \<le> length (objects_of (sign_job_of mld owner) w)"
  shows "2 \<le> length (objects_of (sign_job_of mld owner) w') \<and> (\<forall>r. Syncs r \<in> set as \<longrightarrow> \<not> is_ok r)"
  using stored_sign.duplicates_stay[OF assms(1,2)] assms(3,4) by (simp add: objects_of_def)

text \<open>A cluster with the Dockerfile of the sample Module and no Build.\<close>

definition sample_stage :: "(OcpBuild, stage_inputs) cluster" where
  "sample_stage = \<lparr>cl_objects = [], cl_cache = [], cl_next = 0, cl_fails = False,
     cl_rest = \<lparr>in_configmap = \<lambda>_. Ok sample_dockerfile, in_configmaps = \<lambda>_ _. Ok [], in_serviceaccount = \<lambda>_. Err (ErrorMsg []),
       in_secret = \<lambda>_. Err (ErrorMsg []), in_mapping = \<lparr>kernelToOs = fmupd ''5.14.0-70'' ''os'' fmempty, osToDtk = fmupd ''os'' ''dtk'' fmempty\<rparr>\<rparr>\<rparr>"

definition stage_scheme :: scheme where
  "stage_scheme _ = Ok \<lparr>gvk_APIVersion = ''v1'', gvk_Kind = ''Module''\<rparr>"

abbreviation sample_stage_mld :: ModuleLoaderData where
  "sample_stage_mld \<equiv> sample_mld (Some sample_build) None"

lemma sample_stage_ready: "build_ready stage_scheme (\<lambda>_. Ok 7) sample_stage_mld True (module_owner (sample_module [])) sample_stage"
  by (simp add: build_ready_def MakeBuildTemplate_def getDockerfileData_def dtk_overrides_def configmap_reader_def read_client_def
      dtk_reader_def GetImage_def sample_stage_def sample_dockerfile_def sample_defs module_owner_def SetControllerReference_def validateOwner_def
      stage_scheme_def GetControllerOf_def empty_meta_def dtkBuildArg_def bind_io_def wrap_io_def Let_def)

theorem one_build_per_kernel_witness:
  "\<exists>w' r. stage_step (Build_Sync configmap_reader build_store stage_scheme (\<lambda>_. Ok 7) dtk_reader sample_stage_mld True
       (module_owner (sample_module []))) (build_of sample_stage_mld) True sample_stage (Syncs r) w' \<and>
     length (objects_of (build_of sample_stage_mld) w') \<le> 1"
proof -
  let ?s = "Build_Sync configmap_reader build_store stage_scheme (\<lambda>_. Ok 7) dtk_reader sample_stage_mld True
       (module_owner (sample_module []))"
  obtain r w' where "?s sample_stage = (r, w')" by fastforce
  then have s: "stage_step ?s (build_of sample_stage_mld) True sample_stage (Syncs r) w'"
    by (intro stage_step.syncs) (simp_all add: sample_stage_def)
  have "length (objects_of (build_of sample_stage_mld) sample_stage) \<le> 1" by (simp add: objects_of_def sample_stage_def)
  from one_build_per_kernel[OF stage_steps.more[OF stage_steps.none s] this] s show ?thesis by blast
qed

theorem lagging_cache_blocks_builds_witness:
  "\<exists>w1. length (objects_of (build_of sample_stage_mld) w1) \<ge> 2 \<and>
     stage_steps (Build_Sync configmap_reader build_store stage_scheme (\<lambda>_. Ok 7) dtk_reader sample_stage_mld True
       (module_owner (sample_module []))) (build_of sample_stage_mld) False sample_stage
       [Syncs (Ok StatusCreated), Syncs (Ok StatusCreated), Observes] w1"
proof -
  have "cl_cache sample_stage = cl_objects sample_stage" "objects_of (build_of sample_stage_mld) sample_stage = []"
    by (simp_all add: sample_stage_def objects_of_def)
  from lagging_cache_blocks_builds[OF sample_stage_ready this] show ?thesis
    by (metis empty_iff list.set(1) stage_steps.none)
qed

end
