(* ===== verification/Stage_Convergence.thy ===== *)
theory Stage_Convergence
  imports Stage_System
begin

text \<open>
  The build and sign stages come to an end. A round lets the cluster finish the objects of the stage and the cache see
  them, and then runs the manager once. The law is proved once for both managers in a locale, then interpreted on each.
\<close>

section \<open>Rounds\<close>

definition settle :: "('o \<Rightarrow> 'o) \<Rightarrow> ('o, 'x) cluster \<Rightarrow> ('o, 'x) cluster" where
  "settle finish w = w\<lparr>cl_objects := map finish (cl_objects w), cl_cache := map finish (cl_objects w)\<rparr>"

definition stage_round :: "('o \<Rightarrow> 'o) \<Rightarrow> (('o, 'x) cluster, string) io \<Rightarrow> (('o, 'x) cluster, string) io" where
  "stage_round finish sync w = sync (settle finish w)"

text \<open>What the manager returns in round \<^verbatim>\<open>n\<close>, counted from 0, and the cluster it leaves.\<close>

fun nth_round :: "('o \<Rightarrow> 'o) \<Rightarrow> (('o, 'x) cluster, string) io \<Rightarrow> nat \<Rightarrow> (('o, 'x) cluster, string) io" where
  "nth_round finish sync 0 w = stage_round finish sync w"
| "nth_round finish sync (Suc n) w = nth_round finish sync n (snd (stage_round finish sync w))"

text \<open>The objects a stage can go on from: none, or one that is outdated, or one that is current and will finish.\<close>

definition can_settle :: "('o \<Rightarrow> bool) \<Rightarrow> ('x \<Rightarrow> 'o \<Rightarrow> bool result) \<Rightarrow> ('o \<Rightarrow> bool) \<Rightarrow> ('o, 'x) cluster \<Rightarrow> bool" where
  "can_settle mine changed dead w = (case objects_of mine w of
     [] \<Rightarrow> True
   | [x] \<Rightarrow> changed (cl_rest w) x = Ok True \<or> changed (cl_rest w) x = Ok False \<and> \<not> dead x
   | _ \<Rightarrow> False)"

text \<open>\<^verbatim>\<open>changed\<close> compares an object with what the inputs ask for now, \<^verbatim>\<open>dead\<close> objects have ended without success.\<close>

locale settling_sync =
  fixes sync :: "(('o, 'x) cluster, string) io" and mine :: "'o \<Rightarrow> bool" and ready :: "'x \<Rightarrow> bool"
    and meta :: "'o \<Rightarrow> ObjectMeta" and finish :: "'o \<Rightarrow> 'o" and changed :: "'x \<Rightarrow> 'o \<Rightarrow> bool result" and dead :: "'o \<Rightarrow> bool"
  assumes finish_keeps: "mine (finish x) = mine x" "changed r (finish x) = changed r x"
    and creates: "ready (cl_rest w) \<Longrightarrow> \<not> cl_fails w \<Longrightarrow> filter mine (cl_cache w) = [] \<Longrightarrow>
      \<exists>c. mine c \<and> changed (cl_rest w) c = Ok False \<and> \<not> dead c \<and>
        sync w = (Ok StatusCreated, w\<lparr>cl_objects := cl_objects w @ [c], cl_next := Suc (cl_next w)\<rparr>)"
    and replaces: "ready (cl_rest w) \<Longrightarrow> \<not> cl_fails w \<Longrightarrow> filter mine (cl_cache w) = [x] \<Longrightarrow> changed (cl_rest w) x = Ok True \<Longrightarrow>
      sync w = (Ok StatusInProgress,
        w\<lparr>cl_objects := filter (\<lambda>y. ObjectKeyFromObject (meta y) \<noteq> ObjectKeyFromObject (meta x)) (cl_objects w)\<rparr>)"
    and completed: "ready (cl_rest w) \<Longrightarrow> mine x \<Longrightarrow> \<not> dead x \<Longrightarrow> filter mine (cl_cache w) = [finish x] \<Longrightarrow>
      changed (cl_rest w) x = Ok False \<Longrightarrow> sync w = (Ok StatusCompleted, w)"
    and finish_alive: "dead (finish x) = dead x"
    and stuck: "ready (cl_rest w) \<Longrightarrow> cl_cache w = cl_objects w \<Longrightarrow> \<not> can_settle mine changed dead w \<Longrightarrow>
      \<exists>r. sync w = (r, w) \<and> r \<noteq> Ok StatusCompleted"
begin

definition alive :: "('o, 'x) cluster \<Rightarrow> bool" where
  "alive w \<longleftrightarrow> ready (cl_rest w) \<and> \<not> cl_fails w"

definition current :: "('o, 'x) cluster \<Rightarrow> bool" where
  "current w \<longleftrightarrow> alive w \<and> (\<exists>x. objects_of mine w = [x] \<and> changed (cl_rest w) x = Ok False \<and> \<not> dead x)"

lemma settle_simps [simp]:
  "cl_rest (settle finish w) = cl_rest w" "cl_fails (settle finish w) = cl_fails w"
  "cl_cache (settle finish w) = cl_objects (settle finish w)"
  "filter mine (cl_objects (settle finish w)) = map finish (objects_of mine w)"
  by (simp_all add: settle_def filter_map comp_def finish_keeps objects_of_def)

lemma objects_of_update [simp]: "objects_of mine (w\<lparr>cl_objects := xs, cl_next := n\<rparr>) = filter mine xs"
  by (simp add: objects_of_def)

lemma round_current:
  assumes "current w"
  shows "fst (stage_round finish sync w) = Ok StatusCompleted \<and> current (snd (stage_round finish sync w))"
proof -
  obtain x where x: "objects_of mine w = [x]" "changed (cl_rest w) x = Ok False" "\<not> dead x" "ready (cl_rest w)" "\<not> cl_fails w"
    using assms by (auto simp: current_def alive_def)
  have "mine x" using x(1) by (auto simp: objects_of_def filter_eq_Cons_iff)
  with x have "sync (settle finish w) = (Ok StatusCompleted, settle finish w)" by (intro completed) simp_all
  moreover have "current (settle finish w)"
    using x by (simp add: current_def alive_def objects_of_def[of _ "settle finish w"] finish_keeps finish_alive)
  ultimately show ?thesis by (simp add: stage_round_def)
qed

lemma round_absent:
  assumes "alive w" "objects_of mine w = []"
  shows "current (snd (stage_round finish sync w))"
proof -
  have "filter mine (cl_cache (settle finish w)) = []" using assms(2) by simp
  from creates[OF _ _ this] assms(1) obtain c where "mine c" "changed (cl_rest w) c = Ok False" "\<not> dead c"
    "sync (settle finish w) = (Ok StatusCreated, (settle finish w)
      \<lparr>cl_objects := cl_objects (settle finish w) @ [c], cl_next := Suc (cl_next (settle finish w))\<rparr>)"
    by (auto simp: alive_def)
  with assms show ?thesis by (simp add: stage_round_def current_def alive_def)
qed

lemma round_outdated:
  assumes "alive w" "objects_of mine w = [x]" "changed (cl_rest w) x = Ok True"
  shows "alive (snd (stage_round finish sync w)) \<and> objects_of mine (snd (stage_round finish sync w)) = []"
proof -
  let ?s = "settle finish w"
  have f: "filter mine (cl_cache ?s) = [finish x]" using assms(2) by simp
  have s: "sync ?s = (Ok StatusInProgress, ?s\<lparr>cl_objects :=
      filter (\<lambda>y. ObjectKeyFromObject (meta y) \<noteq> ObjectKeyFromObject (meta (finish x))) (cl_objects ?s)\<rparr>)"
    using assms by (intro replaces[OF _ _ f]) (simp_all add: alive_def finish_keeps)
  have "y = finish x" if "y \<in> set (cl_objects ?s)" "mine y" for y
  proof -
    have "y \<in> set (filter mine (cl_objects ?s))" using that by (simp del: settle_simps)
    then show ?thesis using assms(2) by simp
  qed
  with s assms(1) show ?thesis by (auto simp: stage_round_def alive_def objects_of_def filter_empty_conv)
qed

lemma current_rounds: "current w \<Longrightarrow> fst (nth_round finish sync n w) = Ok StatusCompleted \<and> current (snd (nth_round finish sync n w))"
  by (induction n arbitrary: w) (simp_all add: round_current)

lemma can_settle_settle: "can_settle mine changed dead (settle finish w) = can_settle mine changed dead w"
  by (simp add: can_settle_def objects_of_def[of _ "settle finish w"] finish_keeps finish_alive split: list.split)

lemma stuck_rounds:
  "ready (cl_rest w) \<Longrightarrow> \<not> can_settle mine changed dead w \<Longrightarrow> fst (nth_round finish sync n w) \<noteq> Ok StatusCompleted"
proof (induction n arbitrary: w)
  case 0
  then show ?case using stuck[of "settle finish w"] by (auto simp: stage_round_def can_settle_settle)
next
  case (Suc n)
  then obtain r where "sync (settle finish w) = (r, settle finish w)"
    using stuck[of "settle finish w"] by (auto simp: can_settle_settle)
  with Suc show ?case by (simp add: stage_round_def can_settle_settle)
qed

lemma converges:
  assumes "alive w" "can_settle mine changed dead w" "2 \<le> n"
  shows "fst (nth_round finish sync n w) = Ok StatusCompleted \<and> current (snd (nth_round finish sync n w))"
proof -
  let ?next = "\<lambda>w. snd (stage_round finish sync w)"
  obtain m where n: "n = Suc (Suc m)" using assms(3) by (metis Suc_le_D numeral_2_eq_2 Suc_le_mono)
  have "current (?next (?next w))"
  proof (cases "objects_of mine w")
    case Nil
    then show ?thesis using assms(1) by (simp add: round_current round_absent)
  next
    case (Cons x xs)
    with assms(2) consider "objects_of mine w = [x]" "changed (cl_rest w) x = Ok True"
      | "objects_of mine w = [x]" "changed (cl_rest w) x = Ok False" "\<not> dead x"
      by (auto simp: can_settle_def split: list.split_asm)
    then show ?thesis
    proof cases
      case 1
      then show ?thesis using assms(1) by (simp add: round_absent round_outdated)
    next
      case 2
      with assms(1) have "current w" by (simp add: current_def)
      then show ?thesis by (simp add: round_current)
    qed
  qed
  then show ?thesis by (simp add: n current_rounds)
qed

lemma converges_iff:
  assumes "alive w" "2 \<le> n"
  shows "fst (nth_round finish sync n w) = Ok StatusCompleted \<longleftrightarrow> can_settle mine changed dead w"
  using converges[OF assms(1) _ assms(2)] stuck_rounds[of w n] assms(1) by (auto simp: alive_def)

end

section \<open>The build stage\<close>

text \<open>The template for given inputs, and the comparison of a Build with it.\<close>

definition build_template_for ::
    "scheme \<Rightarrow> (BuildSource \<Rightarrow> 64 word result) \<Rightarrow> ModuleLoaderData \<Rightarrow> bool \<Rightarrow> owner_object \<Rightarrow> stage_inputs \<Rightarrow> OcpBuild result" where
  "build_template_for sch hash mld push owner x = fst (MakeBuildTemplate configmap_reader sch hash dtk_reader mld push owner
     (\<lparr>cl_objects = [], cl_cache = [], cl_next = 0, cl_fails = False, cl_rest = x\<rparr> :: (OcpBuild, stage_inputs) cluster))"

definition against :: "'a result \<Rightarrow> ('a \<Rightarrow> bool result) \<Rightarrow> bool result" where
  "against r p = (case r of Ok t \<Rightarrow> p t | Err e \<Rightarrow> Err e | Panic e \<Rightarrow> Panic e)"

definition build_changed ::
    "scheme \<Rightarrow> (BuildSource \<Rightarrow> 64 word result) \<Rightarrow> ModuleLoaderData \<Rightarrow> bool \<Rightarrow> owner_object \<Rightarrow> stage_inputs \<Rightarrow> OcpBuild \<Rightarrow> bool result" where
  "build_changed sch hash mld push owner x b = against (build_template_for sch hash mld push owner x) (isBuildChanged b)"

definition build_dead :: "OcpBuild \<Rightarrow> bool" where
  "build_dead b \<longleftrightarrow> ob_Phase b \<in> {''Failed'', ''Error'', ''Cancelled''}"

definition finish_build :: "ModuleLoaderData \<Rightarrow> OcpBuild \<Rightarrow> OcpBuild" where
  "finish_build mld b = (if build_of mld b \<and> \<not> build_dead b then b\<lparr>ob_Phase := ''Complete''\<rparr> else b)"

lemma build_template_for: "MakeBuildTemplate configmap_reader sch hash dtk_reader mld push owner w =
    (build_template_for sch hash mld push owner (cl_rest w), (w :: (OcpBuild, stage_inputs) cluster))"
proof -
  obtain f where "\<And>w :: (OcpBuild, stage_inputs) cluster. MakeBuildTemplate configmap_reader sch hash dtk_reader mld push owner w = (f (cl_rest w), w)"
    using MakeBuildTemplate_reads[of sch hash mld push owner] unfolding only_reads_def by blast
  then show ?thesis by (simp add: build_template_for_def)
qed

lemma finish_build_meta [simp]: "ob_meta (finish_build mld b) = ob_meta b"
  by (simp add: finish_build_def)

lemma isBuildChanged_finish [simp]: "isBuildChanged (finish_build mld b) t = isBuildChanged b t"
  by (simp only: isBuildChanged_def finish_build_meta)

lemma build_template_current:
  assumes "MakeBuildTemplate cms sch hash dtk mld push owner w = (Ok t, w')"
  shows "isBuildChanged (t\<lparr>ob_meta := named n (ob_meta t)\<rparr>) t = Ok False" "\<not> build_dead t"
proof -
  obtain h :: "64 word" where "om_Annotations (ob_meta t) = Some (fmupd buildHashAnnotation (decimal (unat h)) fmempty)"
    using assms by (rule MakeBuildTemplate_OkE)
  then show "isBuildChanged (t\<lparr>ob_meta := named n (ob_meta t)\<rparr>) t = Ok False" by (simp add: isBuildChanged_def named_def)
  show "\<not> build_dead t" using assms by (auto simp: MakeBuildTemplate_def Let_def io_elims build_dead_def)
qed

lemmas build_sync_simps = Build_Sync_def build_template_for GetBuild_store store_writes bind_io_def wrap_io_def attempt_io_def

interpretation settling_build: settling_sync "stored_Build_Sync sch hash mld push owner" "build_of mld"
    "\<lambda>x. is_ok (build_template_for sch hash mld push owner x)" ob_meta "finish_build mld" "build_changed sch hash mld push owner" build_dead
  for sch hash mld push owner
proof (unfold_locales, goal_cases)
  case (1 b)
  show ?case by (simp add: build_of_def)
next
  case (2 x b)
  show ?case by (simp add: build_changed_def against_def split: result.split)
next
  case (3 w)
  then obtain t where t: "build_template_for sch hash mld push owner (cl_rest w) = Ok t"
    by (cases "build_template_for sch hash mld push owner (cl_rest w)") auto
  then have m: "MakeBuildTemplate configmap_reader sch hash dtk_reader mld push owner w = (Ok t, w)" by (simp add: build_template_for)
  show ?case using 3 t build_template_mine[OF m] build_template_current[OF m]
    by (intro exI[of _ "t\<lparr>ob_meta := named (cl_next w) (ob_meta t)\<rparr>"])
      (simp add: build_sync_simps build_changed_def against_def build_dead_def)
next
  case (4 w b)
  then show ?case by (cases "build_template_for sch hash mld push owner (cl_rest w)")
    (simp_all add: build_sync_simps build_changed_def against_def)
next
  case (5 w b)
  then have "ob_Phase (finish_build mld b) = ''Complete''" by (simp add: finish_build_def)
  with 5 show ?case by (cases "build_template_for sch hash mld push owner (cl_rest w)")
    (simp_all add: build_sync_simps build_changed_def against_def build_status_def)
next
  case (6 b)
  show ?case by (simp add: finish_build_def build_dead_def)
next
  case (7 w)
  then obtain t where t: "build_template_for sch hash mld push owner (cl_rest w) = Ok t"
    by (cases "build_template_for sch hash mld push owner (cl_rest w)") auto
  show ?case
  proof (cases rule: stored_cases[of "filter (build_of mld) (cl_cache w)"])
    case (one b)
    with 7 t have "isBuildChanged b t \<noteq> Ok True" "isBuildChanged b t = Ok False \<longrightarrow> build_dead b"
      by (auto simp: can_settle_def objects_of_def build_changed_def against_def)
    with one t show ?thesis by (cases "isBuildChanged b t")
      (auto simp: build_sync_simps build_dead_def build_status_def)
  next
    case many
    from stored_build.many[OF this, of sch hash push owner] show ?thesis by fastforce
  qed (use 7 in \<open>simp add: can_settle_def objects_of_def\<close>)
qed

section \<open>The sign stage\<close>

definition job_template_for ::
    "scheme \<Rightarrow> (hashData \<Rightarrow> 64 word result) \<Rightarrow> string \<Rightarrow> ModuleLoaderData \<Rightarrow> string \<Rightarrow> bool \<Rightarrow> owner_object \<Rightarrow> stage_inputs \<Rightarrow> Job result" where
  "job_template_for sch hash img mld source push owner x =
     fst (MakeJobTemplate (signer_reader sch hash img) mld (sign_labels mld) source push owner
       (\<lparr>cl_objects = [], cl_cache = [], cl_next = 0, cl_fails = False, cl_rest = x\<rparr> :: (Job, stage_inputs) cluster))"

definition job_changed ::
    "scheme \<Rightarrow> (hashData \<Rightarrow> 64 word result) \<Rightarrow> string \<Rightarrow> ModuleLoaderData \<Rightarrow> string \<Rightarrow> bool \<Rightarrow> owner_object \<Rightarrow> stage_inputs \<Rightarrow> Job \<Rightarrow> bool result" where
  "job_changed sch hash img mld source push owner x j =
     against (job_template_for sch hash img mld source push owner x) (IsJobChanged j)"

definition job_dead :: "Job \<Rightarrow> bool" where
  "job_dead j \<longleftrightarrow> job_Failed j \<noteq> 0 \<and> job_Succeeded j \<noteq> 1"

definition finish_job :: "ModuleLoaderData \<Rightarrow> owner_object \<Rightarrow> Job \<Rightarrow> Job" where
  "finish_job mld owner j =
     (if sign_job_of mld owner j \<and> \<not> job_dead j then j\<lparr>job_Active := 0, job_Succeeded := 1\<rparr> else j)"

lemma job_template_for: "MakeJobTemplate (signer_reader sch hash img) mld (sign_labels mld) source push owner w =
    (job_template_for sch hash img mld source push owner (cl_rest w), (w :: (Job, stage_inputs) cluster))"
proof -
  let ?make = "MakeJobTemplate (signer_reader sch hash img) mld (sign_labels mld) source push owner"
  obtain f where "\<And>w :: (Job, stage_inputs) cluster. ?make w = (f (cl_rest w), w)"
    using MakeJobTemplate_reads[of sch hash img mld "sign_labels mld" source push owner] unfolding only_reads_def by blast
  then show ?thesis by (simp add: job_template_for_def)
qed

lemma finish_job_meta [simp]: "job_meta (finish_job mld owner j) = job_meta j"
  by (simp add: finish_job_def)

lemma IsJobChanged_finish [simp]: "IsJobChanged (finish_job mld owner j) t = IsJobChanged j t"
  by (simp only: IsJobChanged_def finish_job_meta)

lemma job_template_current:
  assumes "MakeJobTemplate se mld labels img push owner w = (Ok t, w')"
  shows "IsJobChanged (t\<lparr>job_meta := named n (job_meta t)\<rparr>) t = Ok False" "\<not> job_dead t"
proof -
  obtain h :: "64 word" where "om_Annotations (job_meta t) = Some (fmupd JobHashAnnotation (decimal (unat h)) fmempty)"
    using assms by (rule MakeJobTemplate_OkE)
  then show "IsJobChanged (t\<lparr>job_meta := named n (job_meta t)\<rparr>) t = Ok False" by (simp add: IsJobChanged_def named_def)
  show "\<not> job_dead t" using assms by (auto simp: MakeJobTemplate_def Let_def io_elims job_dead_def)
qed

lemmas sign_sync_simps = Sign_Sync_def Let_def job_template_for get_sign_job_store CreateJob_def DeleteJob_def store_writes
  bind_io_def wrap_io_def attempt_io_def

interpretation settling_sign: settling_sync "stored_Sign_Sync sch hash img mld source push owner" "sign_job_of mld owner"
    "\<lambda>x. is_ok (job_template_for sch hash img mld source push owner x)" job_meta "finish_job mld owner"
    "job_changed sch hash img mld source push owner" job_dead
  for sch hash img mld source push owner
proof (unfold_locales, goal_cases)
  case (1 j)
  show ?case by (simp add: sign_job_of_def)
next
  case (2 x j)
  show ?case by (simp add: job_changed_def against_def split: result.split)
next
  case (3 w)
  then obtain t where t: "job_template_for sch hash img mld source push owner (cl_rest w) = Ok t"
    by (cases "job_template_for sch hash img mld source push owner (cl_rest w)") auto
  then have m: "MakeJobTemplate (signer_reader sch hash img) mld (sign_labels mld) source push owner w = (Ok t, w)"
    by (simp add: job_template_for)
  show ?case using 3 t job_template_mine[OF m] job_template_current[OF m]
    by (intro exI[of _ "t\<lparr>job_meta := named (cl_next w) (job_meta t)\<rparr>"])
      (simp add: sign_sync_simps job_changed_def against_def job_dead_def)
next
  case (4 w j)
  then show ?case by (cases "job_template_for sch hash img mld source push owner (cl_rest w)")
    (simp_all add: sign_sync_simps job_changed_def against_def)
next
  case (5 w j)
  then have "job_Succeeded (finish_job mld owner j) = 1" by (simp add: finish_job_def)
  with 5 show ?case by (cases "job_template_for sch hash img mld source push owner (cl_rest w)")
    (simp_all add: sign_sync_simps job_changed_def against_def GetJobStatus_def)
next
  case (6 j)
  show ?case by (simp add: finish_job_def job_dead_def)
next
  case (7 w)
  then obtain t where t: "job_template_for sch hash img mld source push owner (cl_rest w) = Ok t"
    by (cases "job_template_for sch hash img mld source push owner (cl_rest w)") auto
  show ?case
  proof (cases rule: stored_cases[of "filter (sign_job_of mld owner) (cl_cache w)"])
    case (one j)
    with 7 t have "IsJobChanged j t \<noteq> Ok True" "IsJobChanged j t = Ok False \<longrightarrow> job_dead j"
      by (auto simp: can_settle_def objects_of_def job_changed_def against_def)
    with one t show ?thesis by (cases "IsJobChanged j t")
      (auto simp: sign_sync_simps job_dead_def GetJobStatus_def StatusCompleted_def StatusInProgress_def StatusFailed_def)
  next
    case many
    from stored_sign.many[OF this, of sch hash img source push] show ?thesis by fastforce
  qed (use 7 in \<open>simp add: can_settle_def objects_of_def\<close>)
qed

section \<open>Properties\<close>

text \<open>C17. The build stage converges, and from exactly these states: with inputs that give a template and an API server that
  accepts writes, the manager reports completion in the third round and every later one if and only if there was no
  Build, or one that is outdated, or one for the current inputs that has not failed. A failed Build of the current inputs, a
  Build without annotations and two Builds are never recovered from.\<close>

theorem build_stage_converges:
  assumes "build_ready sch hash mld push owner w" "2 \<le> n"
  shows "fst (nth_round (finish_build mld) (Build_Sync configmap_reader build_store sch hash dtk_reader mld push owner) n w)
      = Ok StatusCompleted \<longleftrightarrow>
    can_settle (build_of mld) (build_changed sch hash mld push owner) build_dead w"
  using assms by (intro settling_build.converges_iff)
    (simp_all add: settling_build.alive_def build_ready_def build_template_for)

text \<open>The same of the sign stage.\<close>

theorem sign_stage_converges:
  assumes "sign_ready sch hash img mld source push owner w" "2 \<le> n"
  shows "fst (nth_round (finish_job mld owner) (Sign_Sync (signer_reader sch hash img) job_store mld source push owner) n w)
      = Ok StatusCompleted \<longleftrightarrow>
    can_settle (sign_job_of mld owner) (job_changed sch hash img mld source push owner) job_dead w"
  using assms by (intro settling_sign.converges_iff)
    (simp_all add: settling_sign.alive_def sign_ready_def job_template_for)

theorem build_stage_converges_witness:
  "fst (nth_round (finish_build sample_stage_mld) (Build_Sync configmap_reader build_store stage_scheme (\<lambda>_. Ok 7) dtk_reader
     sample_stage_mld True (module_owner (sample_module []))) 2 sample_stage) = Ok StatusCompleted"
  by (subst build_stage_converges[OF sample_stage_ready]) (simp_all add: can_settle_def objects_of_def sample_stage_def)

end
