(* ===== verification/Daemon_Sets.thy ===== *)
theory Daemon_Sets
  imports Api_Types
begin

text \<open>
  DaemonSets of a Module: one per kernel version that loads the kernel module, and one for the
  device plugin (internal/daemonset/daemonset.go). \<open>kernelLabel\<close> is the label under which nodes and
  DaemonSets carry the kernel version.
\<close>

section \<open>DaemonSets\<close>

record DaemonSet =
  ds_meta :: ObjectMeta
  ds_Selector :: strmap
  ds_Template :: PodTemplateSpec
  ds_DesiredNumberScheduled :: "32 word"
  ds_NumberAvailable :: "32 word"

definition empty_pod_spec :: PodSpec where
  "empty_pod_spec = \<lparr>ps_Containers = [], ps_ImagePullSecrets = [], ps_NodeSelector = fmempty,
     ps_PriorityClassName = [], ps_ServiceAccountName = [], ps_RestartPolicy = [], ps_Volumes = []\<rparr>"

definition new_daemonset :: "ObjectMeta \<Rightarrow> DaemonSet" where
  "new_daemonset m = \<lparr>ds_meta = m, ds_Selector = fmempty,
     ds_Template = \<lparr>pt_Labels = fmempty, pt_Finalizers = [], pt_Spec = empty_pod_spec\<rparr>,
     ds_DesiredNumberScheduled = 0, ds_NumberAvailable = 0\<rparr>"

definition ds_ops :: "(DaemonSet, 32 word \<times> 32 word) obj_ops" where
  "ds_ops = \<lparr>get_meta = ds_meta,
     get_status = (\<lambda>ds. (ds_DesiredNumberScheduled ds, ds_NumberAvailable ds)),
     set_status = (\<lambda>(d, a) ds. ds\<lparr>ds_DesiredNumberScheduled := d, ds_NumberAvailable := a\<rparr>)\<rparr>"

definition nodeLibModulesVolumeName :: string where "nodeLibModulesVolumeName = ''node-lib-modules''"
definition nodeVarLibFirmwarePath :: string where "nodeVarLibFirmwarePath = ''/var/lib/firmware''"
definition nodeVarLibFirmwareVolumeName :: string where
  "nodeVarLibFirmwareVolumeName = ''node-var-lib-firmware''"
definition kubeletDevicePluginsVolumeName :: string where
  "kubeletDevicePluginsVolumeName = ''kubelet-device-plugins''"
definition kubeletDevicePluginsPath :: string where
  "kubeletDevicePluginsPath = ''/var/lib/kubelet/device-plugins''"
definition devicePluginKernelVersion :: string where "devicePluginKernelVersion = []"

section \<open>Load and unload commands\<close>

definition write_args :: "string list \<Rightarrow> string" where
  "write_args args = concat (map (\<lambda>a. '' '' @ a) args)"

definition MakeLoadCommand :: "ModprobeSpec \<Rightarrow> string \<Rightarrow> string list" where
  "MakeLoadCommand spec modName =
     (let fw = mp_FirmwarePath spec;
          start = (if fw \<noteq> [] then ''cp -r '' @ fw @ ''/* '' @ nodeVarLibFirmwarePath @ '' && '' else [])
                  @ ''modprobe'';
          rawLoad = (case mp_RawArgs spec of None \<Rightarrow> [] | Some a \<Rightarrow> mpa_Load a);
          load = (case mp_Args spec of None \<Rightarrow> [] | Some a \<Rightarrow> mpa_Load a) in
      if rawLoad \<noteq> [] then [''/bin/sh'', ''-c'', start @ write_args rawLoad]
      else [''/bin/sh'', ''-c'',
            start
            @ (if load \<noteq> [] then write_args load else '' -v'')
            @ (if mp_DirName spec \<noteq> [] then '' -d '' @ mp_DirName spec else [])
            @ '' '' @ mp_ModuleName spec
            @ write_args (mp_Parameters spec)])"

definition fw_unload_command :: "string \<Rightarrow> string" where
  "fw_unload_command fw =
     (if fw \<noteq> []
      then '' && cd '' @ fw @ '' && find |sort -r |xargs -I{} rm -d '' @ nodeVarLibFirmwarePath @ ''/{}''
      else [])"

definition MakeUnloadCommand :: "ModprobeSpec \<Rightarrow> string \<Rightarrow> string list" where
  "MakeUnloadCommand spec modName =
     (let fwUnloadCommand = fw_unload_command (mp_FirmwarePath spec);
          rawUnload = (case mp_RawArgs spec of None \<Rightarrow> [] | Some a \<Rightarrow> mpa_Unload a);
          unload = (case mp_Args spec of None \<Rightarrow> [] | Some a \<Rightarrow> mpa_Unload a) in
      if rawUnload \<noteq> []
      then [''/bin/sh'', ''-c'',
            ''modprobe'' @ concat (map (\<lambda>arg. '' '' @ arg @ fwUnloadCommand) rawUnload)]
      else [''/bin/sh'', ''-c'',
            ''modprobe''
            @ (if unload \<noteq> [] then write_args unload else '' -rv'')
            @ (if mp_DirName spec \<noteq> [] then '' -d '' @ mp_DirName spec else [])
            @ '' '' @ mp_ModuleName spec
            @ fwUnloadCommand])"

section \<open>Desired DaemonSets\<close>

definition CopyMapStringString :: "strmap \<Rightarrow> strmap" where
  "CopyMapStringString m = m"

definition OverrideLabels :: "strmap option \<Rightarrow> strmap \<Rightarrow> strmap" where
  "OverrideLabels labels overrides = nil_map labels ++\<^sub>f overrides"

definition GetPodPullSecrets :: "LocalObjectReference option \<Rightarrow> LocalObjectReference list" where
  "GetPodPullSecrets secret = (case secret of None \<Rightarrow> [] | Some s \<Rightarrow> [s])"

definition getDriverContainerNodeLabel :: "string \<Rightarrow> string" where
  "getDriverContainerNodeLabel moduleName = ''kmm.node.kubernetes.io/'' @ moduleName @ ''.ready''"

definition getDevicePluginNodeLabel :: "string \<Rightarrow> string" where
  "getDevicePluginNodeLabel moduleName =
     ''kmm.node.kubernetes.io/'' @ moduleName @ ''.device-plugin-ready''"

definition IsDevicePluginKernelVersion :: "string \<Rightarrow> bool" where
  "IsDevicePluginKernelVersion kernelVersion = (kernelVersion = devicePluginKernelVersion)"

definition GetDevicePluginKernelVersion :: string where
  "GetDevicePluginKernelVersion = devicePluginKernelVersion"

definition driver_labels :: "string \<Rightarrow> ModuleLoaderData \<Rightarrow> strmap" where
  "driver_labels kernelLabel mld =
     fmupd kernelLabel (mld_KernelVersion mld) (fmupd ModuleNameLabel (mld_Name mld) fmempty)"

definition driver_container :: "ModuleLoaderData \<Rightarrow> Container" where
  "driver_container mld =
     (let nodeLibModulesPath = ''/lib/modules/'' @ mld_KernelVersion mld in
      \<lparr>c_Name = ''module-loader'', c_Image = mld_ContainerImage mld,
       c_ImagePullPolicy = mld_ImagePullPolicy mld,
       c_Command = [''sleep'', ''infinity''], c_Args = [], c_Env = [], c_Resources = [],
       c_PostStart = Some (MakeLoadCommand (mld_Modprobe mld) (mld_Name mld)),
       c_PreStop = Some (MakeUnloadCommand (mld_Modprobe mld) (mld_Name mld)),
       c_SecurityContext = Some \<lparr>sc_Privileged = None, sc_AllowPrivilegeEscalation = Some False,
         sc_CapabilitiesAdd = [''SYS_MODULE''], sc_RunAsUser = Some 0, sc_SELinuxType = Some ''spc_t''\<rparr>,
       c_VolumeMounts =
         [\<lparr>vm_Name = nodeLibModulesVolumeName, vm_ReadOnly = True, vm_MountPath = nodeLibModulesPath\<rparr>]
         @ (if mp_FirmwarePath (mld_Modprobe mld) \<noteq> []
            then [\<lparr>vm_Name = nodeVarLibFirmwareVolumeName, vm_ReadOnly = False,
                   vm_MountPath = nodeVarLibFirmwarePath\<rparr>]
            else [])\<rparr>)"

definition driver_volumes :: "ModuleLoaderData \<Rightarrow> Volume list" where
  "driver_volumes mld =
     [\<lparr>vol_Name = nodeLibModulesVolumeName,
       vol_VolumeSource = HostPathSource (''/lib/modules/'' @ mld_KernelVersion mld) HostPathDirectory\<rparr>]
     @ (if mp_FirmwarePath (mld_Modprobe mld) \<noteq> []
        then [\<lparr>vol_Name = nodeVarLibFirmwareVolumeName,
               vol_VolumeSource = HostPathSource nodeVarLibFirmwarePath HostPathDirectoryOrCreate\<rparr>]
        else [])"

definition driver_template :: "string \<Rightarrow> ModuleLoaderData \<Rightarrow> bool \<Rightarrow> PodTemplateSpec" where
  "driver_template kernelLabel mld useDefaultSA =
     (let nodeSelector = fmupd kernelLabel (mld_KernelVersion mld) (CopyMapStringString (mld_Selector mld));
          serviceAccountName =
            (if mld_ServiceAccountName mld = [] \<and> useDefaultSA then ''kmm-operator-module-loader''
             else mld_ServiceAccountName mld) in
      \<lparr>pt_Labels = driver_labels kernelLabel mld, pt_Finalizers = [NodeLabelerFinalizer],
       pt_Spec = \<lparr>ps_Containers = [driver_container mld],
         ps_ImagePullSecrets = GetPodPullSecrets (mld_ImageRepoSecret mld),
         ps_NodeSelector = nodeSelector,
         ps_PriorityClassName = ''system-node-critical'',
         ps_ServiceAccountName = serviceAccountName,
         ps_RestartPolicy = [],
         ps_Volumes = driver_volumes mld\<rparr>\<rparr>)"

definition SetDriverContainerAsDesired ::
    "string \<Rightarrow> scheme \<Rightarrow> DaemonSet option \<Rightarrow> ModuleLoaderData \<Rightarrow> bool \<Rightarrow> DaemonSet result" where
  "SetDriverContainerAsDesired kernelLabel sch dso mld useDefaultSA =
     (case dso of
        None \<Rightarrow> Err (ErrorMsg ''ds cannot be nil'')
      | Some ds \<Rightarrow>
          if mld_ContainerImage mld = [] then Err (ErrorMsg ''container image cannot be empty'')
          else if mld_KernelVersion mld = [] then Err (ErrorMsg ''kernelVersion cannot be empty'')
          else
            let standardLabels = driver_labels kernelLabel mld;
                labelled = (ds_meta ds)\<lparr>om_Labels :=
                  Some (OverrideLabels (om_Labels (ds_meta ds)) standardLabels)\<rparr> in
            bind_res (SetControllerReference sch (mld_Owner mld) labelled) (\<lambda>owned.
            Ok (ds\<lparr>ds_meta := owned, ds_Selector := standardLabels,
                    ds_Template := driver_template kernelLabel mld useDefaultSA\<rparr>)))"

definition device_plugin_template :: "Module \<Rightarrow> DevicePluginSpec \<Rightarrow> bool \<Rightarrow> PodTemplateSpec" where
  "device_plugin_template md dp useDefaultSA =
     (let cont = dp_Container dp;
          serviceAccountName =
            (if dp_ServiceAccountName dp = [] \<and> useDefaultSA then ''kmm-operator-device-plugin''
             else dp_ServiceAccountName dp) in
      \<lparr>pt_Labels = fmupd ModuleNameLabel (mod_Name md) fmempty, pt_Finalizers = [NodeLabelerFinalizer],
       pt_Spec =
         \<lparr>ps_Containers =
           [\<lparr>c_Name = ''device-plugin'', c_Image = dpc_Image cont,
             c_ImagePullPolicy = dpc_ImagePullPolicy cont, c_Command = dpc_Command cont,
             c_Args = dpc_Args cont, c_Env = dpc_Env cont, c_Resources = dpc_Resources cont,
             c_PostStart = None, c_PreStop = None,
             c_SecurityContext = Some \<lparr>sc_Privileged = Some True, sc_AllowPrivilegeEscalation = None,
               sc_CapabilitiesAdd = [], sc_RunAsUser = None, sc_SELinuxType = None\<rparr>,
             c_VolumeMounts = dpc_VolumeMounts cont
               @ [\<lparr>vm_Name = kubeletDevicePluginsVolumeName, vm_ReadOnly = False,
                   vm_MountPath = kubeletDevicePluginsPath\<rparr>]\<rparr>],
          ps_ImagePullSecrets = GetPodPullSecrets (ms_ImageRepoSecret (mod_Spec md)),
          ps_NodeSelector = fmupd (getDriverContainerNodeLabel (mod_Name md)) [] fmempty,
          ps_PriorityClassName = ''system-node-critical'',
          ps_ServiceAccountName = serviceAccountName,
          ps_RestartPolicy = [],
          ps_Volumes =
            [\<lparr>vol_Name = kubeletDevicePluginsVolumeName,
              vol_VolumeSource = HostPathSource kubeletDevicePluginsPath HostPathDirectory\<rparr>]
            @ dp_Volumes dp\<rparr>\<rparr>)"

definition SetDevicePluginAsDesired ::
    "scheme \<Rightarrow> DaemonSet option \<Rightarrow> Module \<Rightarrow> bool \<Rightarrow> DaemonSet result" where
  "SetDevicePluginAsDesired sch dso md useDefaultSA =
     (case dso of
        None \<Rightarrow> Err (ErrorMsg ''ds cannot be nil'')
      | Some ds \<Rightarrow>
          (case ms_DevicePlugin (mod_Spec md) of
             None \<Rightarrow> Err (ErrorMsg ''device plugin in module should not be nil'')
           | Some dp \<Rightarrow>
               let standardLabels = fmupd ModuleNameLabel (mod_Name md) fmempty;
                   labelled = (ds_meta ds)\<lparr>om_Labels :=
                     Some (OverrideLabels (om_Labels (ds_meta ds)) standardLabels)\<rparr> in
               bind_res (SetControllerReference sch (module_owner md) labelled) (\<lambda>owned.
               Ok (ds\<lparr>ds_meta := owned, ds_Selector := standardLabels,
                       ds_Template := device_plugin_template md dp useDefaultSA\<rparr>))))"

section \<open>Existing DaemonSets\<close>

definition isDevicePluginDaemonSet :: "string \<Rightarrow> DaemonSet \<Rightarrow> bool" where
  "isDevicePluginDaemonSet kernelLabel ds = (get_label (ds_meta ds) kernelLabel = [])"

definition moduleDaemonSets ::
    "('w, DaemonSet) kclient \<Rightarrow> string \<Rightarrow> string \<Rightarrow> ('w, DaemonSet list) io" where
  "moduleDaemonSets dss name namespace =
     wrap_io (Errorf_v ''could not list DaemonSets'')
       (k_list dss (fmupd ModuleNameLabel name fmempty) (Some namespace))"

fun index_by_kernel :: "string \<Rightarrow> DaemonSet assoc \<Rightarrow> DaemonSet list \<Rightarrow> DaemonSet assoc result" where
  "index_by_kernel kernelLabel m [] = Ok m"
| "index_by_kernel kernelLabel m (ds # dss) =
     (let kernelVersion = get_label (ds_meta ds) kernelLabel in
      if map_of m kernelVersion \<noteq> None
      then Err (ErrorMsg (''multiple DaemonSets found for kernel '' @ kernelVersion))
      else index_by_kernel kernelLabel (AList.update kernelVersion ds m) dss)"

definition ModuleDaemonSetsByKernelVersion ::
    "('w, DaemonSet) kclient \<Rightarrow> string \<Rightarrow> string \<Rightarrow> string \<Rightarrow> ('w, DaemonSet assoc) io" where
  "ModuleDaemonSetsByKernelVersion dss kernelLabel name namespace =
     bind_io (wrap_io (Errorf_w ''could not get all DaemonSets'') (moduleDaemonSets dss name namespace)) (\<lambda>items.
     lift_io (index_by_kernel kernelLabel [] items))"

definition DS_GarbageCollect ::
    "('w, DaemonSet) kclient \<Rightarrow> string \<Rightarrow> DaemonSet assoc \<Rightarrow> string set \<Rightarrow> ('w, string list) io" where
  "DS_GarbageCollect dss kernelLabel existingDS validKernels =
     for_io (\<lambda>deleted (kernelVersion, ds).
        if \<not> isDevicePluginDaemonSet kernelLabel ds \<and> kernelVersion \<notin> validKernels
        then bind_io (wrap_io (Errorf_v (''could not delete DaemonSet '' @ om_Name (ds_meta ds)))
               (k_delete dss ds)) (\<lambda>_. return_io (deleted @ [om_Name (ds_meta ds)]))
        else return_io deleted) [] existingDS"

definition GetNodeLabelFromPod :: "string \<Rightarrow> ObjectMeta \<Rightarrow> string \<Rightarrow> string" where
  "GetNodeLabelFromPod kernelLabel pod moduleName =
     (if get_label pod kernelLabel = devicePluginKernelVersion then getDevicePluginNodeLabel moduleName
      else getDriverContainerNodeLabel moduleName)"

section \<open>Lemmas\<close>

lemma OverrideLabels_lookup:
  "fmlookup (OverrideLabels l over) k = (case fmlookup over k of Some v \<Rightarrow> Some v | None \<Rightarrow> fmlookup (nil_map l) k)"
  by (cases "fmlookup over k") (simp_all add: OverrideLabels_def fmdomI fmdom_notI)

lemma OverrideLabels_again: "OverrideLabels (Some (OverrideLabels l over)) over = OverrideLabels l over"
  by (rule fmap_ext) (simp add: OverrideLabels_lookup split: option.splits)

lemma ds_ops_simps [simp]:
  "get_meta ds_ops = ds_meta"
  "get_status ds_ops ds = (ds_DesiredNumberScheduled ds, ds_NumberAvailable ds)"
  "set_status ds_ops (d, a) ds = ds\<lparr>ds_DesiredNumberScheduled := d, ds_NumberAvailable := a\<rparr>"
  by (simp_all add: ds_ops_def)

lemma SetDriver_OkE:
  assumes "SetDriverContainerAsDesired kl sch dso mld sa = Ok ds'"
  obtains ds owned where "dso = Some ds" and "mld_ContainerImage mld \<noteq> []" and "mld_KernelVersion mld \<noteq> []"
    and "SetControllerReference sch (mld_Owner mld)
      ((ds_meta ds)\<lparr>om_Labels := Some (OverrideLabels (om_Labels (ds_meta ds)) (driver_labels kl mld))\<rparr>) = Ok owned"
    and "ds' = ds\<lparr>ds_meta := owned, ds_Selector := driver_labels kl mld, ds_Template := driver_template kl mld sa\<rparr>"
  using assms
  by (cases dso) (auto simp: SetDriverContainerAsDesired_def Let_def split: if_split_asm)

text \<open>Labels and owner of an object that has both already stay as they are.\<close>

lemma labels_and_owner_again:
  assumes "SetControllerReference sch owner (m\<lparr>om_Labels := Some (OverrideLabels (om_Labels m) over)\<rparr>) = Ok owned"
    and "refs_wellformed owned"
  shows "SetControllerReference sch owner
    (owned\<lparr>om_Labels := Some (OverrideLabels (om_Labels owned) over)\<rparr>) = Ok owned"
proof -
  from assms(1) have "om_Labels owned = Some (OverrideLabels (om_Labels m) over)"
    by (simp add: SetControllerReference_keeps)
  then have "owned\<lparr>om_Labels := Some (OverrideLabels (om_Labels owned) over)\<rparr> = owned"
    by (cases owned) (simp add: OverrideLabels_again)
  with SetControllerReference_again[OF assms] show ?thesis by simp
qed

lemma SetDriver_again:
  assumes set: "SetDriverContainerAsDesired kl sch (Some ds) mld sa = Ok ds'" and "refs_wellformed (ds_meta ds')"
  shows "SetDriverContainerAsDesired kl sch (Some ds') mld sa = Ok ds'"
proof -
  from set obtain owned where args: "mld_ContainerImage mld \<noteq> []" "mld_KernelVersion mld \<noteq> []"
    and owned: "SetControllerReference sch (mld_Owner mld)
      ((ds_meta ds)\<lparr>om_Labels := Some (OverrideLabels (om_Labels (ds_meta ds)) (driver_labels kl mld))\<rparr>) = Ok owned"
    and ds': "ds' = ds\<lparr>ds_meta := owned, ds_Selector := driver_labels kl mld, ds_Template := driver_template kl mld sa\<rparr>"
    by (auto elim: SetDriver_OkE)
  with labels_and_owner_again[OF owned] assms(2) show ?thesis
    by (simp add: SetDriverContainerAsDesired_def Let_def)
qed

lemma SetDevicePlugin_OkE:
  assumes "SetDevicePluginAsDesired sch dso md sa = Ok ds'"
  obtains ds dp owned where "dso = Some ds" and "ms_DevicePlugin (mod_Spec md) = Some dp"
    and "SetControllerReference sch (module_owner md)
      ((ds_meta ds)\<lparr>om_Labels := Some (OverrideLabels (om_Labels (ds_meta ds))
         (fmupd ModuleNameLabel (mod_Name md) fmempty))\<rparr>) = Ok owned"
    and "ds' = ds\<lparr>ds_meta := owned, ds_Selector := fmupd ModuleNameLabel (mod_Name md) fmempty,
                  ds_Template := device_plugin_template md dp sa\<rparr>"
  using assms
  by (cases dso; cases "ms_DevicePlugin (mod_Spec md)") (auto simp: SetDevicePluginAsDesired_def Let_def)

lemma SetDevicePlugin_again:
  assumes set: "SetDevicePluginAsDesired sch (Some ds) md sa = Ok ds'" and "refs_wellformed (ds_meta ds')"
  shows "SetDevicePluginAsDesired sch (Some ds') md sa = Ok ds'"
proof -
  let ?std = "fmupd ModuleNameLabel (mod_Name md) fmempty"
  from set obtain dp owned where dp: "ms_DevicePlugin (mod_Spec md) = Some dp"
    and owned: "SetControllerReference sch (module_owner md)
      ((ds_meta ds)\<lparr>om_Labels := Some (OverrideLabels (om_Labels (ds_meta ds)) ?std)\<rparr>) = Ok owned"
    and ds': "ds' = ds\<lparr>ds_meta := owned, ds_Selector := ?std, ds_Template := device_plugin_template md dp sa\<rparr>"
    by (auto elim: SetDevicePlugin_OkE)
  with labels_and_owner_again[OF owned] assms(2) show ?thesis
    by (simp add: SetDevicePluginAsDesired_def Let_def)
qed

interpretation driver_ds: desired_object ds_ops "\<lambda>ds. SetDriverContainerAsDesired kl sch (Some ds) mld sa"
  for kl sch mld sa
proof unfold_locales
  fix x y assume "SetDriverContainerAsDesired kl sch (Some x) mld sa = Ok y"
  then show "ObjectKeyFromObject (get_meta ds_ops y) = ObjectKeyFromObject (get_meta ds_ops x)"
    by (rule SetDriver_OkE) (simp add: ObjectKeyFromObject_def SetControllerReference_keeps)
qed (simp_all add: SetDriver_again)

interpretation plugin_ds: desired_object ds_ops "\<lambda>ds. SetDevicePluginAsDesired sch (Some ds) md sa"
  for sch md sa
proof unfold_locales
  fix x y assume "SetDevicePluginAsDesired sch (Some x) md sa = Ok y"
  then show "ObjectKeyFromObject (get_meta ds_ops y) = ObjectKeyFromObject (get_meta ds_ops x)"
    by (rule SetDevicePlugin_OkE) (simp add: ObjectKeyFromObject_def SetControllerReference_keeps)
qed (simp_all add: SetDevicePlugin_again)

text \<open>The index is the list itself, keyed, when no kernel occurs twice.\<close>

lemma index_by_kernel_eq:
  assumes "distinct_keys m"
  shows "index_by_kernel kl m dss = Ok r \<longleftrightarrow>
    r = m @ map (\<lambda>ds. (get_label (ds_meta ds) kl, ds)) dss \<and> distinct_keys r"
  using assms
proof (induction dss arbitrary: m)
  case (Cons ds dss)
  let ?k = "get_label (ds_meta ds) kl"
  show ?case
  proof (cases "map_of m ?k")
    case None
    then have new: "?k \<notin> fst ` set m" by (simp add: map_of_eq_None_iff)
    then have "AList.update ?k ds m = m @ [(?k, ds)]"
      by (induction m) auto
    moreover have "distinct_keys (m @ [(?k, ds)])"
      using Cons.prems new by (simp add: distinct_keys_def)
    ultimately show ?thesis using None Cons.IH by simp
  next
    case (Some d)
    then have "?k \<in> fst ` set m" by (metis map_of_eq_None_iff option.distinct(1))
    then show ?thesis using Some by (auto simp: distinct_keys_def)
  qed
qed auto

text \<open>With raw unload arguments the firmware clean-up is repeated after every single argument, so all
  but the first argument end up behind the first clean-up.\<close>

lemma unload_raw_args_repeat_cleanup:
  "MakeUnloadCommand (sample_modprobe\<lparr>mp_FirmwarePath := ''/fw'',
       mp_RawArgs := Some \<lparr>mpa_Load = [], mpa_Unload = [''-r'', ''kmod'']\<rparr>\<rparr>) m
   = [''/bin/sh'', ''-c'',
      ''modprobe -r'' @ fw_unload_command ''/fw'' @ '' kmod'' @ fw_unload_command ''/fw'']"
  by (simp add: MakeUnloadCommand_def sample_modprobe_def Let_def)

lemma node_labels_distinct: "getDevicePluginNodeLabel m \<noteq> getDriverContainerNodeLabel m"
proof
  assume "getDevicePluginNodeLabel m = getDriverContainerNodeLabel m"
  then have "length (getDevicePluginNodeLabel m) = length (getDriverContainerNodeLabel m)" by simp
  then show False by (simp add: getDevicePluginNodeLabel_def getDriverContainerNodeLabel_def)
qed

section \<open>Properties\<close>

text \<open>
  C22. A DaemonSet set up for a Module and kernel runs the Module's image only on nodes that the
  Module selects and that carry that kernel version; its selector matches its own pods and its own
  labels, its pods carry the node-labeler finalizer, it is controlled by the Module, and neither its
  name nor its other labels change.
\<close>

theorem driver_daemonset_as_desired:
  assumes "SetDriverContainerAsDesired kl sch dso mld sa = Ok ds'"
  shows "\<exists>ds. dso = Some ds \<and> mld_KernelVersion mld \<noteq> [] \<and>
    map c_Image (ps_Containers (pt_Spec (ds_Template ds'))) = [mld_ContainerImage mld] \<and>
    (\<forall>l. fmlookup (ps_NodeSelector (pt_Spec (ds_Template ds'))) l =
       (if l = kl then Some (mld_KernelVersion mld) else fmlookup (mld_Selector mld) l)) \<and>
    ds_Selector ds' = pt_Labels (ds_Template ds') \<and>
    (\<forall>l. get_label (ds_meta ds') l =
       (case fmlookup (ds_Selector ds') l of Some v \<Rightarrow> v | None \<Rightarrow> get_label (ds_meta ds) l)) \<and>
    get_label (ds_meta ds') kl = mld_KernelVersion mld \<and>
    pt_Finalizers (ds_Template ds') = [NodeLabelerFinalizer] \<and>
    IsControlledBy (ds_meta ds') (oo_meta (mld_Owner mld)) \<and>
    ObjectKeyFromObject (ds_meta ds') = ObjectKeyFromObject (ds_meta ds)"
proof -
  from assms obtain ds owned where ds: "dso = Some ds" and k: "mld_KernelVersion mld \<noteq> []"
    and owned: "SetControllerReference sch (mld_Owner mld)
      ((ds_meta ds)\<lparr>om_Labels := Some (OverrideLabels (om_Labels (ds_meta ds)) (driver_labels kl mld))\<rparr>) = Ok owned"
    and ds': "ds' = ds\<lparr>ds_meta := owned, ds_Selector := driver_labels kl mld, ds_Template := driver_template kl mld sa\<rparr>"
    by (rule SetDriver_OkE)
  have lbl: "get_label owned l = (case fmlookup (driver_labels kl mld) l of
      Some v \<Rightarrow> v | None \<Rightarrow> get_label (ds_meta ds) l)" for l
    using SetControllerReference_keeps(3)[OF owned]
    by (simp add: get_label_def sm_get_def OverrideLabels_lookup split: option.splits)
  have tmpl: "map c_Image (ps_Containers (pt_Spec (ds_Template ds'))) = [mld_ContainerImage mld]"
    "pt_Labels (ds_Template ds') = driver_labels kl mld"
    "pt_Finalizers (ds_Template ds') = [NodeLabelerFinalizer]"
    "ps_NodeSelector (pt_Spec (ds_Template ds')) = fmupd kl (mld_KernelVersion mld) (mld_Selector mld)"
    by (simp_all add: ds' driver_template_def driver_container_def CopyMapStringString_def Let_def)
  have key: "ObjectKeyFromObject owned = ObjectKeyFromObject (ds_meta ds)"
    using SetControllerReference_keeps(1,2)[OF owned] by (simp add: ObjectKeyFromObject_def)
  show ?thesis
    using k tmpl key lbl SetControllerReference_controls[OF owned]
    by (intro exI[of _ ds]) (simp add: ds ds' driver_labels_def)
qed


text \<open>
  The DaemonSets of a Module are indexed by kernel version without losing any: the result
  holds exactly the listed DaemonSets under their kernel labels, and there is a result exactly when
  no two of them share one.
\<close>

theorem daemonsets_indexed_by_kernel:
  "ModuleDaemonSetsByKernelVersion dss kl name ns w = (Ok m, w') \<longleftrightarrow>
     (\<exists>items. k_list dss (fmupd ModuleNameLabel name fmempty) (Some ns) w = (Ok items, w') \<and>
        distinct (map (\<lambda>ds. get_label (ds_meta ds) kl) items) \<and>
        m = map (\<lambda>ds. (get_label (ds_meta ds) kl, ds)) items)"
  by (auto simp: ModuleDaemonSetsByKernelVersion_def moduleDaemonSets_def io_elims index_by_kernel_eq
      distinct_keys_def comp_def)

text \<open>
  C24. Garbage collection deletes exactly the DaemonSets that load the module for a kernel no longer
  in use, and never the device plugin's; it reports the names of those it deleted.
\<close>

theorem daemonset_garbage_collection:
  "DS_GarbageCollect dss kl existing valid w = (Ok names, w') \<longleftrightarrow>
     (let stale = filter (\<lambda>(k, ds). \<not> isDevicePluginDaemonSet kl ds \<and> k \<notin> valid) existing in
      names = map (\<lambda>(k, ds). om_Name (ds_meta ds)) stale \<and>
      for_io (\<lambda>_ (k, ds). k_delete dss ds) () stale w = (Ok (), w'))"
proof -
  have "(\<lambda>deleted (kernelVersion, ds).
        if \<not> isDevicePluginDaemonSet kl ds \<and> kernelVersion \<notin> valid
        then bind_io (wrap_io (Errorf_v (''could not delete DaemonSet '' @ om_Name (ds_meta ds)))
               (k_delete dss ds)) (\<lambda>_. return_io (deleted @ [om_Name (ds_meta ds)]))
        else return_io deleted)
    = (\<lambda>ns x. if (case x of (k, ds) \<Rightarrow> \<not> isDevicePluginDaemonSet kl ds \<and> k \<notin> valid)
        then bind_io (wrap_io (Errorf_v (''could not delete DaemonSet '' @ om_Name (ds_meta (snd x))))
               (case x of (k, ds) \<Rightarrow> k_delete dss ds)) (\<lambda>_. return_io (ns @ [case x of (k, ds) \<Rightarrow> om_Name (ds_meta ds)]))
        else return_io ns)"
    by (simp add: fun_eq_iff)
  then show ?thesis
    unfolding DS_GarbageCollect_def Let_def by (simp only: for_io_collect append_Nil)
qed

text \<open>
  The device plugin waits for the driver: the one label its pods demand of a node is the label
  derived from a running pod of any of the Module's driver DaemonSets, and differs from the one
  derived from a pod of the device plugin itself.
\<close>

theorem device_plugin_waits_for_driver:
  assumes "SetDriverContainerAsDesired kl sch dso1 mld sa1 = Ok driver" and "mld_Name mld = mod_Name md"
    and "SetDevicePluginAsDesired sch dso2 md sa2 = Ok plugin" and "kl \<noteq> ModuleNameLabel"
    and "om_Labels driverPod = Some (pt_Labels (ds_Template driver))"
    and "om_Labels pluginPod = Some (pt_Labels (ds_Template plugin))"
  shows "ps_NodeSelector (pt_Spec (ds_Template plugin)) =
      fmupd (GetNodeLabelFromPod kl driverPod (mod_Name md)) [] fmempty \<and>
    GetNodeLabelFromPod kl pluginPod (mod_Name md) \<noteq> GetNodeLabelFromPod kl driverPod (mod_Name md)"
proof -
  from assms(1) have "mld_KernelVersion mld \<noteq> []" "ds_Template driver = driver_template kl mld sa1"
    by (auto elim: SetDriver_OkE)
  then have driver: "GetNodeLabelFromPod kl driverPod (mod_Name md) = getDriverContainerNodeLabel (mod_Name md)"
    using assms(5) by (simp add: GetNodeLabelFromPod_def get_label_def driver_template_def driver_labels_def
        devicePluginKernelVersion_def Let_def)
  from assms(3) obtain dp where "ds_Template plugin = device_plugin_template md dp sa2"
    by (auto elim: SetDevicePlugin_OkE)
  with driver assms(4,6) show ?thesis
    by (simp add: GetNodeLabelFromPod_def get_label_def device_plugin_template_def
        devicePluginKernelVersion_def node_labels_distinct Let_def)
qed

section \<open>Samples\<close>

definition sample_scheme :: scheme where
  "sample_scheme = (\<lambda>_. Ok \<lparr>gvk_APIVersion = ''kmm/v1beta1'', gvk_Kind = ''Module''\<rparr>)"

abbreviation sample_driver :: "DaemonSet result" where
  "sample_driver \<equiv> SetDriverContainerAsDesired KernelLabel sample_scheme
     (Some (new_daemonset (sample_meta ''ds''))) (sample_mld None None) False"

lemma sample_driver_Ok: "\<exists>ds. sample_driver = Ok ds \<and> refs_wellformed (ds_meta ds) \<and>
    ObjectKeyFromObject (ds_meta ds) = ObjectKeyFromObject (sample_meta ''ds'')"
  by (simp add: SetDriverContainerAsDesired_def sample_defs sample_scheme_def module_owner_def new_daemonset_def
      SetControllerReference_def validateOwner_def GetControllerOf_def upsertOwnerRef_def controller_ref_def
      refs_wellformed_def parse_group_def ObjectKeyFromObject_def empty_meta_def Let_def)

theorem driver_daemonset_as_desired_witness:
  "\<exists>ds. sample_driver = Ok ds \<and> get_label (ds_meta ds) KernelLabel = ''5.14.0-70''"
proof -
  obtain ds where ds: "sample_driver = Ok ds" using sample_driver_Ok by blast
  have "get_label (ds_meta ds) KernelLabel = mld_KernelVersion (sample_mld None None)"
    using driver_daemonset_as_desired[OF ds] by (elim exE conjE)
  with ds show ?thesis by (auto simp: sample_mld_def)
qed


definition sample_plugin_module :: Module where
  "sample_plugin_module = (let md = sample_module [] in md\<lparr>mod_Spec := (mod_Spec md)\<lparr>ms_DevicePlugin :=
     Some \<lparr>dp_Container = \<lparr>dpc_Command = [], dpc_Args = [], dpc_Env = [], dpc_Image = ''plugin'',
       dpc_ImagePullPolicy = [], dpc_Resources = [], dpc_VolumeMounts = []\<rparr>,
       dp_ServiceAccountName = [], dp_Volumes = []\<rparr>\<rparr>\<rparr>)"

theorem device_plugin_waits_for_driver_witness:
  "\<exists>driver plugin. sample_driver = Ok driver \<and>
     SetDevicePluginAsDesired sample_scheme (Some (new_daemonset (sample_meta ''dp''))) sample_plugin_module False
       = Ok plugin \<and>
     ps_NodeSelector (pt_Spec (ds_Template plugin)) =
       fmupd (GetNodeLabelFromPod KernelLabel
         ((sample_meta ''pod'')\<lparr>om_Labels := Some (pt_Labels (ds_Template driver))\<rparr>)
         (mod_Name sample_plugin_module)) [] fmempty"
proof -
  obtain driver where driver: "sample_driver = Ok driver" using sample_driver_Ok by blast
  have name: "mld_Name (sample_mld None None) = mod_Name sample_plugin_module"
    by (simp add: sample_defs sample_plugin_module_def)
  obtain plugin where plugin: "SetDevicePluginAsDesired sample_scheme (Some (new_daemonset (sample_meta ''dp'')))
      sample_plugin_module False = Ok plugin"
    by (simp add: SetDevicePluginAsDesired_def sample_defs sample_plugin_module_def sample_scheme_def module_owner_def
        new_daemonset_def SetControllerReference_def validateOwner_def GetControllerOf_def empty_meta_def Let_def)
  have "ps_NodeSelector (pt_Spec (ds_Template plugin)) =
      fmupd (GetNodeLabelFromPod KernelLabel ((sample_meta ''pod'')\<lparr>om_Labels := Some (pt_Labels (ds_Template driver))\<rparr>)
        (mod_Name sample_plugin_module)) [] fmempty"
    using device_plugin_waits_for_driver[OF driver name plugin label_constants_distinct(8),
        of "(sample_meta ''pod'')\<lparr>om_Labels := Some (pt_Labels (ds_Template driver))\<rparr>"
           "(sample_meta ''pod'')\<lparr>om_Labels := Some (pt_Labels (ds_Template plugin))\<rparr>"]
    by simp
  with driver plugin show ?thesis by blast
qed

end
