(* ===== verification/Status_Updater.thy ===== *)
theory Status_Updater
  imports Daemon_Sets
begin

text \<open>
  Writing the statuses of Modules, ManagedClusterModules and preflight validations
  (internal/statusupdater/statusupdater.go). Counters are 32-bit and wrap around like Go's
  \<^verbatim>\<open>int32\<close>. A preflight validation is updated in memory first, so those operations run on the world
  and the object; \<open>clock\<close> is \<^verbatim>\<open>time.Now\<close>.
\<close>

section \<open>Modules\<close>

fun count_available :: "DaemonSet assoc \<Rightarrow> 32 word \<times> 32 word" where
  "count_available [] = (0, 0)"
| "count_available ((kernelVersion, ds) # dss) =
     (case count_available dss of
        (numAvailableDevicePlugin, numAvailableKernelModule) \<Rightarrow>
          if IsDevicePluginKernelVersion kernelVersion
          then (ds_NumberAvailable ds + numAvailableDevicePlugin, numAvailableKernelModule)
          else (numAvailableDevicePlugin, ds_NumberAvailable ds + numAvailableKernelModule))"

definition module_status ::
    "Module \<Rightarrow> Node list \<Rightarrow> Node list \<Rightarrow> DaemonSet assoc \<Rightarrow> ModuleStatus" where
  "module_status md kernelMappingNodes targetedNodes dsByKernelVersion =
     (let nodesMatchingSelectorNumber = of_nat (length targetedNodes);
          numDesired = of_nat (length kernelMappingNodes) in
      case count_available dsByKernelVersion of
        (numAvailableDevicePlugin, numAvailableKernelModule) \<Rightarrow>
          (mod_Status md)\<lparr>
            mst_ModuleLoader :=
              \<lparr>dst_NodesMatchingSelectorNumber = nodesMatchingSelectorNumber,
               dst_DesiredNumber = numDesired, dst_AvailableNumber = numAvailableKernelModule\<rparr>,
            mst_DevicePlugin :=
              (if ms_DevicePlugin (mod_Spec md) \<noteq> None
               then \<lparr>dst_NodesMatchingSelectorNumber = nodesMatchingSelectorNumber,
                     dst_DesiredNumber = numDesired, dst_AvailableNumber = numAvailableDevicePlugin\<rparr>
               else mst_DevicePlugin (mod_Status md))\<rparr>)"

definition ModuleUpdateStatus ::
    "('w, Module) kclient \<Rightarrow> Module \<Rightarrow> Node list \<Rightarrow> Node list \<Rightarrow> DaemonSet assoc \<Rightarrow> ('w, unit) io" where
  "ModuleUpdateStatus modules md kernelMappingNodes targetedNodes dsByKernelVersion =
     bind_io (k_status_patch modules
       (md\<lparr>mod_Status := module_status md kernelMappingNodes targetedNodes dsByKernelVersion\<rparr>) md) (\<lambda>_.
     return_io ())"

section \<open>Managed cluster modules\<close>

record Condition =
  cond_Type :: string
  cond_Status :: string

text \<open>The conditions of a ManifestWork, all the status updater reads of it.\<close>

fun count_conditions :: "32 word \<times> 32 word \<Rightarrow> Condition list \<Rightarrow> 32 word \<times> 32 word" where
  "count_conditions acc [] = acc"
| "count_conditions (numApplied, numDegraded) (c # cs) =
     (if cond_Status c \<noteq> ''True'' then count_conditions (numApplied, numDegraded) cs
      else if cond_Type c = ''Applied'' then count_conditions (numApplied + 1, numDegraded) cs
      else if cond_Type c = ''Degraded'' then count_conditions (numApplied, numDegraded + 1) cs
      else count_conditions (numApplied, numDegraded) cs)"

definition ManagedClusterModuleUpdateStatus ::
    "('w, ManagedClusterModule) kclient \<Rightarrow> ManagedClusterModule \<Rightarrow> Condition list list \<Rightarrow> ('w, unit) io" where
  "ManagedClusterModuleUpdateStatus mcms mcm ownedConditions =
     (let (numApplied, numDegraded) = fold (\<lambda>cs acc. count_conditions acc cs) ownedConditions (0, 0);
          mcm' = mcm\<lparr>mcm_Status := \<lparr>mcmst_NumberDesired = of_nat (length ownedConditions),
                      mcmst_NumberApplied = numApplied, mcmst_NumberDegraded = numDegraded\<rparr>\<rparr> in
      bind_io (k_status_patch mcms mcm' mcm) (\<lambda>_. return_io ()))"

section \<open>Preflight validations\<close>

definition set_statuses :: "CRStatus assoc option \<Rightarrow> PreflightValidation \<Rightarrow> PreflightValidation" where
  "set_statuses sts pv = pv\<lparr>pv_Status := \<lparr>pvst_CRStatuses = sts\<rparr>\<rparr>"

definition preset_status :: "string \<Rightarrow> CRStatus" where
  "preset_status now = \<lparr>cr_VerificationStatus = VerificationFalse, cr_StatusReason = [],
     cr_VerificationStage = VerificationStageImage, cr_LastTransitionTime = now\<rparr>"

text \<open>Deleting from a nil map does nothing, writing to one panics.\<close>

definition preset_statuses ::
    "string \<Rightarrow> string set \<Rightarrow> string list \<Rightarrow> CRStatus assoc option \<Rightarrow> CRStatus assoc option result" where
  "preset_statuses now existingModules newModules sts =
     (case sts of
        None \<Rightarrow> if newModules = [] then Ok None else Panic ''assignment to entry in nil map''
      | Some m \<Rightarrow>
          Ok (Some (fold (\<lambda>n m. AList.update n (preset_status now) m) newModules
                      (filter (\<lambda>(n, _). n \<in> existingModules) m))))"

definition PreflightPresetStatuses ::
    "('w, PreflightValidation) kclient \<Rightarrow> ('w \<Rightarrow> string) \<Rightarrow> string set \<Rightarrow> string list \<Rightarrow>
     ('w \<times> PreflightValidation, unit) io" where
  "PreflightPresetStatuses pvs clock existingModules newModules =
     bind_io (\<lambda>(w, pv). (preset_statuses (clock w) existingModules newModules (pvst_CRStatuses (pv_Status pv)), (w, pv))) (\<lambda>sts.
     bind_io (modify_mem (set_statuses sts)) (\<lambda>_.
     update_mem (k_status_update pvs)))"

definition update_cr_status ::
    "(CRStatus \<Rightarrow> CRStatus) \<Rightarrow> string \<Rightarrow> PreflightValidation \<Rightarrow> PreflightValidation result" where
  "update_cr_status f moduleName pv =
     (case pvst_CRStatuses (pv_Status pv) of
        None \<Rightarrow> Err (ErrorMsg (''failed to find module status '' @ moduleName @ '' in preflight ''
                          @ om_Name (pv_meta pv)))
      | Some m \<Rightarrow>
          (case map_of m moduleName of
             None \<Rightarrow> Err (ErrorMsg (''failed to find module status '' @ moduleName @ '' in preflight ''
                              @ om_Name (pv_meta pv)))
           | Some st \<Rightarrow> Ok (set_statuses (Some (AList.update moduleName (f st) m)) pv)))"

definition PreflightSetVerificationStatus ::
    "('w, PreflightValidation) kclient \<Rightarrow> ('w \<Rightarrow> string) \<Rightarrow> string \<Rightarrow> string \<Rightarrow> string \<Rightarrow>
     ('w \<times> PreflightValidation, unit) io" where
  "PreflightSetVerificationStatus pvs clock moduleName verificationStatus message =
     bind_io (\<lambda>(w, pv). (update_cr_status (\<lambda>st. st\<lparr>cr_VerificationStatus := verificationStatus,
         cr_StatusReason := message, cr_LastTransitionTime := clock w\<rparr>) moduleName pv, (w, pv))) (\<lambda>pv'.
     bind_io (modify_mem (\<lambda>_. pv')) (\<lambda>_.
     update_mem (k_status_update pvs)))"

definition PreflightSetVerificationStage ::
    "('w, PreflightValidation) kclient \<Rightarrow> ('w \<Rightarrow> string) \<Rightarrow> string \<Rightarrow> string \<Rightarrow>
     ('w \<times> PreflightValidation, unit) io" where
  "PreflightSetVerificationStage pvs clock moduleName stage =
     bind_io (\<lambda>(w, pv). (update_cr_status (\<lambda>st. st\<lparr>cr_VerificationStage := stage,
         cr_LastTransitionTime := clock w\<rparr>) moduleName pv, (w, pv))) (\<lambda>pv'.
     bind_io (modify_mem (\<lambda>_. pv')) (\<lambda>_.
     update_mem (k_status_update pvs)))"

definition PreflightOCPUpdateStatus ::
    "('w, PreflightValidationOCP) kclient \<Rightarrow> PreflightValidationOCP \<Rightarrow> PreflightValidation \<Rightarrow> ('w, unit) io" where
  "PreflightOCPUpdateStatus pvos pvo pv =
     bind_io (k_status_update pvos (pvo\<lparr>pvo_Status := pv_Status pv\<rparr>)) (\<lambda>_. return_io ())"

section \<open>Lemmas\<close>

lemma count_available_eq:
  "count_available dss =
     (\<Sum>x \<leftarrow> dss. if IsDevicePluginKernelVersion (fst x) then ds_NumberAvailable (snd x) else 0,
      \<Sum>x \<leftarrow> dss. if \<not> IsDevicePluginKernelVersion (fst x) then ds_NumberAvailable (snd x) else 0)"
  by (induction dss rule: count_available.induct) auto

lemma unat_sum_list:
  fixes ws :: "'a::len word list"
  assumes "sum_list (map unat ws) < 2 ^ LENGTH('a)"
  shows "unat (sum_list ws) = sum_list (map unat ws)"
  using assms
proof (induction ws)
  case (Cons x xs)
  then have "unat (sum_list xs) = sum_list (map unat xs)" by simp
  with Cons.prems show ?case by (simp add: unat_word_ariths)
qed simp

lemma count_conditions_eq:
  "count_conditions (a, d) cs =
     (a + of_nat (length (filter (\<lambda>c. cond_Status c = ''True'' \<and> cond_Type c = ''Applied'') cs)),
      d + of_nat (length (filter (\<lambda>c. cond_Status c = ''True'' \<and> cond_Type c = ''Degraded'') cs)))"
  by (induction cs arbitrary: a d) auto

lemma fold_count_conditions:
  "fold (\<lambda>cs acc. count_conditions acc cs) css (a, d) =
     (a + of_nat (length (filter (\<lambda>c. cond_Status c = ''True'' \<and> cond_Type c = ''Applied'') (concat css))),
      d + of_nat (length (filter (\<lambda>c. cond_Status c = ''True'' \<and> cond_Type c = ''Degraded'') (concat css))))"
  by (induction css arbitrary: a d) (simp_all add: count_conditions_eq)

lemma sint_small: "unat (w :: 32 word) < 2 ^ 31 \<Longrightarrow> sint w = int (unat w)"
proof -
  assume "unat w < 2 ^ 31"
  then have "int (unat w) < int (2 ^ 31)" by (simp only: of_nat_less_iff)
  then have "uint w < 2 ^ 31" by simp
  moreover have "0 \<le> uint w" by simp
  ultimately have "- (2 ^ 31) \<le> uint w \<and> uint w < 2 ^ 31" by linarith
  then show ?thesis by (simp add: sint_uint signed_take_bit_int_eq_self_iff)
qed

lemma sint_of_nat_small: "n < 2 ^ 31 \<Longrightarrow> sint (of_nat n :: 32 word) = int n"
proof -
  assume n: "n < 2 ^ 31"
  then have "unat (of_nat n :: 32 word) = n" by (simp add: unat_of_nat take_bit_nat_eq_self)
  with n sint_small[of "of_nat n"] show ?thesis by simp
qed

lemma sint_sum_small:
  "sum_list (map unat ws) < 2 ^ 31 \<Longrightarrow> sint (sum_list ws :: 32 word) = int (sum_list (map unat ws))"
  using unat_sum_list[of ws] sint_small[of "sum_list ws"] by simp

lemma sum_list_if_filter:
  "sum_list (map unat (map (\<lambda>x. if P x then f x else 0) xs)) = sum_list (map (\<lambda>x. unat (f x)) (filter P xs))"
  by (induction xs) auto

text \<open>The available nodes of one side: the driver DaemonSets or the device plugin's.\<close>

definition available_on :: "(string \<Rightarrow> bool) \<Rightarrow> DaemonSet assoc \<Rightarrow> nat" where
  "available_on P dss = (\<Sum>x \<leftarrow> filter (\<lambda>x. P (fst x)) dss. unat (ds_NumberAvailable (snd x)))"

lemma count_available_sums:
  shows "available_on IsDevicePluginKernelVersion dss < 2 ^ 31 \<Longrightarrow>
      sint (fst (count_available dss)) = int (available_on IsDevicePluginKernelVersion dss)"
    and "available_on (\<lambda>k. \<not> IsDevicePluginKernelVersion k) dss < 2 ^ 31 \<Longrightarrow>
      sint (snd (count_available dss)) = int (available_on (\<lambda>k. \<not> IsDevicePluginKernelVersion k) dss)"
proof -
  let ?f = "\<lambda>x. ds_NumberAvailable (snd x)"
  have eq: "available_on P dss = sum_list (map unat (map (\<lambda>x. if P (fst x) then ?f x else 0) dss))" for P
    unfolding sum_list_if_filter by (simp add: available_on_def case_prod_beta)
  show "available_on IsDevicePluginKernelVersion dss < 2 ^ 31 \<Longrightarrow>
      sint (fst (count_available dss)) = int (available_on IsDevicePluginKernelVersion dss)"
    and "available_on (\<lambda>k. \<not> IsDevicePluginKernelVersion k) dss < 2 ^ 31 \<Longrightarrow>
      sint (snd (count_available dss)) = int (available_on (\<lambda>k. \<not> IsDevicePluginKernelVersion k) dss)"
    unfolding eq count_available_eq by (simp_all add: sint_sum_small del: map_map)
qed

text \<open>Presetting statuses leaves exactly the existing Modules that had one and the new ones.\<close>

lemma map_of_fold_update:
  "map_of (fold (\<lambda>n m. AList.update n v m) ns m) k = (if k \<in> set ns then Some v else map_of m k)"
  by (induction ns arbitrary: m) auto

lemma distinct_keys_fold_update:
  "distinct_keys m \<Longrightarrow> distinct_keys (fold (\<lambda>n m. AList.update n v m) ns m)"
  by (induction ns arbitrary: m) auto

lemma map_of_filter_keys: "map_of (filter (\<lambda>(n, _). n \<in> A) m) k = (if k \<in> A then map_of m k else None)"
  by (induction m) auto

lemma update_cr_status_Ok:
  assumes "update_cr_status f n pv = Ok pv'"
  shows "\<exists>m st. pvst_CRStatuses (pv_Status pv) = Some m \<and> map_of m n = Some st \<and>
    pv' = set_statuses (Some (AList.update n (f st) m)) pv"
  using assms by (auto simp: update_cr_status_def split: option.split_asm)

section \<open>Properties\<close>

text \<open>
  C26. The status written for a Module counts, as 32-bit signed numbers that do not wrap around for
  fewer than 2 to the 31 nodes, the schedulable nodes its selector matches, those a kernel mapping
  applies to, and the available pods of all its driver DaemonSets; for a Module with a device plugin
  also the available device plugin pods, while the device plugin's status of any other Module is
  left as it was.
\<close>

theorem module_status_counts:
  assumes "length targeted < 2 ^ 31" and "length mapped < 2 ^ 31"
    and "available_on (\<lambda>k. \<not> IsDevicePluginKernelVersion k) dss < 2 ^ 31"
    and "available_on IsDevicePluginKernelVersion dss < 2 ^ 31"
  shows "let st = module_status md mapped targeted dss in
    sint (dst_NodesMatchingSelectorNumber (mst_ModuleLoader st)) = int (length targeted) \<and>
    sint (dst_DesiredNumber (mst_ModuleLoader st)) = int (length mapped) \<and>
    sint (dst_AvailableNumber (mst_ModuleLoader st)) =
      int (available_on (\<lambda>k. \<not> IsDevicePluginKernelVersion k) dss) \<and>
    (if ms_DevicePlugin (mod_Spec md) \<noteq> None
     then sint (dst_NodesMatchingSelectorNumber (mst_DevicePlugin st)) = int (length targeted) \<and>
          sint (dst_DesiredNumber (mst_DevicePlugin st)) = int (length mapped) \<and>
          sint (dst_AvailableNumber (mst_DevicePlugin st)) = int (available_on IsDevicePluginKernelVersion dss)
     else mst_DevicePlugin st = mst_DevicePlugin (mod_Status md))"
  using assms count_available_sums[of dss]
  by (cases "count_available dss") (simp add: module_status_def Let_def sint_of_nat_small)

theorem module_status_counts_witness:
  "sint (dst_AvailableNumber (mst_ModuleLoader (module_status (sample_module []) [] []
     [(''5.14'', (new_daemonset (sample_meta ''a''))\<lparr>ds_NumberAvailable := 3\<rparr>),
      (''5.15'', (new_daemonset (sample_meta ''b''))\<lparr>ds_NumberAvailable := 2\<rparr>)]))) = 5"
  using module_status_counts[of "[]" "[]" "[(''5.14'', (new_daemonset (sample_meta ''a''))\<lparr>ds_NumberAvailable := 3\<rparr>),
      (''5.15'', (new_daemonset (sample_meta ''b''))\<lparr>ds_NumberAvailable := 2\<rparr>)]" "sample_module []"]
  by (simp add: available_on_def IsDevicePluginKernelVersion_def devicePluginKernelVersion_def Let_def)

end
