(* ===== verification/Metrics.thy ===== *)
theory Metrics
  imports Prelude
begin

text \<open>
  The operator's Prometheus metrics (internal/metrics/metrics.go): gauges with a value, and gauge
  vectors, which are the set of the label values that were set to 1. The interface the reconcilers
  use is the record \<open>metrics_api\<close> of updates of the world.
\<close>

record metrics =
  kmmModuleResourcesNum :: int
  kmmInClusterBuildNum :: int
  kmmInClusterSignNum :: int
  kmmDevicePluginResourcesNum :: int
  kmmPreflightResourceNum :: int
  kmmModprobeArgs :: "(string \<times> string \<times> string) list"
  kmmModprobeRawArgs :: "(string \<times> string \<times> string) list"

definition New_metrics :: metrics where
  "New_metrics = \<lparr>kmmModuleResourcesNum = 0, kmmInClusterBuildNum = 0, kmmInClusterSignNum = 0,
     kmmDevicePluginResourcesNum = 0, kmmPreflightResourceNum = 0, kmmModprobeArgs = [], kmmModprobeRawArgs = []\<rparr>"

definition Register :: "string list" where
  "Register = [''kmm_module_num'', ''kmm_in_cluster_build_num'', ''kmm_in_cluster_sign_num'',
     ''kmm_device_plugin_num'', ''kmm_preflight_num'', ''kmm_modprobe_args'']"

definition SetKMMModulesNum :: "int \<Rightarrow> metrics \<Rightarrow> metrics" where
  "SetKMMModulesNum v m = m\<lparr>kmmModuleResourcesNum := v\<rparr>"

definition SetKMMInClusterBuildNum :: "int \<Rightarrow> metrics \<Rightarrow> metrics" where
  "SetKMMInClusterBuildNum v m = m\<lparr>kmmInClusterBuildNum := v\<rparr>"

definition SetKMMInClusterSignNum :: "int \<Rightarrow> metrics \<Rightarrow> metrics" where
  "SetKMMInClusterSignNum v m = m\<lparr>kmmInClusterSignNum := v\<rparr>"

definition SetKMMDevicePluginNum :: "int \<Rightarrow> metrics \<Rightarrow> metrics" where
  "SetKMMDevicePluginNum v m = m\<lparr>kmmDevicePluginResourcesNum := v\<rparr>"

definition SetKMMPreflightsNum :: "int \<Rightarrow> metrics \<Rightarrow> metrics" where
  "SetKMMPreflightsNum v m = m\<lparr>kmmPreflightResourceNum := v\<rparr>"

definition SetKMMModprobeArgs :: "string \<Rightarrow> string \<Rightarrow> string \<Rightarrow> metrics \<Rightarrow> metrics" where
  "SetKMMModprobeArgs modName namespace modprobeArgs m =
     m\<lparr>kmmModprobeArgs := List.insert (modName, namespace, modprobeArgs) (kmmModprobeArgs m)\<rparr>"

definition SetKMMModprobeRawArgs :: "string \<Rightarrow> string \<Rightarrow> string \<Rightarrow> metrics \<Rightarrow> metrics" where
  "SetKMMModprobeRawArgs modName namespace modprobeRawArgs m =
     m\<lparr>kmmModprobeRawArgs := List.insert (modName, namespace, modprobeRawArgs) (kmmModprobeRawArgs m)\<rparr>"

record 'w metrics_api =
  ma_SetKMMModulesNum :: "int \<Rightarrow> 'w \<Rightarrow> 'w"
  ma_SetKMMInClusterBuildNum :: "int \<Rightarrow> 'w \<Rightarrow> 'w"
  ma_SetKMMInClusterSignNum :: "int \<Rightarrow> 'w \<Rightarrow> 'w"
  ma_SetKMMDevicePluginNum :: "int \<Rightarrow> 'w \<Rightarrow> 'w"
  ma_SetKMMPreflightsNum :: "int \<Rightarrow> 'w \<Rightarrow> 'w"
  ma_SetKMMModprobeArgs :: "string \<Rightarrow> string \<Rightarrow> string \<Rightarrow> 'w \<Rightarrow> 'w"
  ma_SetKMMModprobeRawArgs :: "string \<Rightarrow> string \<Rightarrow> string \<Rightarrow> 'w \<Rightarrow> 'w"

text \<open>The metrics of this package as that interface, on a world that holds them.\<close>

definition metrics_of_package :: "('w \<times> metrics) metrics_api" where
  "metrics_of_package =
     \<lparr>ma_SetKMMModulesNum = \<lambda>v. map_prod id (SetKMMModulesNum v),
      ma_SetKMMInClusterBuildNum = \<lambda>v. map_prod id (SetKMMInClusterBuildNum v),
      ma_SetKMMInClusterSignNum = \<lambda>v. map_prod id (SetKMMInClusterSignNum v),
      ma_SetKMMDevicePluginNum = \<lambda>v. map_prod id (SetKMMDevicePluginNum v),
      ma_SetKMMPreflightsNum = \<lambda>v. map_prod id (SetKMMPreflightsNum v),
      ma_SetKMMModprobeArgs = \<lambda>n ns a. map_prod id (SetKMMModprobeArgs n ns a),
      ma_SetKMMModprobeRawArgs = \<lambda>n ns a. map_prod id (SetKMMModprobeRawArgs n ns a)\<rparr>"

lemma raw_args_not_registered: "''kmm_modprobe_raw_args'' \<notin> set Register"
  by (simp add: Register_def)

end
