(* ===== verification/Module_Reconciler.thy ===== *)
theory Module_Reconciler
  imports Kernel_Mapper Build_Manager Sign_Manager Daemon_Sets Status_Updater Metrics
begin

text \<open>
  The Module reconciler (controllers/module_reconciler.go): from a Module to builds, signing jobs,
  DaemonSets, garbage collection and status. The other components are reached through the fields of
  \<open>module_env\<close>, the way the Go code reaches them through its interfaces; \<open>operator_env\<close> is the
  wiring with the components of this development (cmd/manager/main.go).
\<close>

section \<open>Interfaces\<close>

record 'w build_manager =
  bm_GarbageCollect :: "string \<Rightarrow> string \<Rightarrow> owner_object \<Rightarrow> ('w, string list) io"
  bm_ShouldSync :: "ModuleLoaderData \<Rightarrow> ('w, bool) io"
  bm_Sync :: "ModuleLoaderData \<Rightarrow> bool \<Rightarrow> owner_object \<Rightarrow> ('w, string) io"

record 'w sign_manager =
  sm_GarbageCollect :: "string \<Rightarrow> string \<Rightarrow> owner_object \<Rightarrow> ('w, string list) io"
  sm_ShouldSync :: "ModuleLoaderData \<Rightarrow> ('w, bool) io"
  sm_Sync :: "ModuleLoaderData \<Rightarrow> string \<Rightarrow> bool \<Rightarrow> owner_object \<Rightarrow> ('w, string) io"

record 'w module_env =
  me_modules :: "('w, Module) kclient"
  me_nodes :: "('w, Node) kclient"
  me_daemonsets :: "('w, DaemonSet) kclient"
  me_buildAPI :: "'w build_manager"
  me_signAPI :: "'w sign_manager"
  me_kernelAPI :: "Module \<Rightarrow> string \<Rightarrow> ModuleLoaderData result"
  me_caSync :: "string \<Rightarrow> owner_object \<Rightarrow> ('w, unit) io"
  me_metricsAPI :: "'w metrics_api"
  me_kernelLabel :: string
  me_scheme :: scheme
  me_operatorNamespace :: string

section \<open>Nodes and kernels\<close>

definition isNodeSchedulable :: "Node \<Rightarrow> bool" where
  "isNodeSchedulable node = (\<forall>t \<in> set (node_Taints node). taint_Effect t \<noteq> ''NoSchedule'')"

definition getNodesListBySelector :: "'w module_env \<Rightarrow> Module \<Rightarrow> ('w, Node list) io" where
  "getNodesListBySelector env md =
     bind_io (wrap_io (Errorf_v ''could not list nodes'')
       (k_list (me_nodes env) (ms_Selector (mod_Spec md)) None)) (\<lambda>items.
     return_io (filter isNodeSchedulable items))"

text \<open>A node whose kernel has no usable mapping is passed over; a panic of the mapper is not caught.\<close>

fun relevant_loop ::
    "(string \<Rightarrow> ModuleLoaderData result) \<Rightarrow> ModuleLoaderData assoc \<Rightarrow> Node list \<Rightarrow> Node list \<Rightarrow>
     (ModuleLoaderData assoc \<times> Node list) result" where
  "relevant_loop get_mld mldMappings nodes [] = Ok (mldMappings, nodes)"
| "relevant_loop get_mld mldMappings nodes (node # rest) =
     (let kernelVersion = trim_kernel (node_KernelVersion node) in
      case map_of mldMappings kernelVersion of
        Some _ \<Rightarrow> relevant_loop get_mld mldMappings (nodes @ [node]) rest
      | None \<Rightarrow>
          (case get_mld kernelVersion of
             Ok mld \<Rightarrow> relevant_loop get_mld (AList.update kernelVersion mld mldMappings) (nodes @ [node]) rest
           | Err e \<Rightarrow> relevant_loop get_mld mldMappings nodes rest
           | Panic p \<Rightarrow> Panic p))"

definition getRelevantKernelMappingsAndNodes ::
    "'w module_env \<Rightarrow> Module \<Rightarrow> Node list \<Rightarrow> (ModuleLoaderData assoc \<times> Node list) result" where
  "getRelevantKernelMappingsAndNodes env md targetedNodes =
     relevant_loop (me_kernelAPI env md) [] [] targetedNodes"

section \<open>Stages\<close>

definition handleBuild :: "'w module_env \<Rightarrow> ModuleLoaderData \<Rightarrow> ('w, bool) io" where
  "handleBuild env mld =
     bind_io (wrap_io (Errorf_w ''could not check if build synchronization is needed'')
       (bm_ShouldSync (me_buildAPI env) mld)) (\<lambda>shouldSync.
     if \<not> shouldSync then return_io True
     else bind_io (wrap_io (Errorf_w ''could not synchronize the build'')
            (bm_Sync (me_buildAPI env) mld True (mld_Owner mld))) (\<lambda>buildStatus.
          return_io (buildStatus = StatusCompleted)))"

definition handleSigning :: "'w module_env \<Rightarrow> ModuleLoaderData \<Rightarrow> ('w, bool) io" where
  "handleSigning env mld =
     bind_io (wrap_io (Errorf_w ''cound not check if synchronization is needed'')
       (sm_ShouldSync (me_signAPI env) mld)) (\<lambda>shouldSync.
     if \<not> shouldSync then return_io True
     else let previousImage = (if ShouldBeBuilt mld
                then IntermediateImageName (mld_Name mld) (mld_Namespace mld) (mld_ContainerImage mld)
                else []) in
          bind_io (wrap_io (Errorf_w ''could not synchronize the signing'')
            (sm_Sync (me_signAPI env) mld previousImage True (mld_Owner mld))) (\<lambda>signStatus.
          return_io (signStatus = StatusCompleted)))"

text \<open>An existing DaemonSet is updated in place, so the map the caller holds afterwards has the
  version the cluster returned; a new one is not entered in the map.\<close>

definition handleDriverContainer ::
    "'w module_env \<Rightarrow> ModuleLoaderData \<Rightarrow> DaemonSet assoc \<Rightarrow> ('w, DaemonSet assoc) io" where
  "handleDriverContainer env mld dsByKernelVersion =
     (let existing = map_of dsByKernelVersion (mld_KernelVersion mld);
          ds = (case existing of
                  Some ds \<Rightarrow> ds
                | None \<Rightarrow> new_daemonset (empty_meta\<lparr>om_Namespace := mld_Namespace mld,
                            om_GenerateName := mld_Name mld @ ''-''\<rparr>)) in
      bind_io (CreateOrPatch (me_daemonsets env) ds_ops ds (\<lambda>d.
        SetDriverContainerAsDesired (me_kernelLabel env) (me_scheme env) (Some d) mld
          (mld_Namespace mld = me_operatorNamespace env))) (\<lambda>(opRes, ds').
      return_io (case existing of
          Some _ \<Rightarrow> AList.update (mld_KernelVersion mld) ds' dsByKernelVersion
        | None \<Rightarrow> dsByKernelVersion)))"

definition handleDevicePlugin :: "'w module_env \<Rightarrow> Module \<Rightarrow> ('w, unit) io" where
  "handleDevicePlugin env md =
     (case ms_DevicePlugin (mod_Spec md) of
        None \<Rightarrow> return_io ()
      | Some _ \<Rightarrow>
          let ds = new_daemonset (empty_meta\<lparr>om_Name := mod_Name md @ ''-device-plugin'',
                     om_Namespace := mod_Namespace md\<rparr>) in
          bind_io (CreateOrPatch (me_daemonsets env) ds_ops ds (\<lambda>d.
            SetDevicePluginAsDesired (me_scheme env) (Some d) md
              (mod_Namespace md = me_operatorNamespace env))) (\<lambda>_.
          return_io ()))"

definition garbageCollect ::
    "'w module_env \<Rightarrow> Module \<Rightarrow> ModuleLoaderData assoc \<Rightarrow> DaemonSet assoc \<Rightarrow> ('w, unit) io" where
  "garbageCollect env md mldMappings existingDS =
     (let validKernels = fst ` set mldMappings in
      bind_io (wrap_io (Errorf_v ''could not garbage collect DaemonSets'')
        (DS_GarbageCollect (me_daemonsets env) (me_kernelLabel env) existingDS validKernels)) (\<lambda>_.
      bind_io (wrap_io (Errorf_v ''could not garbage collect build objects'')
        (bm_GarbageCollect (me_buildAPI env) (mod_Name md) (mod_Namespace md) (module_owner md))) (\<lambda>_.
      bind_io (wrap_io (Errorf_v ''could not garbage collect sign objects'')
        (sm_GarbageCollect (me_signAPI env) (mod_Name md) (mod_Namespace md) (module_owner md))) (\<lambda>_.
      return_io ()))))"

section \<open>Metrics\<close>

fun any_mapping :: "(KernelMapping \<Rightarrow> bool) \<Rightarrow> KernelMapping list \<Rightarrow> bool" where
  "any_mapping P [] = False"
| "any_mapping P (m # ms) = (P m \<or> any_mapping P ms)"

definition isModuleBuildAndSignCapable :: "Module \<Rightarrow> bool \<times> bool" where
  "isModuleBuildAndSignCapable md =
     (let buildCapable = mlc_Build (mod_Container md) \<noteq> None;
          signCapable = mlc_Sign (mod_Container md) \<noteq> None in
      if buildCapable \<and> signCapable then (True, True)
      else (buildCapable \<or> any_mapping (\<lambda>m. km_Build m \<noteq> None) (mlc_KernelMappings (mod_Container md)),
            signCapable \<or> any_mapping (\<lambda>m. km_Sign m \<noteq> None) (mlc_KernelMappings (mod_Container md))))"

definition modprobe_metrics :: "'w metrics_api \<Rightarrow> Module \<Rightarrow> 'w \<Rightarrow> 'w" where
  "modprobe_metrics api md w =
     (let mp = mlc_Modprobe (mod_Container md);
          w1 = (case mp_Args mp of
                  None \<Rightarrow> w
                | Some a \<Rightarrow> ma_SetKMMModprobeArgs api (mod_Name md) (mod_Namespace md) (strings_Join (mpa_Load a) '','') w) in
      case mp_RawArgs mp of
        None \<Rightarrow> w1
      | Some a \<Rightarrow> ma_SetKMMModprobeRawArgs api (mod_Name md) (mod_Namespace md) (strings_Join (mpa_Load a) '','') w1)"

definition setKMMOMetrics :: "'w module_env \<Rightarrow> ('w, unit) io" where
  "setKMMOMetrics env =
     bind_io (attempt_io (k_list (me_modules env) fmempty None)) (\<lambda>r. case r of
       Inl e \<Rightarrow> return_io ()
     | Inr mods \<Rightarrow>
         let api = me_metricsAPI env;
             count = (\<lambda>P. int (length (filter P mods))) in
         do_io (\<lambda>w.
           ma_SetKMMDevicePluginNum api (count (\<lambda>md. ms_DevicePlugin (mod_Spec md) \<noteq> None))
             (ma_SetKMMInClusterSignNum api (count (\<lambda>md. snd (isModuleBuildAndSignCapable md)))
               (ma_SetKMMInClusterBuildNum api (count (\<lambda>md. fst (isModuleBuildAndSignCapable md)))
                 (ma_SetKMMModulesNum api (int (length mods)) (fold (modprobe_metrics api) mods w))))))"

section \<open>Reconcile\<close>

definition getRequestedModule :: "'w module_env \<Rightarrow> NamespacedName \<Rightarrow> ('w, Module) io" where
  "getRequestedModule env nsn =
     wrap_io (Errorf_w ''failed to get the kmmo module'') (k_get (me_modules env) nsn)"

text \<open>The body of the loop over the kernels: the DaemonSet is only touched when build and signing are
  done.\<close>

definition reconcile_kernel ::
    "'w module_env \<Rightarrow> DaemonSet assoc \<Rightarrow> string \<times> ModuleLoaderData \<Rightarrow> ('w, DaemonSet assoc) io" where
  "reconcile_kernel env dsByKernelVersion = (\<lambda>(kernelVersion, mld).
     bind_io (wrap_io (Errorf_v (''failed to handle build for kernel version '' @ kernelVersion))
       (handleBuild env mld)) (\<lambda>built.
     if \<not> built then return_io dsByKernelVersion
     else bind_io (wrap_io (Errorf_v (''failed to handle signing for kernel version '' @ kernelVersion))
            (handleSigning env mld)) (\<lambda>signed_ok.
          if \<not> signed_ok then return_io dsByKernelVersion
          else wrap_io (Errorf_v (''failed to handle driver container for kernel version '' @ kernelVersion))
                 (handleDriverContainer env mld dsByKernelVersion))))"

definition Module_Reconcile :: "'w module_env \<Rightarrow> NamespacedName \<Rightarrow> ('w, unit) io" where
  "Module_Reconcile env req =
     bind_io (attempt_io (getRequestedModule env req)) (\<lambda>r. case r of
       Inl e \<Rightarrow>
         if IsNotFound e then return_io ()
         else fail_io (Errorf_w ''failed to get the requested KMMO CR'' e)
     | Inr md \<Rightarrow>
         bind_io (if nn_Namespace req \<noteq> me_operatorNamespace env
                  then wrap_io (Errorf_v ''failed to synchronize CA ConfigMaps'')
                         (me_caSync env (nn_Namespace req) (module_owner md))
                  else return_io ()) (\<lambda>_.
         bind_io (setKMMOMetrics env) (\<lambda>_.
         bind_io (wrap_io (Errorf_w ''could get targeted nodes for module'')
           (getNodesListBySelector env md)) (\<lambda>targetedNodes.
         bind_io (lift_io (getRelevantKernelMappingsAndNodes env md targetedNodes)) (\<lambda>(mldMappings, nodesWithMapping).
         bind_io (wrap_io (Errorf_v ''could not get DaemonSets for module'')
           (ModuleDaemonSetsByKernelVersion (me_daemonsets env) (me_kernelLabel env) (mod_Name md) (mod_Namespace md))) (\<lambda>dsByKernelVersion.
         bind_io (for_io (reconcile_kernel env) dsByKernelVersion mldMappings) (\<lambda>dsByKernelVersion'.
         bind_io (wrap_io (Errorf_w ''could handle device plugin'') (handleDevicePlugin env md)) (\<lambda>_.
         bind_io (wrap_io (Errorf_v ''failed to run garbage collection'')
           (garbageCollect env md mldMappings dsByKernelVersion')) (\<lambda>_.
         wrap_io (Errorf_w ''failed to update status of the module'')
           (ModuleUpdateStatus (me_modules env) md nodesWithMapping targetedNodes dsByKernelVersion'))))))))))"

section \<open>The wiring of the operator\<close>

text \<open>The components of this development behind the interfaces. \<open>dtk\<close> is the lookup in the
  driver-toolkit mapping.\<close>

definition operator_build ::
    "('w, ConfigMap) kclient \<Rightarrow> ('w, OcpBuild) kclient \<Rightarrow> scheme \<Rightarrow> (BuildSource \<Rightarrow> 64 word result) \<Rightarrow>
     (string \<Rightarrow> ('w, string) io) \<Rightarrow> ('w, 'k, 'a) registry_env \<Rightarrow> 'w build_manager" where
  "operator_build cms builds sch hash dtk re =
     \<lparr>bm_GarbageCollect = Build_GarbageCollect, bm_ShouldSync = Build_ShouldSync re,
      bm_Sync = Build_Sync cms builds sch hash dtk\<rparr>"

definition operator_sign ::
    "'w signer_env \<Rightarrow> ('w, Job) kclient \<Rightarrow> ('w, 'k, 'a) registry_env \<Rightarrow> 'w sign_manager" where
  "operator_sign se jobs re =
     \<lparr>sm_GarbageCollect = (\<lambda>n ns owner. Sign_GarbageCollect jobs n ns (oo_meta owner)),
      sm_ShouldSync = Sign_ShouldSync re, sm_Sync = Sign_Sync se jobs\<rparr>"

section \<open>Lemmas\<close>

text \<open>The loop over the nodes collects the mapping of each kernel once and keeps the nodes that have
  one.\<close>

definition mapped_node :: "(string \<Rightarrow> ModuleLoaderData result) \<Rightarrow> Node \<Rightarrow> bool" where
  "mapped_node g n = (\<exists>mld. g (trim_kernel (node_KernelVersion n)) = Ok mld)"

lemma relevant_loop_Ok:
  assumes "relevant_loop g m ns nodes = Ok (m', ns')"
    and "distinct_keys m" and "\<forall>k mld. map_of m k = Some mld \<longrightarrow> g k = Ok mld"
  shows "distinct_keys m' \<and> (\<forall>k mld. map_of m' k = Some mld \<longrightarrow> g k = Ok mld) \<and>
    ns' = ns @ filter (mapped_node g) nodes \<and>
    dom (map_of m') = dom (map_of m) \<union> (\<lambda>n. trim_kernel (node_KernelVersion n)) ` set (filter (mapped_node g) nodes)"
  using assms
proof (induction nodes arbitrary: m ns)
  case (Cons n nodes)
  let ?k = "trim_kernel (node_KernelVersion n)"
  show ?case
  proof (cases "map_of m ?k")
    case (Some mld)
    then have "mapped_node g n" using Cons.prems(3) by (auto simp: mapped_node_def)
    moreover have "relevant_loop g m (ns @ [n]) nodes = Ok (m', ns')"
      using Some Cons.prems(1) by (simp add: Let_def)
    moreover have "?k \<in> dom (map_of m)" using Some by blast
    ultimately show ?thesis
      using Cons.IH[of m "ns @ [n]", OF _ Cons.prems(2,3)] by (simp add: insert_absorb)
  next
    case None
    show ?thesis
    proof (cases "g ?k")
      case (Ok mld)
      with None have "relevant_loop g (AList.update ?k mld m) (ns @ [n]) nodes = Ok (m', ns')"
        using Cons.prems(1) by (simp add: Let_def)
      moreover have "distinct_keys (AList.update ?k mld m)" using Cons.prems(2) by simp
      moreover have "\<forall>k mld'. map_of (AList.update ?k mld m) k = Some mld' \<longrightarrow> g k = Ok mld'"
        using Cons.prems(3) Ok by simp
      ultimately have "distinct_keys m' \<and> (\<forall>k mld. map_of m' k = Some mld \<longrightarrow> g k = Ok mld) \<and>
          ns' = (ns @ [n]) @ filter (mapped_node g) nodes \<and>
          dom (map_of m') = dom (map_of (AList.update ?k mld m)) \<union>
            (\<lambda>n. trim_kernel (node_KernelVersion n)) ` set (filter (mapped_node g) nodes)"
        by (rule Cons.IH)
      moreover have "mapped_node g n" using Ok by (simp add: mapped_node_def)
      ultimately show ?thesis by simp
    next
      case (Err e)
      then have "relevant_loop g m ns nodes = Ok (m', ns')" and "\<not> mapped_node g n"
        using None Cons.prems(1) by (simp_all add: Let_def mapped_node_def)
      with Cons.IH[of m ns, OF _ Cons.prems(2,3)] show ?thesis by simp
    next
      case (Panic p)
      with None Cons.prems show ?thesis by simp
    qed
  qed
qed simp

lemma relevant_loop_total:
  assumes "\<forall>k. \<not> is_panic (g k)"
  shows "\<exists>m' ns'. relevant_loop g m ns nodes = Ok (m', ns')"
proof (induction nodes arbitrary: m ns)
  case (Cons n nodes)
  from assms have "\<not> is_panic (g (trim_kernel (node_KernelVersion n)))" by blast
  with Cons show ?case
    by (cases "g (trim_kernel (node_KernelVersion n))") (auto simp: Let_def split: option.splits)
qed simp

lemma handleBuild_done_iff:
  assumes "me_buildAPI env = operator_build cms builds sch hash dtk re"
  shows "handleBuild env mld w = (Ok True, w') \<longleftrightarrow>
    stage_done (ShouldBeBuilt mld) (module_ImageExists re mld (build_target mld))
      (Build_Sync cms builds sch hash dtk mld True (mld_Owner mld)) w w'"
  unfolding handleBuild_def assms operator_build_def build_manager.simps
  by (rule build_stage.run_stage_True_iff)

definition sign_source :: "ModuleLoaderData \<Rightarrow> string" where
  "sign_source mld =
     (if ShouldBeBuilt mld
      then IntermediateImageName (mld_Name mld) (mld_Namespace mld) (mld_ContainerImage mld) else [])"

lemma handleSigning_done_iff:
  assumes "me_signAPI env = operator_sign se jobs re"
  shows "handleSigning env mld w = (Ok True, w') \<longleftrightarrow>
    stage_done (ShouldBeSigned mld) (module_ImageExists re mld (mld_ContainerImage mld))
      (Sign_Sync se jobs mld (sign_source mld) True (mld_Owner mld)) w w'"
  unfolding handleSigning_def assms operator_sign_def sign_manager.simps Let_def sign_source_def[symmetric]
  by (rule sign_stage.run_stage_True_iff)

lemma reconcile_kernel_OkE:
  assumes "reconcile_kernel env dsBy (k, mld) w = (Ok dsBy', w')"
  obtains (building) "handleBuild env mld w = (Ok False, w')" "dsBy' = dsBy"
  | (signing) w1 where "handleBuild env mld w = (Ok True, w1)" "handleSigning env mld w1 = (Ok False, w')" "dsBy' = dsBy"
  | (driver) w1 w2 where "handleBuild env mld w = (Ok True, w1)" "handleSigning env mld w1 = (Ok True, w2)"
      "handleDriverContainer env mld dsBy w2 = (Ok dsBy', w')"
  using assms by (auto simp: reconcile_kernel_def io_elims split: if_split_asm)

text \<open>What is built for a Module that is also signed is what signing starts from.\<close>

lemma sign_source_is_build_target:
  "ShouldBeBuilt mld \<Longrightarrow> ShouldBeSigned mld \<Longrightarrow> sign_source mld = build_target mld"
  by (simp add: sign_source_def build_target_def)

lemma Module_Reconcile_present:
  assumes "Module_Reconcile env req w = (Ok (), w')" and "k_get (me_modules env) req w = (Ok md, w0)"
  obtains w1 w2 w3 w4 w5 w6 w7 targeted mldMappings mapped dsBy dsBy' where
    "(if nn_Namespace req \<noteq> me_operatorNamespace env
      then me_caSync env (nn_Namespace req) (module_owner md) else return_io ()) w0 = (Ok (), w1)"
    "setKMMOMetrics env w1 = (Ok (), w2)"
    "getNodesListBySelector env md w2 = (Ok targeted, w3)"
    "getRelevantKernelMappingsAndNodes env md targeted = Ok (mldMappings, mapped)"
    "ModuleDaemonSetsByKernelVersion (me_daemonsets env) (me_kernelLabel env) (mod_Name md) (mod_Namespace md) w3
       = (Ok dsBy, w4)"
    "for_io (reconcile_kernel env) dsBy mldMappings w4 = (Ok dsBy', w5)"
    "handleDevicePlugin env md w5 = (Ok (), w6)"
    "garbageCollect env md mldMappings dsBy' w6 = (Ok (), w7)"
    "ModuleUpdateStatus (me_modules env) md mapped targeted dsBy' w7 = (Ok (), w')"
proof -
  have "getRequestedModule env req w = (Ok md, w0)"
    using assms(2) by (simp add: getRequestedModule_def)
  with assms(1) show thesis
    by (auto simp: Module_Reconcile_def io_elims intro: that split: if_split_asm)
qed

section \<open>Properties\<close>

text \<open>
  Reconciling a Module that no longer exists succeeds without any further call: the "not found"
  answer survives the wrapping of the lookup's error.
\<close>

theorem deleted_module_is_success:
  assumes "k_get (me_modules env) req w = (Err e, w')" and "IsNotFound e"
  shows "Module_Reconcile env req w = (Ok (), w')"
  using assms by (simp add: Module_Reconcile_def getRequestedModule_def)

text \<open>
  The kernels a reconciliation works on are exactly the kernel versions, without a trailing
  "+", of the targeted nodes for which the kernel mapper returns data; each is handled once with
  that data, and the nodes counted as mapped are exactly the nodes with such a kernel. A kernel
  without a usable mapping never fails the others.
\<close>

theorem kernels_of_mapped_nodes:
  assumes "\<forall>k. \<not> is_panic (me_kernelAPI env md k)"
  shows "\<exists>m ns. getRelevantKernelMappingsAndNodes env md nodes = Ok (m, ns) \<and> distinct_keys m \<and>
    (\<forall>k mld. map_of m k = Some mld \<longleftrightarrow>
       me_kernelAPI env md k = Ok mld \<and> k \<in> (\<lambda>n. trim_kernel (node_KernelVersion n)) ` set nodes) \<and>
    ns = filter (\<lambda>n. is_ok (me_kernelAPI env md (trim_kernel (node_KernelVersion n)))) nodes"
proof -
  let ?g = "me_kernelAPI env md" and ?k = "\<lambda>n. trim_kernel (node_KernelVersion n)"
  obtain m ns where run: "relevant_loop ?g [] [] nodes = Ok (m, ns)"
    using relevant_loop_total[OF assms] by blast
  from relevant_loop_Ok[OF run]
  have inv: "distinct_keys m" "\<And>k mld. map_of m k = Some mld \<Longrightarrow> ?g k = Ok mld"
    "ns = filter (mapped_node ?g) nodes" "dom (map_of m) = ?k ` set (filter (mapped_node ?g) nodes)"
    by simp_all
  have all: "map_of m k = Some mld" if "?g k = Ok mld" "k \<in> ?k ` set nodes" for k mld
  proof -
    from that have "k \<in> dom (map_of m)" unfolding inv(4) by (auto simp: mapped_node_def)
    then obtain mld' where "map_of m k = Some mld'" by blast
    with inv(2) that(1) show ?thesis by fastforce
  qed
  have some: "k \<in> ?k ` set nodes" if "map_of m k = Some mld" for k mld
  proof -
    from that have "k \<in> dom (map_of m)" by blast
    then show ?thesis unfolding inv(4) by auto
  qed
  have iff: "map_of m k = Some mld \<longleftrightarrow> ?g k = Ok mld \<and> k \<in> ?k ` set nodes" for k mld
    using all inv(2) some by blast
  have "mapped_node ?g = (\<lambda>n. is_ok (?g (?k n)))"
    by (simp add: fun_eq_iff mapped_node_def is_ok_iff)
  with inv(3) have ns: "ns = filter (\<lambda>n. is_ok (?g (?k n))) nodes" by simp
  show ?thesis
    unfolding getRelevantKernelMappingsAndNodes_def
    by (rule exI[of _ m], rule exI[of _ ns], intro conjI allI, rule run, rule inv(1), rule iff, rule ns)
qed

text \<open>
  No DaemonSet is created or updated before its image is ready: for one kernel a reconciliation
  either leaves the DaemonSets alone, because build or signing are not done, or build and signing are
  both done, each because the Module does not ask for it, its image is in the registry, or its Build
  or job has completed for the current inputs.
\<close>

theorem no_driver_before_image:
  assumes "reconcile_kernel env dsBy (k, mld) w = (Ok dsBy', w')"
    and "me_buildAPI env = operator_build cms builds sch hash dtk re"
    and "me_signAPI env = operator_sign se jobs re"
  shows "dsBy' = dsBy \<and>
      (handleBuild env mld w = (Ok False, w') \<or>
       (\<exists>w1. handleBuild env mld w = (Ok True, w1) \<and> handleSigning env mld w1 = (Ok False, w'))) \<or>
    (\<exists>w1 w2.
       stage_done (ShouldBeBuilt mld) (module_ImageExists re mld (build_target mld))
         (Build_Sync cms builds sch hash dtk mld True (mld_Owner mld)) w w1 \<and>
       stage_done (ShouldBeSigned mld) (module_ImageExists re mld (mld_ContainerImage mld))
         (Sign_Sync se jobs mld (sign_source mld) True (mld_Owner mld)) w1 w2 \<and>
       handleDriverContainer env mld dsBy w2 = (Ok dsBy', w'))"
  using assms(1)
proof (cases rule: reconcile_kernel_OkE)
  case (driver w1 w2)
  then show ?thesis
    unfolding handleBuild_done_iff[OF assms(2)] handleSigning_done_iff[OF assms(3)] by blast
qed blast+



section \<open>Samples\<close>

text \<open>A cluster with one node, one Module that maps the node's kernel, and nothing else.\<close>

definition sample_kmod :: Module where
  "sample_kmod = sample_module [sample_mapping ''5.14.0-70'' ''quay.io/org/kmod'']"

definition sample_env :: "nat module_env" where
  "sample_env =
     \<lparr>me_modules = const_client sample_kmod, me_nodes = const_client sample_node, me_daemonsets = absent_client,
      me_buildAPI = operator_build (const_client sample_dockerfile) absent_client sample_scheme (\<lambda>_. Ok 7)
        (\<lambda>_. return_io ''dtk-img'') empty_registry,
      me_signAPI = operator_sign sample_signer absent_client empty_registry,
      me_kernelAPI = GetModuleLoaderDataForKernel (\<lambda>r s. Ok (r = s)) (\<lambda>env t. Ok t),
      me_caSync = \<lambda>_ _. return_io (),
      me_metricsAPI = \<lparr>ma_SetKMMModulesNum = \<lambda>_ w. w, ma_SetKMMInClusterBuildNum = \<lambda>_ w. w,
        ma_SetKMMInClusterSignNum = \<lambda>_ w. w, ma_SetKMMDevicePluginNum = \<lambda>_ w. w,
        ma_SetKMMPreflightsNum = \<lambda>_ w. w, ma_SetKMMModprobeArgs = \<lambda>_ _ _ w. w,
        ma_SetKMMModprobeRawArgs = \<lambda>_ _ _ w. w\<rparr>,
      me_kernelLabel = KernelLabel, me_scheme = sample_scheme, me_operatorNamespace = ''operator''\<rparr>"

lemma sample_mapper_no_panic:
  "\<not> is_panic (GetModuleLoaderDataForKernel (\<lambda>r s. Ok (r = s)) (\<lambda>env t. Ok t) sample_kmod k)"
proof (cases "k = ''5.14.0-70''")
  case True
  then show ?thesis
    by (simp add: GetModuleLoaderDataForKernel_def prepareModuleLoaderData_def replaceTemplates_def
        KernelComponentsAsEnvVars_def kernelRegexp_Split_def sample_kmod_def sample_defs)
next
  case False
  then show ?thesis
    by (simp add: GetModuleLoaderDataForKernel_def sample_kmod_def sample_defs)
qed

theorem deleted_module_is_success_witness:
  "Module_Reconcile (sample_env\<lparr>me_modules := absent_client\<rparr>) \<lparr>nn_Namespace = ''ns'', nn_Name = ''gone''\<rparr> 0
     = (Ok (), 0)"
  by (rule deleted_module_is_success[of _ _ _ "StatusError StatusReasonNotFound []"])
     (simp_all add: absent_client_def)

theorem kernels_of_mapped_nodes_witness:
  "\<exists>m ns. getRelevantKernelMappingsAndNodes sample_env sample_kmod [sample_node] = Ok (m, ns) \<and> distinct_keys m"
proof -
  have "\<forall>k. \<not> is_panic (me_kernelAPI sample_env sample_kmod k)"
    by (simp add: sample_env_def sample_mapper_no_panic)
  from kernels_of_mapped_nodes[OF this, of "[sample_node]"] show ?thesis by blast
qed

abbreviation sample_kmod_mld :: ModuleLoaderData where
  "sample_kmod_mld \<equiv> (sample_mld None None)\<lparr>mld_Owner := module_owner sample_kmod\<rparr>"

lemma sample_kernel_reconciled: "reconcile_kernel sample_env [] (''5.14.0-70'', sample_kmod_mld) w = (Ok [], w + 1)"
  by (simp add: reconcile_kernel_def handleBuild_def handleSigning_def operator_build_def operator_sign_def
      Build_ShouldSync_def Sign_ShouldSync_def ShouldBeBuilt_def ShouldBeSigned_def handleDriverContainer_def
      CreateOrPatch_def mutate_def sample_env_def absent_client_def sample_kmod_def sample_defs sample_scheme_def
      module_owner_def new_daemonset_def SetDriverContainerAsDesired_def SetControllerReference_def validateOwner_def
      GetControllerOf_def upsertOwnerRef_def empty_meta_def ObjectKeyFromObject_def bind_io_def wrap_io_def
      attempt_io_def Let_def)

theorem no_driver_before_image_witness:
  "\<exists>w1. stage_done (ShouldBeBuilt sample_kmod_mld)
     (module_ImageExists empty_registry sample_kmod_mld (build_target sample_kmod_mld))
     (Build_Sync (const_client sample_dockerfile) absent_client sample_scheme (\<lambda>_. Ok 7) (\<lambda>_. return_io ''dtk-img'')
        sample_kmod_mld True (mld_Owner sample_kmod_mld)) 0 w1"
proof -
  have b: "handleBuild sample_env sample_kmod_mld 0 \<noteq> (Ok False, 0 + 1)"
    "handleBuild sample_env sample_kmod_mld 0 = (Ok True, w1) \<Longrightarrow>
      handleSigning sample_env sample_kmod_mld w1 \<noteq> (Ok False, 0 + 1)" for w1
    by (simp_all add: handleBuild_def handleSigning_def sample_env_def operator_build_def operator_sign_def
        Build_ShouldSync_def Sign_ShouldSync_def ShouldBeBuilt_def ShouldBeSigned_def sample_mld_def wrap_io_def bind_io_def)
  have "me_buildAPI sample_env = operator_build (const_client sample_dockerfile) absent_client sample_scheme
        (\<lambda>_. Ok 7) (\<lambda>_. return_io ''dtk-img'') empty_registry"
    "me_signAPI sample_env = operator_sign sample_signer absent_client empty_registry"
    by (simp_all add: sample_env_def)
  from no_driver_before_image[OF sample_kernel_reconciled[of 0] this] b show ?thesis by blast
qed


lemma sample_kmod_mapped:
  "getRelevantKernelMappingsAndNodes sample_env sample_kmod [sample_node]
     = Ok ([(''5.14.0-70'', sample_kmod_mld)], [sample_node])"
  by (simp add: getRelevantKernelMappingsAndNodes_def sample_env_def sample_node_def trim_kernel_def
      strings_TrimSuffix_char GetModuleLoaderDataForKernel_def prepareModuleLoaderData_def replaceTemplates_def
      KernelComponentsAsEnvVars_def kernelRegexp_Split_def sample_kmod_def sample_defs module_owner_def Let_def)

lemma sample_reconciled:
  "Module_Reconcile sample_env \<lparr>nn_Namespace = ''operator'', nn_Name = ''md''\<rparr> 0 = (Ok (), 2)"
proof -
  let ?req = "\<lparr>nn_Namespace = ''operator'', nn_Name = ''md''\<rparr>"
  have clients: "getRequestedModule sample_env ?req 0 = (Ok sample_kmod, 0)"
    "me_operatorNamespace sample_env = ''operator''"
    "setKMMOMetrics sample_env 0 = (Ok (), 0)"
    "getNodesListBySelector sample_env sample_kmod 0 = (Ok [sample_node], 0)"
    "ModuleDaemonSetsByKernelVersion (me_daemonsets sample_env) l n ns 0 = (Ok [], 0)"
    "handleDevicePlugin sample_env sample_kmod (Suc 0) = (Ok (), Suc 0)"
    "garbageCollect sample_env sample_kmod m [] (Suc 0) = (Ok (), Suc 0)"
    "ModuleUpdateStatus (me_modules sample_env) sample_kmod a b [] (Suc 0) = (Ok (), 2)" for l n ns m a b
    by (simp_all add: getRequestedModule_def setKMMOMetrics_def getNodesListBySelector_def handleDevicePlugin_def
        ModuleDaemonSetsByKernelVersion_def moduleDaemonSets_def garbageCollect_def DS_GarbageCollect_def
        Build_GarbageCollect_def Sign_GarbageCollect_def GetModuleJobs_def getJobs_def filterJobsByOwner_def
        ModuleUpdateStatus_def operator_build_def operator_sign_def sample_env_def const_client_def absent_client_def
        isNodeSchedulable_def sample_node_def modprobe_metrics_def sample_kmod_def sample_defs
        bind_io_def wrap_io_def attempt_io_def Let_def)
  show ?thesis
    by (simp add: Module_Reconcile_def clients sample_kmod_mapped sample_kernel_reconciled bind_io_def wrap_io_def
        attempt_io_def)
qed


end
