(* ===== verification/Event_Filter.thy ===== *)
theory Event_Filter
  imports Module_Reconciler
begin

text \<open>
  Which events reach which reconciler (internal/filter/filter.go): the predicates on events, on top of
  the predicate combinators of the controller runtime, and the functions that map an object to the
  requests it causes. A predicate returns a result, because some of them assert the type of the object
  or dereference a pointer and panic otherwise.
\<close>

section \<open>Objects and events\<close>

record PodCondition =
  pc_Type :: string
  pc_Status :: string

record Pod =
  pod_meta :: ObjectMeta
  pod_NodeName :: string
  pod_Conditions :: "PodCondition list"

record ManagedClusterClaim =
  mcc_Name :: string
  mcc_Value :: string

record ManagedCluster =
  mc_meta :: ObjectMeta
  mc_ClusterClaims :: "ManagedClusterClaim list"

datatype client_Object =
    NodeObj Node | PodObj Pod | ImageStreamObj ImageStream | ManagedClusterObj ManagedCluster
  | OtherObj ObjectMeta

fun obj_meta :: "client_Object \<Rightarrow> ObjectMeta" where
  "obj_meta (NodeObj n) = node_meta n"
| "obj_meta (PodObj p) = pod_meta p"
| "obj_meta (ImageStreamObj s) = is_meta s"
| "obj_meta (ManagedClusterObj c) = mc_meta c"
| "obj_meta (OtherObj m) = m"

text \<open>The informers deliver both objects of an update.\<close>

datatype event =
    CreateEvent client_Object
  | UpdateEvent (ObjectOld: client_Object) (ObjectNew: client_Object)
  | DeleteEvent client_Object
  | GenericEvent client_Object

type_synonym predicate = "event \<Rightarrow> bool result"

section \<open>Predicate combinators of the controller runtime\<close>

record Funcs =
  CreateFunc :: "(client_Object \<Rightarrow> bool result) option"
  DeleteFunc :: "(client_Object \<Rightarrow> bool result) option"
  UpdateFunc :: "(client_Object \<Rightarrow> client_Object \<Rightarrow> bool result) option"
  GenericFunc :: "(client_Object \<Rightarrow> bool result) option"

definition no_funcs :: Funcs where
  "no_funcs = \<lparr>CreateFunc = None, DeleteFunc = None, UpdateFunc = None, GenericFunc = None\<rparr>"

fun run_funcs :: "Funcs \<Rightarrow> predicate" where
  "run_funcs fs (CreateEvent ob) = (case CreateFunc fs of Some f \<Rightarrow> f ob | None \<Rightarrow> Ok True)"
| "run_funcs fs (DeleteEvent ob) = (case DeleteFunc fs of Some f \<Rightarrow> f ob | None \<Rightarrow> Ok True)"
| "run_funcs fs (UpdateEvent old new) = (case UpdateFunc fs of Some f \<Rightarrow> f old new | None \<Rightarrow> Ok True)"
| "run_funcs fs (GenericEvent ob) = (case GenericFunc fs of Some f \<Rightarrow> f ob | None \<Rightarrow> Ok True)"

definition NewPredicateFuncs :: "(client_Object \<Rightarrow> bool) \<Rightarrow> predicate" where
  "NewPredicateFuncs flt = run_funcs
     \<lparr>CreateFunc = Some (\<lambda>ob. Ok (flt ob)), DeleteFunc = Some (\<lambda>ob. Ok (flt ob)),
      UpdateFunc = Some (\<lambda>_ new. Ok (flt new)), GenericFunc = Some (\<lambda>ob. Ok (flt ob))\<rparr>"

definition GenerationChangedPredicate :: predicate where
  "GenerationChangedPredicate = run_funcs (no_funcs\<lparr>UpdateFunc := Some (\<lambda>old new.
     Ok (om_Generation (obj_meta new) \<noteq> om_Generation (obj_meta old)))\<rparr>)"

text \<open>\<^verbatim>\<open>reflect.DeepEqual\<close> tells nil labels from empty ones.\<close>

definition LabelChangedPredicate :: predicate where
  "LabelChangedPredicate = run_funcs (no_funcs\<lparr>UpdateFunc := Some (\<lambda>old new.
     Ok (om_Labels (obj_meta new) \<noteq> om_Labels (obj_meta old)))\<rparr>)"

fun pred_And :: "predicate list \<Rightarrow> predicate" where
  "pred_And [] e = Ok True"
| "pred_And (p # ps) e = bind_res (p e) (\<lambda>b. if \<not> b then Ok False else pred_And ps e)"

fun pred_Or :: "predicate list \<Rightarrow> predicate" where
  "pred_Or [] e = Ok False"
| "pred_Or (p # ps) e = bind_res (p e) (\<lambda>b. if b then Ok True else pred_Or ps e)"

section \<open>The predicates of the operator\<close>

definition HasLabel :: "string \<Rightarrow> predicate" where
  "HasLabel label = NewPredicateFuncs (\<lambda>ob. get_label (obj_meta ob) label \<noteq> [])"

definition skipDeletions :: predicate where
  "skipDeletions = run_funcs (no_funcs\<lparr>DeleteFunc := Some (\<lambda>_. Ok False)\<rparr>)"

definition clusterClaim :: "string \<Rightarrow> ManagedClusterClaim list \<Rightarrow> ManagedClusterClaim option" where
  "clusterClaim name clusterClaims = find (\<lambda>c. mcc_Name c = name) clusterClaims"

fun kmm_claim_changed :: "client_Object \<Rightarrow> client_Object \<Rightarrow> bool" where
  "kmm_claim_changed (ManagedClusterObj oldManagedCluster) (ManagedClusterObj newManagedCluster) =
     (case clusterClaim KernelVersionsClusterClaimName (mc_ClusterClaims newManagedCluster) of
        None \<Rightarrow> False
      | Some newClusterClaim \<Rightarrow>
          Some newClusterClaim \<noteq> clusterClaim KernelVersionsClusterClaimName (mc_ClusterClaims oldManagedCluster))"
| "kmm_claim_changed _ _ = False"

definition kmmClusterClaimChanged :: predicate where
  "kmmClusterClaimChanged = run_funcs (no_funcs\<lparr>UpdateFunc := Some (\<lambda>old new. Ok (kmm_claim_changed old new))\<rparr>)"

definition ModuleReconcilerNodePredicate :: "string \<Rightarrow> predicate" where
  "ModuleReconcilerNodePredicate kernelLabel =
     pred_And [skipDeletions, HasLabel kernelLabel, LabelChangedPredicate]"

fun node_kernel_or_os_changed :: "string \<Rightarrow> client_Object \<Rightarrow> client_Object \<Rightarrow> bool result" where
  "node_kernel_or_os_changed labelName (NodeObj old) (NodeObj new) =
     Ok (get_label (node_meta new) labelName \<noteq> node_KernelVersion new \<or> node_OSImage new \<noteq> node_OSImage old)"
| "node_kernel_or_os_changed labelName _ _ = Panic ''interface conversion''"

definition NodeKernelReconcilerPredicate :: "string \<Rightarrow> predicate" where
  "NodeKernelReconcilerPredicate labelName = run_funcs (no_funcs\<lparr>
     UpdateFunc := Some (node_kernel_or_os_changed labelName), DeleteFunc := Some (\<lambda>_. Ok False)\<rparr>)"

fun tag_map :: "strmap \<Rightarrow> TagReference list \<Rightarrow> strmap result" where
  "tag_map m [] = Ok m"
| "tag_map m (t # ts) =
     (case tag_From t of
        None \<Rightarrow> Panic ''nil pointer dereference''
      | Some from_Name \<Rightarrow> tag_map (fmupd (tag_Name t) from_Name m) ts)"

fun tags_changed :: "client_Object \<Rightarrow> client_Object \<Rightarrow> bool result" where
  "tags_changed (ImageStreamObj old) (ImageStreamObj new) =
     bind_res (tag_map fmempty (is_Tags new)) (\<lambda>newTags.
     bind_res (tag_map fmempty (is_Tags old)) (\<lambda>oldTags.
     Ok (newTags \<noteq> oldTags)))"
| "tags_changed _ _ = Panic ''interface conversion''"

definition ImageStreamReconcilerPredicate :: predicate where
  "ImageStreamReconcilerPredicate = run_funcs (no_funcs\<lparr>UpdateFunc := Some tags_changed\<rparr>)"

fun node_kernel_changed :: "client_Object \<Rightarrow> client_Object \<Rightarrow> bool" where
  "node_kernel_changed (NodeObj oldNode) (NodeObj newNode) = (node_KernelVersion oldNode \<noteq> node_KernelVersion newNode)"
| "node_kernel_changed _ _ = False"

definition NodeUpdateKernelChangedPredicate :: predicate where
  "NodeUpdateKernelChangedPredicate = run_funcs (no_funcs\<lparr>
     UpdateFunc := Some (\<lambda>old new. Ok (node_kernel_changed old new))\<rparr>)"

definition ManagedClusterModuleReconcilerManagedClusterPredicate :: predicate where
  "ManagedClusterModuleReconcilerManagedClusterPredicate = pred_Or [LabelChangedPredicate, kmmClusterClaimChanged]"

definition DeletingPredicate :: predicate where
  "DeletingPredicate = NewPredicateFuncs (\<lambda>ob. om_DeletionTimestamp (obj_meta ob) \<noteq> None)"

definition MatchesNamespacedNamePredicate :: "NamespacedName \<Rightarrow> predicate" where
  "MatchesNamespacedNamePredicate nsn = NewPredicateFuncs (\<lambda>ob.
     om_Name (obj_meta ob) = nn_Name nsn \<and> om_Namespace (obj_meta ob) = nn_Namespace nsn)"

fun has_node_name :: "client_Object \<Rightarrow> bool" where
  "has_node_name (PodObj pod) = (pod_NodeName pod \<noteq> [])"
| "has_node_name _ = False"

definition PodHasSpecNodeName :: predicate where
  "PodHasSpecNodeName = NewPredicateFuncs has_node_name"

text \<open>The first condition of type Ready decides.\<close>

definition IsPodReady :: "Pod \<Rightarrow> bool" where
  "IsPodReady pod =
     (case find (\<lambda>c. pc_Type c = ''Ready'') (pod_Conditions pod) of
        Some c \<Rightarrow> pc_Status c = ''True'' | None \<Rightarrow> False)"

fun pod_readiness_changed :: "client_Object \<Rightarrow> client_Object \<Rightarrow> bool" where
  "pod_readiness_changed (PodObj oldPod) (PodObj newPod) = (IsPodReady oldPod \<noteq> IsPodReady newPod)"
| "pod_readiness_changed _ _ = True"

definition PodReadinessChangedPredicate :: predicate where
  "PodReadinessChangedPredicate = run_funcs (no_funcs\<lparr>
     UpdateFunc := Some (\<lambda>old new. Ok (pod_readiness_changed old new))\<rparr>)"

definition PreflightReconcilerUpdatePredicate :: predicate where
  "PreflightReconcilerUpdatePredicate = GenerationChangedPredicate"

definition PreflightOCPReconcilerUpdatePredicate :: predicate where
  "PreflightOCPReconcilerUpdatePredicate = GenerationChangedPredicate"

section \<open>From an object to requests\<close>

text \<open>
  A selector is a conjunction of equality requirements. \<open>valid_requirement\<close> says which key and value
  \<^verbatim>\<open>labels.NewRequirement\<close> accepts; the first selector it refuses ends the loop with the requests
  collected so far.
\<close>

definition selector_matches :: "strmap \<Rightarrow> strmap \<Rightarrow> bool" where
  "selector_matches sel lbls = fmpred (\<lambda>k v. fmlookup lbls k = Some v) sel"

fun matching_requests ::
    "(string \<Rightarrow> string \<Rightarrow> bool) \<Rightarrow> strmap \<Rightarrow> ('o \<Rightarrow> strmap) \<Rightarrow> ('o \<Rightarrow> NamespacedName) \<Rightarrow> 'o list \<Rightarrow>
     NamespacedName list" where
  "matching_requests valid_requirement lbls sel nsn [] = []"
| "matching_requests valid_requirement lbls sel nsn (x # xs) =
     (if \<not> fmpred valid_requirement (sel x) then []
      else if \<not> selector_matches (sel x) lbls then matching_requests valid_requirement lbls sel nsn xs
      else nsn x # matching_requests valid_requirement lbls sel nsn xs)"

text \<open>An error of the list call is logged and gives no request.\<close>

definition FindModulesForNode ::
    "(string \<Rightarrow> string \<Rightarrow> bool) \<Rightarrow> ('w, Module) kclient \<Rightarrow> ObjectMeta \<Rightarrow> ('w, NamespacedName list) io" where
  "FindModulesForNode valid_requirement modules node =
     bind_io (attempt_io (k_list modules fmempty None)) (\<lambda>r. case r of
       Inl e \<Rightarrow> return_io []
     | Inr mods \<Rightarrow> return_io (matching_requests valid_requirement (nil_map (om_Labels node))
         (\<lambda>md. ms_Selector (mod_Spec md)) (\<lambda>md. \<lparr>nn_Namespace = mod_Namespace md, nn_Name = mod_Name md\<rparr>) mods))"

definition FindManagedClusterModulesForCluster ::
    "(string \<Rightarrow> string \<Rightarrow> bool) \<Rightarrow> ('w, ManagedClusterModule) kclient \<Rightarrow> ObjectMeta \<Rightarrow>
     ('w, NamespacedName list) io" where
  "FindManagedClusterModulesForCluster valid_requirement mcms cluster =
     bind_io (attempt_io (k_list mcms fmempty None)) (\<lambda>r. case r of
       Inl e \<Rightarrow> return_io []
     | Inr mods \<Rightarrow> return_io (matching_requests valid_requirement (nil_map (om_Labels cluster))
         (\<lambda>mcm. mcms_Selector (mcm_Spec mcm)) (\<lambda>mcm. \<lparr>nn_Namespace = [], nn_Name = om_Name (mcm_meta mcm)\<rparr>) mods))"

definition EnqueueAllPreflightValidations ::
    "('w, PreflightValidation) kclient \<Rightarrow> ('w, NamespacedName list) io" where
  "EnqueueAllPreflightValidations pvs =
     bind_io (attempt_io (k_list pvs fmempty None)) (\<lambda>r. case r of
       Inl e \<Rightarrow> return_io []
     | Inr preflights \<Rightarrow> return_io (map (\<lambda>pv. ObjectKeyFromObject (pv_meta pv))
         (filter (\<lambda>pv. om_DeletionTimestamp (pv_meta pv) = None) preflights)))"

section \<open>Lemmas\<close>

lemmas predicate_defs = NewPredicateFuncs_def GenerationChangedPredicate_def LabelChangedPredicate_def
  HasLabel_def skipDeletions_def no_funcs_def DeletingPredicate_def PodHasSpecNodeName_def
  PodReadinessChangedPredicate_def NodeKernelReconcilerPredicate_def kmmClusterClaimChanged_def

lemma matching_requests_eq:
  assumes "\<forall>x \<in> set xs. fmpred valid_requirement (sel x)"
  shows "matching_requests valid_requirement lbls sel nsn xs = map nsn (filter (\<lambda>x. selector_matches (sel x) lbls) xs)"
  using assms by (induction xs) auto

text \<open>Without the validity assumption, the loop still only emits matching objects.\<close>

lemma matching_requests_sound:
  "set (matching_requests valid_requirement lbls sel nsn xs) \<subseteq> nsn ` {x \<in> set xs. selector_matches (sel x) lbls}"
  by (induction xs) auto

lemma selector_matches_iff:
  "selector_matches sel lbls \<longleftrightarrow> (\<forall>k v. fmlookup sel k = Some v \<longrightarrow> fmlookup lbls k = Some v)"
  by (auto simp: selector_matches_def fmpred_iff)

text \<open>
  A node whose kernel version ends in \<^verbatim>\<open>+\<close> carries the trimmed version as its label, which the predicate
  compares with the full version: every update of such a node passes, even one that changes nothing.
\<close>

lemma plus_kernel_always_reconciled:
  assumes "get_label (node_meta new) l = trim_kernel (node_KernelVersion new)" and "node_KernelVersion new = v @ ''+''"
  shows "NodeKernelReconcilerPredicate l (UpdateEvent (NodeObj old) (NodeObj new)) = Ok True"
  using assms by (simp add: predicate_defs trim_kernel_def)

section \<open>Properties\<close>

text \<open>
  When a node event passes, the requests made of it are exactly the Modules whose selector the
  node matches, so that a change of a node reaches every Module that counts it as a target, and no
  other; an event passes unless it is a deletion, an update that leaves the labels alone, or the node
  has no kernel label.
\<close>

theorem node_event_reaches_selecting_modules:
  assumes "k_list modules fmempty None w = (Ok mods, w')"
    and "\<forall>md \<in> set mods. fmpred valid_requirement (ms_Selector (mod_Spec md))"
  shows "FindModulesForNode valid_requirement modules (node_meta node) w =
      (Ok (map (\<lambda>md. ObjectKeyFromObject (mod_meta md))
        (filter (\<lambda>md. selector_matches (ms_Selector (mod_Spec md)) (nil_map (om_Labels (node_meta node)))) mods)), w') \<and>
    ModuleReconcilerNodePredicate l (UpdateEvent (NodeObj old) (NodeObj node)) =
      Ok (get_label (node_meta node) l \<noteq> [] \<and> om_Labels (node_meta node) \<noteq> om_Labels (node_meta old)) \<and>
    ModuleReconcilerNodePredicate l (CreateEvent (NodeObj node)) = Ok (get_label (node_meta node) l \<noteq> []) \<and>
    ModuleReconcilerNodePredicate l (DeleteEvent (NodeObj node)) = Ok False"
  using assms(1) matching_requests_eq[where sel = "\<lambda>md. ms_Selector (mod_Spec md)", OF assms(2)]
  by (simp add: FindModulesForNode_def ModuleReconcilerNodePredicate_def predicate_defs ObjectKeyFromObject_def)

text \<open>
  After the node reconciler has labelled a node, an update that changes neither its OS image nor
  its kernel is ignored exactly if the kernel version does not end in +; a changed OS image always
  passes and a deletion never does.
\<close>

theorem node_kernel_events:
  assumes "get_label (node_meta new) l = trim_kernel (node_KernelVersion new)" and "node_OSImage new = node_OSImage old"
  shows "(NodeKernelReconcilerPredicate l (UpdateEvent (NodeObj old) (NodeObj new)) = Ok False \<longleftrightarrow>
      \<not> (\<exists>v. node_KernelVersion new = v @ ''+'')) \<and>
    NodeKernelReconcilerPredicate l (UpdateEvent (NodeObj old) (NodeObj (new\<lparr>node_OSImage := os\<rparr>))) =
      Ok (os \<noteq> node_OSImage old \<or> (\<exists>v. node_KernelVersion new = v @ ''+'')) \<and>
    NodeKernelReconcilerPredicate l (DeleteEvent (NodeObj new)) = Ok False"
proof -
  have "trim_kernel k \<noteq> k \<longleftrightarrow> (\<exists>v. k = v @ ''+'')" for k
    by (auto simp: trim_kernel_def strings_TrimSuffix_char split: if_splits intro: exI[of _ "butlast k"])
       (metis append_butlast_last_id)+
  with assms show ?thesis by (auto simp: predicate_defs)
qed

section \<open>Samples\<close>

theorem node_event_reaches_selecting_modules_witness:
  "FindModulesForNode (\<lambda>_ _. True) (const_client sample_kmod) (node_meta sample_node) 0
     = (Ok [\<lparr>nn_Namespace = ''ns'', nn_Name = ''md''\<rparr>], 0)"
proof -
  have "k_list (const_client sample_kmod) fmempty None 0 = (Ok [sample_kmod], 0)"
    by (simp add: const_client_def)
  moreover have "\<forall>md \<in> set [sample_kmod]. fmpred (\<lambda>_ _. True) (ms_Selector (mod_Spec md))"
    by (simp add: fmpred_iff)
  ultimately show ?thesis
    using node_event_reaches_selecting_modules[of "const_client sample_kmod" 0 "[sample_kmod]" 0 "\<lambda>_ _. True" sample_node]
    by (simp add: selector_matches_def sample_kmod_def sample_defs ObjectKeyFromObject_def empty_meta_def)
qed

definition labelled_node :: "string \<Rightarrow> Node" where
  "labelled_node v = sample_node\<lparr>node_KernelVersion := v,
     node_meta := empty_meta\<lparr>om_Labels := Some (fmupd KernelLabel (trim_kernel v) fmempty)\<rparr>\<rparr>"

theorem node_kernel_events_witness:
  "NodeKernelReconcilerPredicate KernelLabel
     (UpdateEvent (NodeObj (labelled_node ''5.14+'')) (NodeObj (labelled_node ''5.14+''))) \<noteq> Ok False"
proof -
  have "\<exists>v. node_KernelVersion (labelled_node ''5.14+'') = v @ ''+''"
    by (rule exI[of _ "''5.14''"]) (simp add: labelled_node_def)
  with node_kernel_events[of "labelled_node ''5.14+''" KernelLabel "labelled_node ''5.14+''"] show ?thesis
    by (simp add: labelled_node_def get_label_def)
qed

end
