(* ===== verification/Node_Labels.thy ===== *)
theory Node_Labels
  imports Event_Filter "HOL-Library.List_Lexorder"
begin

text \<open>
  The two reconcilers that publish the state of nodes: the pod reconciler, which labels a node while
  the pod that loaded a kernel module is ready (controllers/pod_node_module_reconciler.go), and the
  reconciler that publishes the kernel versions of a spoke cluster to its hub
  (controllers/node_kernel_clusterclaim.go).
\<close>

section \<open>Pods and node labels\<close>

definition addLabel :: "('w, Node) kclient \<Rightarrow> string \<Rightarrow> string \<Rightarrow> ('w, unit) io" where
  "addLabel nodes nodeName labelName =
     bind_io (wrap_io (Errorf_v (''could not get node '' @ nodeName))
       (k_get nodes \<lparr>nn_Namespace = [], nn_Name = nodeName\<rparr>)) (\<lambda>node.
     let node' = node\<lparr>node_meta := (node_meta node)\<lparr>
           om_Labels := Some (fmupd labelName [] (nil_map (om_Labels (node_meta node))))\<rparr>\<rparr> in
     bind_io (k_patch nodes node' node) (\<lambda>_. return_io ()))"

definition deleteLabel :: "('w, Node) kclient \<Rightarrow> string \<Rightarrow> string \<Rightarrow> ('w, unit) io" where
  "deleteLabel nodes nodeName labelName =
     bind_io (wrap_io (Errorf_v (''could not get node '' @ nodeName))
       (k_get nodes \<lparr>nn_Namespace = [], nn_Name = nodeName\<rparr>)) (\<lambda>node.
     let node' = node\<lparr>node_meta := (node_meta node)\<lparr>
           om_Labels := map_option (fmdrop labelName) (om_Labels (node_meta node))\<rparr>\<rparr> in
     bind_io (k_patch nodes node' node) (\<lambda>_. return_io ()))"

definition deleteFinalizer :: "('w, Pod) kclient \<Rightarrow> Pod \<Rightarrow> ('w, unit) io" where
  "deleteFinalizer pods pod =
     bind_io (k_patch pods (pod\<lparr>pod_meta := RemoveFinalizer NodeLabelerFinalizer (pod_meta pod)\<rparr>) pod) (\<lambda>_.
     return_io ())"

definition PodNodeModule_Reconcile ::
    "('w, Pod) kclient \<Rightarrow> ('w, Node) kclient \<Rightarrow> string \<Rightarrow> NamespacedName \<Rightarrow> ('w, unit) io" where
  "PodNodeModule_Reconcile pods nodes kernelLabel req =
     bind_io (attempt_io (k_get pods req)) (\<lambda>r. case r of
       Inl e \<Rightarrow> if IsNotFound e then return_io () else fail_io (Errorf_v ''could not get pod'' e)
     | Inr pod \<Rightarrow>
         (case fmlookup (nil_map (om_Labels (pod_meta pod))) ModuleNameLabel of
            None \<Rightarrow> fail_io (ErrorMsg (''pod has no '' @ ModuleNameLabel @ '' label''))
          | Some moduleName \<Rightarrow>
              let labelName = GetNodeLabelFromPod kernelLabel (pod_meta pod) moduleName in
              if \<not> IsPodReady pod \<or> om_DeletionTimestamp (pod_meta pod) \<noteq> None
              then bind_io (wrap_io (Errorf_v (''could not unlabel node '' @ pod_NodeName pod))
                     (deleteLabel nodes (pod_NodeName pod) labelName)) (\<lambda>_.
                   if om_DeletionTimestamp (pod_meta pod) \<noteq> None
                   then bind_io (attempt_io (deleteFinalizer pods pod)) (\<lambda>d. case d of
                          Inl e \<Rightarrow> if IsNotFound e then return_io ()
                                  else fail_io (Errorf_v ''could not delete the pod finalizer'' e)
                        | Inr _ \<Rightarrow> return_io ())
                   else return_io ())
              else wrap_io (Errorf_v (''could not label node '' @ pod_NodeName pod))
                     (addLabel nodes (pod_NodeName pod) labelName)))"

text \<open>The event filter of the pod reconciler.\<close>

definition pod_event_filter :: predicate where
  "pod_event_filter =
     pred_And [pred_Or [PodReadinessChangedPredicate, DeletingPredicate], HasLabel ModuleNameLabel, PodHasSpecNodeName]"

section \<open>The cluster claim\<close>

record ClusterClaim =
  cc_meta :: ObjectMeta
  cc_Value :: string

definition claim_ops :: "(ClusterClaim, unit) obj_ops" where
  "claim_ops = \<lparr>get_meta = cc_meta, get_status = \<lambda>_. (), set_status = \<lambda>_ c. c\<rparr>"

text \<open>The keys of the Go map, collected and sorted bytewise.\<close>

definition kernels_slice :: "Node list \<Rightarrow> string list" where
  "kernels_slice nodes = sort (remdups (map node_KernelVersion nodes))"

definition NodeKernelClusterClaim_Reconcile ::
    "('w, Node) kclient \<Rightarrow> ('w, ClusterClaim) kclient \<Rightarrow> ('w, unit) io" where
  "NodeKernelClusterClaim_Reconcile nodes claims =
     bind_io (wrap_io (Errorf_v ''could not list nodes'') (k_list nodes fmempty None)) (\<lambda>nodeList.
     bind_io (CreateOrPatch claims claim_ops
       \<lparr>cc_meta = empty_meta\<lparr>om_Name := KernelVersionsClusterClaimName\<rparr>, cc_Value = []\<rparr>
       (\<lambda>cc. Ok (cc\<lparr>cc_Value := strings_Join (kernels_slice nodeList) [CHR 0x0A]\<rparr>))) (\<lambda>_.
     return_io ()))"

section \<open>Lemmas\<close>

text \<open>What a pod asks for: its module's label on its node, or not.\<close>

definition wants_label :: "Pod \<Rightarrow> bool" where
  "wants_label pod \<longleftrightarrow> IsPodReady pod \<and> om_DeletionTimestamp (pod_meta pod) = None"

lemma addLabel_Ok:
  "addLabel nodes n l w = (Ok (), w') \<longleftrightarrow>
     (\<exists>node w1 stored. k_get nodes \<lparr>nn_Namespace = [], nn_Name = n\<rparr> w = (Ok node, w1) \<and>
        k_patch nodes (node\<lparr>node_meta := (node_meta node)\<lparr>
          om_Labels := Some (fmupd l [] (nil_map (om_Labels (node_meta node))))\<rparr>\<rparr>) node w1 = (Ok stored, w'))"
  by (auto simp: addLabel_def Let_def io_elims)

lemma deleteLabel_Ok:
  "deleteLabel nodes n l w = (Ok (), w') \<longleftrightarrow>
     (\<exists>node w1 stored. k_get nodes \<lparr>nn_Namespace = [], nn_Name = n\<rparr> w = (Ok node, w1) \<and>
        k_patch nodes (node\<lparr>node_meta := (node_meta node)\<lparr>
          om_Labels := map_option (fmdrop l) (om_Labels (node_meta node))\<rparr>\<rparr>) node w1 = (Ok stored, w'))"
  by (auto simp: deleteLabel_def Let_def io_elims)

lemma set_kernels_slice: "set (kernels_slice nodes) = node_KernelVersion ` set nodes"
  by (simp add: kernels_slice_def)

lemma kernels_slice_order:
  assumes "node_KernelVersion ` set nodes = node_KernelVersion ` set nodes'"
  shows "kernels_slice nodes = kernels_slice nodes'"
  unfolding kernels_slice_def
  by (rule sorted_distinct_set_unique) (use assms in simp_all)

text \<open>The two branches of the reconciler once it has the pod and its Module.\<close>

definition unlabel_node ::
    "('w, Pod) kclient \<Rightarrow> ('w, Node) kclient \<Rightarrow> Pod \<Rightarrow> string \<Rightarrow> ('w, unit) io" where
  "unlabel_node pods nodes pod l =
     bind_io (wrap_io (Errorf_v (''could not unlabel node '' @ pod_NodeName pod)) (deleteLabel nodes (pod_NodeName pod) l)) (\<lambda>_.
     if om_DeletionTimestamp (pod_meta pod) \<noteq> None
     then bind_io (attempt_io (deleteFinalizer pods pod)) (\<lambda>d. case d of
            Inl e \<Rightarrow> if IsNotFound e then return_io ()
                    else fail_io (Errorf_v ''could not delete the pod finalizer'' e)
          | Inr _ \<Rightarrow> return_io ())
     else return_io ())"

lemma reconcile_found:
  assumes "k_get pods req w = (Ok pod, w0)" and "fmlookup (nil_map (om_Labels (pod_meta pod))) ModuleNameLabel = Some md"
    and "GetNodeLabelFromPod kl (pod_meta pod) md = l"
  shows "PodNodeModule_Reconcile pods nodes kl req w =
    (if wants_label pod
     then wrap_io (Errorf_v (''could not label node '' @ pod_NodeName pod)) (addLabel nodes (pod_NodeName pod) l)
     else unlabel_node pods nodes pod l) w0"
  using assms by (auto simp: PodNodeModule_Reconcile_def unlabel_node_def wants_label_def bind_io_def attempt_io_def)

lemma reconcile_has_module:
  assumes "PodNodeModule_Reconcile pods nodes kl req w = (Ok (), w')" and "k_get pods req w = (Ok pod, w0)"
  obtains md where "fmlookup (nil_map (om_Labels (pod_meta pod))) ModuleNameLabel = Some md"
  using assms by (cases "fmlookup (nil_map (om_Labels (pod_meta pod))) ModuleNameLabel")
    (simp_all add: PodNodeModule_Reconcile_def bind_io_def attempt_io_def)

lemma unlabel_node_Ok:
  assumes "unlabel_node pods nodes pod l w0 = (Ok (), w')"
  obtains w2 where "deleteLabel nodes (pod_NodeName pod) l w0 = (Ok (), w2)"
    and "if om_DeletionTimestamp (pod_meta pod) = None then w' = w2
     else \<exists>r. k_patch pods (pod\<lparr>pod_meta := RemoveFinalizer NodeLabelerFinalizer (pod_meta pod)\<rparr>) pod w2 = (r, w') \<and>
       (is_ok r \<or> (\<exists>e. r = Err e \<and> IsNotFound e))"
proof -
  from assms obtain w2 where del: "deleteLabel nodes (pod_NodeName pod) l w0 = (Ok (), w2)"
    and rest: "(if om_DeletionTimestamp (pod_meta pod) \<noteq> None
                   then bind_io (attempt_io (deleteFinalizer pods pod)) (\<lambda>d. case d of
                          Inl e \<Rightarrow> if IsNotFound e then return_io ()
                                  else fail_io (Errorf_v ''could not delete the pod finalizer'' e)
                        | Inr _ \<Rightarrow> return_io ())
                   else return_io ()) w2 = (Ok (), w')"
    by (auto simp: unlabel_node_def bind_io_Ok_iff wrap_io_Ok_iff)
  obtain r w3 where fin: "k_patch pods (pod\<lparr>pod_meta := RemoveFinalizer NodeLabelerFinalizer (pod_meta pod)\<rparr>) pod w2 = (r, w3)"
    by force
  with rest have "if om_DeletionTimestamp (pod_meta pod) = None then w' = w2
    else w3 = w' \<and> (is_ok r \<or> (\<exists>e. r = Err e \<and> IsNotFound e))"
    by (cases r) (auto simp: deleteFinalizer_def bind_io_def attempt_io_def split: if_splits)
  with fin have "if om_DeletionTimestamp (pod_meta pod) = None then w' = w2
     else \<exists>r. k_patch pods (pod\<lparr>pod_meta := RemoveFinalizer NodeLabelerFinalizer (pod_meta pod)\<rparr>) pod w2 = (r, w') \<and>
       (is_ok r \<or> (\<exists>e. r = Err e \<and> IsNotFound e))"
    by (auto split: if_splits)
  with del show thesis by (rule that)
qed

section \<open>Properties\<close>

text \<open>
  A pod that is reconciled without error leaves its node patched: with the label of its Module
  added while the pod is ready and not being deleted, without it otherwise, every other label kept. A
  pod under deletion loses its finalizer only after the node has been unlabelled.
\<close>

theorem node_label_follows_pod:
  assumes "PodNodeModule_Reconcile pods nodes kl req w = (Ok (), w')" and "k_get pods req w = (Ok pod, w0)"
  shows "\<exists>moduleName node node' w1 w2 stored.
    fmlookup (nil_map (om_Labels (pod_meta pod))) ModuleNameLabel = Some moduleName \<and>
    k_get nodes \<lparr>nn_Namespace = [], nn_Name = pod_NodeName pod\<rparr> w0 = (Ok node, w1) \<and>
    k_patch nodes node' node w1 = (Ok stored, w2) \<and>
    (let l = GetNodeLabelFromPod kl (pod_meta pod) moduleName; lbls = nil_map (om_Labels (node_meta node')) in
      fmlookup lbls l = (if wants_label pod then Some [] else None) \<and>
      (\<forall>k. k \<noteq> l \<longrightarrow> fmlookup lbls k = fmlookup (nil_map (om_Labels (node_meta node))) k)) \<and>
    (if om_DeletionTimestamp (pod_meta pod) = None then w' = w2
     else \<exists>r. k_patch pods (pod\<lparr>pod_meta := RemoveFinalizer NodeLabelerFinalizer (pod_meta pod)\<rparr>) pod w2 = (r, w') \<and>
       (is_ok r \<or> (\<exists>e. r = Err e \<and> IsNotFound e)))"
proof -
  from assms obtain md where name: "fmlookup (nil_map (om_Labels (pod_meta pod))) ModuleNameLabel = Some md"
    by (rule reconcile_has_module)
  let ?l = "GetNodeLabelFromPod kl (pod_meta pod) md"
  note run = assms(1)[unfolded reconcile_found[OF assms(2) name refl]]
  show ?thesis
  proof (cases "wants_label pod")
    case True
    with run obtain node w1 stored where "k_get nodes \<lparr>nn_Namespace = [], nn_Name = pod_NodeName pod\<rparr> w0 = (Ok node, w1)"
      and "k_patch nodes (node\<lparr>node_meta := (node_meta node)\<lparr>
          om_Labels := Some (fmupd ?l [] (nil_map (om_Labels (node_meta node))))\<rparr>\<rparr>) node w1 = (Ok stored, w')"
      by (auto simp: addLabel_Ok wrap_io_Ok_iff)
    with True name show ?thesis
      by (intro exI[of _ md] exI[of _ node] exI[of _ "node\<lparr>node_meta := (node_meta node)\<lparr>
          om_Labels := Some (fmupd ?l [] (nil_map (om_Labels (node_meta node))))\<rparr>\<rparr>"] exI[of _ w1] exI[of _ w'] exI[of _ stored])
         (simp add: wants_label_def Let_def)
  next
    case False
    with run have "unlabel_node pods nodes pod ?l w0 = (Ok (), w')" by simp
    then obtain node w1 w2 stored where
        "k_get nodes \<lparr>nn_Namespace = [], nn_Name = pod_NodeName pod\<rparr> w0 = (Ok node, w1)"
      and "k_patch nodes (node\<lparr>node_meta := (node_meta node)\<lparr>
          om_Labels := map_option (fmdrop ?l) (om_Labels (node_meta node))\<rparr>\<rparr>) node w1 = (Ok stored, w2)"
      and "if om_DeletionTimestamp (pod_meta pod) = None then w' = w2
     else \<exists>r. k_patch pods (pod\<lparr>pod_meta := RemoveFinalizer NodeLabelerFinalizer (pod_meta pod)\<rparr>) pod w2 = (r, w') \<and>
       (is_ok r \<or> (\<exists>e. r = Err e \<and> IsNotFound e))"
      by (rule unlabel_node_Ok) (auto simp: deleteLabel_Ok)
    with name False show ?thesis
      by (intro exI[of _ md] exI[of _ node] exI[of _ "node\<lparr>node_meta := (node_meta node)\<lparr>
          om_Labels := map_option (fmdrop ?l) (om_Labels (node_meta node))\<rparr>\<rparr>"] exI[of _ w1] exI[of _ w2] exI[of _ stored])
         (cases "om_Labels (node_meta node)"; simp add: Let_def)
  qed
qed

text \<open>
  The event filter loses nothing: if an update of a pod that belongs to a Module and runs on a
  node is filtered out, the pod asks for the same label as before. The API server never clears a
  deletion timestamp.
\<close>

theorem filtered_pod_update_changes_nothing:
  assumes "pod_event_filter (UpdateEvent (PodObj old) (PodObj new)) = Ok False"
    and "get_label (pod_meta new) ModuleNameLabel \<noteq> []" and "pod_NodeName new \<noteq> []"
    and "om_DeletionTimestamp (pod_meta old) = None \<or> om_DeletionTimestamp (pod_meta new) \<noteq> None"
  shows "wants_label new = wants_label old"
  using assms
  by (auto simp: pod_event_filter_def predicate_defs wants_label_def split: if_split_asm)


section \<open>Samples\<close>

definition sample_pod :: "string \<Rightarrow> Pod" where
  "sample_pod ready = \<lparr>pod_meta = (sample_meta ''pod'')\<lparr>om_Labels := Some (fmupd ModuleNameLabel ''md'' fmempty)\<rparr>,
     pod_NodeName = ''node'', pod_Conditions = [\<lparr>pc_Type = ''Ready'', pc_Status = ready\<rparr>]\<rparr>"

theorem node_label_follows_pod_witness:
  "\<exists>node' :: Node. fmlookup (nil_map (om_Labels (node_meta node')))
     (GetNodeLabelFromPod KernelLabel (pod_meta (sample_pod ''True'')) ''md'') = Some []"
proof -
  let ?req = "\<lparr>nn_Namespace = ''ns'', nn_Name = ''pod''\<rparr>"
  have "PodNodeModule_Reconcile (const_client (sample_pod ''True'')) (const_client sample_node) KernelLabel ?req 0 = (Ok (), 1)"
    by (simp add: PodNodeModule_Reconcile_def addLabel_def sample_pod_def sample_meta_def empty_meta_def IsPodReady_def
        const_client_def Let_def bind_io_def attempt_io_def wrap_io_def)
  moreover have "k_get (const_client (sample_pod ''True'')) ?req 0 = (Ok (sample_pod ''True''), 0)"
    by (simp add: const_client_def)
  moreover have "wants_label (sample_pod ''True'')"
    "fmlookup (nil_map (om_Labels (pod_meta (sample_pod ''True'')))) ModuleNameLabel = Some ''md''"
    by (simp_all add: wants_label_def IsPodReady_def sample_pod_def sample_meta_def empty_meta_def)
  ultimately show ?thesis
    using node_label_follows_pod[of "const_client (sample_pod ''True'')" "const_client sample_node" KernelLabel ?req 0 1]
    by (auto simp: Let_def)
qed

theorem filtered_pod_update_changes_nothing_witness:
  "wants_label ((sample_pod ''True'')\<lparr>pod_Conditions := [\<lparr>pc_Type = ''Initialized'', pc_Status = ''True''\<rparr>,
     \<lparr>pc_Type = ''Ready'', pc_Status = ''True''\<rparr>]\<rparr>) = wants_label (sample_pod ''True'')"
  by (rule filtered_pod_update_changes_nothing)
     (simp_all add: pod_event_filter_def predicate_defs sample_pod_def sample_meta_def empty_meta_def get_label_def
       IsPodReady_def)


end
