(* ===== verification/Controllers.thy ===== *)
theory Controllers
  imports Node_Labels Sign_Manager
begin

text \<open>
  Which events wake which reconciler: the \<^verbatim>\<open>SetupWithManager\<close> methods of the controllers, on top of the
  controller builder and the event handlers of the controller runtime (vendor/sigs.k8s.io, pkg/builder,
  pkg/handler and pkg/source/internal). The objects of an event come with the kind of the watch that
  delivers them. Which kinds are namespaced is data of the cluster's REST mapper and a parameter.
\<close>

section \<open>Event handlers of the controller runtime\<close>

record GroupKind =
  gk_Group :: string
  gk_Kind :: string

type_synonym rest_mapper = "GroupKind \<Rightarrow> bool result"

text \<open>The builder makes owner handlers that look at the controller reference only. The name comes from
  the reference, the namespace, for a namespaced owner, from the object.\<close>

definition getOwnerReconcileRequest :: "rest_mapper \<Rightarrow> GroupKind \<Rightarrow> ObjectMeta \<Rightarrow> NamespacedName list" where
  "getOwnerReconcileRequest mapper groupKind object =
     (case GetControllerOf object of
        None \<Rightarrow> []
      | Some ref \<Rightarrow>
          (case parse_group (or_APIVersion ref) of
             None \<Rightarrow> []
           | Some refGroup \<Rightarrow>
               if or_Kind ref = gk_Kind groupKind \<and> refGroup = gk_Group groupKind
               then (case mapper groupKind of
                       Ok namespaced \<Rightarrow>
                         [\<lparr>nn_Namespace = (if namespaced then om_Namespace object else []), nn_Name = or_Name ref\<rparr>]
                     | _ \<Rightarrow> [])
               else []))"

datatype 'w event_handler =
    EnqueueRequestForObject
  | EnqueueRequestForOwner GroupKind
  | EnqueueRequestsFromMapFunc "client_Object \<Rightarrow> ('w, NamespacedName list) io"

fun event_objects :: "event \<Rightarrow> client_Object list" where
  "event_objects (CreateEvent ob) = [ob]"
| "event_objects (UpdateEvent old new) = [old, new]"
| "event_objects (DeleteEvent ob) = [ob]"
| "event_objects (GenericEvent ob) = [ob]"

text \<open>The requests of one event, each once.\<close>

definition add_request :: "NamespacedName list \<Rightarrow> NamespacedName \<Rightarrow> NamespacedName list" where
  "add_request reqs req = (if req \<in> set reqs then reqs else reqs @ [req])"

definition add_requests :: "NamespacedName list \<Rightarrow> NamespacedName list \<Rightarrow> NamespacedName list" where
  "add_requests = foldl add_request"

fun handle_event :: "rest_mapper \<Rightarrow> 'w event_handler \<Rightarrow> event \<Rightarrow> ('w, NamespacedName list) io" where
  "handle_event mapper EnqueueRequestForObject e = return_io [ObjectKeyFromObject (obj_meta (last (event_objects e)))]"
| "handle_event mapper (EnqueueRequestForOwner groupKind) e =
     return_io (foldl (\<lambda>reqs ob. add_requests reqs (getOwnerReconcileRequest mapper groupKind (obj_meta ob)))
       [] (event_objects e))"
| "handle_event mapper (EnqueueRequestsFromMapFunc toRequests) e =
     for_io (\<lambda>reqs ob. bind_io (toRequests ob) (\<lambda>new. return_io (add_requests reqs new))) [] (event_objects e)"

section \<open>The controller builder\<close>

record 'w watch =
  watch_kind :: string
  watch_handler :: "'w event_handler"
  watch_predicates :: "predicate list"

record 'w Builder =
  bld_name :: string
  bld_forKind :: string
  bld_forGroupKind :: GroupKind
  bld_forPredicates :: "predicate list"
  bld_owns :: "string list"
  bld_watches :: "'w watch list"
  bld_globalPredicates :: "predicate list"

definition doWatch :: "'w Builder \<Rightarrow> 'w watch list" where
  "doWatch b =
     \<lparr>watch_kind = bld_forKind b, watch_handler = EnqueueRequestForObject,
      watch_predicates = bld_globalPredicates b @ bld_forPredicates b\<rparr> #
     map (\<lambda>k. \<lparr>watch_kind = k, watch_handler = EnqueueRequestForOwner (bld_forGroupKind b),
                watch_predicates = bld_globalPredicates b\<rparr>) (bld_owns b) @
     map (\<lambda>wt. wt\<lparr>watch_predicates := bld_globalPredicates b @ watch_predicates wt\<rparr>) (bld_watches b)"

text \<open>A watch hands an event on when all its predicates let it pass.\<close>

definition on_event :: "rest_mapper \<Rightarrow> 'w watch \<Rightarrow> event \<Rightarrow> ('w, NamespacedName list) io" where
  "on_event mapper wt e =
     bind_io (lift_io (pred_And (watch_predicates wt) e)) (\<lambda>pass.
     if pass then handle_event mapper (watch_handler wt) e else return_io [])"

text \<open>What an event of a kind puts into the queue of a controller, over all watches of that kind.\<close>

definition controller_event ::
    "rest_mapper \<Rightarrow> 'w Builder \<Rightarrow> string \<Rightarrow> event \<Rightarrow> ('w, NamespacedName list) io" where
  "controller_event mapper b kind e =
     for_io (\<lambda>reqs wt. bind_io (on_event mapper wt e) (\<lambda>new. return_io (reqs @ new)))
       [] (filter (\<lambda>wt. watch_kind wt = kind) (doWatch b))"

section \<open>The controllers\<close>

definition ModuleGK :: GroupKind where
  "ModuleGK = \<lparr>gk_Group = ''kmm.sigs.x-k8s.io'', gk_Kind = ''Module''\<rparr>"

definition PreflightValidationGK :: GroupKind where
  "PreflightValidationGK = \<lparr>gk_Group = ''kmm.sigs.x-k8s.io'', gk_Kind = ''PreflightValidation''\<rparr>"

definition PreflightValidationOCPGK :: GroupKind where
  "PreflightValidationOCPGK = \<lparr>gk_Group = ''kmm.sigs.x-k8s.io'', gk_Kind = ''PreflightValidationOCP''\<rparr>"

definition ManagedClusterModuleGK :: GroupKind where
  "ManagedClusterModuleGK = \<lparr>gk_Group = ''hub.kmm.sigs.x-k8s.io'', gk_Kind = ''ManagedClusterModule''\<rparr>"

definition core_gk :: "string \<Rightarrow> GroupKind" where
  "core_gk kind = \<lparr>gk_Group = [], gk_Kind = kind\<rparr>"

definition module_controller ::
    "(string \<Rightarrow> string \<Rightarrow> bool) \<Rightarrow> ('w, Module) kclient \<Rightarrow> string \<Rightarrow> 'w Builder" where
  "module_controller valid_requirement modules kernelLabel =
     \<lparr>bld_name = ''Module'', bld_forKind = ''Module'', bld_forGroupKind = ModuleGK, bld_forPredicates = [],
      bld_owns = [''DaemonSet'', ''Build'', ''Job''],
      bld_watches = [\<lparr>watch_kind = ''Node'',
        watch_handler = EnqueueRequestsFromMapFunc (\<lambda>ob. FindModulesForNode valid_requirement modules (obj_meta ob)),
        watch_predicates = [ModuleReconcilerNodePredicate kernelLabel]\<rparr>],
      bld_globalPredicates = []\<rparr>"

definition node_kernel_controller :: "string \<Rightarrow> 'w Builder" where
  "node_kernel_controller labelName =
     \<lparr>bld_name = ''NodeKernel'', bld_forKind = ''Node'', bld_forGroupKind = core_gk ''Node'', bld_forPredicates = [],
      bld_owns = [], bld_watches = [], bld_globalPredicates = [NodeKernelReconcilerPredicate labelName]\<rparr>"

definition pod_controller :: "'w Builder" where
  "pod_controller =
     \<lparr>bld_name = ''PodNodeModule'', bld_forKind = ''Pod'', bld_forGroupKind = core_gk ''Pod'', bld_forPredicates = [],
      bld_owns = [], bld_watches = [], bld_globalPredicates = [pod_event_filter]\<rparr>"

definition imagestream_controller :: "NamespacedName \<Rightarrow> 'w Builder" where
  "imagestream_controller nsn =
     \<lparr>bld_name = ''imagestream'', bld_forKind = ''ImageStream'',
      bld_forGroupKind = \<lparr>gk_Group = ''image.openshift.io'', gk_Kind = ''ImageStream''\<rparr>,
      bld_forPredicates = [pred_And [MatchesNamespacedNamePredicate nsn, ImageStreamReconcilerPredicate]],
      bld_owns = [], bld_watches = [], bld_globalPredicates = []\<rparr>"

text \<open>The claim reconciler lists all nodes, so an event of the claim enqueues an empty request.\<close>

definition clusterclaim_controller :: "'w Builder" where
  "clusterclaim_controller =
     \<lparr>bld_name = ''NodeKernelClusterClaim'', bld_forKind = ''Node'', bld_forGroupKind = core_gk ''Node'',
      bld_forPredicates = [NodeUpdateKernelChangedPredicate], bld_owns = [],
      bld_watches = [\<lparr>watch_kind = ''ClusterClaim'',
        watch_handler = EnqueueRequestsFromMapFunc (\<lambda>_. return_io [\<lparr>nn_Namespace = [], nn_Name = []\<rparr>]),
        watch_predicates = [NewPredicateFuncs (\<lambda>ob. om_Name (obj_meta ob) = KernelVersionsClusterClaimName)]\<rparr>],
      bld_globalPredicates = []\<rparr>"

definition preflight_controller :: "('w, PreflightValidation) kclient \<Rightarrow> 'w Builder" where
  "preflight_controller pvs =
     \<lparr>bld_name = ''PreflightValidation'', bld_forKind = ''PreflightValidation'',
      bld_forGroupKind = PreflightValidationGK, bld_forPredicates = [PreflightReconcilerUpdatePredicate],
      bld_owns = [''Build'', ''Job''],
      bld_watches = [\<lparr>watch_kind = ''Module'',
        watch_handler = EnqueueRequestsFromMapFunc (\<lambda>_. EnqueueAllPreflightValidations pvs),
        watch_predicates = [PreflightReconcilerUpdatePredicate]\<rparr>],
      bld_globalPredicates = []\<rparr>"

definition preflight_ocp_controller :: "'w Builder" where
  "preflight_ocp_controller =
     \<lparr>bld_name = ''preflightvalidationocp'', bld_forKind = ''PreflightValidationOCP'',
      bld_forGroupKind = PreflightValidationOCPGK, bld_forPredicates = [PreflightOCPReconcilerUpdatePredicate],
      bld_owns = [''PreflightValidation''], bld_watches = [], bld_globalPredicates = []\<rparr>"

definition hub_controller ::
    "(string \<Rightarrow> string \<Rightarrow> bool) \<Rightarrow> ('w, ManagedClusterModule) kclient \<Rightarrow> 'w Builder" where
  "hub_controller valid_requirement mcms =
     \<lparr>bld_name = ''ManagedClusterModule'', bld_forKind = ''ManagedClusterModule'',
      bld_forGroupKind = ManagedClusterModuleGK, bld_forPredicates = [],
      bld_owns = [''ManifestWork'', ''Build'', ''Job''],
      bld_watches = [\<lparr>watch_kind = ''ManagedCluster'',
        watch_handler = EnqueueRequestsFromMapFunc (\<lambda>ob. FindManagedClusterModulesForCluster valid_requirement mcms (obj_meta ob)),
        watch_predicates = [ManagedClusterModuleReconcilerManagedClusterPredicate]\<rparr>],
      bld_globalPredicates = []\<rparr>"

section \<open>Lemmas\<close>

lemma set_add_requests [simp]: "set (add_requests reqs new) = set reqs \<union> set new"
  unfolding add_requests_def by (induction new arbitrary: reqs) (auto simp: add_request_def)

lemma distinct_add_requests: "distinct reqs \<Longrightarrow> distinct (add_requests reqs new)"
  unfolding add_requests_def by (induction new arbitrary: reqs) (auto simp: add_request_def)

lemma set_owner_requests [simp]:
  "set (foldl (\<lambda>reqs ob. add_requests reqs (getOwnerReconcileRequest mapper gk (obj_meta ob))) acc obs) =
     set acc \<union> (\<Union>ob \<in> set obs. set (getOwnerReconcileRequest mapper gk (obj_meta ob)))"
  by (induction obs arbitrary: acc) auto

text \<open>The group of the API version of the operator's own types.\<close>

lemma own_groups [simp]:
  "parse_group ''kmm.sigs.x-k8s.io/v1beta1'' = Some ''kmm.sigs.x-k8s.io''"
  "parse_group ''hub.kmm.sigs.x-k8s.io/v1beta1'' = Some ''hub.kmm.sigs.x-k8s.io''"
  by (simp_all add: parse_group_def)

text \<open>An object that carries the controller reference the operator set causes a request for its owner.\<close>

lemma SetControllerReference_ref:
  assumes "SetControllerReference sch owner m = Ok m'" and "sch (oo_type owner) = Ok gvk"
  shows "GetControllerOf m' = Some (controller_ref gvk (oo_meta owner))"
    "om_Namespace (oo_meta owner) \<noteq> [] \<Longrightarrow> om_Namespace m' = om_Namespace (oo_meta owner)"
proof -
  from assms(1) obtain gvk' where gvk: "sch (oo_type owner) = Ok gvk'"
    and m': "m' = upsertOwnerRef (controller_ref gvk' (oo_meta owner)) m"
    and "GetControllerOf m = None \<or>
         (\<exists>r. GetControllerOf m = Some r \<and> referSameObject r (controller_ref gvk' (oo_meta owner)))"
    by (rule SetControllerReference_OkE)
  with assms(2) show "GetControllerOf m' = Some (controller_ref gvk (oo_meta owner))"
    unfolding GetControllerOf_def m' upsertOwnerRef_def
    by (simp add: GetControllerOf_upsert controller_ref_def)
  assume "om_Namespace (oo_meta owner) \<noteq> []"
  with assms(1) have "om_Namespace m = om_Namespace (oo_meta owner)"
    by (auto simp: SetControllerReference_def validateOwner_def split: if_split_asm)
  then show "om_Namespace m' = om_Namespace (oo_meta owner)"
    using SetControllerReference_keeps(2)[OF assms(1)] by simp
qed

text \<open>Every event of an object with this namespace and these owners puts the key into the queue.\<close>

definition wakes :: "rest_mapper \<Rightarrow> 'w Builder \<Rightarrow> string \<Rightarrow> ObjectMeta \<Rightarrow> NamespacedName \<Rightarrow> bool" where
  "wakes mapper b kind m key \<longleftrightarrow>
     (\<forall>e ob w. ob \<in> set (event_objects e) \<and> om_OwnerReferences (obj_meta ob) = om_OwnerReferences m \<and>
        om_Namespace (obj_meta ob) = om_Namespace m \<longrightarrow>
        (\<exists>reqs. controller_event mapper b kind e w = (Ok reqs, w) \<and> key \<in> set reqs))"

definition key_of_owner :: "bool \<Rightarrow> ObjectMeta \<Rightarrow> NamespacedName" where
  "key_of_owner namespaced owner = \<lparr>nn_Namespace = (if namespaced then om_Namespace owner else []), nn_Name = om_Name owner\<rparr>"

lemma owned_wakes:
  assumes set: "SetControllerReference sch owner m0 = Ok m"
    and gvk: "sch (oo_type owner) = Ok gvk" "parse_group (gvk_APIVersion gvk) = Some (gk_Group gk)" "gvk_Kind gvk = gk_Kind gk"
    and mapper: "mapper gk = Ok namespaced" and ns: "namespaced \<longrightarrow> om_Namespace (oo_meta owner) \<noteq> []"
    and watches: "filter (\<lambda>wt. watch_kind wt = kind) (doWatch b) =
      [\<lparr>watch_kind = kind, watch_handler = EnqueueRequestForOwner gk, watch_predicates = []\<rparr>]"
  shows "wakes mapper b kind m (key_of_owner namespaced (oo_meta owner))"
  unfolding wakes_def
proof (intro allI impI, elim conjE)
  fix e ob w
  assume ob: "ob \<in> set (event_objects e)" and refs: "om_OwnerReferences (obj_meta ob) = om_OwnerReferences m"
    and n: "om_Namespace (obj_meta ob) = om_Namespace m"
  from SetControllerReference_ref(1)[OF set gvk(1)] refs
  have "GetControllerOf (obj_meta ob) = Some (controller_ref gvk (oo_meta owner))" by (simp add: GetControllerOf_def)
  with n SetControllerReference_ref(2)[OF set gvk(1)] ns mapper gvk
  have "getOwnerReconcileRequest mapper gk (obj_meta ob) = [key_of_owner namespaced (oo_meta owner)]"
    by (simp add: getOwnerReconcileRequest_def controller_ref_def key_of_owner_def)
  with ob have "\<exists>x \<in> set (event_objects e). key_of_owner namespaced (oo_meta owner) \<in> set (getOwnerReconcileRequest mapper gk (obj_meta x))"
    by (intro bexI[of _ ob]) simp_all
  then show "\<exists>reqs. controller_event mapper b kind e w = (Ok reqs, w) \<and> key_of_owner namespaced (oo_meta owner) \<in> set reqs"
    by (auto simp: controller_event_def watches on_event_def bind_io_def)
qed

lemma module_owned_watches:
  assumes "kind \<in> {''DaemonSet'', ''Build'', ''Job''}"
  shows "filter (\<lambda>wt. watch_kind wt = kind) (doWatch (module_controller v modules kl)) =
    [\<lparr>watch_kind = kind, watch_handler = EnqueueRequestForOwner ModuleGK, watch_predicates = []\<rparr>]"
  using assms by (auto simp: doWatch_def module_controller_def)

lemma preflight_owned_watches:
  assumes "kind \<in> {''Build'', ''Job''}"
  shows "filter (\<lambda>wt. watch_kind wt = kind) (doWatch (preflight_controller pvs)) =
    [\<lparr>watch_kind = kind, watch_handler = EnqueueRequestForOwner PreflightValidationGK, watch_predicates = []\<rparr>]"
  using assms by (auto simp: doWatch_def preflight_controller_def)

lemma hub_owned_watches:
  assumes "kind \<in> {''ManifestWork'', ''Build'', ''Job''}"
  shows "filter (\<lambda>wt. watch_kind wt = kind) (doWatch (hub_controller v mcms)) =
    [\<lparr>watch_kind = kind, watch_handler = EnqueueRequestForOwner ManagedClusterModuleGK, watch_predicates = []\<rparr>]"
  using assms by (auto simp: doWatch_def hub_controller_def)

text \<open>The objects of the two stages and the driver DaemonSet carry the reference.\<close>

lemma MakeBuildTemplate_owned:
  assumes "MakeBuildTemplate cms sch hash dtk mld push owner w = (Ok b, w')"
  shows "\<exists>m0. SetControllerReference sch owner m0 = Ok (ob_meta b)"
  using assms by (auto simp: MakeBuildTemplate_def Let_def io_elims)

lemma MakeJobTemplate_owned:
  assumes "MakeJobTemplate se mld labels img push owner w = (Ok j, w')"
  shows "\<exists>m0. SetControllerReference (se_scheme se) owner m0 = Ok (job_meta j)"
  using assms by (auto simp: MakeJobTemplate_def Let_def io_elims)

lemma SetDriver_owned:
  assumes "SetDriverContainerAsDesired kl sch dso mld sa = Ok ds"
  shows "\<exists>m0. SetControllerReference sch (mld_Owner mld) m0 = Ok (ds_meta ds)"
  using assms by (rule SetDriver_OkE) auto

text \<open>A node event that passes asks the map function about the old and the new node.\<close>

lemma module_node_update:
  assumes "ModuleReconcilerNodePredicate kl (UpdateEvent (NodeObj old) (NodeObj new)) = Ok True"
    and "FindModulesForNode vr modules (node_meta old) v = (Ok rs0, v1)"
    and "FindModulesForNode vr modules (node_meta new) v1 = (Ok rs, v2)"
  shows "controller_event mapper (module_controller vr modules kl) ''Node'' (UpdateEvent (NodeObj old) (NodeObj new)) v =
    (Ok (add_requests (add_requests [] rs0) rs), v2)"
  using assms by (simp add: controller_event_def doWatch_def module_controller_def on_event_def bind_io_def)

section \<open>Properties\<close>

text \<open>
  C4. Progress of what a reconciliation started wakes the reconciler that waits for it: every event of a
  Build, a signing job or a driver DaemonSet that was made for a Module, whatever else changes in the
  object, enqueues that Module.
\<close>

theorem stage_objects_wake_module:
  assumes "sch ''Module'' = Ok \<lparr>gvk_APIVersion = ''kmm.sigs.x-k8s.io/v1beta1'', gvk_Kind = ''Module''\<rparr>"
    and "mapper ModuleGK = Ok True" and "om_Namespace (mod_meta md) \<noteq> []" and "se_scheme se = sch"
  shows "(MakeBuildTemplate cms sch hash dtk mld push (module_owner md) w = (Ok b, w') \<longrightarrow>
      wakes mapper (module_controller vr modules kl) ''Build'' (ob_meta b) (ObjectKeyFromObject (mod_meta md))) \<and>
    (MakeJobTemplate se mld labels img push (module_owner md) w = (Ok j, w') \<longrightarrow>
      wakes mapper (module_controller vr modules kl) ''Job'' (job_meta j) (ObjectKeyFromObject (mod_meta md))) \<and>
    (SetDriverContainerAsDesired kl' sch dso mld sa = Ok ds \<and> mld_Owner mld = module_owner md \<longrightarrow>
      wakes mapper (module_controller vr modules kl) ''DaemonSet'' (ds_meta ds) (ObjectKeyFromObject (mod_meta md)))"
proof -
  have key: "ObjectKeyFromObject (mod_meta md) = key_of_owner True (oo_meta (module_owner md))"
    by (simp add: ObjectKeyFromObject_def key_of_owner_def module_owner_def)
  have wakes: "wakes mapper (module_controller vr modules kl) kind m (ObjectKeyFromObject (mod_meta md))"
    if "SetControllerReference sch (module_owner md) m0 = Ok m" "kind \<in> {''DaemonSet'', ''Build'', ''Job''}" for kind m m0
    unfolding key
    by (rule owned_wakes[where gk = ModuleGK and gvk = "\<lparr>gvk_APIVersion = ''kmm.sigs.x-k8s.io/v1beta1'', gvk_Kind = ''Module''\<rparr>",
          OF that(1)])
       (use assms module_owned_watches[OF that(2)] in \<open>simp_all add: module_owner_def ModuleGK_def\<close>)
  show ?thesis
    using MakeBuildTemplate_owned MakeJobTemplate_owned[of se] SetDriver_owned wakes assms(4)
    by (metis insert_iff)
qed

text \<open>
  C5. A kernel upgrade reaches the Modules. When a node reports a kernel its label does not name, the
  update enqueues the node for the node reconciler; when that has succeeded, it has patched the node with a
  label such that the update event of the patch enqueues every Module whose selector the node matches.
\<close>

theorem kernel_upgrade_reaches_modules:
  assumes run: "NodeKernel_Reconcile nodes kl (om_Name (node_meta node)) (w, m) = (Ok (), (w', m'))"
    and get: "k_get nodes \<lparr>nn_Namespace = [], nn_Name = om_Name (node_meta node)\<rparr> w = (Ok node, w1)"
    and label: "get_label (node_meta node) kl \<noteq> node_KernelVersion node"
      "get_label (node_meta node) kl \<noteq> trim_kernel (node_KernelVersion node)"
    and kernel: "trim_kernel (node_KernelVersion node) \<noteq> []" and "om_Namespace (node_meta node) = []"
    and list: "k_list modules fmempty None v = (Ok mods0, v1)" "k_list modules fmempty None v1 = (Ok mods, v2)"
    and valid: "\<forall>md \<in> set mods. fmpred vr (ms_Selector (mod_Spec md))"
  shows "controller_event mapper (node_kernel_controller kl) ''Node'' (UpdateEvent (NodeObj old) (NodeObj node)) u =
      (Ok [\<lparr>nn_Namespace = [], nn_Name = om_Name (node_meta node)\<rparr>], u) \<and>
    (\<exists>node' stored reqs. k_patch nodes node' node w1 = (Ok stored, w') \<and>
      controller_event mapper (module_controller vr modules kl) ''Node'' (UpdateEvent (NodeObj node) (NodeObj node')) v =
        (Ok reqs, v2) \<and>
      (\<forall>md \<in> set mods. selector_matches (ms_Selector (mod_Spec md)) (nil_map (om_Labels (node_meta node'))) \<longrightarrow>
         ObjectKeyFromObject (mod_meta md) \<in> set reqs))"
proof
  show "controller_event mapper (node_kernel_controller kl) ''Node'' (UpdateEvent (NodeObj old) (NodeObj node)) u =
      (Ok [\<lparr>nn_Namespace = [], nn_Name = om_Name (node_meta node)\<rparr>], u)"
    using label(1) assms(6)
    by (simp add: controller_event_def doWatch_def node_kernel_controller_def on_event_def predicate_defs
        ObjectKeyFromObject_def bind_io_def)
next
  let ?lbls = "fmupd kl (trim_kernel (node_KernelVersion node)) (nil_map (om_Labels (node_meta node)))"
  let ?node = "node\<lparr>node_meta := (node_meta node)\<lparr>om_Labels := Some ?lbls\<rparr>\<rparr>"
  from run get obtain stored where patch: "k_patch nodes ?node node w1 = (Ok stored, w')"
    by (auto elim!: NodeKernel_Reconcile_OkE)
  have changed: "om_Labels (node_meta node) \<noteq> Some ?lbls"
    using label(2) by (auto simp: get_label_def sm_get_def dest!: arg_cong[where f = "\<lambda>l. fmlookup (nil_map l) kl"])
  have reached: "FindModulesForNode vr modules (node_meta ?node) v1 = (Ok (map (\<lambda>md. ObjectKeyFromObject (mod_meta md))
        (filter (\<lambda>md. selector_matches (ms_Selector (mod_Spec md)) (nil_map (om_Labels (node_meta ?node)))) mods)), v2)"
    and passes: "ModuleReconcilerNodePredicate kl (UpdateEvent (NodeObj node) (NodeObj ?node)) = Ok True"
    using node_event_reaches_selecting_modules[OF list(2) valid, of ?node kl node] changed kernel
    by (simp_all add: get_label_def)
  obtain rs0 where "FindModulesForNode vr modules (node_meta node) v = (Ok rs0, v1)"
    using list(1) by (auto simp: FindModulesForNode_def bind_io_def attempt_io_def)
  from patch module_node_update[OF passes this reached, of mapper]
  show "\<exists>node' stored reqs. k_patch nodes node' node w1 = (Ok stored, w') \<and>
      controller_event mapper (module_controller vr modules kl) ''Node'' (UpdateEvent (NodeObj node) (NodeObj node')) v =
        (Ok reqs, v2) \<and>
      (\<forall>md \<in> set mods. selector_matches (ms_Selector (mod_Spec md)) (nil_map (om_Labels (node_meta node'))) \<longrightarrow>
         ObjectKeyFromObject (mod_meta md) \<in> set reqs)"
    by (intro exI[of _ ?node] exI[of _ stored] exI conjI) (assumption, assumption, auto)
qed

section \<open>Samples\<close>

definition kmm_scheme :: scheme where
  "kmm_scheme = (\<lambda>_. Ok \<lparr>gvk_APIVersion = ''kmm.sigs.x-k8s.io/v1beta1'', gvk_Kind = ''Module''\<rparr>)"

definition kmm_mapper :: rest_mapper where
  "kmm_mapper gk = Ok (gk = ModuleGK)"

theorem stage_objects_wake_module_witness:
  "\<exists>b. MakeBuildTemplate (const_client sample_dockerfile) kmm_scheme (\<lambda>_. Ok 7) (\<lambda>_. return_io ''dtk-img'')
       (sample_mld (Some sample_build) (Some sample_sign)) True (module_owner (sample_module [])) 0 = (Ok b, 0) \<and>
     wakes kmm_mapper (module_controller (\<lambda>_ _. True) (const_client sample_kmod) KernelLabel) ''Build'' (ob_meta b)
       \<lparr>nn_Namespace = ''ns'', nn_Name = ''md''\<rparr>"
proof -
  let ?sch = kmm_scheme
  obtain b where b: "MakeBuildTemplate (const_client sample_dockerfile) ?sch (\<lambda>_. Ok 7) (\<lambda>_. return_io ''dtk-img'')
       (sample_mld (Some sample_build) (Some sample_sign)) True (module_owner (sample_module [])) 0 = (Ok b, 0)"
    by (simp add: MakeBuildTemplate_def getDockerfileData_def dtk_overrides_def const_client_def kmm_scheme_def
      sample_dockerfile_def sample_defs module_owner_def SetControllerReference_def validateOwner_def
      GetControllerOf_def empty_meta_def dtkBuildArg_def bind_io_def wrap_io_def Let_def)
  have "?sch ''Module'' = Ok \<lparr>gvk_APIVersion = ''kmm.sigs.x-k8s.io/v1beta1'', gvk_Kind = ''Module''\<rparr>"
    "kmm_mapper ModuleGK = Ok True" "om_Namespace (mod_meta (sample_module [])) \<noteq> []"
    "se_scheme (sample_signer\<lparr>se_scheme := ?sch\<rparr>) = ?sch"
    by (simp_all add: kmm_scheme_def kmm_mapper_def sample_defs)
  from stage_objects_wake_module[where sch = kmm_scheme and mapper = kmm_mapper, OF this] b
  have "wakes kmm_mapper (module_controller (\<lambda>_ _. True) (const_client sample_kmod) KernelLabel) ''Build'' (ob_meta b)
      (ObjectKeyFromObject (mod_meta (sample_module [])))" by blast
  moreover have "ObjectKeyFromObject (mod_meta (sample_module [])) = \<lparr>nn_Namespace = ''ns'', nn_Name = ''md''\<rparr>"
    by (simp add: sample_defs ObjectKeyFromObject_def)
  ultimately show ?thesis using b by metis
qed

definition upgraded_node :: Node where
  "upgraded_node = sample_node\<lparr>node_meta := (sample_meta ''node'')\<lparr>om_Namespace := []\<rparr>\<rparr>"

lemma upgraded_node_reconciled:
  "NodeKernel_Reconcile (const_client upgraded_node) KernelLabel (om_Name (node_meta upgraded_node)) (0, NewKernelOsDtkMapping) =
     (Ok (), (1, SetNodeInfo ''5.14.0-70'' ''411.86.2022-0'' NewKernelOsDtkMapping))"
  by (simp add: NodeKernel_Reconcile_def const_client_def upgraded_node_def sample_node_def trim_kernel_def
      strings_TrimSuffix_char match_os_version_def is_digit_def Let_def bind_io_def on_world_def
      wrap_io_def modify_mem_def)

theorem kernel_upgrade_reaches_modules_witness:
  "controller_event kmm_mapper (node_kernel_controller KernelLabel) ''Node'' (UpdateEvent (NodeObj sample_node) (NodeObj upgraded_node)) (0 :: nat) =
     (Ok [\<lparr>nn_Namespace = [], nn_Name = ''node''\<rparr>], 0)"
proof -
  have get: "k_get (const_client upgraded_node) \<lparr>nn_Namespace = [], nn_Name = om_Name (node_meta upgraded_node)\<rparr> 0 = (Ok upgraded_node, 0)"
    by (simp add: const_client_def)
  have node: "get_label (node_meta upgraded_node) KernelLabel \<noteq> node_KernelVersion upgraded_node"
    "get_label (node_meta upgraded_node) KernelLabel \<noteq> trim_kernel (node_KernelVersion upgraded_node)"
    "trim_kernel (node_KernelVersion upgraded_node) \<noteq> []" "om_Namespace (node_meta upgraded_node) = []"
    by (simp_all add: upgraded_node_def sample_node_def sample_meta_def empty_meta_def get_label_def sm_get_def trim_kernel_def
        strings_TrimSuffix_char)
  have "k_list (const_client sample_kmod) fmempty None 0 = (Ok [sample_kmod], 0)"
    "\<forall>md \<in> set [sample_kmod]. fmpred (\<lambda>_ _. True) (ms_Selector (mod_Spec md))"
    by (simp_all add: const_client_def fmpred_iff)
  from kernel_upgrade_reaches_modules[OF upgraded_node_reconciled get node this(1) this(1,2), of kmm_mapper sample_node "0 :: nat"]
  show ?thesis by (simp add: upgraded_node_def sample_meta_def)
qed

end
