(* ===== verification/Preflight.thy ===== *)
theory Preflight
  imports Module_Reconciler
begin

text \<open>
  Preflight validation: whether every Module would have its kernel module for a given kernel
  (internal/preflight/preflight.go, controllers/preflightvalidation_reconciler.go). The
  PreflightValidation being reconciled is an object in memory that every status update changes first
  and then sends, so the operations run on the world and that object.
\<close>

record ('w, 'k, 'a) preflight_env =
  pe_preflights :: "('w, PreflightValidation) kclient"
  pe_modules :: "('w, Module) kclient"
  pe_clock :: "'w \<Rightarrow> string"
  pe_kernelAPI :: "Module \<Rightarrow> string \<Rightarrow> ModuleLoaderData result"
  pe_registry :: "('w, 'k, 'a) registry_env"
  pe_buildAPI :: "'w build_manager"
  pe_signAPI :: "'w sign_manager"
  pe_metricsAPI :: "'w metrics_api"

definition preflight_owner :: "PreflightValidation \<Rightarrow> owner_object" where
  "preflight_owner pv = \<lparr>oo_meta = pv_meta pv, oo_type = ''PreflightValidation''\<rparr>"

definition VerificationStatusReasonVerified :: "string \<Rightarrow> string" where
  "VerificationStatusReasonVerified msg =
     ''Verification successful ('' @ msg @ ''), this Module will not be verified again in this Preflight CR''"

section \<open>Verification of one Module\<close>

text \<open>The loop over the layers, top first: \<open>ds\<close> are the digests that are left.\<close>

fun verify_layers ::
    "('w, 'k, 'a) registry_env \<Rightarrow> ModuleLoaderData \<Rightarrow> ('k, 'a) RepoPullConfig \<Rightarrow> string list \<Rightarrow>
     ('w, bool \<times> string) io" where
  "verify_layers re mld repoConfig [] =
     return_io (False, ''image '' @ mld_ContainerImage mld @ '' does not contain kernel module for kernel ''
                  @ mld_KernelVersion mld @ '' on any layer'')"
| "verify_layers re mld repoConfig (d # ds) =
     bind_io (attempt_io (GetLayerByDigest re d repoConfig)) (\<lambda>r. case r of
       Inl e \<Rightarrow> return_io (False, ''image '' @ mld_ContainerImage mld @ '', layer '' @ d @ '' is inaccessible'')
     | Inr layer \<Rightarrow>
         if VerifyModuleExists layer (mp_DirName (mld_Modprobe mld)) (mld_KernelVersion mld)
              (mp_ModuleName (mld_Modprobe mld) @ ''.ko'')
         then return_io (True, VerificationStatusReasonVerified ''image accessible and verified'')
         else verify_layers re mld repoConfig ds)"

definition verifyImage :: "('w, 'k, 'a) registry_env \<Rightarrow> ModuleLoaderData \<Rightarrow> ('w, bool \<times> string) io" where
  "verifyImage re mld =
     bind_io (attempt_io (GetLayersDigests re (mld_ContainerImage mld) (mld_RegistryTLS mld)
       (Some (NewRegistryAuthGetterFrom mld)))) (\<lambda>r. case r of
       Inl e \<Rightarrow> return_io (False, ''image '' @ mld_ContainerImage mld @ '' inaccessible or does not exists'')
     | Inr (digests, repoConfig) \<Rightarrow> verify_layers re mld repoConfig (rev digests))"

definition verifyBuild ::
    "('w, 'k, 'a) preflight_env \<Rightarrow> PreflightValidation \<Rightarrow> ModuleLoaderData \<Rightarrow> ('w, bool \<times> string) io" where
  "verifyBuild env pv mld =
     bind_io (attempt_io (bm_Sync (pe_buildAPI env) mld (pvs_PushBuiltImage (pv_Spec pv)) (preflight_owner pv))) (\<lambda>r.
     return_io (case r of
       Inl e \<Rightarrow> (False, ''Failed to verify build for module '' @ mld_Name mld @ '', kernel version ''
                    @ pvs_KernelVersion (pv_Spec pv) @ '', error '' @ err_text e)
     | Inr buildStatus \<Rightarrow>
         if buildStatus = StatusCompleted
         then (True, VerificationStatusReasonVerified (''build compiles''
                       @ (if pvs_PushBuiltImage (pv_Spec pv) then '' and image pushed'' else [])))
         else (False, ''Waiting for build verification'')))"

definition verifySign ::
    "('w, 'k, 'a) preflight_env \<Rightarrow> PreflightValidation \<Rightarrow> ModuleLoaderData \<Rightarrow> ('w, bool \<times> string) io" where
  "verifySign env pv mld =
     (let previousImage = (if ShouldBeBuilt mld
            then IntermediateImageName (mld_Name mld) (mld_Namespace mld) (mld_ContainerImage mld) else []) in
      bind_io (attempt_io (sm_Sync (pe_signAPI env) mld previousImage (pvs_PushBuiltImage (pv_Spec pv))
        (preflight_owner pv))) (\<lambda>r.
      return_io (case r of
        Inl e \<Rightarrow> (False, ''Failed to verify signing for module '' @ mld_Name mld @ '', kernel version ''
                     @ pvs_KernelVersion (pv_Spec pv) @ '', error '' @ err_text e)
      | Inr signStatus \<Rightarrow>
          if signStatus = StatusCompleted
          then (True, VerificationStatusReasonVerified (''sign completes''
                        @ (if pvs_PushBuiltImage (pv_Spec pv) then '' and image pushed'' else [])))
          else (False, ''Waiting for sign verification''))))"

text \<open>A failing stage update is logged and ignored.\<close>

definition set_stage ::
    "('w, 'k, 'a) preflight_env \<Rightarrow> string \<Rightarrow> string \<Rightarrow> ('w \<times> PreflightValidation, unit) io" where
  "set_stage env moduleName stage =
     bind_io (attempt_io (PreflightSetVerificationStage (pe_preflights env) (pe_clock env) moduleName stage)) (\<lambda>_.
     return_io ())"

text \<open>The part of the upgrade check that runs when the image is not there.\<close>

definition check_build_sign ::
    "('w, 'k, 'a) preflight_env \<Rightarrow> ModuleLoaderData \<Rightarrow> bool \<Rightarrow> string \<Rightarrow> ('w \<times> PreflightValidation, bool \<times> string) io" where
  "check_build_sign env mld verified msg =
     bind_io (if ShouldBeBuilt mld
              then bind_io (set_stage env (mld_Name mld) VerificationStageBuild) (\<lambda>_.
                   bind_io (read_mem Ok) (\<lambda>pv. on_world (verifyBuild env pv mld)))
              else return_io (verified, msg)) (\<lambda>(built, build_msg).
     if ShouldBeBuilt mld \<and> \<not> built then return_io (False, build_msg)
     else if ShouldBeSigned mld
     then bind_io (set_stage env (mld_Name mld) VerificationStageSign) (\<lambda>_.
          bind_io (read_mem Ok) (\<lambda>pv. on_world (verifySign env pv mld)))
     else return_io (built, build_msg))"

definition PreflightUpgradeCheck ::
    "('w, 'k, 'a) preflight_env \<Rightarrow> Module \<Rightarrow> ('w \<times> PreflightValidation, bool \<times> string) io" where
  "PreflightUpgradeCheck env md =
     bind_io (read_mem (\<lambda>pv. Ok (pvs_KernelVersion (pv_Spec pv)))) (\<lambda>kernelVersion.
     case pe_kernelAPI env md kernelVersion of
       Panic p \<Rightarrow> lift_io (Panic p)
     | Err e \<Rightarrow> return_io (False, ''failed to process kernel mapping in the module '' @ mod_Name md
                              @ '' for kernel version '' @ kernelVersion)
     | Ok mld \<Rightarrow>
         bind_io (set_stage env (mld_Name mld) VerificationStageImage) (\<lambda>_.
         bind_io (on_world (verifyImage (pe_registry env) mld)) (\<lambda>(verified, msg).
         if verified then return_io (True, msg)
         else check_build_sign env mld verified msg)))"

section \<open>The reconciler\<close>

definition presetModulesStatuses ::
    "('w, 'k, 'a) preflight_env \<Rightarrow> Module list \<Rightarrow> ('w \<times> PreflightValidation, unit) io" where
  "presetModulesStatuses env modules =
     bind_io (modify_mem (\<lambda>pv. if pvst_CRStatuses (pv_Status pv) = None then set_statuses (Some []) pv else pv)) (\<lambda>_.
     bind_io (read_mem Ok) (\<lambda>pv.
     let live = filter (\<lambda>md. om_DeletionTimestamp (mod_meta md) = None) modules;
         sts = the (pvst_CRStatuses (pv_Status pv));
         existingModulesName = set (map mod_Name live);
         newModulesNames = filter (\<lambda>n. map_of sts n = None) (map mod_Name live) in
     PreflightPresetStatuses (pe_preflights env) (pe_clock env) existingModulesName newModulesNames))"

text \<open>The code reads the status of a Module through the map's pointer: a missing entry, or a nil map,
  panics.\<close>

fun select_unverified :: "CRStatus assoc option \<Rightarrow> Module list \<Rightarrow> Module list result" where
  "select_unverified sts [] = Ok []"
| "select_unverified sts (md # mds) =
     (if om_DeletionTimestamp (mod_meta md) \<noteq> None then select_unverified sts mds
      else case map_of (case sts of Some m \<Rightarrow> m | None \<Rightarrow> []) (mod_Name md) of
             None \<Rightarrow> Panic ''nil pointer dereference''
           | Some st \<Rightarrow>
               bind_res (select_unverified sts mds) (\<lambda>rest.
               Ok (if cr_VerificationStatus st \<noteq> VerificationTrue then md # rest else rest)))"

definition getModulesToCheck ::
    "('w, 'k, 'a) preflight_env \<Rightarrow> ('w \<times> PreflightValidation, Module list) io" where
  "getModulesToCheck env =
     bind_io (wrap_io (Errorf_w ''failed to get list of all Modules'')
       (on_world (k_list (pe_modules env) fmempty None))) (\<lambda>modules.
     bind_io (wrap_io (Errorf_w ''failed to preset new modules' statuses'') (presetModulesStatuses env modules)) (\<lambda>_.
     read_mem (\<lambda>pv. select_unverified (pvst_CRStatuses (pv_Status pv)) modules)))"

definition updatePreflightStatus ::
    "('w, 'k, 'a) preflight_env \<Rightarrow> string \<Rightarrow> string \<Rightarrow> bool \<Rightarrow> ('w \<times> PreflightValidation, unit) io" where
  "updatePreflightStatus env moduleName message verified =
     bind_io (attempt_io (PreflightSetVerificationStatus (pe_preflights env) (pe_clock env) moduleName
       (if verified then VerificationTrue else VerificationFalse) message)) (\<lambda>_.
     set_stage env moduleName (if verified then VerificationStageDone else VerificationStageRequeued))"

definition checkPreflightCompletion ::
    "('w, 'k, 'a) preflight_env \<Rightarrow> string \<Rightarrow> string \<Rightarrow> ('w, bool) io" where
  "checkPreflightCompletion env name namespace =
     bind_io (wrap_io (Errorf_w ''failed to get preflight validation object in checkPreflightCompletion'')
       (k_get (pe_preflights env) \<lparr>nn_Namespace = namespace, nn_Name = name\<rparr>)) (\<lambda>pv.
     return_io (\<forall>(n, st) \<in> set (case pvst_CRStatuses (pv_Status pv) of Some m \<Rightarrow> m | None \<Rightarrow> []).
       cr_VerificationStatus st = VerificationTrue))"

definition check_module ::
    "('w, 'k, 'a) preflight_env \<Rightarrow> unit \<Rightarrow> Module \<Rightarrow> ('w \<times> PreflightValidation, unit) io" where
  "check_module env u md =
     bind_io (PreflightUpgradeCheck env md) (\<lambda>(verified, message).
     updatePreflightStatus env (mod_Name md) message verified)"

definition runPreflightValidation ::
    "('w, 'k, 'a) preflight_env \<Rightarrow> ('w \<times> PreflightValidation, bool) io" where
  "runPreflightValidation env =
     bind_io (wrap_io (Errorf_w ''failed to get list of modules to check for preflight'') (getModulesToCheck env)) (\<lambda>mds.
     bind_io (for_io (check_module env) () mds) (\<lambda>_.
     bind_io (read_mem Ok) (\<lambda>pv.
     on_world (checkPreflightCompletion env (om_Name (pv_meta pv)) (om_Namespace (pv_meta pv))))))"

definition reconcileRequeueInSeconds :: nat where "reconcileRequeueInSeconds = 180"

text \<open>The result is the number of seconds after which the request is queued again, 0 for never.\<close>

definition Preflight_Reconcile :: "('w, 'k, 'a) preflight_env \<Rightarrow> NamespacedName \<Rightarrow> ('w, nat) io" where
  "Preflight_Reconcile env req =
     bind_io (attempt_io (k_get (pe_preflights env) req)) (\<lambda>r. case r of
       Inl e \<Rightarrow> if IsNotFound e then return_io 0 else fail_io e
     | Inr pv \<Rightarrow>
         bind_io (do_io (ma_SetKMMPreflightsNum (pe_metricsAPI env) 1)) (\<lambda>_.
         bind_io (with_mem pv (runPreflightValidation env)) (\<lambda>reconCompleted.
         return_io (if reconCompleted then 0 else reconcileRequeueInSeconds))))"

section \<open>Lemmas\<close>

definition live_module :: "Module \<Rightarrow> bool" where
  "live_module md = (om_DeletionTimestamp (mod_meta md) = None)"

definition statuses_of :: "PreflightValidation \<Rightarrow> CRStatus assoc" where
  "statuses_of pv = (case pvst_CRStatuses (pv_Status pv) of Some m \<Rightarrow> m | None \<Rightarrow> [])"

text \<open>The statuses a reconciliation starts from: those of the Modules that exist, with a fresh entry
  for each that had none.\<close>

definition preset_map :: "string \<Rightarrow> Module list \<Rightarrow> CRStatus assoc \<Rightarrow> CRStatus assoc" where
  "preset_map now modules sts =
     (let live = map mod_Name (filter live_module modules) in
      fold (\<lambda>n m. AList.update n (preset_status now) m) (filter (\<lambda>n. map_of sts n = None) live)
        (filter (\<lambda>(n, _). n \<in> set live) sts))"

lemma map_of_preset_map:
  "map_of (preset_map now modules sts) n =
     (if n \<in> mod_Name ` set (filter live_module modules)
      then Some (case map_of sts n of Some st \<Rightarrow> st | None \<Rightarrow> preset_status now) else None)"
  by (simp add: preset_map_def Let_def map_of_fold_update map_of_filter_keys split: option.splits)

lemma presetModulesStatuses_eq:
  "presetModulesStatuses env modules (w, pv) =
     update_mem (k_status_update (pe_preflights env))
       (w, set_statuses (Some (preset_map (pe_clock env w) modules (statuses_of pv))) pv)"
proof -
  have "filter (\<lambda>md. om_DeletionTimestamp (mod_meta md) = None) modules = filter live_module modules"
    by (simp add: live_module_def[abs_def])
  then show ?thesis
    by (cases "pvst_CRStatuses (pv_Status pv)")
       (simp_all add: presetModulesStatuses_def PreflightPresetStatuses_def preset_statuses_def preset_map_def
          statuses_of_def set_statuses_def Let_def bind_io_def)
qed

lemma select_unverified_eq:
  assumes "mod_Name ` set (filter live_module mds) \<subseteq> dom (map_of m)"
  shows "select_unverified (Some m) mds =
    Ok (filter (\<lambda>md. live_module md \<and>
          cr_VerificationStatus (the (map_of m (mod_Name md))) \<noteq> VerificationTrue) mds)"
  using assms
proof (induction mds)
  case (Cons md mds)
  then show ?case
    by (cases "live_module md") (auto simp: live_module_def split: option.splits)
qed simp

text \<open>The API server stores a status update as it was sent.\<close>

definition status_stored :: "('w, PreflightValidation) kclient \<Rightarrow> bool" where
  "status_stored c \<longleftrightarrow> (\<forall>pv w pv' w'. k_status_update c pv w = (Ok pv', w') \<longrightarrow> pv_Status pv' = pv_Status pv)"

text \<open>A Module that the preflight selects: it exists and is not yet verified.\<close>

definition unverified :: "PreflightValidation \<Rightarrow> Module \<Rightarrow> bool" where
  "unverified pv md \<longleftrightarrow> live_module md \<and>
     (case map_of (statuses_of pv) (mod_Name md) of
        Some st \<Rightarrow> cr_VerificationStatus st \<noteq> VerificationTrue | None \<Rightarrow> True)"

lemma select_after_preset:
  "select_unverified (Some (preset_map now modules (statuses_of pv))) modules = Ok (filter (unverified pv) modules)"
proof -
  have "mod_Name ` set (filter live_module modules) \<subseteq> dom (map_of (preset_map now modules (statuses_of pv)))"
    by (auto simp: map_of_preset_map)
  note sel = select_unverified_eq[OF this]
  have "(live_module md \<and> cr_VerificationStatus
           (the (map_of (preset_map now modules (statuses_of pv)) (mod_Name md))) \<noteq> VerificationTrue)
        = unverified pv md" if "md \<in> set modules" for md
    using that by (cases "map_of (statuses_of pv) (mod_Name md)")
      (auto simp: map_of_preset_map unverified_def preset_status_def)
  then show ?thesis unfolding sel by (simp cong: filter_cong)
qed

lemma getModulesToCheck_eq:
  assumes "k_list (pe_modules env) fmempty None w = (Ok modules, w1)" and "status_stored (pe_preflights env)"
  shows "case k_status_update (pe_preflights env)
      (set_statuses (Some (preset_map (pe_clock env w1) modules (statuses_of pv))) pv) w1 of
    (Ok pv', w') \<Rightarrow> getModulesToCheck env (w, pv) = (Ok (filter (unverified pv) modules), (w', pv'))
  | (Err e, w') \<Rightarrow> \<exists>e' pv'. getModulesToCheck env (w, pv) = (Err e', (w', pv'))
  | (Panic p, w') \<Rightarrow> True"
proof -
  let ?sent = "set_statuses (Some (preset_map (pe_clock env w1) modules (statuses_of pv))) pv"
  obtain r w' where upd: "k_status_update (pe_preflights env) ?sent w1 = (r, w')" by force
  have listed: "on_world (k_list (pe_modules env) fmempty None) (w, pv) = (Ok modules, (w1, pv))"
    using assms(1) by simp
  show ?thesis
  proof (cases r)
    case (Ok pv')
    have "pv_Status pv' = pv_Status ?sent"
      using assms(2) upd unfolding status_stored_def Ok by blast
    then have "pvst_CRStatuses (pv_Status pv') = Some (preset_map (pe_clock env w1) modules (statuses_of pv))"
      by (simp add: set_statuses_def)
    moreover have "presetModulesStatuses env modules (w1, pv) = (Ok (), (w', pv'))"
      using upd Ok by (simp add: presetModulesStatuses_eq)
    ultimately show ?thesis
      using listed upd Ok by (simp add: getModulesToCheck_def select_after_preset)
  next
    case (Err e)
    then have "presetModulesStatuses env modules (w1, pv) = (Err e, (w', ?sent))"
      using upd by (simp add: presetModulesStatuses_eq update_mem_def)
    then show ?thesis using listed upd Err by (simp add: getModulesToCheck_def)
  qed (simp add: upd)
qed

text \<open>What it means that the image of a Module holds the kernel module for its kernel.\<close>

definition layer_has_module :: "ModuleLoaderData \<Rightarrow> Layer \<Rightarrow> bool" where
  "layer_has_module mld layer =
     VerifyModuleExists layer (mp_DirName (mld_Modprobe mld)) (mld_KernelVersion mld)
       (mp_ModuleName (mld_Modprobe mld) @ ''.ko'')"

definition image_has_module :: "('w, 'k, 'a) registry_env \<Rightarrow> ModuleLoaderData \<Rightarrow> bool" where
  "image_has_module re mld \<longleftrightarrow>
     (\<exists>digests cfg d layer w w1 w2 w3.
        GetLayersDigests re (mld_ContainerImage mld) (mld_RegistryTLS mld) (Some (NewRegistryAuthGetterFrom mld)) w
          = (Ok (digests, cfg), w1) \<and> d \<in> set digests \<and>
        GetLayerByDigest re d cfg w2 = (Ok layer, w3) \<and> layer_has_module mld layer)"

lemma verify_layers_True:
  assumes "verify_layers re mld cfg ds w = (Ok (True, msg), w')"
  shows "\<exists>d layer w2 w3. d \<in> set ds \<and> GetLayerByDigest re d cfg w2 = (Ok layer, w3) \<and> layer_has_module mld layer"
  using assms
proof (induction ds arbitrary: w)
  case (Cons d ds)
  obtain r w1 where get: "GetLayerByDigest re d cfg w = (r, w1)" by force
  show ?case
  proof (cases r)
    case (Ok layer)
    show ?thesis
    proof (cases "layer_has_module mld layer")
      case True
      with get Ok show ?thesis by auto
    next
      case False
      with get Ok Cons.prems have "verify_layers re mld cfg ds w1 = (Ok (True, msg), w')"
        by (simp add: layer_has_module_def)
      from Cons.IH[OF this] show ?thesis by auto
    qed
  qed (use get Cons.prems in simp_all)
qed simp

lemma verifyImage_True:
  assumes "verifyImage re mld w = (Ok (True, msg), w')"
  shows "image_has_module re mld"
proof -
  from assms obtain digests cfg w1 where
      dg: "GetLayersDigests re (mld_ContainerImage mld) (mld_RegistryTLS mld) (Some (NewRegistryAuthGetterFrom mld)) w
          = (Ok (digests, cfg), w1)"
    and "verify_layers re mld cfg (rev digests) w1 = (Ok (True, msg), w')"
    by (auto simp: verifyImage_def io_elims)
  from verify_layers_True[OF this(2)] obtain d layer w2 w3 where
    "d \<in> set digests" "GetLayerByDigest re d cfg w2 = (Ok layer, w3)" "layer_has_module mld layer"
    by auto
  with dg show ?thesis unfolding image_has_module_def by blast
qed

lemma verifyBuild_True:
  "verifyBuild env pv mld w = (Ok (True, msg), w') \<Longrightarrow>
     bm_Sync (pe_buildAPI env) mld (pvs_PushBuiltImage (pv_Spec pv)) (preflight_owner pv) w = (Ok StatusCompleted, w')"
  by (auto simp: verifyBuild_def io_elims split: if_split_asm)

lemma verifySign_True:
  "verifySign env pv mld w = (Ok (True, msg), w') \<Longrightarrow>
     sm_Sync (pe_signAPI env) mld (sign_source mld) (pvs_PushBuiltImage (pv_Spec pv)) (preflight_owner pv) w
       = (Ok StatusCompleted, w')"
  by (auto simp: verifySign_def sign_source_def Let_def io_elims split: if_split_asm)

text \<open>The build, or the signing, of a Module for a preflight has reported that it is complete.\<close>

definition build_completed :: "('w, 'k, 'a) preflight_env \<Rightarrow> ModuleLoaderData \<Rightarrow> bool" where
  "build_completed env mld \<longleftrightarrow>
     (\<exists>pv w w'. bm_Sync (pe_buildAPI env) mld (pvs_PushBuiltImage (pv_Spec pv)) (preflight_owner pv) w
        = (Ok StatusCompleted, w'))"

definition sign_completed :: "('w, 'k, 'a) preflight_env \<Rightarrow> ModuleLoaderData \<Rightarrow> bool" where
  "sign_completed env mld \<longleftrightarrow>
     (\<exists>pv w w'. sm_Sync (pe_signAPI env) mld (sign_source mld) (pvs_PushBuiltImage (pv_Spec pv)) (preflight_owner pv) w
        = (Ok StatusCompleted, w'))"

lemma check_build_sign_True:
  assumes "check_build_sign env mld verified msg1 ws1 = (Ok (True, msg), ws)"
  shows "verified \<or> (ShouldBeBuilt mld \<or> ShouldBeSigned mld)"
    and "ShouldBeBuilt mld \<Longrightarrow> build_completed env mld"
    and "ShouldBeSigned mld \<Longrightarrow> sign_completed env mld"
proof -
  show "verified \<or> (ShouldBeBuilt mld \<or> ShouldBeSigned mld)"
    using assms by (cases "ShouldBeBuilt mld") (simp_all add: check_build_sign_def io_elims split: if_split_asm)
next
  assume b: "ShouldBeBuilt mld"
  from assms b obtain pv w w' m where "verifyBuild env pv mld w = (Ok (True, m), w')"
    by (auto simp: check_build_sign_def io_elims split: if_split_asm)
  from verifyBuild_True[OF this] show "build_completed env mld" unfolding build_completed_def by blast
next
  assume s: "ShouldBeSigned mld"
  from assms s obtain pv w w' where "verifySign env pv mld w = (Ok (True, msg), w')"
    by (auto simp: check_build_sign_def io_elims split: if_split_asm)
  from verifySign_True[OF this] show "sign_completed env mld" unfolding sign_completed_def by blast
qed

section \<open>Properties\<close>

text \<open>
  C30. The Modules a preflight checks are exactly the existing Modules, not marked for deletion, that
  it has not yet verified; selecting them never dereferences a missing status, because every
  existing Module is given one first. The API server is only assumed to store a status as it is sent.
\<close>

theorem preflight_checks_unverified_modules:
  assumes "k_list (pe_modules env) fmempty None w = (Ok modules, w1)" and "status_stored (pe_preflights env)"
    and "\<forall>x v. \<not> is_panic (fst (k_status_update (pe_preflights env) x v))"
  shows "\<not> is_panic (fst (getModulesToCheck env (w, pv))) \<and>
    (\<forall>mds ws. getModulesToCheck env (w, pv) = (Ok mds, ws) \<longrightarrow> mds = filter (unverified pv) modules)"
proof -
  obtain r w' where upd: "k_status_update (pe_preflights env)
      (set_statuses (Some (preset_map (pe_clock env w1) modules (statuses_of pv))) pv) w1 = (r, w')" by force
  with assms(3) have "\<not> is_panic r" by (metis fst_conv)
  with getModulesToCheck_eq[OF assms(1,2), of pv] upd show ?thesis by (cases r) auto
qed

text \<open>
  C29. A Module passes the upgrade check only if a layer of its image holds the kernel module for the
  kernel under test, or it is built or signed in the cluster and each of the two that it asks for has
  completed for that kernel.
\<close>

theorem preflight_verified_only_if:
  assumes "PreflightUpgradeCheck env md (w, pv) = (Ok (True, msg), ws)"
  shows "\<exists>mld. pe_kernelAPI env md (pvs_KernelVersion (pv_Spec pv)) = Ok mld \<and>
    (image_has_module (pe_registry env) mld \<or>
     (ShouldBeBuilt mld \<or> ShouldBeSigned mld) \<and>
     (ShouldBeBuilt mld \<longrightarrow> build_completed env mld) \<and> (ShouldBeSigned mld \<longrightarrow> sign_completed env mld))"
proof -
  from assms obtain mld where mld: "pe_kernelAPI env md (pvs_KernelVersion (pv_Spec pv)) = Ok mld"
    by (cases "pe_kernelAPI env md (pvs_KernelVersion (pv_Spec pv))") (auto simp: PreflightUpgradeCheck_def)
  with assms obtain verified msg1 w1 w2 pv1 where
      img: "verifyImage (pe_registry env) mld w1 = (Ok (verified, msg1), w2)"
    and rest: "(if verified then return_io (True, msg1) else check_build_sign env mld verified msg1) (w2, pv1)
                 = (Ok (True, msg), ws)"
    by (auto simp: PreflightUpgradeCheck_def io_elims)
  show ?thesis
  proof (cases verified)
    case True
    with img have "verifyImage (pe_registry env) mld w1 = (Ok (True, msg1), w2)" by simp
    from verifyImage_True[OF this] mld show ?thesis by simp
  next
    case False
    with rest have "check_build_sign env mld verified msg1 (w2, pv1) = (Ok (True, msg), ws)" by simp
    from check_build_sign_True[OF this] False mld show ?thesis by simp
  qed
qed


section \<open>Samples\<close>

text \<open>A registry in which every image has one layer, with the sample kernel module in it.\<close>

definition stocked_registry :: "(nat, unit, unit) registry_env" where
  "stocked_registry = empty_registry\<lparr>
     re_crane := \<lparr>crane_Manifest = \<lambda>_ _. return_io ''manifest'',
       crane_PullLayer = \<lambda>_ _. return_io
         \<lparr>layer_Uncompressed = Ok ([\<lparr>te_Name = ''opt/lib/modules/5.14.0-70/kmod.ko'', te_Data = [], te_ReadErr = None\<rparr>], None),
          layer_MediaType = Ok []\<rparr>,
       crane_Pull = \<lambda>_ _. fail_io (TransportError 404), crane_Push = \<lambda>_ _ _. return_io ()\<rparr>,
     re_json := \<lparr>json_mediaType = \<lambda>_. Ok (Ok (Some ''manifest.v2'')),
       json_Layers = \<lambda>_. Ok [\<lparr>hash_Algorithm = ''sha256'', hash_Hex = ''0''\<rparr>], json_Manifests = \<lambda>_. Ok []\<rparr>\<rparr>"

definition sample_preflight :: PreflightValidation where
  "sample_preflight = \<lparr>pv_meta = sample_meta ''pv'',
     pv_Spec = \<lparr>pvs_KernelVersion = ''5.14.0-70'', pvs_PushBuiltImage = False\<rparr>,
     pv_Status = \<lparr>pvst_CRStatuses = None\<rparr>\<rparr>"

definition tagged_mld :: ModuleLoaderData where
  "tagged_mld = (sample_mld None None)\<lparr>mld_ContainerImage := ''quay.io/kmod:v1''\<rparr>"

definition sample_preflight_env :: "(nat, unit, unit) preflight_env" where
  "sample_preflight_env =
     \<lparr>pe_preflights = const_client sample_preflight, pe_modules = const_client sample_kmod, pe_clock = \<lambda>_. ''now'',
      pe_kernelAPI = \<lambda>_ _. Ok tagged_mld, pe_registry = stocked_registry,
      pe_buildAPI = me_buildAPI sample_env, pe_signAPI = me_signAPI sample_env,
      pe_metricsAPI = me_metricsAPI sample_env\<rparr>"

lemma sample_preflight_stored: "status_stored (pe_preflights sample_preflight_env)"
  by (simp add: status_stored_def sample_preflight_env_def const_client_def)

theorem preflight_checks_unverified_modules_witness:
  "\<not> is_panic (fst (getModulesToCheck sample_preflight_env (0, sample_preflight))) \<and>
     filter (unverified sample_preflight) [sample_kmod] = [sample_kmod]"
proof -
  have "k_list (pe_modules sample_preflight_env) fmempty None 0 = (Ok [sample_kmod], 0)"
    by (simp add: sample_preflight_env_def const_client_def)
  moreover have "\<forall>x v. \<not> is_panic (fst (k_status_update (pe_preflights sample_preflight_env) x v))"
    by (simp add: sample_preflight_env_def const_client_def)
  ultimately show ?thesis
    using preflight_checks_unverified_modules[of sample_preflight_env 0 "[sample_kmod]" 0 sample_preflight]
      sample_preflight_stored
    by (simp add: unverified_def live_module_def statuses_of_def sample_preflight_def sample_kmod_def sample_defs
        empty_meta_def)
qed

lemma sample_image_verified:
  "verifyImage stocked_registry tagged_mld w =
     (Ok (True, VerificationStatusReasonVerified ''image accessible and verified''), w)"
proof -
  have "module_path ''/opt'' ''5.14.0-70'' ''kmod.ko'' = ''opt/lib/modules/5.14.0-70/kmod.ko''"
    by code_simp
  then have "VerifyModuleExists
      \<lparr>layer_Uncompressed = Ok ([\<lparr>te_Name = ''opt/lib/modules/5.14.0-70/kmod.ko'', te_Data = [], te_ReadErr = None\<rparr>], None),
          layer_MediaType = Ok []\<rparr> ''/opt'' ''5.14.0-70'' ''kmod.ko''"
    by (simp add: VerifyModuleExists_def getHeaderReaderFromLayer_def)
  moreover have "strings_Contains ''manifest.v2'' ''manifest.list'' = False" by code_simp
  ultimately show ?thesis
    by (simp add: verifyImage_def GetLayersDigests_def getImageManifest_def getPullOptions_def
        getManifestStreamFromImage_def getLayersDigestsFromManifestStream_def GetLayerByDigest_def
        NewRegistryAuthGetterFrom_def stocked_registry_def empty_registry_def tagged_mld_def sample_mld_def sample_modprobe_def
        no_tls_def tls_crane_options_def repo_of_image_def bind_io_def wrap_io_def attempt_io_def)
qed

theorem preflight_verified_only_if_witness:
  "image_has_module stocked_registry tagged_mld"
proof -
  have "PreflightUpgradeCheck sample_preflight_env sample_kmod (0, sample_preflight) =
      (Ok (True, VerificationStatusReasonVerified ''image accessible and verified''), (0, sample_preflight))"
    by (simp add: PreflightUpgradeCheck_def set_stage_def PreflightSetVerificationStage_def update_cr_status_def
        sample_preflight_env_def sample_preflight_def sample_image_verified bind_io_def wrap_io_def attempt_io_def)
  from preflight_verified_only_if[OF this] show ?thesis
    by (simp add: sample_preflight_env_def ShouldBeBuilt_def ShouldBeSigned_def tagged_mld_def sample_mld_def)
qed


end
