(* ===== verification/Preflight_Ocp.thy ===== *)
theory Preflight_Ocp
  imports Preflight Dtk_Mapping
begin

text \<open>
  Preflight validation of an OpenShift release (controllers/preflightvalidationocp_reconciler.go): the
  kernel of the release is read from its driver-toolkit image, the driver-toolkit image is registered
  in the shared mapping, and a PreflightValidation for that kernel is created; later its status is
  copied back. The reconciler runs on the world and the shared mapping.
\<close>

definition driverToolkitSpecName :: string where "driverToolkitSpecName = ''driver-toolkit''"
definition driverToolkitJSONFilePath :: string where
  "driverToolkitJSONFilePath = ''etc/driver-toolkit-release.json''"
definition releaseManifestImagesRefFile :: string where
  "releaseManifestImagesRefFile = ''release-manifests/image-references''"

record dtkRelease =
  dr_KernelVersion :: string
  dr_RTKernelVersion :: string
  dr_RHELVersion :: string

text \<open>The decoding of the two JSON files into their Go types is a parameter.\<close>

record ('w, 'k, 'a) ocp_env =
  oe_pvos :: "('w, PreflightValidationOCP) kclient"
  oe_pvs :: "('w, PreflightValidation) kclient"
  oe_registry :: "('w, 'k, 'a) registry_env"
  oe_json_ImageStream :: "string \<Rightarrow> TagReference list result"
  oe_json_dtkRelease :: "string \<Rightarrow> dtkRelease result"
  oe_scheme :: scheme

section \<open>The driver-toolkit image of a release\<close>

fun find_dtk_tag :: "TagReference list \<Rightarrow> string result" where
  "find_dtk_tag [] = Err (ErrorMsg (''failed to find '' @ driverToolkitSpecName @ '' entry in the ''
                            @ releaseManifestImagesRefFile @ '' file''))"
| "find_dtk_tag (t # ts) =
     (if tag_Name t = driverToolkitSpecName
      then (case tag_From t of
              None \<Rightarrow> Err (ErrorMsg (driverToolkitSpecName @ '' local reference is missing from ''
                              @ releaseManifestImagesRefFile))
            | Some from_Name \<Rightarrow> Ok from_Name)
      else find_dtk_tag ts)"

definition getDTKFromImage :: "('w, 'k, 'a) ocp_env \<Rightarrow> string \<Rightarrow> ('w, string) io" where
  "getDTKFromImage env img =
     bind_io (wrap_io (Errorf_v (''failed to get last layer of image '' @ img))
       (LastLayer (oe_registry env) img None (Some NewClusterAuthGetter))) (\<lambda>layer.
     bind_io (lift_io (map_err (Errorf_v (''failed to get image spec from image '' @ img))
       (GetHeaderDataFromLayer layer releaseManifestImagesRefFile))) (\<lambda>data.
     bind_io (lift_io (map_err (Errorf_v (''failed to unmarshal '' @ releaseManifestImagesRefFile @ '' data''))
       (oe_json_ImageStream env data))) (\<lambda>tags.
     lift_io (find_dtk_tag tags))))"

section \<open>The kernel of a driver-toolkit image\<close>

definition checked_release :: "dtkRelease result \<Rightarrow> (string \<times> string \<times> string) result" where
  "checked_release r =
     bind_res (map_err (Errorf_v (''failed to unmarshal '' @ driverToolkitJSONFilePath @ '' data'')) r) (\<lambda>dtkData.
     if dr_KernelVersion dtkData = [] \<or> dr_RHELVersion dtkData = []
     then Err (ErrorMsg (''failed format of '' @ driverToolkitJSONFilePath
                 @ '' file, both KernelVersion <'' @ dr_KernelVersion dtkData @ ''> and RHEL_VERSION <''
                 @ dr_RHELVersion dtkData @ ''> should not be empty''))
     else Ok (dr_KernelVersion dtkData, dr_RTKernelVersion dtkData, dr_RHELVersion dtkData))"

text \<open>The loop over the layers, top first. A layer without the file is skipped, a layer that cannot
  be fetched ends the search.\<close>

fun release_of_layers ::
    "('w, 'k, 'a) ocp_env \<Rightarrow> string \<Rightarrow> ('k, 'a) RepoPullConfig \<Rightarrow> string list \<Rightarrow>
     ('w, string \<times> string \<times> string) io" where
  "release_of_layers env dtkImage rep [] =
     fail_io (ErrorMsg (''file '' @ driverToolkitJSONFilePath @ '' is not present in the image '' @ dtkImage))"
| "release_of_layers env dtkImage rep (d # ds) =
     bind_io (wrap_io (Errorf_v (''failed to get layer '' @ decimal (length ds) @ '' for DTK image '' @ dtkImage))
       (GetLayerByDigest (oe_registry env) d rep)) (\<lambda>layer.
     case GetHeaderDataFromLayer layer driverToolkitJSONFilePath of
       Panic p \<Rightarrow> lift_io (Panic p)
     | Err e \<Rightarrow> release_of_layers env dtkImage rep ds
     | Ok data \<Rightarrow> lift_io (checked_release (oe_json_dtkRelease env data)))"

definition getKernelVersionAndOSFromDTK ::
    "('w, 'k, 'a) ocp_env \<Rightarrow> string \<Rightarrow> ('w, string \<times> string \<times> string) io" where
  "getKernelVersionAndOSFromDTK env dtkImage =
     bind_io (wrap_io (Errorf_v (''failed to get layers digests for DTK image '' @ dtkImage))
       (GetLayersDigests (oe_registry env) dtkImage None (Some NewClusterAuthGetter))) (\<lambda>(digests, rep).
     release_of_layers env dtkImage rep (rev digests))"

section \<open>The reconciler\<close>

definition ocp_owner :: "PreflightValidationOCP \<Rightarrow> owner_object" where
  "ocp_owner pvo = \<lparr>oo_meta = pvo_meta pvo, oo_type = ''PreflightValidationOCP''\<rparr>"

text \<open>A mapping that is already complete for the kernel is left alone.\<close>

definition register_dtk :: "string \<Rightarrow> string \<Rightarrow> string \<Rightarrow> kernelOsDtkMapping \<Rightarrow> kernelOsDtkMapping" where
  "register_dtk kernelVersion osVersion dtkImage m =
     (case GetImage m kernelVersion of
        Ok _ \<Rightarrow> m
      | _ \<Rightarrow> SetImageStreamInfo osVersion dtkImage (SetNodeInfo kernelVersion osVersion m))"

definition preparePreflightValidation ::
    "('w, 'k, 'a) ocp_env \<Rightarrow> PreflightValidationOCP \<Rightarrow> ('w \<times> kernelOsDtkMapping, PreflightValidation) io" where
  "preparePreflightValidation env pvo =
     bind_io (wrap_io (Errorf_v (''failed to get DTK image from Release Image '' @ pvos_ReleaseImage (pvo_Spec pvo)))
       (on_world (getDTKFromImage env (pvos_ReleaseImage (pvo_Spec pvo))))) (\<lambda>dtkImage.
     bind_io (wrap_io (Errorf_v (''failed to get kernel/os version from DTK image '' @ dtkImage))
       (on_world (getKernelVersionAndOSFromDTK env dtkImage))) (\<lambda>(fullKernelVersion, rtKernelVersion, osVersion).
     if pvos_UseRTKernel (pvo_Spec pvo) \<and> rtKernelVersion = []
     then fail_io (ErrorMsg ''rt_kernel_version is missing for this release, probably not and x86_64 architecture'')
     else
       let kernelVersion = (if pvos_UseRTKernel (pvo_Spec pvo) then rtKernelVersion else fullKernelVersion);
           meta = empty_meta\<lparr>om_Name := om_Name (pvo_meta pvo), om_Namespace := om_Namespace (pvo_meta pvo)\<rparr> in
       bind_io (modify_mem (register_dtk kernelVersion osVersion dtkImage)) (\<lambda>_.
       bind_io (lift_io (map_err (Errorf_v ''failed to set owner reference for pv'')
         (SetControllerReference (oe_scheme env) (ocp_owner pvo) meta))) (\<lambda>meta'.
       return_io \<lparr>pv_meta = meta',
         pv_Spec = \<lparr>pvs_KernelVersion = kernelVersion, pvs_PushBuiltImage = pvos_PushBuiltImage (pvo_Spec pvo)\<rparr>,
         pv_Status = \<lparr>pvst_CRStatuses = None\<rparr>\<rparr>))))"

definition runPreflightValidationOCP ::
    "('w, 'k, 'a) ocp_env \<Rightarrow> PreflightValidationOCP \<Rightarrow> ('w \<times> kernelOsDtkMapping, unit) io" where
  "runPreflightValidationOCP env pvo =
     bind_io (attempt_io (on_world (k_get (oe_pvs env)
       \<lparr>nn_Namespace = om_Namespace (pvo_meta pvo), nn_Name = om_Name (pvo_meta pvo)\<rparr>))) (\<lambda>r. case r of
       Inl e \<Rightarrow>
         if IsNotFound e
         then bind_io (wrap_io (Errorf_v ''failed to prepare the data for compatible PreflightValidation'')
                (preparePreflightValidation env pvo)) (\<lambda>pv.
              bind_io (wrap_io (Errorf_v (''failed to create PreflightValidation with kernel version ''
                         @ pvs_KernelVersion (pv_Spec pv)))
                (on_world (k_create (oe_pvs env) pv))) (\<lambda>_.
              return_io ()))
         else fail_io (Errorf_v ''failed to get the compatible PreflightValidation'' e)
     | Inr pv \<Rightarrow>
         wrap_io (Errorf_v ''failed to update the statuses from compatible PreflightValidations'')
           (on_world (PreflightOCPUpdateStatus (oe_pvos env) pvo pv)))"

definition PreflightOCP_Reconcile ::
    "('w, 'k, 'a) ocp_env \<Rightarrow> NamespacedName \<Rightarrow> ('w \<times> kernelOsDtkMapping, unit) io" where
  "PreflightOCP_Reconcile env req =
     bind_io (attempt_io (on_world (k_get (oe_pvos env) req))) (\<lambda>r. case r of
       Inl e \<Rightarrow> if IsNotFound e then return_io () else fail_io e
     | Inr pvo \<Rightarrow> wrap_io (Errorf_v ''runPreflightValidationOCP failed'') (runPreflightValidationOCP env pvo))"

section \<open>Lemmas\<close>

lemma register_dtk_GetImage:
  "GetImage (register_dtk k os img m) k = (case GetImage m k of Ok i \<Rightarrow> Ok i | _ \<Rightarrow> Ok img)"
  by (simp add: register_dtk_def dtk.registered_image split: result.split)

text \<open>Registering the driver toolkit of a release never takes a kernel's image away.\<close>

lemma register_dtk_keeps_served:
  assumes "GetImage m k' = Ok i"
  shows "\<exists>i'. GetImage (register_dtk k os img m) k' = Ok i'"
proof (cases "k' = k \<or> (\<exists>j. GetImage m k = Ok j)")
  case True
  with assms show ?thesis by (auto simp: register_dtk_def)
next
  case False
  then have "GetImage (SetNodeInfo k os m) k' = Ok i"
    using dtk.register_other_kernel[of k' k m i os] assms by blast
  moreover from this obtain o' where "fmlookup (kernelToOs (SetNodeInfo k os m)) k' = Some o'"
    by (auto simp: dtk.get_image_Ok)
  ultimately have "\<exists>i'. GetImage (SetImageStreamInfo os img (SetNodeInfo k os m)) k' = Ok i'"
    by (cases "os = o'") (simp_all add: dtk.stream_reaches_kernels)
  with False show ?thesis by (auto simp: register_dtk_def split: result.split)
qed

lemma find_dtk_tag_Ok_iff:
  "find_dtk_tag tags = Ok img \<longleftrightarrow>
     (\<exists>t. find (\<lambda>t. tag_Name t = driverToolkitSpecName) tags = Some t \<and> tag_From t = Some img)"
  by (induction tags) (auto split: option.splits)

text \<open>The layer that decides the kernel of a driver-toolkit image.\<close>

definition layer_release :: "('w, 'k, 'a) ocp_env \<Rightarrow> Layer \<Rightarrow> (string \<times> string \<times> string) option" where
  "layer_release env layer =
     (case GetHeaderDataFromLayer layer driverToolkitJSONFilePath of
        Ok data \<Rightarrow> (case oe_json_dtkRelease env data of
                     Ok r \<Rightarrow> Some (dr_KernelVersion r, dr_RTKernelVersion r, dr_RHELVersion r)
                   | _ \<Rightarrow> None)
      | _ \<Rightarrow> None)"

definition lacks_release_file :: "Layer \<Rightarrow> bool" where
  "lacks_release_file layer \<longleftrightarrow> (\<exists>e. GetHeaderDataFromLayer layer driverToolkitJSONFilePath = Err e)"

lemma release_of_layers_Ok:
  assumes "release_of_layers env dtkImage rep ds w = (Ok (k, rt, os), w')"
  shows "\<exists>above d below layer v v'. ds = above @ d # below \<and>
    GetLayerByDigest (oe_registry env) d rep v = (Ok layer, v') \<and>
    layer_release env layer = Some (k, rt, os) \<and> k \<noteq> [] \<and> os \<noteq> [] \<and>
    (\<forall>d' \<in> set above. \<exists>l u u'. GetLayerByDigest (oe_registry env) d' rep u = (Ok l, u') \<and> lacks_release_file l)"
  using assms
proof (induction ds arbitrary: w)
  case (Cons d ds)
  from Cons.prems obtain layer w1 where get: "GetLayerByDigest (oe_registry env) d rep w = (Ok layer, w1)"
    by (auto simp: io_elims)
  show ?case
  proof (cases "GetHeaderDataFromLayer layer driverToolkitJSONFilePath")
    case (Ok data)
    with Cons.prems get have "checked_release (oe_json_dtkRelease env data) = Ok (k, rt, os)"
      by simp
    with Ok have "layer_release env layer = Some (k, rt, os)" "k \<noteq> []" "os \<noteq> []"
      by (auto simp: checked_release_def layer_release_def split: if_split_asm)
    with get show ?thesis
      by (intro exI[of _ "[]"] exI[of _ d] exI[of _ ds] exI[of _ layer] exI[of _ w] exI[of _ w1]) simp
  next
    case (Err e)
    with Cons.prems get have "release_of_layers env dtkImage rep ds w1 = (Ok (k, rt, os), w')"
      by simp
    from Cons.IH[OF this] obtain above d' below layer' v v' where
        split: "ds = above @ d' # below"
      and found: "GetLayerByDigest (oe_registry env) d' rep v = (Ok layer', v')"
        "layer_release env layer' = Some (k, rt, os)" "k \<noteq> []" "os \<noteq> []"
      and lack: "\<forall>d' \<in> set above. \<exists>l u u'. GetLayerByDigest (oe_registry env) d' rep u = (Ok l, u') \<and> lacks_release_file l"
      by blast
    have "lacks_release_file layer" using Err by (simp add: lacks_release_file_def)
    with get lack have "\<forall>d' \<in> set (d # above). \<exists>l u u'.
        GetLayerByDigest (oe_registry env) d' rep u = (Ok l, u') \<and> lacks_release_file l"
      by (metis set_ConsD)
    with split found show ?thesis
      by (intro exI[of _ "d # above"] exI[of _ d'] exI[of _ below] exI[of _ layer'] exI[of _ v] exI[of _ v'])
         simp
  next
    case (Panic p)
    with Cons.prems get show ?thesis by simp
  qed
qed simp

lemma preparePreflightValidation_OkE:
  assumes "preparePreflightValidation env pvo (w, m) = (Ok pv, (w', m'))"
  obtains dtkImage kernel rtKernel os w1 where
      "getDTKFromImage env (pvos_ReleaseImage (pvo_Spec pvo)) w = (Ok dtkImage, w1)"
    and "getKernelVersionAndOSFromDTK env dtkImage w1 = (Ok (kernel, rtKernel, os), w')"
    and "pvs_KernelVersion (pv_Spec pv) = (if pvos_UseRTKernel (pvo_Spec pvo) then rtKernel else kernel)"
    and "pvos_UseRTKernel (pvo_Spec pvo) \<longrightarrow> rtKernel \<noteq> []"
    and "m' = register_dtk (pvs_KernelVersion (pv_Spec pv)) os dtkImage m"
    and "pvs_PushBuiltImage (pv_Spec pv) = pvos_PushBuiltImage (pvo_Spec pvo)"
    and "SetControllerReference (oe_scheme env) (ocp_owner pvo)
           (empty_meta\<lparr>om_Name := om_Name (pvo_meta pvo), om_Namespace := om_Namespace (pvo_meta pvo)\<rparr>) = Ok (pv_meta pv)"
  using assms
  by (cases "pvos_UseRTKernel (pvo_Spec pvo)")
     (auto simp: preparePreflightValidation_def Let_def io_elims split: if_split_asm)

section \<open>Properties\<close>

text \<open>
  The kernel of a driver-toolkit image is read from the topmost layer that holds the release file:
  every layer above it could be fetched and lacks the file, and neither the kernel nor the OS version
  read is empty.
\<close>

theorem dtk_kernel_from_topmost_layer:
  assumes "getKernelVersionAndOSFromDTK env dtkImage w = (Ok (k, rt, os), w')"
  shows "\<exists>digests rep w1 below d above layer v v'.
    GetLayersDigests (oe_registry env) dtkImage None (Some NewClusterAuthGetter) w = (Ok (digests, rep), w1) \<and>
    digests = below @ d # above \<and> GetLayerByDigest (oe_registry env) d rep v = (Ok layer, v') \<and>
    layer_release env layer = Some (k, rt, os) \<and> k \<noteq> [] \<and> os \<noteq> [] \<and>
    (\<forall>d' \<in> set above. \<exists>l u u'. GetLayerByDigest (oe_registry env) d' rep u = (Ok l, u') \<and> lacks_release_file l)"
proof -
  from assms obtain digests rep w1 where
      dg: "GetLayersDigests (oe_registry env) dtkImage None (Some NewClusterAuthGetter) w = (Ok (digests, rep), w1)"
    and rel: "release_of_layers env dtkImage rep (rev digests) w1 = (Ok (k, rt, os), w')"
    by (auto simp: getKernelVersionAndOSFromDTK_def io_elims)
  from release_of_layers_Ok[OF rel] obtain above d below layer v v' where
      "rev digests = above @ d # below"
    and found: "GetLayerByDigest (oe_registry env) d rep v = (Ok layer, v')"
      "layer_release env layer = Some (k, rt, os)" "k \<noteq> []" "os \<noteq> []"
      "\<forall>d' \<in> set above. \<exists>l u u'. GetLayerByDigest (oe_registry env) d' rep u = (Ok l, u') \<and> lacks_release_file l"
    by blast
  then have "digests = rev below @ d # rev above" by (metis rev.simps(2) rev_append rev_rev_ident append.assoc append_Cons append_Nil)
  with dg found show ?thesis
    by (intro exI[of _ digests] exI[of _ rep] exI[of _ w1] exI[of _ "rev below"] exI[of _ d]
        exI[of _ "rev above"] exI[of _ layer] exI[of _ v] exI[of _ v']) simp
qed

text \<open>
  C32. When a release is reconciled for the first time, the PreflightValidation sent to the cluster has
  the release's name and namespace and is controlled by it, tests a nonempty kernel version, and by
  then the shared mapping has a driver-toolkit image for that kernel. An image the mapping already had
  is kept, and no other kernel loses its image.
\<close>

theorem ocp_preflight_created:
  assumes "runPreflightValidationOCP env pvo (w, m) = (Ok (), (w', m'))"
    and "k_get (oe_pvs env) \<lparr>nn_Namespace = om_Namespace (pvo_meta pvo), nn_Name = om_Name (pvo_meta pvo)\<rparr> w = (Err e, w0)"
  shows "\<exists>pv stored w1. k_create (oe_pvs env) pv w1 = (Ok stored, w') \<and>
    om_Name (pv_meta pv) = om_Name (pvo_meta pvo) \<and> om_Namespace (pv_meta pv) = om_Namespace (pvo_meta pvo) \<and>
    IsControlledBy (pv_meta pv) (pvo_meta pvo) \<and> pvs_KernelVersion (pv_Spec pv) \<noteq> [] \<and>
    (\<exists>img. GetImage m' (pvs_KernelVersion (pv_Spec pv)) = Ok img) \<and>
    (\<forall>img. GetImage m (pvs_KernelVersion (pv_Spec pv)) = Ok img \<longrightarrow> m' = m) \<and>
    (\<forall>k img. GetImage m k = Ok img \<longrightarrow> (\<exists>img'. GetImage m' k = Ok img'))"
proof -
  have "attempt_io (on_world (k_get (oe_pvs env)
      \<lparr>nn_Namespace = om_Namespace (pvo_meta pvo), nn_Name = om_Name (pvo_meta pvo)\<rparr>)) (w, m) = (Ok (Inl e), (w0, m))"
    using assms(2) by simp
  with assms(1) obtain pv stored w1 where
      prep: "preparePreflightValidation env pvo (w0, m) = (Ok pv, (w1, m'))"
    and create: "k_create (oe_pvs env) pv w1 = (Ok stored, w')"
    by (auto simp: runPreflightValidationOCP_def io_elims split: if_split_asm)
  from prep obtain dtkImage kernel rtKernel os w2 where
      "getDTKFromImage env (pvos_ReleaseImage (pvo_Spec pvo)) w0 = (Ok dtkImage, w2)"
    and rel: "getKernelVersionAndOSFromDTK env dtkImage w2 = (Ok (kernel, rtKernel, os), w1)"
    and kv: "pvs_KernelVersion (pv_Spec pv) = (if pvos_UseRTKernel (pvo_Spec pvo) then rtKernel else kernel)"
    and rt: "pvos_UseRTKernel (pvo_Spec pvo) \<longrightarrow> rtKernel \<noteq> []"
    and m': "m' = register_dtk (pvs_KernelVersion (pv_Spec pv)) os dtkImage m"
    and "pvs_PushBuiltImage (pv_Spec pv) = pvos_PushBuiltImage (pvo_Spec pvo)"
    and meta: "SetControllerReference (oe_scheme env) (ocp_owner pvo)
           (empty_meta\<lparr>om_Name := om_Name (pvo_meta pvo), om_Namespace := om_Namespace (pvo_meta pvo)\<rparr>) = Ok (pv_meta pv)"
    by (rule preparePreflightValidation_OkE)
  from rel have "kernel \<noteq> []"
    by (auto simp: getKernelVersionAndOSFromDTK_def io_elims dest!: release_of_layers_Ok)
  with kv rt have "pvs_KernelVersion (pv_Spec pv) \<noteq> []" by simp
  moreover have "\<exists>img. GetImage m' (pvs_KernelVersion (pv_Spec pv)) = Ok img"
    by (simp add: m' register_dtk_GetImage split: result.split)
  moreover have "GetImage m (pvs_KernelVersion (pv_Spec pv)) = Ok img \<Longrightarrow> m' = m" for img
    by (simp add: m' register_dtk_def)
  moreover have "GetImage m k = Ok img \<Longrightarrow> \<exists>img'. GetImage m' k = Ok img'" for k img
    unfolding m' by (rule register_dtk_keeps_served)
  moreover have "IsControlledBy (pv_meta pv) (pvo_meta pvo)"
    using SetControllerReference_controls[OF meta] by (simp add: ocp_owner_def)
  moreover have "om_Name (pv_meta pv) = om_Name (pvo_meta pvo)" "om_Namespace (pv_meta pv) = om_Namespace (pvo_meta pvo)"
    using SetControllerReference_keeps[OF meta] by simp_all
  ultimately show ?thesis using create by blast
qed

section \<open>Samples\<close>

definition release_layer :: Layer where
  "release_layer =
     \<lparr>layer_Uncompressed = Ok ([\<lparr>te_Name = releaseManifestImagesRefFile, te_Data = ''refs'', te_ReadErr = None\<rparr>,
        \<lparr>te_Name = driverToolkitJSONFilePath, te_Data = ''dtk'', te_ReadErr = None\<rparr>], None),
      layer_MediaType = Ok []\<rparr>"

definition sample_ocp_env :: "(nat, unit, unit) ocp_env" where
  "sample_ocp_env =
     \<lparr>oe_pvos = absent_client, oe_pvs = absent_client,
      oe_registry = stocked_registry\<lparr>re_crane := (re_crane stocked_registry)\<lparr>
        crane_PullLayer := \<lambda>_ _. return_io release_layer\<rparr>\<rparr>,
      oe_json_ImageStream = \<lambda>_. Ok [\<lparr>tag_Name = ''driver-toolkit'', tag_From = Some ''quay.io/dtk:v1''\<rparr>],
      oe_json_dtkRelease = \<lambda>_. Ok \<lparr>dr_KernelVersion = ''5.14.0-70'', dr_RTKernelVersion = [], dr_RHELVersion = ''9.2''\<rparr>,
      oe_scheme = sample_scheme\<rparr>"

definition sample_pvo :: PreflightValidationOCP where
  "sample_pvo = \<lparr>pvo_meta = sample_meta ''pvo'',
     pvo_Spec = \<lparr>pvos_ReleaseImage = ''quay.io/release:v1'', pvos_UseRTKernel = False, pvos_PushBuiltImage = False\<rparr>,
     pvo_Status = \<lparr>pvst_CRStatuses = None\<rparr>\<rparr>"

lemma sample_digests:
  assumes "img = ''quay.io/release:v1'' \<or> img = ''quay.io/dtk:v1''"
  shows "GetLayersDigests (oe_registry sample_ocp_env) img None (Some NewClusterAuthGetter) w =
    (Ok ([''sha256:0''], \<lparr>repo = repo_of_image img, authOptions = [crane_WithAuthFromKeychain ()]\<rparr>), w)"
proof -
  have "strings_Contains ''manifest.v2'' ''manifest.list'' = False" by code_simp
  with assms show ?thesis
    by (auto simp: GetLayersDigests_def getImageManifest_def getPullOptions_def repo_of_image_def
        getManifestStreamFromImage_def getLayersDigestsFromManifestStream_def NewClusterAuthGetter_def
        sample_ocp_env_def stocked_registry_def empty_registry_def const_client_def bind_io_def wrap_io_def)
qed

lemma sample_layer: "GetLayerByDigest (oe_registry sample_ocp_env) d rep w = (Ok release_layer, w)"
  by (simp add: GetLayerByDigest_def sample_ocp_env_def)

lemma sample_json:
  "oe_json_ImageStream sample_ocp_env d = Ok [\<lparr>tag_Name = ''driver-toolkit'', tag_From = Some ''quay.io/dtk:v1''\<rparr>]"
  "oe_json_dtkRelease sample_ocp_env d =
     Ok \<lparr>dr_KernelVersion = ''5.14.0-70'', dr_RTKernelVersion = [], dr_RHELVersion = ''9.2''\<rparr>"
  by (simp_all add: sample_ocp_env_def)

lemma sample_kernel_of_dtk:
  "getKernelVersionAndOSFromDTK sample_ocp_env ''quay.io/dtk:v1'' w = (Ok (''5.14.0-70'', [], ''9.2''), w)"
  by (simp add: getKernelVersionAndOSFromDTK_def sample_digests sample_layer GetHeaderDataFromLayer_def
      getHeaderReaderFromLayer_def release_layer_def driverToolkitJSONFilePath_def releaseManifestImagesRefFile_def
      checked_release_def sample_json bind_io_def wrap_io_def)

theorem dtk_kernel_from_topmost_layer_witness:
  "\<exists>layer. layer_release sample_ocp_env layer = Some (''5.14.0-70'', [], ''9.2'')"
  using dtk_kernel_from_topmost_layer[OF sample_kernel_of_dtk[of 0]] by blast

lemma sample_dtk_of_release:
  "getDTKFromImage sample_ocp_env ''quay.io/release:v1'' w = (Ok ''quay.io/dtk:v1'', w)"
  by (simp add: getDTKFromImage_def LastLayer_def sample_digests sample_layer GetHeaderDataFromLayer_def
      getHeaderReaderFromLayer_def release_layer_def sample_json driverToolkitSpecName_def bind_io_def wrap_io_def)

theorem ocp_preflight_created_witness:
  "\<exists>m'. runPreflightValidationOCP sample_ocp_env sample_pvo (0, NewKernelOsDtkMapping) = (Ok (), (1, m')) \<and>
     (\<exists>(pv :: PreflightValidation) img. om_Name (pv_meta pv) = ''pvo'' \<and> GetImage m' (pvs_KernelVersion (pv_Spec pv)) = Ok img)"
proof -
  let ?nsn = "\<lparr>nn_Namespace = om_Namespace (pvo_meta sample_pvo), nn_Name = om_Name (pvo_meta sample_pvo)\<rparr>"
  have absent: "k_get (oe_pvs sample_ocp_env) ?nsn 0 = (Err (StatusError StatusReasonNotFound []), 0)"
    by (simp add: sample_ocp_env_def absent_client_def)
  have create: "k_create (oe_pvs sample_ocp_env) pv 0 = (Ok pv, 1)" for pv
    by (simp add: sample_ocp_env_def absent_client_def)
  have "\<exists>meta. SetControllerReference (oe_scheme sample_ocp_env) (ocp_owner sample_pvo)
      (empty_meta\<lparr>om_Name := om_Name (pvo_meta sample_pvo), om_Namespace := om_Namespace (pvo_meta sample_pvo)\<rparr>) = Ok meta"
    by (simp add: SetControllerReference_def validateOwner_def GetControllerOf_def ocp_owner_def sample_pvo_def
        sample_meta_def empty_meta_def sample_ocp_env_def sample_scheme_def Let_def)
  then obtain pv m' where "preparePreflightValidation sample_ocp_env sample_pvo (0, NewKernelOsDtkMapping) = (Ok pv, (0, m'))"
    by (auto simp: preparePreflightValidation_def sample_pvo_def sample_dtk_of_release sample_kernel_of_dtk
        bind_io_def wrap_io_def Let_def)
  then have run: "runPreflightValidationOCP sample_ocp_env sample_pvo (0, NewKernelOsDtkMapping) = (Ok (), (1, m'))"
    by (simp add: runPreflightValidationOCP_def absent create bind_io_def wrap_io_def)
  from ocp_preflight_created[OF run absent] obtain pv :: PreflightValidation and img where
    "om_Name (pv_meta pv) = om_Name (pvo_meta sample_pvo)" "GetImage m' (pvs_KernelVersion (pv_Spec pv)) = Ok img"
    by blast
  with run show ?thesis unfolding sample_pvo_def sample_meta_def by (intro exI[of _ m'] conjI) auto
qed

end
