(* ===== verification/Startup.thy ===== *)
theory Startup
  imports Controllers Preflight_Ocp
begin

text \<open>
  The main programs of the operator (cmd/manager/main.go) and of the hub (cmd/manager-hub/main.go), with
  the helpers of internal/cmd/cmdutils.go: which controllers they set up, and in which cases they exit
  instead. Setting up the manager, completing a controller and running are calls of the controller runtime
  and parameters, on a world of their own.
\<close>

section \<open>Helpers\<close>

definition OperatorNamespaceEnvVar :: string where "OperatorNamespaceEnvVar = ''OPERATOR_NAMESPACE''"

definition DTKImageStreamNamespace :: string where "DTKImageStreamNamespace = ''openshift''"

text \<open>The build settings are the key-value list of \<^verbatim>\<open>debug.BuildInfo\<close>, or missing.\<close>

definition GitCommit :: "(string \<times> string) list option \<Rightarrow> string result" where
  "GitCommit bi =
     (case bi of
        None \<Rightarrow> Err (ErrorMsg ''build info is not available'')
      | Some settings \<Rightarrow>
          (case find (\<lambda>s. fst s = ''vcs.revision'') settings of
             Some s \<Rightarrow> Ok (snd s)
           | None \<Rightarrow> Err (ErrorMsg ''vcs.revision not found in build info settings'')))"

text \<open>\<^verbatim>\<open>FatalError\<close> ends the program with exit code 1; the code is the value of a program.\<close>

definition or_FatalError :: "('w, 'a) io \<Rightarrow> ('a \<Rightarrow> ('w, nat) io) \<Rightarrow> ('w, nat) io" where
  "or_FatalError m f = bind_io (attempt_io m) (\<lambda>r. case r of Inl e \<Rightarrow> return_io 1 | Inr a \<Rightarrow> f a)"

text \<open>\<^verbatim>\<open>NewForConfigOrDie\<close> panics.\<close>

definition or_panic :: "('w, 'a) io \<Rightarrow> ('a \<Rightarrow> ('w, nat) io) \<Rightarrow> ('w, nat) io" where
  "or_panic m f = bind_io (attempt_io m) (\<lambda>r. case r of Inl e \<Rightarrow> lift_io (Panic ''NewForConfigOrDie'') | Inr a \<Rightarrow> f a)"

definition GetEnvOrFatalError :: "(string \<Rightarrow> string) \<Rightarrow> string \<Rightarrow> (string \<Rightarrow> ('w, nat) io) \<Rightarrow> ('w, nat) io" where
  "GetEnvOrFatalError getenv name f = (let val = getenv name in if val = [] then return_io 1 else f val)"

definition ParseBool :: "string \<Rightarrow> bool result" where
  "ParseBool s =
     (if s \<in> {''1'', ''t'', ''T'', ''true'', ''TRUE'', ''True''} then Ok True
      else if s \<in> {''0'', ''f'', ''F'', ''false'', ''FALSE'', ''False''} then Ok False
      else Err (ErrorMsg ''invalid syntax''))"

definition GetBoolEnv :: "(string \<Rightarrow> string) \<Rightarrow> string \<Rightarrow> bool result" where
  "GetBoolEnv getenv s =
     (let envValue = getenv s in
      if envValue = [] then Ok False
      else map_err (\<lambda>_. ErrorMsg (envValue @ '': invalid value for '' @ s)) (ParseBool envValue))"

section \<open>The programs\<close>

text \<open>The calls of the controller runtime. \<open>rt_NewManager\<close> includes reading the cluster configuration, which
  exits with code 1 too; \<open>rt_Complete\<close> registers a controller with the manager.\<close>

record 'w runtime =
  rt_LoadConfig :: "('w, unit) io"
  rt_NewManager :: "('w, unit) io"
  rt_NewForConfig :: "('w, unit) io"
  rt_Install :: "string \<Rightarrow> ('w, unit) io"
  rt_Complete :: "'w Builder \<Rightarrow> ('w, unit) io"
  rt_AddHealthzCheck :: "('w, unit) io"
  rt_AddReadyzCheck :: "('w, unit) io"
  rt_Start :: "('w, unit) io"

text \<open>The objects the watches list.\<close>

record 'w listers =
  li_modules :: "('w, Module) kclient"
  li_preflights :: "('w, PreflightValidation) kclient"
  li_mcms :: "('w, ManagedClusterModule) kclient"
  li_valid :: "string \<Rightarrow> string \<Rightarrow> bool"

definition dtkNSN :: NamespacedName where
  "dtkNSN = \<lparr>nn_Namespace = DTKImageStreamNamespace, nn_Name = ''driver-toolkit''\<rparr>"

text \<open>The controllers a program completes, one after the other; the first failure is fatal.\<close>

fun setup_all :: "'w runtime \<Rightarrow> 'w Builder list \<Rightarrow> ('w, nat) io \<Rightarrow> ('w, nat) io" where
  "setup_all rt [] k = k"
| "setup_all rt (b # bs) k = or_FatalError (rt_Complete rt b) (\<lambda>_. setup_all rt bs k)"

definition serve :: "'w runtime \<Rightarrow> ('w, nat) io" where
  "serve rt =
     or_FatalError (rt_AddHealthzCheck rt) (\<lambda>_.
     or_FatalError (rt_AddReadyzCheck rt) (\<lambda>_.
     or_FatalError (rt_Start rt) (\<lambda>_. return_io 0)))"

definition manager_main :: "'w runtime \<Rightarrow> (string \<Rightarrow> string) \<Rightarrow> 'w listers \<Rightarrow> ('w, nat) io" where
  "manager_main rt getenv li =
     GetEnvOrFatalError getenv OperatorNamespaceEnvVar (\<lambda>operatorNamespace.
     let managed = (case GetBoolEnv getenv ''KMM_MANAGED'' of Ok b \<Rightarrow> b | _ \<Rightarrow> False) in
     or_FatalError (rt_LoadConfig rt) (\<lambda>_.
     or_FatalError (rt_NewManager rt) (\<lambda>_.
     or_panic (rt_NewForConfig rt) (\<lambda>_.
     setup_all rt [module_controller (li_valid li) (li_modules li) KernelLabel, node_kernel_controller KernelLabel,
                   pod_controller, preflight_controller (li_preflights li)]
       (let rest = setup_all rt [imagestream_controller dtkNSN, preflight_ocp_controller] (serve rt) in
        if managed
        then or_FatalError (rt_Install rt ''cluster.open-cluster-management.io/v1alpha1'') (\<lambda>_.
             setup_all rt [clusterclaim_controller] rest)
        else rest)))))"

definition hub_controllers :: "'w listers \<Rightarrow> 'w Builder list" where
  "hub_controllers li = [hub_controller (li_valid li) (li_mcms li), imagestream_controller dtkNSN]"

definition hub_main :: "'w runtime \<Rightarrow> (string \<Rightarrow> string) \<Rightarrow> 'w listers \<Rightarrow> ('w, nat) io" where
  "hub_main rt getenv li =
     or_FatalError (rt_LoadConfig rt) (\<lambda>_.
     or_FatalError (rt_NewManager rt) (\<lambda>_.
     GetEnvOrFatalError getenv OperatorNamespaceEnvVar (\<lambda>operatorNamespace.
     or_panic (rt_NewForConfig rt) (\<lambda>_.
     setup_all rt (hub_controllers li) (serve rt)))))"

section \<open>Lemmas\<close>

lemma or_FatalError_0:
  "or_FatalError m f w = (Ok 0, w') \<longleftrightarrow> (\<exists>a w1. m w = (Ok a, w1) \<and> f a w1 = (Ok 0, w'))"
  by (cases "m w", cases "fst (m w)") (auto simp: or_FatalError_def bind_io_def attempt_io_def)

lemma or_panic_iff:
  "or_panic m f w = (Ok n, w') \<longleftrightarrow> (\<exists>a w1. m w = (Ok a, w1) \<and> f a w1 = (Ok n, w'))"
  by (cases "m w", cases "fst (m w)") (auto simp: or_panic_def bind_io_def attempt_io_def)

text \<open>A program that returns has exit code 0 or 1.\<close>

definition exits :: "('w, nat) io \<Rightarrow> bool" where
  "exits m \<longleftrightarrow> (\<forall>w n w'. m w = (Ok n, w') \<longrightarrow> n = 0 \<or> n = 1)"

lemma exits_return [simp]: "exits (return_io 0)" "exits (return_io 1)" "exits (return_io (Suc 0))"
  by (simp_all add: exits_def)

lemma exits_FatalError [simp]:
  assumes "\<And>a. exits (f a)"
  shows "exits (or_FatalError m f)"
  unfolding exits_def
proof (intro allI impI)
  fix w n w'
  assume "or_FatalError m f w = (Ok n, w')"
  then have "n = 1 \<or> (\<exists>a w1. f a w1 = (Ok n, w'))"
    by (cases "m w", cases "fst (m w)") (auto simp: or_FatalError_def bind_io_def attempt_io_def)
  with assms show "n = 0 \<or> n = 1" unfolding exits_def by blast
qed

lemma exits_panic [simp]: "(\<And>a. exits (f a)) \<Longrightarrow> exits (or_panic m f)"
  unfolding exits_def or_panic_iff by blast

lemma exits_GetEnv [simp]: "(\<And>a. exits (f a)) \<Longrightarrow> exits (GetEnvOrFatalError g n f)"
  by (simp add: GetEnvOrFatalError_def Let_def)

lemma exits_setup_all [simp]: "exits k \<Longrightarrow> exits (setup_all rt bs k)"
  by (induction bs) simp_all

lemma exits_serve [simp]: "exits (serve rt)"
  by (simp add: serve_def)

lemma setup_all_0:
  "setup_all rt bs k w = (Ok 0, w') \<longleftrightarrow>
     (\<exists>w1. for_io (\<lambda>_. rt_Complete rt) () bs w = (Ok (), w1) \<and> k w1 = (Ok 0, w'))"
  by (induction bs arbitrary: w) (auto simp: or_FatalError_0 io_elims)

lemma for_single: "for_io (\<lambda>_. act) () [x] w = (Ok (), w1) \<longleftrightarrow> act x w = (Ok (), w1)"
  by (auto simp: io_elims)

definition truthy :: "string \<Rightarrow> bool" where
  "truthy s \<longleftrightarrow> s \<in> {''1'', ''t'', ''T'', ''true'', ''TRUE'', ''True''}"

text \<open>A value that does not parse disables the managed mode, as does none.\<close>

lemma managed_iff: "(case GetBoolEnv getenv s of Ok b \<Rightarrow> b | _ \<Rightarrow> False) \<longleftrightarrow> truthy (getenv s)"
  by (auto simp: GetBoolEnv_def ParseBool_def truthy_def Let_def)

text \<open>Who writes the driver-toolkit mapping of a process: the reconcilers of the controllers it runs.\<close>

inductive mapping_step ::
    "string set \<Rightarrow> ('w, Node) kclient \<Rightarrow> ('w, ImageStream) kclient \<Rightarrow> ('w, 'k, 'a) ocp_env \<Rightarrow>
     kernelOsDtkMapping \<Rightarrow> kernelOsDtkMapping \<Rightarrow> bool" for running nodes imagestreams env where
  node_reconciled: "mapping_step running nodes imagestreams env m m'"
    if "''NodeKernel'' \<in> running" and "NodeKernel_Reconcile nodes KernelLabel name (w, m) = (r, (w', m'))"
| imagestream_reconciled: "mapping_step running nodes imagestreams env m m'"
    if "''imagestream'' \<in> running" and "ImageStream_Reconcile imagestreams dtkNSN (w, m) = (r, (w', m'))"
| preflight_reconciled: "mapping_step running nodes imagestreams env m m'"
    if "''preflightvalidationocp'' \<in> running" and "PreflightOCP_Reconcile env req (w, m) = (r, (w', m'))"

lemma for_imagestream_kernels:
  "for_io imagestream_tag () ts (w, m) = (r, (w', m')) \<Longrightarrow> kernelToOs m' = kernelToOs m"
proof (induction ts arbitrary: w m)
  case (Cons t ts)
  obtain r1 w1 m1 where tag: "imagestream_tag () t (w, m) = (r1, (w1, m1))" by (metis prod.exhaust)
  then have "kernelToOs m1 = kernelToOs m"
    by (auto simp: imagestream_tag_def modify_mem_def split: if_split_asm option.split_asm)
  with Cons tag show ?case by (cases r1) (auto simp: bind_io_def)
qed simp

lemma ImageStream_Reconcile_kernels:
  assumes "ImageStream_Reconcile imagestreams nsn (w, m) = (r, (w', m'))"
  shows "kernelToOs m' = kernelToOs m"
proof -
  obtain r1 w1 where get: "k_get imagestreams nsn w = (r1, w1)" by force
  with assms show ?thesis
    by (cases r1) (auto simp: ImageStream_Reconcile_def bind_io_def wrap_io_def dest: for_imagestream_kernels)
qed

lemma no_kernel_no_image: "kernelToOs m = fmempty \<Longrightarrow> \<exists>e. GetImage m k = Err e"
  by (simp add: GetImage_def)

interpretation hub_mapping: step_invariant "mapping_step (bld_name ` set (hub_controllers li)) nodes imagestreams env"
    "\<lambda>m. kernelToOs m = fmempty" for li nodes imagestreams env
  by unfold_locales
     (auto elim!: mapping_step.cases dest: ImageStream_Reconcile_kernels
       simp: hub_controllers_def hub_controller_def imagestream_controller_def)

section \<open>Properties\<close>

text \<open>
  The operator runs only in full: it ends with exit code 0 exactly when its namespace is set, every
  controller was set up in turn, the cluster claim's controller among them just when KMM_MANAGED is a true
  value, and the manager served until it was stopped; whenever else it returns, the exit code is 1.
\<close>

theorem manager_runs_complete:
  "(manager_main rt getenv li w = (Ok 0, w') \<longleftrightarrow>
     getenv OperatorNamespaceEnvVar \<noteq> [] \<and>
     (\<exists>w1 w2 w3 w4 w5 w6. rt_LoadConfig rt w = (Ok (), w1) \<and> rt_NewManager rt w1 = (Ok (), w2) \<and>
        rt_NewForConfig rt w2 = (Ok (), w3) \<and>
        for_io (\<lambda>_. rt_Complete rt) () [module_controller (li_valid li) (li_modules li) KernelLabel,
          node_kernel_controller KernelLabel, pod_controller, preflight_controller (li_preflights li)] w3 = (Ok (), w4) \<and>
        (if truthy (getenv ''KMM_MANAGED'')
         then \<exists>v. rt_Install rt ''cluster.open-cluster-management.io/v1alpha1'' w4 = (Ok (), v) \<and>
                  rt_Complete rt clusterclaim_controller v = (Ok (), w5)
         else w5 = w4) \<and>
        for_io (\<lambda>_. rt_Complete rt) () [imagestream_controller dtkNSN, preflight_ocp_controller] w5 = (Ok (), w6) \<and>
        serve rt w6 = (Ok 0, w'))) \<and>
   exits (manager_main rt getenv li)"
proof -
  have "exits (manager_main rt getenv li)" by (simp add: manager_main_def Let_def)
  then show ?thesis
    unfolding manager_main_def GetEnvOrFatalError_def managed_iff Let_def
    by (cases "truthy (getenv ''KMM_MANAGED'')"; cases "getenv OperatorNamespaceEnvVar = []")
       (simp_all add: or_FatalError_0 or_panic_iff setup_all_0 for_single del: for_io.simps setup_all.simps,
        (rule iffI; elim exE conjE; intro exI conjI; assumption))
qed

text \<open>
  No build on the hub can use the driver toolkit. Of the writers of the driver-toolkit mapping the
  hub runs the image stream reconciler only, so in every state its mapping has an image for no kernel, and
  a build whose Dockerfile mentions DTK_AUTO fails.
\<close>

theorem hub_has_no_driver_toolkit:
  assumes "reachable_from (mapping_step (bld_name ` set (hub_controllers li)) nodes imagestreams env) NewKernelOsDtkMapping m"
    and "getDockerfileData cms (mld_Build mld) (mld_Namespace mld) w = (Ok dockerfile, w1)"
    and "strings_Contains dockerfile dtkBuildArg"
  shows "(\<forall>k. \<exists>e. GetImage m k = Err e) \<and>
    (\<exists>e. MakeBuildTemplate cms sch hash (\<lambda>k. lift_io (GetImage m k)) mld push owner w = (Err e, w1))"
proof -
  have "kernelToOs m = fmempty"
    using assms(1) by (rule hub_mapping.reachable_inv) (simp add: NewKernelOsDtkMapping_def)
  then have none: "\<exists>e. GetImage m k = Err e" for k by (rule no_kernel_no_image)
  then obtain e where "GetImage m (mld_KernelVersion mld) = Err e" by blast
  with none assms(2,3) show ?thesis
    by (auto simp: MakeBuildTemplate_def dtk_overrides_def bind_io_def wrap_io_def Let_def)
qed

section \<open>Samples\<close>

definition sample_listers :: "nat listers" where
  "sample_listers = \<lparr>li_modules = const_client sample_kmod, li_preflights = absent_client, li_mcms = absent_client,
     li_valid = \<lambda>_ _. True\<rparr>"

text \<open>A hub that has seen the image stream.\<close>

theorem hub_has_no_driver_toolkit_witness:
  "\<exists>e. MakeBuildTemplate (const_client sample_dockerfile) kmm_scheme (\<lambda>_. Ok 7)
     (\<lambda>k. lift_io (GetImage (SetImageStreamInfo ''411.86.2022-0'' ''dtk-img'' NewKernelOsDtkMapping) k))
     (sample_mld (Some sample_build) (Some sample_sign)) True (module_owner (sample_module [])) 0 = (Err e, 0)"
proof -
  let ?m = "SetImageStreamInfo ''411.86.2022-0'' ''dtk-img'' NewKernelOsDtkMapping"
  have "ImageStream_Reconcile (const_client sample_stream) dtkNSN (0, NewKernelOsDtkMapping) = (Ok (), (0, ?m))"
    by (simp add: ImageStream_Reconcile_def const_client_def sample_stream_def bind_io_def on_world_def wrap_io_def)
  then have "mapping_step (bld_name ` set (hub_controllers sample_listers)) (const_client sample_node) (const_client sample_stream)
      (sample_ocp_env :: (nat, unit, unit) ocp_env) NewKernelOsDtkMapping ?m"
    by (rule mapping_step.imagestream_reconciled[rotated])
       (simp add: hub_controllers_def hub_controller_def imagestream_controller_def)
  then have reach: "reachable_from (mapping_step (bld_name ` set (hub_controllers sample_listers)) (const_client sample_node)
      (const_client sample_stream) sample_ocp_env) NewKernelOsDtkMapping ?m"
    by (rule reachable_from.next_step[OF reachable_from.start])
  have df: "getDockerfileData (const_client sample_dockerfile) (mld_Build (sample_mld (Some sample_build) (Some sample_sign)))
      (mld_Namespace (sample_mld (Some sample_build) (Some sample_sign))) 0 = (Ok ''FROM DTK_AUTO'', 0)"
    by (simp add: getDockerfileData_def const_client_def sample_dockerfile_def sample_defs bind_io_def wrap_io_def)
  have "strings_Contains ''FROM DTK_AUTO'' dtkBuildArg" by (simp add: dtkBuildArg_def)
  from hub_has_no_driver_toolkit[OF reach df this] show ?thesis by blast
qed

end
