(* ===== verification/Cluster_Hub.thy ===== *)
theory Cluster_Hub
  imports Node_Labels
begin

text \<open>
  The hub's view of a managed cluster (internal/cluster/cluster.go): which kernels it reports, which
  images a ManagedClusterModule needs for them, and building and signing those images on the hub. The
  mapper and the two stages are behind the interfaces the Module reconciler uses.
\<close>

record 'w cluster_env =
  ce_mcms :: "('w, ManagedClusterModule) kclient"
  ce_clusters :: "('w, ManagedCluster) kclient"
  ce_kernelAPI :: "Module \<Rightarrow> string \<Rightarrow> ModuleLoaderData result"
  ce_buildAPI :: "'w build_manager"
  ce_signAPI :: "'w sign_manager"
  ce_namespace :: string

definition mcm_owner :: "ManagedClusterModule \<Rightarrow> owner_object" where
  "mcm_owner mcm = \<lparr>oo_meta = mcm_meta mcm, oo_type = ''ManagedClusterModule''\<rparr>"

definition RequestedManagedClusterModule ::
    "'w cluster_env \<Rightarrow> NamespacedName \<Rightarrow> ('w, ManagedClusterModule) io" where
  "RequestedManagedClusterModule env nsn =
     wrap_io (Errorf_w ''failed to get the ManagedClusterModule'') (k_get (ce_mcms env) nsn)"

definition SelectedManagedClusters :: "'w cluster_env \<Rightarrow> ManagedClusterModule \<Rightarrow> ('w, ManagedCluster list) io" where
  "SelectedManagedClusters env mcm = k_list (ce_clusters env) (mcms_Selector (mcm_Spec mcm)) None"

section \<open>The kernels of a cluster\<close>

fun claimed_kernels :: "ManagedClusterClaim list \<Rightarrow> string list result" where
  "claimed_kernels [] = Err (ErrorMsg ''KMM ClusterClaim not found'')"
| "claimed_kernels (c # cs) =
     (if mcc_Name c \<noteq> KernelVersionsClusterClaimName then claimed_kernels cs
      else Ok (split_chars (\<lambda>ch. ch = CHR 0x0A) (mcc_Value c)))"

definition kernelVersions :: "ManagedCluster \<Rightarrow> string list result" where
  "kernelVersions cluster = claimed_kernels (mc_ClusterClaims cluster)"

text \<open>A kernel without a usable mapping is passed over; a panic of the mapper is not caught.\<close>

fun cluster_mappings ::
    "(string \<Rightarrow> ModuleLoaderData result) \<Rightarrow> ModuleLoaderData assoc \<Rightarrow> string list \<Rightarrow> ModuleLoaderData assoc result" where
  "cluster_mappings get_mld mldMappings [] = Ok mldMappings"
| "cluster_mappings get_mld mldMappings (kv # rest) =
     (let kernelVersion = trim_kernel kv in
      case map_of mldMappings kernelVersion of
        Some _ \<Rightarrow> cluster_mappings get_mld mldMappings rest
      | None \<Rightarrow>
          (case get_mld kernelVersion of
             Ok mld \<Rightarrow> cluster_mappings get_mld (AList.update kernelVersion mld mldMappings) rest
           | Err e \<Rightarrow> cluster_mappings get_mld mldMappings rest
           | Panic p \<Rightarrow> Panic p))"

definition kernelMappingsByKernelVersion ::
    "'w cluster_env \<Rightarrow> Module \<Rightarrow> ManagedCluster \<Rightarrow> ModuleLoaderData assoc result" where
  "kernelMappingsByKernelVersion env md cluster =
     bind_res (kernelVersions cluster) (\<lambda>kernels. cluster_mappings (ce_kernelAPI env md) [] kernels)"

section \<open>Building and signing\<close>

definition cluster_build :: "'w cluster_env \<Rightarrow> ModuleLoaderData \<Rightarrow> ManagedClusterModule \<Rightarrow> ('w, bool) io" where
  "cluster_build env mld mcm =
     bind_io (wrap_io (Errorf_v ''could not check if build synchronization is needed'')
       (bm_ShouldSync (ce_buildAPI env) mld)) (\<lambda>shouldSync.
     if \<not> shouldSync then return_io True
     else bind_io (wrap_io (Errorf_w ''could not synchronize the build'')
            (bm_Sync (ce_buildAPI env) mld True (mcm_owner mcm))) (\<lambda>buildStatus.
          return_io (buildStatus = StatusCompleted)))"

definition cluster_sign :: "'w cluster_env \<Rightarrow> ModuleLoaderData \<Rightarrow> ManagedClusterModule \<Rightarrow> ('w, bool) io" where
  "cluster_sign env mld mcm =
     bind_io (wrap_io (Errorf_v ''could not check if signing synchronization is needed'')
       (sm_ShouldSync (ce_signAPI env) mld)) (\<lambda>shouldSync.
     if \<not> shouldSync then return_io True
     else let previousImage = (if ShouldBeBuilt mld
                then IntermediateImageName (mld_Name mld) (mld_Namespace mld) (mld_ContainerImage mld)
                else []) in
          bind_io (wrap_io (Errorf_w ''could not synchronize the signing'')
            (sm_Sync (ce_signAPI env) mld previousImage True (mcm_owner mcm))) (\<lambda>signStatus.
          return_io (signStatus = StatusCompleted)))"

text \<open>One kernel: the result says whether everything so far has completed.\<close>

definition build_and_sign_kernel ::
    "'w cluster_env \<Rightarrow> ManagedClusterModule \<Rightarrow> bool \<Rightarrow> string \<times> ModuleLoaderData \<Rightarrow> ('w, bool) io" where
  "build_and_sign_kernel env mcm completedSuccessfully = (\<lambda>(kernelVersion, mld).
     bind_io (cluster_build env mld mcm) (\<lambda>buildCompleted.
     if \<not> buildCompleted then return_io False
     else bind_io (cluster_sign env mld mcm) (\<lambda>signCompleted.
          return_io (if \<not> signCompleted then False else completedSuccessfully))))"

definition hub_module :: "'w cluster_env \<Rightarrow> ManagedClusterModule \<Rightarrow> Module" where
  "hub_module env mcm =
     \<lparr>mod_meta = empty_meta\<lparr>om_Name := om_Name (mcm_meta mcm), om_Namespace := ce_namespace env\<rparr>,
      mod_Spec = mcms_ModuleSpec (mcm_Spec mcm),
      mod_Status = \<lparr>mst_DevicePlugin = zero_ds_status, mst_ModuleLoader = zero_ds_status\<rparr>\<rparr>"

definition BuildAndSign :: "'w cluster_env \<Rightarrow> ManagedClusterModule \<Rightarrow> ManagedCluster \<Rightarrow> ('w, bool) io" where
  "BuildAndSign env mcm cluster =
     bind_io (lift_io (kernelMappingsByKernelVersion env (hub_module env mcm) cluster)) (\<lambda>mldMappings.
     if mldMappings = [] then return_io False
     else for_io (build_and_sign_kernel env mcm) True mldMappings)"

definition GarbageCollectBuilds :: "'w cluster_env \<Rightarrow> ManagedClusterModule \<Rightarrow> ('w, string list) io" where
  "GarbageCollectBuilds env mcm =
     bm_GarbageCollect (ce_buildAPI env) (om_Name (mcm_meta mcm)) (ce_namespace env) (mcm_owner mcm)"

section \<open>Lemmas\<close>

lemma cluster_mappings_Ok:
  assumes "cluster_mappings g m ks = Ok m'" and "distinct_keys m" and "\<forall>k mld. map_of m k = Some mld \<longrightarrow> g k = Ok mld"
  shows "distinct_keys m' \<and> (\<forall>k mld. map_of m' k = Some mld \<longrightarrow> g k = Ok mld) \<and>
    dom (map_of m') = dom (map_of m) \<union> {k \<in> trim_kernel ` set ks. is_ok (g k)}"
  using assms
proof (induction ks arbitrary: m)
  case (Cons kv ks)
  let ?k = "trim_kernel kv"
  show ?case
  proof (cases "map_of m ?k")
    case (Some mld)
    then have "cluster_mappings g m ks = Ok m'" using Cons.prems(1) by (simp add: Let_def)
    moreover have "?k \<in> dom (map_of m)" using Some by blast
    ultimately show ?thesis using Cons.IH[of m, OF _ Cons.prems(2,3)] by auto
  next
    case None
    show ?thesis
    proof (cases "g ?k")
      case (Ok mld)
      with None have step: "cluster_mappings g (AList.update ?k mld m) ks = Ok m'"
        using Cons.prems(1) by (simp add: Let_def)
      have "distinct_keys (AList.update ?k mld m)" using Cons.prems(2) by simp
      moreover have "\<forall>k mld'. map_of (AList.update ?k mld m) k = Some mld' \<longrightarrow> g k = Ok mld'"
        using Cons.prems(3) Ok by simp
      ultimately have "distinct_keys m' \<and> (\<forall>k mld. map_of m' k = Some mld \<longrightarrow> g k = Ok mld) \<and>
          dom (map_of m') = dom (map_of (AList.update ?k mld m)) \<union> {k \<in> trim_kernel ` set ks. is_ok (g k)}"
        by (rule Cons.IH[OF step])
      moreover have "{k \<in> trim_kernel ` set (kv # ks). is_ok (g k)} = insert ?k {k \<in> trim_kernel ` set ks. is_ok (g k)}"
        using Ok by auto
      ultimately show ?thesis by simp
    next
      case (Err e)
      then have "cluster_mappings g m ks = Ok m'" using None Cons.prems(1) by (simp add: Let_def)
      moreover have "{k \<in> trim_kernel ` set (kv # ks). is_ok (g k)} = {k \<in> trim_kernel ` set ks. is_ok (g k)}"
        using Err by auto
      ultimately show ?thesis using Cons.IH[of m, OF _ Cons.prems(2,3)] by simp
    next
      case (Panic p)
      with None Cons.prems show ?thesis by simp
    qed
  qed
qed simp

lemma cluster_build_done_iff:
  assumes "ce_buildAPI env = operator_build cms builds sch hash dtk re"
  shows "cluster_build env mld mcm w = (Ok True, w') \<longleftrightarrow>
    stage_done (ShouldBeBuilt mld) (module_ImageExists re mld (build_target mld))
      (Build_Sync cms builds sch hash dtk mld True (mcm_owner mcm)) w w'"
  unfolding cluster_build_def assms operator_build_def build_manager.simps
  by (rule build_stage.run_stage_True_iff)

lemma cluster_sign_done_iff:
  assumes "ce_signAPI env = operator_sign se jobs re"
  shows "cluster_sign env mld mcm w = (Ok True, w') \<longleftrightarrow>
    stage_done (ShouldBeSigned mld) (module_ImageExists re mld (mld_ContainerImage mld))
      (Sign_Sync se jobs mld (sign_source mld) True (mcm_owner mcm)) w w'"
  unfolding cluster_sign_def assms operator_sign_def sign_manager.simps Let_def sign_source_def[symmetric]
  by (rule sign_stage.run_stage_True_iff)

text \<open>A run that ends with success has found both stages complete for every kernel.\<close>

definition images_ready :: "'w cluster_env \<Rightarrow> ManagedClusterModule \<Rightarrow> ModuleLoaderData \<Rightarrow> bool" where
  "images_ready env mcm mld \<longleftrightarrow>
     (\<exists>u v v'. cluster_build env mld mcm u = (Ok True, v) \<and> cluster_sign env mld mcm v = (Ok True, v'))"

lemma build_and_sign_loop_False: "for_io (build_and_sign_kernel env mcm) False ms w \<noteq> (Ok True, w')"
proof (induction ms arbitrary: w)
  case (Cons x ms)
  then show ?case by (cases x) (auto simp: build_and_sign_kernel_def io_elims split: if_split_asm)
qed simp

lemma build_and_sign_loop_True:
  assumes "for_io (build_and_sign_kernel env mcm) True ms w = (Ok True, w')"
  shows "\<forall>(k, mld) \<in> set ms. images_ready env mcm mld"
  using assms
proof (induction ms arbitrary: w)
  case (Cons x ms)
  obtain k mld where x: "x = (k, mld)" by (cases x)
  from Cons.prems obtain b w1 where
      body: "build_and_sign_kernel env mcm True x w = (Ok b, w1)"
    and rest: "for_io (build_and_sign_kernel env mcm) b ms w1 = (Ok True, w')"
    by (auto simp: bind_io_Ok_iff)
  have b: "b" using rest build_and_sign_loop_False[of env mcm ms w1 w'] by (cases b) simp_all
  with body x obtain v where "cluster_build env mld mcm w = (Ok True, v)" "cluster_sign env mld mcm v = (Ok True, w1)"
    by (auto simp: build_and_sign_kernel_def io_elims split: if_split_asm)
  then have "images_ready env mcm mld" unfolding images_ready_def by blast
  moreover have "\<forall>(k, mld) \<in> set ms. images_ready env mcm mld" using Cons.IH[of w1] rest b by simp
  ultimately show ?case using x by simp
qed simp

lemma BuildAndSign_TrueE:
  assumes "BuildAndSign env mcm cluster w = (Ok True, w')"
  obtains mldMappings where
      "kernelMappingsByKernelVersion env (hub_module env mcm) cluster = Ok mldMappings" and "mldMappings \<noteq> []"
    and "\<forall>(k, mld) \<in> set mldMappings. images_ready env mcm mld"
proof -
  from assms obtain ms where ms: "kernelMappingsByKernelVersion env (hub_module env mcm) cluster = Ok ms" "ms \<noteq> []"
    and run: "for_io (build_and_sign_kernel env mcm) True ms w = (Ok True, w')"
    by (auto simp: BuildAndSign_def io_elims split: if_split_asm)
  from that[OF ms build_and_sign_loop_True[OF run]] show thesis .
qed

section \<open>Properties\<close>

text \<open>
  C35. What the hub builds for a cluster: it reads the kernels from the first claim of the expected name,
  drops a trailing + from each, and reports success only when at least one of them has a mapping and,
  for every one that has, the build and the signing it asks for are done with the hub's build and sign
  managers.
\<close>

theorem hub_success_means_images_ready:
  assumes "BuildAndSign env mcm cluster w = (Ok True, w')"
    and "ce_buildAPI env = operator_build cms builds sch hash dtk re" and "ce_signAPI env = operator_sign se jobs re"
  shows "\<exists>kernels. kernelVersions cluster = Ok kernels \<and>
    (\<exists>k \<in> set kernels. is_ok (ce_kernelAPI env (hub_module env mcm) (trim_kernel k))) \<and>
    (\<forall>k \<in> set kernels. \<forall>mld. ce_kernelAPI env (hub_module env mcm) (trim_kernel k) = Ok mld \<longrightarrow>
       (\<exists>u v v'.
          stage_done (ShouldBeBuilt mld) (module_ImageExists re mld (build_target mld))
            (Build_Sync cms builds sch hash dtk mld True (mcm_owner mcm)) u v \<and>
          stage_done (ShouldBeSigned mld) (module_ImageExists re mld (mld_ContainerImage mld))
            (Sign_Sync se jobs mld (sign_source mld) True (mcm_owner mcm)) v v'))"
proof -
  let ?g = "ce_kernelAPI env (hub_module env mcm)"
  from assms(1) obtain ms where ms: "kernelMappingsByKernelVersion env (hub_module env mcm) cluster = Ok ms" "ms \<noteq> []"
    and ready: "\<forall>(k, mld) \<in> set ms. images_ready env mcm mld"
    by (rule BuildAndSign_TrueE)
  from ms(1) obtain kernels where ks: "kernelVersions cluster = Ok kernels" "cluster_mappings ?g [] kernels = Ok ms"
    by (auto simp: kernelMappingsByKernelVersion_def)
  from cluster_mappings_Ok[OF ks(2)]
  have inv: "distinct_keys ms" "\<And>k mld. map_of ms k = Some mld \<Longrightarrow> ?g k = Ok mld"
    "dom (map_of ms) = {k \<in> trim_kernel ` set kernels. is_ok (?g k)}"
    by simp_all
  have "dom (map_of ms) \<noteq> {}" using ms(2) by (simp add: dom_map_of_keys)
  then have some: "\<exists>k \<in> set kernels. is_ok (?g (trim_kernel k))" unfolding inv(3) by blast
  have "images_ready env mcm mld" if "k \<in> set kernels" "?g (trim_kernel k) = Ok mld" for k mld
  proof -
    from that have "trim_kernel k \<in> dom (map_of ms)" unfolding inv(3) by (simp add: is_ok_iff)
    then obtain mld' where "map_of ms (trim_kernel k) = Some mld'" by blast
    with inv(2) that(2) have "map_of ms (trim_kernel k) = Some mld" by fastforce
    with ready inv(1) show ?thesis by (auto simp: map_of_in_set)
  qed
  then have "\<forall>k \<in> set kernels. \<forall>mld. ?g (trim_kernel k) = Ok mld \<longrightarrow>
      (\<exists>u v v'. cluster_build env mld mcm u = (Ok True, v) \<and> cluster_sign env mld mcm v = (Ok True, v'))"
    unfolding images_ready_def by blast
  with ks(1) some show ?thesis
    unfolding cluster_build_done_iff[OF assms(2)] cluster_sign_done_iff[OF assms(3)] by blast
qed

section \<open>Samples\<close>

definition sample_cluster :: "string \<Rightarrow> ManagedCluster" where
  "sample_cluster n = \<lparr>mc_meta = sample_meta n,
     mc_ClusterClaims = [\<lparr>mcc_Name = KernelVersionsClusterClaimName, mcc_Value = ''5.14.0-70+''\<rparr>]\<rparr>"

definition sample_mcm :: "KernelMapping list \<Rightarrow> ManagedClusterModule" where
  "sample_mcm kms = \<lparr>mcm_meta = (sample_meta ''mcm'')\<lparr>om_Namespace := []\<rparr>,
     mcm_Spec = \<lparr>mcms_ModuleSpec = mod_Spec (sample_module kms), mcms_SpokeNamespace = ''spoke-ns'', mcms_Selector = fmempty\<rparr>,
     mcm_Status = \<lparr>mcmst_NumberDesired = 0, mcmst_NumberApplied = 0, mcmst_NumberDegraded = 0\<rparr>\<rparr>"

definition sample_cluster_env :: "nat cluster_env" where
  "sample_cluster_env =
     \<lparr>ce_mcms = const_client (sample_mcm []), ce_clusters = const_client (sample_cluster ''spoke''),
      ce_kernelAPI = \<lambda>_ _. Ok (sample_mld None None), ce_buildAPI = me_buildAPI sample_env,
      ce_signAPI = me_signAPI sample_env, ce_namespace = ''hub-ns''\<rparr>"

lemma sample_cluster_ready: "BuildAndSign sample_cluster_env mcm (sample_cluster n) w = (Ok True, w)"
proof -
  have build: "cluster_build sample_cluster_env (sample_mld None None) mcm v = (Ok True, v)" for v
    by (simp add: cluster_build_def sample_cluster_env_def sample_env_def operator_build_def Build_ShouldSync_def
        ShouldBeBuilt_def sample_mld_def bind_io_def wrap_io_def)
  have sign: "cluster_sign sample_cluster_env (sample_mld None None) mcm v = (Ok True, v)" for v
    by (simp add: cluster_sign_def sample_cluster_env_def sample_env_def operator_sign_def Sign_ShouldSync_def
        ShouldBeSigned_def sample_mld_def bind_io_def wrap_io_def)
  have "kernelMappingsByKernelVersion sample_cluster_env (hub_module sample_cluster_env mcm) (sample_cluster n)
      = Ok [(''5.14.0-70'', sample_mld None None)]"
    by (simp add: kernelMappingsByKernelVersion_def kernelVersions_def sample_cluster_def sample_cluster_env_def
        trim_kernel_def strings_TrimSuffix_char Let_def)
  then show ?thesis by (simp add: BuildAndSign_def build_and_sign_kernel_def build sign)
qed

theorem hub_success_means_images_ready_witness:
  "\<exists>kernels. kernelVersions (sample_cluster ''spoke'') = Ok kernels \<and> kernels \<noteq> []"
proof -
  have "ce_buildAPI sample_cluster_env = operator_build (const_client sample_dockerfile) absent_client sample_scheme
        (\<lambda>_. Ok 7) (\<lambda>_. return_io ''dtk-img'') empty_registry"
    "ce_signAPI sample_cluster_env = operator_sign sample_signer absent_client empty_registry"
    by (simp_all add: sample_cluster_env_def sample_env_def)
  from hub_success_means_images_ready[OF sample_cluster_ready[of "sample_mcm []" _ 0] this] show ?thesis
    by (metis empty_iff list.set(1))
qed

end
