(* ===== verification/Hub_Reconciler.thy ===== *)
theory Hub_Reconciler
  imports Cluster_Hub
begin

text \<open>
  The hub operator: the ManifestWork that ships a Module to a managed cluster
  (internal/manifestwork/manifestwork.go) and the reconciler of ManagedClusterModules
  (controllers/hub/managedclustermodule_reconciler.go).

  The kernel mappings of the ManagedClusterModule being reconciled live in one array: passing the
  object by value copies the slice header only. The loop over the clusters therefore runs on the world
  and the object in memory.
\<close>

section \<open>ManifestWorks\<close>

record Manifest =
  mf_APIVersion :: string
  mf_Kind :: string
  mf_Object :: Module

record JsonPath =
  jp_Name :: string
  jp_Path :: string

record ManifestConfigOption =
  mco_Group :: string
  mco_Resource :: string
  mco_Name :: string
  mco_Namespace :: string
  mco_JsonPaths :: "JsonPath list"

record ManifestWork =
  mw_meta :: ObjectMeta
  mw_Manifests :: "Manifest list"
  mw_ManifestConfigs :: "ManifestConfigOption list"
  mw_Conditions :: "Condition list"

definition mw_ops :: "(ManifestWork, Condition list) obj_ops" where
  "mw_ops = \<lparr>get_meta = mw_meta, get_status = mw_Conditions, set_status = \<lambda>s w. w\<lparr>mw_Conditions := s\<rparr>\<rparr>"

definition moduleStatusJSONPaths :: "JsonPath list" where
  "moduleStatusJSONPaths =
     [\<lparr>jp_Name = ''devicePlugin.availableNumber'', jp_Path = ''.status.devicePlugin.availableNumber''\<rparr>,
      \<lparr>jp_Name = ''devicePlugin.desiredNumber'', jp_Path = ''.status.devicePlugin.desiredNumber''\<rparr>,
      \<lparr>jp_Name = ''devicePlugin.nodesMatchingSelectorNumber'',
       jp_Path = ''.status.devicePlugin.nodesMatchingSelectorNumber''\<rparr>,
      \<lparr>jp_Name = ''moduleLoader.availableNumber'', jp_Path = ''.status.moduleLoader.availableNumber''\<rparr>,
      \<lparr>jp_Name = ''moduleLoader.desiredNumber'', jp_Path = ''.status.moduleLoader.desiredNumber''\<rparr>,
      \<lparr>jp_Name = ''moduleLoader.nodesMatchingSelectorNumber'',
       jp_Path = ''.status.moduleLoader.nodesMatchingSelectorNumber''\<rparr>]"

definition strip_mapping :: "KernelMapping \<Rightarrow> KernelMapping" where
  "strip_mapping m = m\<lparr>km_Build := None, km_Sign := None\<rparr>"

definition update_container ::
    "(ModuleLoaderContainerSpec \<Rightarrow> ModuleLoaderContainerSpec) \<Rightarrow> ModuleSpec \<Rightarrow> ModuleSpec" where
  "update_container f spec =
     spec\<lparr>ms_ModuleLoader := (ms_ModuleLoader spec)\<lparr>ml_Container := f (ml_Container (ms_ModuleLoader spec))\<rparr>\<rparr>"

text \<open>What the call leaves in the array it shares with its caller.\<close>

definition strip_mappings :: "ModuleSpec \<Rightarrow> ModuleSpec" where
  "strip_mappings = update_container (\<lambda>c. c\<lparr>mlc_KernelMappings := map strip_mapping (mlc_KernelMappings c)\<rparr>)"

text \<open>The spec that is shipped: the copy also loses the defaults of the container.\<close>

definition spoke_spec :: "ModuleSpec \<Rightarrow> ModuleSpec" where
  "spoke_spec spec = update_container (\<lambda>c. c\<lparr>mlc_Build := None, mlc_Sign := None\<rparr>) (strip_mappings spec)"

definition SetManifestWorkAsDesired ::
    "scheme \<Rightarrow> ManifestWork option \<Rightarrow> ManagedClusterModule \<Rightarrow> ManifestWork result" where
  "SetManifestWorkAsDesired sch mwo mcm =
     (case mwo of
        None \<Rightarrow> Err (ErrorMsg ''mw cannot be nil'')
      | Some mw \<Rightarrow>
          let md = \<lparr>mod_meta = empty_meta\<lparr>om_Name := om_Name (mcm_meta mcm), om_Namespace := mcms_SpokeNamespace (mcm_Spec mcm)\<rparr>,
                    mod_Spec = spoke_spec (mcms_ModuleSpec (mcm_Spec mcm)),
                    mod_Status = \<lparr>mst_DevicePlugin = zero_ds_status, mst_ModuleLoader = zero_ds_status\<rparr>\<rparr>;
              standardLabels = fmupd ManagedClusterModuleNameLabel (om_Name (mcm_meta mcm)) fmempty;
              mw' = mw\<lparr>mw_meta := (mw_meta mw)\<lparr>om_Labels := Some standardLabels\<rparr>,
                mw_Manifests := [\<lparr>mf_APIVersion = ''kmm.sigs.x-k8s.io/v1beta1'', mf_Kind = ''Module'', mf_Object = md\<rparr>],
                mw_ManifestConfigs := [\<lparr>mco_Group = ''kmm.sigs.x-k8s.io'', mco_Resource = ''modules'',
                  mco_Name = mod_Name md, mco_Namespace = mod_Namespace md, mco_JsonPaths = moduleStatusJSONPaths\<rparr>]\<rparr> in
          bind_res (SetControllerReference sch (mcm_owner mcm) (mw_meta mw')) (\<lambda>meta.
          Ok (mw'\<lparr>mw_meta := meta\<rparr>)))"

definition getOwnedManifestWorks ::
    "('w, ManifestWork) kclient \<Rightarrow> ManagedClusterModule \<Rightarrow> ('w, ManifestWork list) io" where
  "getOwnedManifestWorks mws mcm =
     k_list mws (fmupd ManagedClusterModuleNameLabel (om_Name (mcm_meta mcm)) fmempty) None"

definition MW_GarbageCollect ::
    "('w, ManifestWork) kclient \<Rightarrow> ManagedCluster list \<Rightarrow> ManagedClusterModule \<Rightarrow> ('w, unit) io" where
  "MW_GarbageCollect mws clusters mcm =
     bind_io (wrap_io (Errorf_w ''failed to get owned ManifestWorks'') (getOwnedManifestWorks mws mcm)) (\<lambda>items.
     let clusterNames = set (map (\<lambda>c. om_Name (mc_meta c)) clusters) in
     for_io (\<lambda>_ mw.
       if om_Namespace (mw_meta mw) \<in> clusterNames then return_io ()
       else wrap_io (Errorf_w (''failed to delete ManifestWork '' @ om_Name (mw_meta mw))) (k_delete mws mw)) () items)"

section \<open>The reconciler\<close>

record 'w hub_env =
  he_cluster :: "'w cluster_env"
  he_manifestworks :: "('w, ManifestWork) kclient"
  he_scheme :: scheme

text \<open>\<^verbatim>\<open>CreateOrPatch\<close> calls its function when the object was read or is known to be absent.\<close>

definition mutate_runs :: "('w, 'o) kclient \<Rightarrow> NamespacedName \<Rightarrow> 'w \<Rightarrow> bool" where
  "mutate_runs c key w =
     (case fst (k_get c key w) of Ok _ \<Rightarrow> True | Err e \<Rightarrow> IsNotFound e | Panic _ \<Rightarrow> False)"

definition share_stripped :: "ManagedClusterModule \<Rightarrow> ManagedClusterModule" where
  "share_stripped mcm = mcm\<lparr>mcm_Spec := (mcm_Spec mcm)\<lparr>
     mcms_ModuleSpec := strip_mappings (mcms_ModuleSpec (mcm_Spec mcm))\<rparr>\<rparr>"

definition new_manifestwork :: "string \<Rightarrow> string \<Rightarrow> ManifestWork" where
  "new_manifestwork name namespace =
     \<lparr>mw_meta = empty_meta\<lparr>om_Name := name, om_Namespace := namespace\<rparr>, mw_Manifests = [], mw_ManifestConfigs = [],
      mw_Conditions = []\<rparr>"

text \<open>One cluster: errors are logged and the loop goes on.\<close>

definition hub_cluster ::
    "'w hub_env \<Rightarrow> unit \<Rightarrow> ManagedCluster \<Rightarrow> ('w \<times> ManagedClusterModule, unit) io" where
  "hub_cluster env u cluster =
     bind_io (read_mem Ok) (\<lambda>mcm.
     bind_io (attempt_io (on_world (BuildAndSign (he_cluster env) mcm cluster))) (\<lambda>r. case r of
       Inl e \<Rightarrow> return_io ()
     | Inr completedSuccessfully \<Rightarrow>
         if \<not> completedSuccessfully then return_io ()
         else
           let mw = new_manifestwork (om_Name (mcm_meta mcm)) (om_Name (mc_meta cluster)) in
           bind_io (on_world (\<lambda>w. (Ok (mutate_runs (he_manifestworks env) (ObjectKeyFromObject (mw_meta mw)) w), w))) (\<lambda>ran.
           bind_io (attempt_io (on_world (CreateOrPatch (he_manifestworks env) mw_ops mw (\<lambda>mw.
             SetManifestWorkAsDesired (he_scheme env) (Some mw) mcm)))) (\<lambda>_.
           modify_mem (if ran then share_stripped else id)))))"

definition ManagedClusterModule_Reconcile :: "'w hub_env \<Rightarrow> NamespacedName \<Rightarrow> ('w, unit) io" where
  "ManagedClusterModule_Reconcile env req =
     bind_io (attempt_io (RequestedManagedClusterModule (he_cluster env) req)) (\<lambda>r. case r of
       Inl e \<Rightarrow> if IsNotFound e then return_io () else fail_io (Errorf_v ''failed to get the requested CR'' e)
     | Inr mcm \<Rightarrow>
         bind_io (wrap_io (Errorf_v ''failed to get selected clusters'')
           (SelectedManagedClusters (he_cluster env) mcm)) (\<lambda>clusters.
         bind_io (with_mem mcm (bind_io (for_io (hub_cluster env) () clusters) (\<lambda>_. read_mem Ok))) (\<lambda>mcm'.
         bind_io (wrap_io (Errorf_v ''failed to garbage collect ManifestWorks with no matching cluster selector'')
           (MW_GarbageCollect (he_manifestworks env) clusters mcm')) (\<lambda>_.
         bind_io (wrap_io (Errorf_v ''failed to garbage collect build objects'')
           (GarbageCollectBuilds (he_cluster env) mcm')) (\<lambda>_.
         bind_io (wrap_io (Errorf_v ''failed to fetch owned ManifestWorks of the ManagedClusterModule'')
           (getOwnedManifestWorks (he_manifestworks env) mcm')) (\<lambda>owned.
         wrap_io (Errorf_v ''failed to update status of the ManagedClusterModule'')
           (ManagedClusterModuleUpdateStatus (ce_mcms (he_cluster env)) mcm' (map mw_Conditions owned))))))))"

section \<open>Lemmas\<close>

text \<open>A loop that passes over some elements is the loop over the others.\<close>

lemma for_io_skip_Ok_iff:
  "for_io (\<lambda>_ x. if P x then return_io () else wrap_io (g x) (f x)) () xs w = (Ok (), w') \<longleftrightarrow>
     for_io (\<lambda>_ x. f x) () (filter (\<lambda>x. \<not> P x) xs) w = (Ok (), w')"
  by (induction xs arbitrary: w) (auto simp: io_elims)

lemma strip_mapping_simps [simp]:
  "km_Build (strip_mapping m) = None" "km_Sign (strip_mapping m) = None"
  "km_ContainerImage (strip_mapping m) = km_ContainerImage m" "km_Literal (strip_mapping m) = km_Literal m"
  "km_RegistryTLS (strip_mapping m) = km_RegistryTLS m" "km_Regexp (strip_mapping m) = km_Regexp m"
  by (simp_all add: strip_mapping_def)

text \<open>Stripping does not change which mapping a kernel gets.\<close>

lemma findKernelMapping_strip:
  "findKernelMapping rx (map strip_mapping ms) k =
     bind_res (findKernelMapping rx ms k) (\<lambda>m. Ok (strip_mapping m))"
  by (induction ms) (auto split: result.splits)

lemma mod_Container_update [simp]:
  "ml_Container (ms_ModuleLoader (update_container f spec)) = f (ml_Container (ms_ModuleLoader spec))"
  by (simp add: update_container_def)

lemma stripped_mappings_in_memory:
  "mlc_KernelMappings (mod_Container (hub_module env (share_stripped mcm))) =
     map strip_mapping (mlc_KernelMappings (mod_Container (hub_module env mcm)))"
  "mlc_Build (mod_Container (hub_module env (share_stripped mcm))) = mlc_Build (mod_Container (hub_module env mcm))"
  by (simp_all add: hub_module_def share_stripped_def strip_mappings_def)

lemma SetManifestWork_OkE:
  assumes "SetManifestWorkAsDesired sch mwo mcm = Ok mw'"
  obtains mw md where "mwo = Some mw"
    and "mw_Manifests mw' = [\<lparr>mf_APIVersion = ''kmm.sigs.x-k8s.io/v1beta1'', mf_Kind = ''Module'', mf_Object = md\<rparr>]"
    and "mod_Spec md = spoke_spec (mcms_ModuleSpec (mcm_Spec mcm))"
    and "mod_Namespace md = mcms_SpokeNamespace (mcm_Spec mcm)"
    and "SetControllerReference sch (mcm_owner mcm) ((mw_meta mw)\<lparr>om_Labels :=
           Some (fmupd ManagedClusterModuleNameLabel (om_Name (mcm_meta mcm)) fmempty)\<rparr>) = Ok (mw_meta mw')"
  using assms by (cases mwo) (auto simp: SetManifestWorkAsDesired_def Let_def intro: that)

lemma hub_cluster_OkE:
  assumes "hub_cluster env u cluster (w, mcm) = (Ok (), (w', mcm'))"
  obtains (waiting) r where "BuildAndSign (he_cluster env) mcm cluster w = (r, w')" "r \<noteq> Ok True" "mcm' = mcm"
  | (shipped) w1 r where "BuildAndSign (he_cluster env) mcm cluster w = (Ok True, w1)"
      "CreateOrPatch (he_manifestworks env) mw_ops (new_manifestwork (om_Name (mcm_meta mcm)) (om_Name (mc_meta cluster)))
         (\<lambda>mw. SetManifestWorkAsDesired (he_scheme env) (Some mw) mcm) w1 = (r, w')"
      "mcm' = (if mutate_runs (he_manifestworks env)
                    \<lparr>nn_Namespace = om_Name (mc_meta cluster), nn_Name = om_Name (mcm_meta mcm)\<rparr> w1
               then share_stripped mcm else mcm)"
proof -
  obtain r w1 where bs: "BuildAndSign (he_cluster env) mcm cluster w = (r, w1)" by force
  show thesis
  proof (cases "r = Ok True")
    case False
    with bs assms show thesis
      by (cases r) (auto simp: hub_cluster_def intro: waiting)
  next
    case True
    obtain r2 w2 where cp: "CreateOrPatch (he_manifestworks env) mw_ops
        (new_manifestwork (om_Name (mcm_meta mcm)) (om_Name (mc_meta cluster)))
        (\<lambda>mw. SetManifestWorkAsDesired (he_scheme env) (Some mw) mcm) w1 = (r2, w2)" by force
    with True bs assms shipped[OF bs[unfolded True]] show thesis
      by (cases r2) (auto simp: hub_cluster_def Let_def new_manifestwork_def ObjectKeyFromObject_def split: if_split_asm)
  qed
qed

section \<open>Properties\<close>

text \<open>
  The ManifestWork of a cluster is only touched after every image the cluster needs is ready: a
  cluster for which building and signing failed or have not finished is left alone. The other clusters
  are still handled.
\<close>

theorem manifestwork_after_images:
  assumes "hub_cluster env u cluster (w, mcm) = (Ok (), (w', mcm'))"
  shows "(\<exists>r. BuildAndSign (he_cluster env) mcm cluster w = (r, w') \<and> r \<noteq> Ok True \<and> mcm' = mcm) \<or>
    (\<exists>w1 r mldMappings.
       kernelMappingsByKernelVersion (he_cluster env) (hub_module (he_cluster env) mcm) cluster = Ok mldMappings \<and>
       mldMappings \<noteq> [] \<and> (\<forall>x \<in> set mldMappings. images_ready (he_cluster env) mcm (snd x)) \<and>
       CreateOrPatch (he_manifestworks env) mw_ops (new_manifestwork (om_Name (mcm_meta mcm)) (om_Name (mc_meta cluster)))
         (\<lambda>mw. SetManifestWorkAsDesired (he_scheme env) (Some mw) mcm) w1 = (r, w'))"
  using assms
proof (cases rule: hub_cluster_OkE)
  case (shipped w1 r)
  from shipped(1) obtain ms where
    "kernelMappingsByKernelVersion (he_cluster env) (hub_module (he_cluster env) mcm) cluster = Ok ms" "ms \<noteq> []"
    "\<forall>(k, mld) \<in> set ms. images_ready (he_cluster env) mcm mld"
    by (rule BuildAndSign_TrueE)
  with shipped(2) show ?thesis by (auto simp: case_prod_beta)
qed blast

text \<open>
  C36. The Module shipped to a cluster runs there the image the hub prepared: for every kernel the hub
  resolves, the spoke's mapper resolves the shipped Module to the same image and modprobe settings, and
  neither builds nor signs it. The ManifestWork is controlled by the ManagedClusterModule and carries
  its name as label.
\<close>

theorem spoke_runs_hub_image:
  assumes "SetManifestWorkAsDesired sch mwo mcm = Ok mw"
    and "GetModuleLoaderDataForKernel rx subst (hub_module env mcm) k = Ok h"
  shows "\<exists>mf s. mw_Manifests mw = [mf] \<and> GetModuleLoaderDataForKernel rx subst (mf_Object mf) k = Ok s \<and>
    mld_ContainerImage s = mld_ContainerImage h \<and> mld_Modprobe s = mld_Modprobe h \<and>
    mld_RegistryTLS s = mld_RegistryTLS h \<and> mld_Namespace s = mcms_SpokeNamespace (mcm_Spec mcm) \<and>
    \<not> ShouldBeBuilt s \<and> \<not> ShouldBeSigned s \<and>
    IsControlledBy (mw_meta mw) (mcm_meta mcm) \<and>
    om_Labels (mw_meta mw) = Some (fmupd ManagedClusterModuleNameLabel (om_Name (mcm_meta mcm)) fmempty)"
proof -
  from assms(1) obtain mw0 md where "mwo = Some mw0"
    and mf: "mw_Manifests mw = [\<lparr>mf_APIVersion = ''kmm.sigs.x-k8s.io/v1beta1'', mf_Kind = ''Module'', mf_Object = md\<rparr>]"
    and md: "mod_Spec md = spoke_spec (mcms_ModuleSpec (mcm_Spec mcm))" "mod_Namespace md = mcms_SpokeNamespace (mcm_Spec mcm)"
    and ref: "SetControllerReference sch (mcm_owner mcm) ((mw_meta mw0)\<lparr>om_Labels :=
           Some (fmupd ManagedClusterModuleNameLabel (om_Name (mcm_meta mcm)) fmempty)\<rparr>) = Ok (mw_meta mw)"
    by (rule SetManifestWork_OkE)
  let ?c = "mod_Container (hub_module env mcm)"
  have c: "mod_Container md = ?c\<lparr>mlc_KernelMappings := map strip_mapping (mlc_KernelMappings ?c), mlc_Build := None, mlc_Sign := None\<rparr>"
    by (simp add: md(1) spoke_spec_def strip_mappings_def hub_module_def)
  from assms(2) obtain m h0 where m: "findKernelMapping rx (mlc_KernelMappings ?c) k = Ok m"
    and h0: "prepareModuleLoaderData subst m (hub_module env mcm) k = Ok h0" and h: "replaceTemplates subst h0 = Ok h"
    by (auto simp: GetModuleLoaderDataForKernel_def)
  have found: "findKernelMapping rx (mlc_KernelMappings (mod_Container md)) k = Ok (strip_mapping m)"
    by (simp add: c findKernelMapping_strip m)
  obtain s0 where s0: "prepareModuleLoaderData subst (strip_mapping m) md k = Ok s0"
    and same: "mld_ContainerImage s0 = mld_ContainerImage h0" "mld_Modprobe s0 = mld_Modprobe h0"
      "mld_RegistryTLS s0 = mld_RegistryTLS h0" "mld_KernelVersion s0 = mld_KernelVersion h0"
      "mld_Build s0 = None" "mld_Sign s0 = None" "mld_Namespace s0 = mcms_SpokeNamespace (mcm_Spec mcm)"
    using h0 md(2) by (auto simp: prepareModuleLoaderData_def c Let_def)
  from h same(1,4) have s: "replaceTemplates subst s0 = Ok (s0\<lparr>mld_ContainerImage := mld_ContainerImage h\<rparr>)"
    by (auto simp: replaceTemplates_def)
  have "mld_Modprobe h = mld_Modprobe h0" "mld_RegistryTLS h = mld_RegistryTLS h0"
    using h by (auto simp: replaceTemplates_def)
  with mf found s0 s same SetControllerReference_controls[OF ref] SetControllerReference_keeps(3)[OF ref]
  show ?thesis
    by (simp add: GetModuleLoaderDataForKernel_def ShouldBeBuilt_def ShouldBeSigned_def mcm_owner_def)
qed

text \<open>
  C37. Once the ManifestWork of one cluster has been set, the clusters handled after it in the same
  reconciliation see kernel mappings without build or sign settings: unless the container sets a
  default, nothing is built for them and the images of their kernels count as ready.
\<close>

theorem later_clusters_skip_mapping_builds:
  assumes "hub_cluster env u cluster (w, mcm) = (Ok (), (w', mcm'))"
    and "BuildAndSign (he_cluster env) mcm cluster w = (Ok True, w1)"
    and "mutate_runs (he_manifestworks env) \<lparr>nn_Namespace = om_Name (mc_meta cluster), nn_Name = om_Name (mcm_meta mcm)\<rparr> w1"
    and "mlc_Build (mod_Container (hub_module ce mcm)) = None"
    and "GetModuleLoaderDataForKernel rx subst (hub_module ce mcm') k = Ok mld"
  shows "\<not> ShouldBeBuilt mld"
  using assms(1)
proof (cases rule: hub_cluster_OkE)
  case (shipped w1' r)
  with assms(2,3) have mem: "mcm' = share_stripped mcm" by simp
  have nb: "mlc_Build (mod_Container (hub_module ce mcm')) = None"
    and ms: "mlc_KernelMappings (mod_Container (hub_module ce mcm')) =
      map strip_mapping (mlc_KernelMappings (mod_Container (hub_module ce mcm)))"
    unfolding mem using assms(4) by (simp_all add: stripped_mappings_in_memory)
  from assms(5) obtain m mld0 where
      "findKernelMapping rx (map strip_mapping (mlc_KernelMappings (mod_Container (hub_module ce mcm)))) k = Ok m"
    and mld0: "prepareModuleLoaderData subst m (hub_module ce mcm') k = Ok mld0" and "replaceTemplates subst mld0 = Ok mld"
    unfolding GetModuleLoaderDataForKernel_def ms by auto
  moreover from this(1) have "km_Build m = None" by (auto simp: findKernelMapping_strip)
  moreover from mld0 this nb have "mld_Build mld0 = None" by (auto simp: prepareModuleLoaderData_def Let_def)
  ultimately show ?thesis by (auto simp: ShouldBeBuilt_def replaceTemplates_def)
qed (use assms(2) in simp)


section \<open>Samples\<close>

text \<open>A hub with one spoke cluster and no ManifestWork yet.\<close>

definition sample_hub :: "nat hub_env" where
  "sample_hub = \<lparr>he_cluster = sample_cluster_env, he_manifestworks = absent_client, he_scheme = sample_scheme\<rparr>"

lemma sample_manifestwork:
  "\<exists>mw. SetManifestWorkAsDesired sample_scheme (Some (new_manifestwork ''mcm'' ''spoke'')) (sample_mcm kms) = Ok mw \<and>
     ObjectKeyFromObject (mw_meta mw) = \<lparr>nn_Namespace = ''spoke'', nn_Name = ''mcm''\<rparr>"
  by (simp add: SetManifestWorkAsDesired_def new_manifestwork_def sample_mcm_def mcm_owner_def sample_meta_def empty_meta_def
      sample_scheme_def SetControllerReference_def validateOwner_def GetControllerOf_def upsertOwnerRef_def
      ObjectKeyFromObject_def Let_def)

lemma sample_hub_cluster:
  "hub_cluster sample_hub () (sample_cluster ''spoke'') (w, sample_mcm kms) = (Ok (), (w + 1, share_stripped (sample_mcm kms)))"
proof -
  let ?new = "new_manifestwork ''mcm'' ''spoke''"
  have names: "om_Name (mcm_meta (sample_mcm kms)) = ''mcm''" "om_Name (mc_meta (sample_cluster ''spoke'')) = ''spoke''"
    by (simp_all add: sample_mcm_def sample_cluster_def sample_meta_def)
  obtain mw where mw: "SetManifestWorkAsDesired sample_scheme (Some ?new) (sample_mcm kms) = Ok mw"
      "ObjectKeyFromObject (mw_meta mw) = \<lparr>nn_Namespace = ''spoke'', nn_Name = ''mcm''\<rparr>"
    using sample_manifestwork by blast
  have "CreateOrPatch absent_client mw_ops ?new (\<lambda>m. SetManifestWorkAsDesired sample_scheme (Some m) (sample_mcm kms)) w
      = (Ok (OperationResultCreated, mw), w + 1)"
    using mw by (simp add: CreateOrPatch_def mutate_def mw_ops_def absent_client_def new_manifestwork_def
        ObjectKeyFromObject_def Let_def bind_io_def attempt_io_def)
  moreover have "mutate_runs (absent_client :: (nat, ManifestWork) kclient) key w" for key
    by (simp add: mutate_runs_def absent_client_def)
  ultimately show ?thesis
    by (simp add: hub_cluster_def sample_hub_def sample_cluster_ready names Let_def bind_io_def attempt_io_def on_world_def)
qed

theorem manifestwork_after_images_witness:
  "\<exists>mldMappings. kernelMappingsByKernelVersion sample_cluster_env (hub_module sample_cluster_env (sample_mcm []))
     (sample_cluster ''spoke'') = Ok mldMappings \<and> mldMappings \<noteq> []"
proof -
  have "BuildAndSign (he_cluster sample_hub) (sample_mcm []) (sample_cluster ''spoke'') 0 = (Ok True, 0)"
    by (simp add: sample_hub_def sample_cluster_ready)
  with manifestwork_after_images[OF sample_hub_cluster[of 0 "[]"]] show ?thesis
    by (auto simp: sample_hub_def)
qed

definition built_mapping :: KernelMapping where
  "built_mapping = (sample_mapping ''5.14.0-70'' ''quay.io/org/kmod'')\<lparr>km_Build := Some sample_build\<rparr>"

lemma sample_hub_mapping:
  "\<exists>h. GetModuleLoaderDataForKernel (\<lambda>r s. Ok (r = s)) (\<lambda>env t. Ok t)
     (hub_module sample_cluster_env (sample_mcm [built_mapping])) ''5.14.0-70'' = Ok h \<and>
     mld_ContainerImage h = ''quay.io/org/kmod'' \<and> ShouldBeBuilt h"
  by (simp add: GetModuleLoaderDataForKernel_def prepareModuleLoaderData_def replaceTemplates_def ShouldBeBuilt_def
      KernelComponentsAsEnvVars_def kernelRegexp_Split_def built_mapping_def hub_module_def sample_mcm_def sample_defs Let_def)

theorem spoke_runs_hub_image_witness:
  "\<exists>mw mf s. SetManifestWorkAsDesired sample_scheme (Some (new_manifestwork ''mcm'' ''spoke'')) (sample_mcm [built_mapping]) = Ok mw \<and>
     mw_Manifests mw = [mf] \<and>
     GetModuleLoaderDataForKernel (\<lambda>r s. Ok (r = s)) (\<lambda>env t. Ok t) (mf_Object mf) ''5.14.0-70'' = Ok s \<and>
     mld_ContainerImage s = ''quay.io/org/kmod'' \<and> \<not> ShouldBeBuilt s"
proof -
  obtain h where h: "GetModuleLoaderDataForKernel (\<lambda>r s. Ok (r = s)) (\<lambda>env t. Ok t)
      (hub_module sample_cluster_env (sample_mcm [built_mapping])) ''5.14.0-70'' = Ok h"
      "mld_ContainerImage h = ''quay.io/org/kmod''"
    using sample_hub_mapping by blast
  obtain mw where "SetManifestWorkAsDesired sample_scheme (Some (new_manifestwork ''mcm'' ''spoke''))
      (sample_mcm [built_mapping]) = Ok mw"
    using sample_manifestwork by blast
  with spoke_runs_hub_image[OF this h(1)] h(2) show ?thesis by auto
qed

theorem later_clusters_skip_mapping_builds_witness:
  "\<exists>h mld. GetModuleLoaderDataForKernel (\<lambda>r s. Ok (r = s)) (\<lambda>env t. Ok t)
       (hub_module sample_cluster_env (sample_mcm [built_mapping])) ''5.14.0-70'' = Ok h \<and> ShouldBeBuilt h \<and>
     GetModuleLoaderDataForKernel (\<lambda>r s. Ok (r = s)) (\<lambda>env t. Ok t)
       (hub_module sample_cluster_env (share_stripped (sample_mcm [built_mapping]))) ''5.14.0-70'' = Ok mld \<and>
     \<not> ShouldBeBuilt mld"
proof -
  have "\<exists>mld. GetModuleLoaderDataForKernel (\<lambda>r s. Ok (r = s)) (\<lambda>env t. Ok t)
      (hub_module sample_cluster_env (share_stripped (sample_mcm [built_mapping]))) ''5.14.0-70'' = Ok mld"
    by (simp add: GetModuleLoaderDataForKernel_def prepareModuleLoaderData_def replaceTemplates_def
        KernelComponentsAsEnvVars_def kernelRegexp_Split_def built_mapping_def hub_module_def sample_mcm_def sample_defs
        share_stripped_def strip_mappings_def update_container_def strip_mapping_def Let_def)
  then obtain mld where mld: "GetModuleLoaderDataForKernel (\<lambda>r s. Ok (r = s)) (\<lambda>env t. Ok t)
      (hub_module sample_cluster_env (share_stripped (sample_mcm [built_mapping]))) ''5.14.0-70'' = Ok mld" by blast
  have "BuildAndSign (he_cluster sample_hub) (sample_mcm [built_mapping]) (sample_cluster ''spoke'') 0 = (Ok True, 0)"
    by (simp add: sample_hub_def sample_cluster_ready)
  moreover have "mutate_runs (he_manifestworks sample_hub) key 0" for key
    by (simp add: mutate_runs_def sample_hub_def absent_client_def)
  moreover have "mlc_Build (mod_Container (hub_module sample_cluster_env (sample_mcm [built_mapping]))) = None"
    by (simp add: hub_module_def sample_mcm_def sample_defs)
  ultimately have "\<not> ShouldBeBuilt mld"
    using later_clusters_skip_mapping_builds[OF sample_hub_cluster _ _ _ mld] by blast
  with mld sample_hub_mapping show ?thesis by blast
qed


end
