(* ===== verification/Operator.thy ===== *)
theory Operator
  imports Startup Hub_Reconciler Preflight_Ocp
begin

text \<open>
  The two programs put together: the schemes of cmd/manager/main.go and cmd/manager-hub/main.go with the kinds
  that the API packages register (groupversion_info.go), and the components that main constructs from one
  another. What the programs find in their surroundings - the cluster, the registries, the clock, the
  environment and the hash function - is one record, the platform.
\<close>

section \<open>Schemes\<close>

record GroupVersion =
  gv_Group :: string
  gv_Version :: string

definition GroupVersion_String :: "GroupVersion \<Rightarrow> string" where
  "GroupVersion_String gv = (if gv_Group gv \<noteq> [] then gv_Group gv @ ''/'' @ gv_Version gv else gv_Version gv)"

definition kmm_GroupVersion :: GroupVersion where
  "kmm_GroupVersion = \<lparr>gv_Group = ''kmm.sigs.x-k8s.io'', gv_Version = ''v1beta1''\<rparr>"

definition hub_GroupVersion :: GroupVersion where
  "hub_GroupVersion = \<lparr>gv_Group = ''hub.kmm.sigs.x-k8s.io'', gv_Version = ''v1beta1''\<rparr>"

text \<open>\<^verbatim>\<open>Register\<close> of a builder and \<^verbatim>\<open>AddToScheme\<close>: the Go type of a registered object is known under its own name.\<close>

definition AddKnownTypes :: "GroupVersion \<Rightarrow> string list \<Rightarrow> scheme \<Rightarrow> scheme" where
  "AddKnownTypes gv kinds sch =
     (\<lambda>t. if t \<in> set kinds then Ok \<lparr>gvk_APIVersion = GroupVersion_String gv, gvk_Kind = t\<rparr> else sch t)"

definition module_init :: "scheme \<Rightarrow> scheme" where
  "module_init = AddKnownTypes kmm_GroupVersion [''Module'', ''ModuleList'']"

definition preflight_init :: "scheme \<Rightarrow> scheme" where
  "preflight_init = AddKnownTypes kmm_GroupVersion [''PreflightValidation'', ''PreflightValidationList'']"

definition preflight_ocp_init :: "scheme \<Rightarrow> scheme" where
  "preflight_ocp_init = AddKnownTypes kmm_GroupVersion [''PreflightValidationOCP'', ''PreflightValidationOCPList'']"

definition mcm_init :: "scheme \<Rightarrow> scheme" where
  "mcm_init = AddKnownTypes hub_GroupVersion [''ManagedClusterModule'', ''ManagedClusterModuleList'']"

definition kmm_AddToScheme :: "scheme \<Rightarrow> scheme" where
  "kmm_AddToScheme sch = preflight_ocp_init (preflight_init (module_init sch))"

definition hub_AddToScheme :: "scheme \<Rightarrow> scheme" where
  "hub_AddToScheme sch = mcm_init sch"

text \<open>\<^verbatim>\<open>init\<close> of the programs. \<^verbatim>\<open>vendored\<close> are the kinds of the other packages.\<close>

definition manager_scheme :: "scheme \<Rightarrow> scheme" where
  "manager_scheme vendored = kmm_AddToScheme vendored"

definition hub_scheme :: "scheme \<Rightarrow> scheme" where
  "hub_scheme vendored = hub_AddToScheme vendored"

section \<open>The components\<close>

text \<open>\<^verbatim>\<open>pf_mapping\<close> and \<^verbatim>\<open>pf_metrics\<close> are the two objects of the process that the components share.\<close>

record ('w, 'k, 'a) platform =
  pf_modules :: "('w, Module) kclient"
  pf_nodes :: "('w, Node) kclient"
  pf_daemonsets :: "('w, DaemonSet) kclient"
  pf_configmaps :: "('w, ConfigMap) kclient"
  pf_builds :: "('w, OcpBuild) kclient"
  pf_jobs :: "('w, Job) kclient"
  pf_serviceaccounts :: "('w, ServiceAccount) kclient"
  pf_secrets :: "('w, Secret) kclient"
  pf_preflights :: "('w, PreflightValidation) kclient"
  pf_preflights_ocp :: "('w, PreflightValidationOCP) kclient"
  pf_mcms :: "('w, ManagedClusterModule) kclient"
  pf_clusters :: "('w, ManagedCluster) kclient"
  pf_manifestworks :: "('w, ManifestWork) kclient"
  pf_NewFromPullSecrets :: "Secret list \<Rightarrow> ('w, 'k) io"
  pf_NewKeychain :: "string \<Rightarrow> string \<Rightarrow> ('w, 'k) io"
  pf_crane :: "('w, 'k, 'a) crane"
  pf_json :: json_decoder
  pf_json_ImageStream :: "string \<Rightarrow> TagReference list result"
  pf_json_dtkRelease :: "string \<Rightarrow> dtkRelease result"
  pf_GOARCH :: string
  pf_regexp :: regexp_engine
  pf_template :: template_engine
  pf_hash_build :: "BuildSource \<Rightarrow> 64 word result"
  pf_hash_sign :: "hashData \<Rightarrow> 64 word result"
  pf_getenv :: "string \<Rightarrow> string"
  pf_clock :: "'w \<Rightarrow> string"
  pf_mapping :: "'w \<Rightarrow> kernelOsDtkMapping"
  pf_metrics :: "'w metrics_api"
  pf_vendored :: scheme

definition wired_registry :: "('w, 'k, 'a) platform \<Rightarrow> ('w, 'k, 'a) registry_env" where
  "wired_registry pf =
     \<lparr>re_auth = \<lparr>ae_secrets = pf_secrets pf, ae_NewFromPullSecrets = pf_NewFromPullSecrets pf, ae_New = pf_NewKeychain pf\<rparr>,
      re_crane = pf_crane pf, re_json = pf_json pf, re_GOARCH = pf_GOARCH pf\<rparr>"

definition wired_dtk :: "('w, 'k, 'a) platform \<Rightarrow> string \<Rightarrow> ('w, string) io" where
  "wired_dtk pf kernelVersion w = (GetImage (pf_mapping pf w) kernelVersion, w)"

definition wired_buildAPI :: "('w, 'k, 'a) platform \<Rightarrow> scheme \<Rightarrow> 'w build_manager" where
  "wired_buildAPI pf sch =
     operator_build (pf_configmaps pf) (pf_builds pf) sch (pf_hash_build pf) (wired_dtk pf) (wired_registry pf)"

definition wired_signer :: "('w, 'k, 'a) platform \<Rightarrow> scheme \<Rightarrow> 'w signer_env" where
  "wired_signer pf sch =
     \<lparr>se_configmaps = pf_configmaps pf, se_serviceaccounts = pf_serviceaccounts pf, se_secrets = pf_secrets pf,
      se_scheme = sch, se_hash = pf_hash_sign pf, se_RELATED_IMAGES_SIGN = pf_getenv pf ''RELATED_IMAGES_SIGN''\<rparr>"

definition wired_signAPI :: "('w, 'k, 'a) platform \<Rightarrow> scheme \<Rightarrow> 'w sign_manager" where
  "wired_signAPI pf sch = operator_sign (wired_signer pf sch) (pf_jobs pf) (wired_registry pf)"

definition wired_kernelAPI :: "('w, 'k, 'a) platform \<Rightarrow> Module \<Rightarrow> string \<Rightarrow> ModuleLoaderData result" where
  "wired_kernelAPI pf = GetModuleLoaderDataForKernel (pf_regexp pf) (pf_template pf)"

section \<open>The operator\<close>

definition manager_module_env :: "('w, 'k, 'a) platform \<Rightarrow> string \<Rightarrow> 'w module_env" where
  "manager_module_env pf operatorNamespace =
     (let scheme = manager_scheme (pf_vendored pf) in
      \<lparr>me_modules = pf_modules pf, me_nodes = pf_nodes pf, me_daemonsets = pf_daemonsets pf,
       me_buildAPI = wired_buildAPI pf scheme, me_signAPI = wired_signAPI pf scheme, me_kernelAPI = wired_kernelAPI pf,
       me_caSync = ca_Sync (pf_configmaps pf) scheme, me_metricsAPI = pf_metrics pf, me_kernelLabel = KernelLabel,
       me_scheme = scheme, me_operatorNamespace = operatorNamespace\<rparr>)"

definition manager_preflight_env :: "('w, 'k, 'a) platform \<Rightarrow> ('w, 'k, 'a) preflight_env" where
  "manager_preflight_env pf =
     (let scheme = manager_scheme (pf_vendored pf) in
      \<lparr>pe_preflights = pf_preflights pf, pe_modules = pf_modules pf, pe_clock = pf_clock pf, pe_kernelAPI = wired_kernelAPI pf,
       pe_registry = wired_registry pf, pe_buildAPI = wired_buildAPI pf scheme, pe_signAPI = wired_signAPI pf scheme,
       pe_metricsAPI = pf_metrics pf\<rparr>)"

definition manager_ocp_env :: "('w, 'k, 'a) platform \<Rightarrow> ('w, 'k, 'a) ocp_env" where
  "manager_ocp_env pf =
     \<lparr>oe_pvos = pf_preflights_ocp pf, oe_pvs = pf_preflights pf, oe_registry = wired_registry pf,
      oe_json_ImageStream = pf_json_ImageStream pf, oe_json_dtkRelease = pf_json_dtkRelease pf,
      oe_scheme = manager_scheme (pf_vendored pf)\<rparr>"

section \<open>The hub\<close>

definition hub_cluster_env :: "('w, 'k, 'a) platform \<Rightarrow> string \<Rightarrow> 'w cluster_env" where
  "hub_cluster_env pf operatorNamespace =
     (let scheme = hub_scheme (pf_vendored pf) in
      \<lparr>ce_mcms = pf_mcms pf, ce_clusters = pf_clusters pf, ce_kernelAPI = wired_kernelAPI pf,
       ce_buildAPI = wired_buildAPI pf scheme, ce_signAPI = wired_signAPI pf scheme, ce_namespace = operatorNamespace\<rparr>)"

definition hub_reconciler_env :: "('w, 'k, 'a) platform \<Rightarrow> string \<Rightarrow> 'w hub_env" where
  "hub_reconciler_env pf operatorNamespace =
     \<lparr>he_cluster = hub_cluster_env pf operatorNamespace, he_manifestworks = pf_manifestworks pf,
      he_scheme = hub_scheme (pf_vendored pf)\<rparr>"


section \<open>Lemmas\<close>

lemmas scheme_defs = kmm_AddToScheme_def hub_AddToScheme_def module_init_def preflight_init_def preflight_ocp_init_def
  mcm_init_def AddKnownTypes_def

lemma manager_scheme_kinds:
  "manager_scheme v ''Module'' = Ok \<lparr>gvk_APIVersion = ''kmm.sigs.x-k8s.io/v1beta1'', gvk_Kind = ''Module''\<rparr>"
  "manager_scheme v ''PreflightValidation'' = Ok \<lparr>gvk_APIVersion = ''kmm.sigs.x-k8s.io/v1beta1'', gvk_Kind = ''PreflightValidation''\<rparr>"
  "manager_scheme v ''PreflightValidationOCP'' = Ok \<lparr>gvk_APIVersion = ''kmm.sigs.x-k8s.io/v1beta1'', gvk_Kind = ''PreflightValidationOCP''\<rparr>"
  "hub_scheme v ''ManagedClusterModule'' = Ok \<lparr>gvk_APIVersion = ''hub.kmm.sigs.x-k8s.io/v1beta1'', gvk_Kind = ''ManagedClusterModule''\<rparr>"
  by (simp_all add: manager_scheme_def hub_scheme_def scheme_defs
      GroupVersion_String_def kmm_GroupVersion_def hub_GroupVersion_def)

text \<open>When the image of a kernel is ready, in the order of the code: the build, then the signing.\<close>

definition image_ready :: "('w, 'k, 'a) platform \<Rightarrow> scheme \<Rightarrow> ModuleLoaderData \<Rightarrow> 'w \<Rightarrow> 'w \<Rightarrow> bool" where
  "image_ready pf sch mld w w2 \<longleftrightarrow> (\<exists>w1.
     stage_done (ShouldBeBuilt mld) (module_ImageExists (wired_registry pf) mld (build_target mld))
       (Build_Sync (pf_configmaps pf) (pf_builds pf) sch (pf_hash_build pf) (wired_dtk pf) mld True (mld_Owner mld)) w w1 \<and>
     stage_done (ShouldBeSigned mld) (module_ImageExists (wired_registry pf) mld (mld_ContainerImage mld))
       (Sign_Sync (wired_signer pf sch) (pf_jobs pf) mld (sign_source mld) True (mld_Owner mld)) w1 w2)"

text \<open>What one pass over the kernels does to the DaemonSets: a kernel whose image is not ready is skipped, the others
  get their driver container.\<close>

fun drivers_follow_images ::
    "('w, 'k, 'a) platform \<Rightarrow> 'w module_env \<Rightarrow> (string \<times> ModuleLoaderData) list \<Rightarrow>
     DaemonSet assoc \<Rightarrow> 'w \<Rightarrow> DaemonSet assoc \<Rightarrow> 'w \<Rightarrow> bool" where
  "drivers_follow_images pf env [] ds w ds' w' \<longleftrightarrow> ds' = ds \<and> w' = w"
| "drivers_follow_images pf env ((k, mld) # ms) ds w ds' w' \<longleftrightarrow>
     (\<exists>ds1 w1. (ds1 = ds \<and> (handleBuild env mld w = (Ok False, w1) \<or>
                  (\<exists>w2. handleBuild env mld w = (Ok True, w2) \<and> handleSigning env mld w2 = (Ok False, w1))) \<or>
               (\<exists>w2. image_ready pf (me_scheme env) mld w w2 \<and> handleDriverContainer env mld ds w2 = (Ok ds1, w1))) \<and>
       drivers_follow_images pf env ms ds1 w1 ds' w')"

lemma manager_module_env_simps:
  "me_buildAPI (manager_module_env pf ns) = operator_build (pf_configmaps pf) (pf_builds pf) (manager_scheme (pf_vendored pf))
     (pf_hash_build pf) (wired_dtk pf) (wired_registry pf)"
  "me_signAPI (manager_module_env pf ns) = operator_sign (wired_signer pf (manager_scheme (pf_vendored pf))) (pf_jobs pf) (wired_registry pf)"
  "me_scheme (manager_module_env pf ns) = manager_scheme (pf_vendored pf)"
  "me_kernelAPI (manager_module_env pf ns) = wired_kernelAPI pf"
  "me_daemonsets (manager_module_env pf ns) = pf_daemonsets pf" "me_kernelLabel (manager_module_env pf ns) = KernelLabel"
  by (simp_all add: manager_module_env_def wired_buildAPI_def wired_signAPI_def Let_def)

lemma kernels_follow_images:
  "for_io (reconcile_kernel (manager_module_env pf ns)) ds ms w = (Ok ds', w') \<Longrightarrow>
     drivers_follow_images pf (manager_module_env pf ns) ms ds w ds' w'"
proof (induction ms arbitrary: ds w)
  case (Cons m ms)
  obtain k mld where m: "m = (k, mld)" by fastforce
  from Cons.prems obtain ds1 w1 where r: "reconcile_kernel (manager_module_env pf ns) ds (k, mld) w = (Ok ds1, w1)"
      "for_io (reconcile_kernel (manager_module_env pf ns)) ds1 ms w1 = (Ok ds', w')"
    unfolding m by (auto simp: io_elims)
  from no_driver_before_image[OF r(1) manager_module_env_simps(1,2)]
  show ?case unfolding m drivers_follow_images.simps
  proof (intro exI[of _ ds1] exI[of _ w1] conjI, elim disjE)
    show "drivers_follow_images pf (manager_module_env pf ns) ms ds1 w1 ds' w'" by (rule Cons.IH[OF r(2)])
  qed (auto simp: image_ready_def manager_module_env_simps)
qed (simp add: io_elims)


lemma relevant_mappings:
  assumes "getRelevantKernelMappingsAndNodes env md nodes = Ok (ms, ns)"
  shows "\<forall>(k, mld) \<in> set ms. me_kernelAPI env md k = Ok mld"
    and "\<forall>n \<in> set nodes. is_ok (me_kernelAPI env md (trim_kernel (node_KernelVersion n))) \<longrightarrow>
      trim_kernel (node_KernelVersion n) \<in> fst ` set ms"
proof -
  have l: "relevant_loop (me_kernelAPI env md) [] [] nodes = Ok (ms, ns)"
    using assms by (simp add: getRelevantKernelMappingsAndNodes_def)
  have r: "distinct_keys ms" "\<forall>k mld. map_of ms k = Some mld \<longrightarrow> me_kernelAPI env md k = Ok mld"
    "dom (map_of ms) = (\<lambda>n. trim_kernel (node_KernelVersion n)) ` set (filter (mapped_node (me_kernelAPI env md)) nodes)"
    using relevant_loop_Ok[OF l] by simp_all
  from r(1,2) show "\<forall>(k, mld) \<in> set ms. me_kernelAPI env md k = Ok mld" by (auto simp: distinct_keys_def)
  from r(3) show "\<forall>n \<in> set nodes. is_ok (me_kernelAPI env md (trim_kernel (node_KernelVersion n))) \<longrightarrow>
      trim_kernel (node_KernelVersion n) \<in> fst ` set ms"
    by (auto simp: dom_map_of_conv_image_fst mapped_node_def is_ok_iff)
qed

section \<open>Properties\<close>



text \<open>A cluster with one Module, one node and no DaemonSets.\<close>

definition sample_platform :: "(nat, unit, unit) platform" where
  "sample_platform =
     \<lparr>pf_modules = const_client sample_kmod, pf_nodes = const_client sample_node, pf_daemonsets = absent_client,
      pf_configmaps = const_client sample_dockerfile, pf_builds = absent_client, pf_jobs = absent_client,
      pf_serviceaccounts = se_serviceaccounts sample_signer, pf_secrets = se_secrets sample_signer,
      pf_preflights = absent_client, pf_preflights_ocp = absent_client, pf_mcms = absent_client, pf_clusters = absent_client,
      pf_manifestworks = absent_client, pf_NewFromPullSecrets = \<lambda>_. return_io (), pf_NewKeychain = \<lambda>_ _. return_io (),
      pf_crane = re_crane empty_registry, pf_json = re_json empty_registry, pf_json_ImageStream = \<lambda>_. Ok [],
      pf_json_dtkRelease = \<lambda>_. Err (ErrorMsg []), pf_GOARCH = ''amd64'', pf_regexp = \<lambda>r s. Ok (r = s),
      pf_template = \<lambda>env t. Ok t, pf_hash_build = \<lambda>_. Ok 7, pf_hash_sign = \<lambda>_. Ok 7, pf_getenv = \<lambda>_. ''signimage'',
      pf_clock = \<lambda>_. [], pf_mapping = \<lambda>_. \<lparr>kernelToOs = fmempty, osToDtk = fmempty\<rparr>,
      pf_metrics = me_metricsAPI sample_env, pf_vendored = \<lambda>_. Err (ErrorMsg [])\<rparr>"

abbreviation sample_manager :: "nat module_env" where
  "sample_manager \<equiv> manager_module_env sample_platform ''operator''"

lemmas sample_manager_defs = manager_module_env_def sample_platform_def wired_buildAPI_def wired_signAPI_def wired_kernelAPI_def
  operator_build_def operator_sign_def manager_scheme_def scheme_defs Let_def

lemma sample_manager_kernel: "reconcile_kernel sample_manager [] (''5.14.0-70'', sample_kmod_mld) w = (Ok [], w + 1)"
  by (simp add: reconcile_kernel_def handleBuild_def handleSigning_def sample_manager_defs
      Build_ShouldSync_def Sign_ShouldSync_def ShouldBeBuilt_def ShouldBeSigned_def handleDriverContainer_def
      CreateOrPatch_def mutate_def absent_client_def sample_kmod_def sample_defs
      module_owner_def new_daemonset_def SetDriverContainerAsDesired_def SetControllerReference_def validateOwner_def
      GetControllerOf_def upsertOwnerRef_def empty_meta_def ObjectKeyFromObject_def bind_io_def wrap_io_def
      attempt_io_def)

lemma sample_manager_reconciled:
  "Module_Reconcile sample_manager \<lparr>nn_Namespace = ''operator'', nn_Name = ''md''\<rparr> 0 = (Ok (), 2)"
proof -
  let ?req = "\<lparr>nn_Namespace = ''operator'', nn_Name = ''md''\<rparr>"
  have m: "getRelevantKernelMappingsAndNodes sample_manager sample_kmod [sample_node]
      = Ok ([(''5.14.0-70'', sample_kmod_mld)], [sample_node])"
    using sample_kmod_mapped by (simp add: getRelevantKernelMappingsAndNodes_def sample_manager_defs sample_env_def)
  have clients: "getRequestedModule sample_manager ?req 0 = (Ok sample_kmod, 0)"
    "me_operatorNamespace sample_manager = ''operator''"
    "setKMMOMetrics sample_manager 0 = (Ok (), 0)"
    "getNodesListBySelector sample_manager sample_kmod 0 = (Ok [sample_node], 0)"
    "ModuleDaemonSetsByKernelVersion (me_daemonsets sample_manager) l n ns 0 = (Ok [], 0)"
    "handleDevicePlugin sample_manager sample_kmod (Suc 0) = (Ok (), Suc 0)"
    "garbageCollect sample_manager sample_kmod m [] (Suc 0) = (Ok (), Suc 0)"
    "ModuleUpdateStatus (me_modules sample_manager) sample_kmod a b [] (Suc 0) = (Ok (), 2)" for l n ns m a b
    by (simp_all add: getRequestedModule_def setKMMOMetrics_def getNodesListBySelector_def handleDevicePlugin_def
        ModuleDaemonSetsByKernelVersion_def moduleDaemonSets_def garbageCollect_def DS_GarbageCollect_def
        Build_GarbageCollect_def Sign_GarbageCollect_def GetModuleJobs_def getJobs_def filterJobsByOwner_def
        ModuleUpdateStatus_def sample_manager_defs sample_env_def const_client_def absent_client_def
        isNodeSchedulable_def sample_node_def modprobe_metrics_def sample_kmod_def sample_defs
        bind_io_def wrap_io_def attempt_io_def)
  show ?thesis
    by (simp add: Module_Reconcile_def clients m sample_manager_kernel bind_io_def wrap_io_def attempt_io_def)
qed


end
