(* ===== verification/Server.thy ===== *)
theory Server
  imports Stage_Convergence Operator
begin

text \<open>
  One API server for all kinds that the Module reconciler writes. The Builds, jobs and DaemonSets are three views of
  it, each with the interface of Stage_System; an operation on a view is an operation on the server that leaves the other
  kinds alone. The components run on the server as they run on a view.
\<close>

section \<open>Views\<close>

definition through :: "('s \<Rightarrow> 'c) \<Rightarrow> ('c \<Rightarrow> 's \<Rightarrow> 's) \<Rightarrow> ('c, 'a) io \<Rightarrow> ('s, 'a) io" where
  "through get put m w = (case m (get w) of (r, c) \<Rightarrow> (r, put c w))"

definition through_client :: "('s \<Rightarrow> 'c) \<Rightarrow> ('c \<Rightarrow> 's \<Rightarrow> 's) \<Rightarrow> ('c, 'o) kclient \<Rightarrow> ('s, 'o) kclient" where
  "through_client get put c =
     \<lparr>k_get = \<lambda>key. through get put (k_get c key), k_list = \<lambda>sel ns. through get put (k_list c sel ns),
      k_create = \<lambda>x. through get put (k_create c x), k_delete = \<lambda>x. through get put (k_delete c x),
      k_patch = \<lambda>x y. through get put (k_patch c x y), k_status_patch = \<lambda>x y. through get put (k_status_patch c x y),
      k_status_update = \<lambda>x. through get put (k_status_update c x)\<rparr>"

lemma through_client_simps:
  "k_get (through_client get put c) key = through get put (k_get c key)"
  "k_list (through_client get put c) sel ns = through get put (k_list c sel ns)"
  "k_create (through_client get put c) x = through get put (k_create c x)"
  "k_delete (through_client get put c) x = through get put (k_delete c x)"
  "k_patch (through_client get put c) x y = through get put (k_patch c x y)"
  "k_status_patch (through_client get put c) x y = through get put (k_status_patch c x y)"
  "k_status_update (through_client get put c) x = through get put (k_status_update c x)"
  by (simp_all add: through_client_def)

locale view =
  fixes get :: "'s \<Rightarrow> 'c" and put :: "'c \<Rightarrow> 's \<Rightarrow> 's"
  assumes get_put: "get (put c w) = c" and put_get: "put (get w) w = w" and put_put: "put c (put d w) = put c w"
begin

lemma through_basic:
  "through get put (return_io a) = return_io a" "through get put (fail_io e) = fail_io e" "through get put (lift_io r) = lift_io r"
  by (simp_all add: fun_eq_iff through_def put_get)

lemma through_bind: "through get put (bind_io m f) = bind_io (through get put m) (\<lambda>a. through get put (f a))"
  by (simp add: fun_eq_iff through_def bind_io_def get_put put_put split: prod.split result.split)

lemma through_wrap: "through get put (wrap_io g m) = wrap_io g (through get put m)"
  by (simp add: fun_eq_iff through_def wrap_io_def split: prod.split)

lemma through_attempt: "through get put (attempt_io m) = attempt_io (through get put m)"
  by (simp add: fun_eq_iff through_def attempt_io_def split: prod.split result.split)

lemma through_if: "through get put (if b then m else m') = (if b then through get put m else through get put m')"
  by simp

lemmas through_laws = through_basic through_bind through_wrap through_attempt through_if

lemma through_cases:
  "through get put (case so of Inl e \<Rightarrow> f e | Inr a \<Rightarrow> g a) = (case so of Inl e \<Rightarrow> through get put (f e) | Inr a \<Rightarrow> through get put (g a))"
  "through get put (case oa of None \<Rightarrow> m | Some b \<Rightarrow> h b) = (case oa of None \<Rightarrow> through get put m | Some b \<Rightarrow> through get put (h b))"
  "through get put (case p of (x, y) \<Rightarrow> k x y) = (case p of (x, y) \<Rightarrow> through get put (k x y))"
  by (simp_all split: sum.split option.split prod.split)

lemma through_list:
  "through get put (case xs of [] \<Rightarrow> m | x # ys \<Rightarrow> f x ys) = (case xs of [] \<Rightarrow> through get put m | x # ys \<Rightarrow> through get put (f x ys))"
  by (simp split: list.split)

text \<open>The build manager on the server is the build manager on the view.\<close>

lemma build_template_through:
  "getDockerfileData (through_client get put cms) b ns = through get put (getDockerfileData cms b ns)"
  "dtk_overrides (\<lambda>k. through get put (dtk k)) kv d = through get put (dtk_overrides dtk kv d)"
  by (simp_all only: getDockerfileData_def dtk_overrides_def Let_def through_laws through_cases through_client_simps)

lemma MakeBuildTemplate_through:
  "MakeBuildTemplate (through_client get put cms) sch hash (\<lambda>k. through get put (dtk k)) mld push owner =
   through get put (MakeBuildTemplate cms sch hash dtk mld push owner)"
  by (simp only: MakeBuildTemplate_def Let_def build_template_through through_laws)

lemma Build_Sync_through:
  "Build_Sync (through_client get put cms) (through_client get put builds) sch hash (\<lambda>k. through get put (dtk k)) mld push owner =
   through get put (Build_Sync cms builds sch hash dtk mld push owner)"
  by (simp only: Build_Sync_def GetBuild_def MakeBuildTemplate_through through_laws through_cases through_client_simps)

lemma CreateOrPatch_through:
  "CreateOrPatch (through_client get put c) ops ob f = through get put (CreateOrPatch c ops ob f)"
  by (simp only: CreateOrPatch_def patch_existing_def Let_def through_laws through_cases through_client_simps)

text \<open>So is the sign manager.\<close>

definition signer_through :: "'c signer_env \<Rightarrow> 's signer_env" where
  "signer_through se = \<lparr>se_configmaps = through_client get put (se_configmaps se),
     se_serviceaccounts = through_client get put (se_serviceaccounts se), se_secrets = through_client get put (se_secrets se),
     se_scheme = se_scheme se, se_hash = se_hash se, se_RELATED_IMAGES_SIGN = se_RELATED_IMAGES_SIGN se\<rparr>"

lemma signer_through_simps:
  "se_configmaps (signer_through se) = through_client get put (se_configmaps se)"
  "se_serviceaccounts (signer_through se) = through_client get put (se_serviceaccounts se)"
  "se_secrets (signer_through se) = through_client get put (se_secrets se)"
  "se_scheme (signer_through se) = se_scheme se" "se_hash (signer_through se) = se_hash se"
  "sign_pod_template (signer_through se) = sign_pod_template se"
  by (simp_all add: signer_through_def sign_pod_template_def fun_eq_iff)

lemma MakeJobTemplate_through:
  "MakeJobTemplate (signer_through se) mld labels img push owner = through get put (MakeJobTemplate se mld labels img push owner)"
  by (simp only: MakeJobTemplate_def GetClusterCA_def GetServiceCA_def getConfigMap_def getSAImageRepoSecret_def
      getHashAnnotationValue_def getSecretData_def Let_def signer_through_simps through_laws through_cases through_list through_client_simps)

lemma Sign_Sync_through:
  "Sign_Sync (signer_through se) (through_client get put jobs) mld img push owner = through get put (Sign_Sync se jobs mld img push owner)"
  by (simp only: Sign_Sync_def Let_def GetModuleJobByKernel_def getJobs_def CreateJob_def DeleteJob_def MakeJobTemplate_through
      through_laws through_cases through_client_simps)

end

section \<open>The server\<close>

text \<open>Each kind with its objects and what the cache has seen of them; one counter for generated names. \<^verbatim>\<open>sv_more\<close> is everything
  else: the Modules, the nodes, the registries, the metrics.\<close>

record 'y server =
  sv_builds :: "OcpBuild list"
  sv_builds_seen :: "OcpBuild list"
  sv_jobs :: "Job list"
  sv_jobs_seen :: "Job list"
  sv_daemonsets :: "DaemonSet list"
  sv_daemonsets_seen :: "DaemonSet list"
  sv_next :: nat
  sv_fails :: bool
  sv_inputs :: stage_inputs
  sv_more :: 'y

definition view_builds :: "'y server \<Rightarrow> (OcpBuild, stage_inputs) cluster" where
  "view_builds w = \<lparr>cl_objects = sv_builds w, cl_cache = sv_builds_seen w, cl_next = sv_next w, cl_fails = sv_fails w,
     cl_rest = sv_inputs w\<rparr>"

definition put_builds :: "(OcpBuild, stage_inputs) cluster \<Rightarrow> 'y server \<Rightarrow> 'y server" where
  "put_builds c w = w\<lparr>sv_builds := cl_objects c, sv_builds_seen := cl_cache c, sv_next := cl_next c, sv_fails := cl_fails c,
     sv_inputs := cl_rest c\<rparr>"

definition view_jobs :: "'y server \<Rightarrow> (Job, stage_inputs) cluster" where
  "view_jobs w = \<lparr>cl_objects = sv_jobs w, cl_cache = sv_jobs_seen w, cl_next = sv_next w, cl_fails = sv_fails w,
     cl_rest = sv_inputs w\<rparr>"

definition put_jobs :: "(Job, stage_inputs) cluster \<Rightarrow> 'y server \<Rightarrow> 'y server" where
  "put_jobs c w = w\<lparr>sv_jobs := cl_objects c, sv_jobs_seen := cl_cache c, sv_next := cl_next c, sv_fails := cl_fails c,
     sv_inputs := cl_rest c\<rparr>"

definition view_daemonsets :: "'y server \<Rightarrow> (DaemonSet, stage_inputs) cluster" where
  "view_daemonsets w = \<lparr>cl_objects = sv_daemonsets w, cl_cache = sv_daemonsets_seen w, cl_next = sv_next w, cl_fails = sv_fails w,
     cl_rest = sv_inputs w\<rparr>"

definition put_daemonsets :: "(DaemonSet, stage_inputs) cluster \<Rightarrow> 'y server \<Rightarrow> 'y server" where
  "put_daemonsets c w = w\<lparr>sv_daemonsets := cl_objects c, sv_daemonsets_seen := cl_cache c, sv_next := cl_next c,
     sv_fails := cl_fails c, sv_inputs := cl_rest c\<rparr>"

lemmas view_defs = view_builds_def put_builds_def view_jobs_def put_jobs_def view_daemonsets_def put_daemonsets_def

interpretation on_builds: view view_builds put_builds
  by unfold_locales (simp_all add: view_defs)

interpretation on_jobs: view view_jobs put_jobs
  by unfold_locales (simp_all add: view_defs)

interpretation on_daemonsets: view view_daemonsets put_daemonsets
  by unfold_locales (simp_all add: view_defs)

definition daemonset_store :: "((DaemonSet, 'x) cluster, DaemonSet) kclient" where
  "daemonset_store = store_client ds_meta (\<lambda>f d. d\<lparr>ds_meta := f (ds_meta d)\<rparr>)"

abbreviation server_builds :: "('y server, OcpBuild) kclient" where
  "server_builds \<equiv> through_client view_builds put_builds build_store"

abbreviation server_jobs :: "('y server, Job) kclient" where
  "server_jobs \<equiv> through_client view_jobs put_jobs job_store"

abbreviation server_daemonsets :: "('y server, DaemonSet) kclient" where
  "server_daemonsets \<equiv> through_client view_daemonsets put_daemonsets daemonset_store"

definition server_reader ::
    "(stage_inputs \<Rightarrow> NamespacedName \<Rightarrow> 'a result) \<Rightarrow> (stage_inputs \<Rightarrow> strmap \<Rightarrow> string option \<Rightarrow> 'a list result) \<Rightarrow> ('y server, 'a) kclient" where
  "server_reader get list = through_client view_builds put_builds (read_client get list)"

lemma server_reader_jobs: "server_reader get list = through_client view_jobs put_jobs (read_client get list)"
  by (simp add: server_reader_def through_client_def read_client_def through_def fun_eq_iff view_defs)

text \<open>The platform of the operator with these clients.\<close>

definition on_server :: "('y server, 'k, 'a) platform \<Rightarrow> ('y server, 'k, 'a) platform" where
  "on_server pf = pf\<lparr>pf_builds := server_builds, pf_jobs := server_jobs, pf_daemonsets := server_daemonsets,
     pf_configmaps := server_reader in_configmap in_configmaps,
     pf_serviceaccounts := server_reader in_serviceaccount (\<lambda>_ _ _. Ok []),
     pf_secrets := server_reader in_secret (\<lambda>_ _ _. Ok []), pf_mapping := \<lambda>w. in_mapping (sv_inputs w)\<rparr>"

abbreviation manager_of :: "('y server, 'k, 'a) platform \<Rightarrow> string \<Rightarrow> 'y server module_env" where
  "manager_of pf ns \<equiv> manager_module_env (on_server pf) ns"

abbreviation pf_scheme :: "('w, 'k, 'a) platform \<Rightarrow> scheme" where
  "pf_scheme pf \<equiv> manager_scheme (pf_vendored pf)"

lemma server_dtk: "wired_dtk (on_server pf) = (\<lambda>k. through view_builds put_builds (dtk_reader k))"
  by (simp add: fun_eq_iff wired_dtk_def on_server_def through_def dtk_reader_def view_defs)

lemma server_signer:
  "wired_signer (on_server pf) sch =
     on_jobs.signer_through (signer_reader sch (pf_hash_sign pf) (pf_getenv pf ''RELATED_IMAGES_SIGN''))"
  by (simp add: wired_signer_def on_server_def on_jobs.signer_through_def signer_reader_def configmap_reader_def server_reader_jobs)

lemma server_Build_Sync:
  "Build_Sync (pf_configmaps (on_server pf)) (pf_builds (on_server pf)) sch hash (wired_dtk (on_server pf)) mld push owner =
   through view_builds put_builds (stored_Build_Sync sch hash mld push owner)"
  unfolding server_dtk by (simp add: on_server_def server_reader_def configmap_reader_def[symmetric] on_builds.Build_Sync_through)

lemma server_Sign_Sync:
  "Sign_Sync (wired_signer (on_server pf) sch) (pf_jobs (on_server pf)) mld source push owner =
   through view_jobs put_jobs (stored_Sign_Sync sch (pf_hash_sign pf) (pf_getenv pf ''RELATED_IMAGES_SIGN'') mld source push owner)"
  by (simp add: server_signer) (simp add: on_server_def on_jobs.Sign_Sync_through)

end
