(* ===== verification/Stage_Moves.thy ===== *)
theory Stage_Moves
  imports Server
begin

text \<open>
  One step of a stage on the list of its objects, and what it means for the stages of the other kernels: the facts that let the
  Module reconciler's loop over the kernels be taken one kernel at a time.
\<close>

section \<open>Keys and generated names\<close>

text \<open>Objects have different keys, and the names that the server will generate are not taken.\<close>

definition keyed :: "('o \<Rightarrow> ObjectMeta) \<Rightarrow> string \<Rightarrow> string \<Rightarrow> nat \<Rightarrow> 'o list \<Rightarrow> bool" where
  "keyed meta ns g n xs \<longleftrightarrow> distinct (map (\<lambda>x. ObjectKeyFromObject (meta x)) xs) \<and>
     (\<forall>x \<in> set xs. \<forall>m \<ge> n. ObjectKeyFromObject (meta x) \<noteq> \<lparr>nn_Namespace = ns, nn_Name = g @ decimal m\<rparr>)"

lemma keyed_filter: "keyed meta ns g n xs \<Longrightarrow> keyed meta ns g n (filter p xs)"
  by (simp add: keyed_def distinct_map_filter)

lemma keyed_later: "keyed meta ns g n xs \<Longrightarrow> n \<le> n' \<Longrightarrow> keyed meta ns g n' xs"
  by (auto simp: keyed_def)

lemma keyed_named:
  assumes "keyed meta ns g n xs" "ObjectKeyFromObject (meta c) = \<lparr>nn_Namespace = ns, nn_Name = g @ decimal n\<rparr>"
  shows "keyed meta ns g (Suc n) (xs @ [c])"
  using assms by (force simp: keyed_def)

lemma keyed_map: "(\<And>x. meta (f x) = meta x) \<Longrightarrow> keyed meta ns g n (map f xs) = keyed meta ns g n xs"
  by (simp add: keyed_def comp_def)

lemma keyed_same:
  assumes "keyed meta ns g n xs" "x \<in> set xs" "y \<in> set xs" "ObjectKeyFromObject (meta x) = ObjectKeyFromObject (meta y)"
  shows "x = y"
  using assms by (auto simp: keyed_def distinct_map dest: inj_onD)

section \<open>Moves\<close>

text \<open>The distance of a stage from its completion: 0 with a current object, 1 without an object, 2 with an outdated one.\<close>

definition distance :: "('o \<Rightarrow> bool) \<Rightarrow> ('o \<Rightarrow> bool result) \<Rightarrow> 'o list \<Rightarrow> nat" where
  "distance mine changed xs = (case filter mine xs of [] \<Rightarrow> 1 | x # _ \<Rightarrow> if changed x = Ok True then 2 else 0)"

definition settleable :: "('o \<Rightarrow> bool) \<Rightarrow> ('o \<Rightarrow> bool result) \<Rightarrow> ('o \<Rightarrow> bool) \<Rightarrow> 'o list \<Rightarrow> bool" where
  "settleable mine changed dead xs = (case filter mine xs of
     [] \<Rightarrow> True | [x] \<Rightarrow> changed x = Ok True \<or> changed x = Ok False \<and> \<not> dead x | _ \<Rightarrow> False)"

text \<open>What a manager does to the objects when its stage is not complete: it sees none and creates a current one, or sees an outdated one and
  deletes it.\<close>

definition moves :: "('o \<Rightarrow> ObjectMeta) \<Rightarrow> string \<Rightarrow> string \<Rightarrow> ('o \<Rightarrow> bool) \<Rightarrow> ('o \<Rightarrow> bool result) \<Rightarrow> ('o \<Rightarrow> bool) \<Rightarrow> 'o list \<Rightarrow>
    'o list \<Rightarrow> nat \<Rightarrow> 'o list \<Rightarrow> nat \<Rightarrow> bool" where
  "moves meta ns g mine changed dead seen xs n xs' n' \<longleftrightarrow>
     filter mine seen = [] \<and> n' = Suc n \<and> (\<exists>c. mine c \<and> changed c = Ok False \<and> \<not> dead c \<and> xs' = xs @ [c] \<and>
        ObjectKeyFromObject (meta c) = \<lparr>nn_Namespace = ns, nn_Name = g @ decimal n\<rparr>) \<or>
     n' = n \<and> (\<exists>x. filter mine seen = [x] \<and> changed x = Ok True \<and>
        xs' = filter (\<lambda>y. ObjectKeyFromObject (meta y) \<noteq> ObjectKeyFromObject (meta x)) xs)"

lemma filter_swap: "filter p (filter q xs) = filter q (filter p xs)"
  by (simp add: conj_commute)

lemma moves_keyed: "moves meta ns g mine changed dead seen xs n xs' n' \<Longrightarrow> keyed meta ns g n xs \<Longrightarrow> keyed meta ns g n' xs' \<and> n \<le> n'"
  by (auto simp: moves_def keyed_named keyed_filter)

lemma moves_mine:
  assumes "moves meta ns g mine changed dead seen xs n xs' n'" "filter mine xs = filter mine seen"
  shows "distance mine changed xs' < distance mine changed seen" "settleable mine changed dead xs'"
    "filter mine xs' = [] \<or> (\<exists>c. filter mine xs' = [c] \<and> ObjectKeyFromObject (meta c) = \<lparr>nn_Namespace = ns, nn_Name = g @ decimal n\<rparr>)"
proof -
  from assms(1) consider
      c where "filter mine seen = []" "mine c" "changed c = Ok False" "\<not> dead c" "xs' = xs @ [c]"
        "ObjectKeyFromObject (meta c) = \<lparr>nn_Namespace = ns, nn_Name = g @ decimal n\<rparr>"
    | x where "filter mine seen = [x]" "changed x = Ok True"
        "xs' = filter (\<lambda>y. ObjectKeyFromObject (meta y) \<noteq> ObjectKeyFromObject (meta x)) xs"
    by (auto simp: moves_def)
  then have "distance mine changed xs' < distance mine changed seen \<and> settleable mine changed dead xs' \<and>
    (filter mine xs' = [] \<or> (\<exists>c. filter mine xs' = [c] \<and> ObjectKeyFromObject (meta c) = \<lparr>nn_Namespace = ns, nn_Name = g @ decimal n\<rparr>))"
  proof cases
    case 1
    then show ?thesis using assms(2) by (simp add: distance_def settleable_def)
  next
    case 2
    have "filter mine xs' = filter (\<lambda>y. ObjectKeyFromObject (meta y) \<noteq> ObjectKeyFromObject (meta x)) (filter mine xs)"
      unfolding 2(3) by (rule filter_swap)
    then have "filter mine xs' = []" using 2(1) assms(2) by simp
    then show ?thesis using 2 by (simp add: distance_def settleable_def)
  qed
  then show "distance mine changed xs' < distance mine changed seen" "settleable mine changed dead xs'"
    "filter mine xs' = [] \<or> (\<exists>c. filter mine xs' = [c] \<and> ObjectKeyFromObject (meta c) = \<lparr>nn_Namespace = ns, nn_Name = g @ decimal n\<rparr>)"
    by auto
qed

lemma moves_others:
  assumes "moves meta ns g mine changed dead seen xs n xs' n'" "filter mine xs = filter mine seen" "keyed meta ns g n xs"
    and "\<And>x. mine x \<Longrightarrow> \<not> other x"
  shows "filter other xs' = filter other xs"
proof -
  from assms(1) consider c where "mine c" "xs' = xs @ [c]"
    | x where "filter mine seen = [x]" "xs' = filter (\<lambda>y. ObjectKeyFromObject (meta y) \<noteq> ObjectKeyFromObject (meta x)) xs"
    by (auto simp: moves_def)
  then show ?thesis
  proof cases
    case 1
    then show ?thesis using assms(4) by simp
  next
    case 2
    then have "x \<in> set (filter mine xs)" using assms(2) by simp
    then have x: "x \<in> set xs" "mine x" by simp_all
    have "filter other xs' = filter (\<lambda>y. ObjectKeyFromObject (meta y) \<noteq> ObjectKeyFromObject (meta x)) (filter other xs)"
      unfolding 2(2) by (rule filter_swap)
    also have "\<dots> = filter other xs"
    proof (rule filter_True)
      show "\<forall>y \<in> set (filter other xs). ObjectKeyFromObject (meta y) \<noteq> ObjectKeyFromObject (meta x)"
        using keyed_same[OF assms(3) _ x(1)] assms(4)[OF x(2)] by auto
    qed
    finally show ?thesis .
  qed
qed

text \<open>Deleting objects sets a stage back by one at most, and never beyond what it can recover from.\<close>

lemma stage_filter:
  assumes "settleable mine changed dead xs"
  shows "distance mine changed (filter p xs) \<le> distance mine changed xs + 1" "settleable mine changed dead (filter p xs)"
proof -
  have f: "filter mine (filter p xs) = filter p (filter mine xs)" by (rule filter_swap)
  from assms consider "filter mine xs = []" | x where "filter mine xs = [x]" by (auto simp: settleable_def split: list.split_asm)
  then show "distance mine changed (filter p xs) \<le> distance mine changed xs + 1" "settleable mine changed dead (filter p xs)"
    using assms by (cases; simp add: distance_def settleable_def f del: filter_filter)+
qed

section \<open>The managers move their stages\<close>

lemma settleable_cases:
  assumes "settleable mine changed dead xs"
  obtains (absent) "filter mine xs = []" | (outdated) x where "filter mine xs = [x]" "changed x = Ok True"
  | (current) x where "filter mine xs = [x]" "changed x = Ok False" "\<not> dead x" "mine x"
proof -
  consider "filter mine xs = []" | x where "filter mine xs = [x]" using assms by (auto simp: settleable_def split: list.split_asm)
  then show thesis
  proof cases
    case (2 x)
    then have "x \<in> set (filter mine xs)" by simp
    then have "mine x" by simp
    with 2 show thesis using assms that(2,3) by (auto simp: settleable_def)
  qed (rule that(1))
qed

lemma named_key:
  "om_Name m = [] \<Longrightarrow> ObjectKeyFromObject (named n m) = \<lparr>nn_Namespace = om_Namespace m, nn_Name = om_GenerateName m @ decimal n\<rparr>"
  by (simp add: named_def ObjectKeyFromObject_def)

lemma build_template_key:
  assumes "MakeBuildTemplate cms sch hash dtk mld push owner w = (Ok t, w')"
  shows "ObjectKeyFromObject (named n (ob_meta t)) = \<lparr>nn_Namespace = mld_Namespace mld, nn_Name = (mld_Name mld @ ''-'') @ decimal n\<rparr>"
  using assms by (subst named_key) (auto simp: MakeBuildTemplate_def Let_def io_elims SetControllerReference_keeps empty_meta_def)

lemma job_template_key:
  assumes "MakeJobTemplate se mld labels img push owner w = (Ok t, w')"
  shows "ObjectKeyFromObject (named n (job_meta t)) = \<lparr>nn_Namespace = mld_Namespace mld, nn_Name = (mld_Name mld @ ''-sign-'') @ decimal n\<rparr>"
  using assms by (subst named_key) (auto simp: MakeJobTemplate_def Let_def io_elims SetControllerReference_keeps empty_meta_def)

lemma Build_Sync_moves:
  assumes "is_ok (build_template_for sch hash mld push owner (cl_rest c))" "\<not> cl_fails c"
    and s: "settleable (build_of mld) (build_changed sch hash mld push owner (cl_rest c)) build_dead (cl_cache c)"
    and "\<forall>b \<in> set (cl_cache c). \<not> build_dead b \<longrightarrow> ob_Phase b = ''Complete''"
  shows "stored_Build_Sync sch hash mld push owner c = (Ok StatusCompleted, c) \<or>
    (\<exists>st xs n. st \<noteq> StatusCompleted \<and> stored_Build_Sync sch hash mld push owner c = (Ok st, c\<lparr>cl_objects := xs, cl_next := n\<rparr>) \<and>
      moves ob_meta (mld_Namespace mld) (mld_Name mld @ ''-'') (build_of mld) (build_changed sch hash mld push owner (cl_rest c)) build_dead
        (cl_cache c) (cl_objects c) (cl_next c) xs n)"
  using s
proof (cases rule: settleable_cases)
  case absent
  obtain t where t: "build_template_for sch hash mld push owner (cl_rest c) = Ok t"
    using assms(1) by (cases "build_template_for sch hash mld push owner (cl_rest c)") auto
  then have m: "MakeBuildTemplate configmap_reader sch hash dtk_reader mld push owner c = (Ok t, c)" by (simp add: build_template_for)
  let ?c = "t\<lparr>ob_meta := named (cl_next c) (ob_meta t)\<rparr>"
  have "moves ob_meta (mld_Namespace mld) (mld_Name mld @ ''-'') (build_of mld) (build_changed sch hash mld push owner (cl_rest c)) build_dead
      (cl_cache c) (cl_objects c) (cl_next c) (cl_objects c @ [?c]) (Suc (cl_next c))"
    using absent t build_template_mine[OF m] build_template_current[OF m] build_template_key[OF m]
    by (simp add: moves_def build_changed_def against_def build_dead_def)
  moreover have "stored_Build_Sync sch hash mld push owner c = (Ok StatusCreated, c\<lparr>cl_objects := cl_objects c @ [?c], cl_next := Suc (cl_next c)\<rparr>)"
    using absent t assms(2) by (simp add: build_sync_simps)
  ultimately show ?thesis by (intro disjI2) (fastforce simp: StatusCreated_def StatusCompleted_def)
next
  case (outdated x)
  from settling_build.replaces[OF assms(1,2) this]
  show ?thesis using outdated by (intro disjI2 exI[of _ StatusInProgress]) (auto simp: moves_def StatusInProgress_def StatusCompleted_def)
next
  case (current x)
  then have "x \<in> set (filter (build_of mld) (cl_cache c))" by simp
  then have "ob_Phase x = ''Complete''" using assms(4) current(3) by simp
  then have "finish_build mld x = x" by (simp add: finish_build_def)
  with settling_build.completed[OF assms(1) current(4,3) _ current(2)] current(1) show ?thesis by simp
qed

lemma Sign_Sync_moves:
  assumes "is_ok (job_template_for sch hash img mld source push owner (cl_rest c))" "\<not> cl_fails c"
    and s: "settleable (sign_job_of mld owner) (job_changed sch hash img mld source push owner (cl_rest c)) job_dead (cl_cache c)"
    and "\<forall>j \<in> set (cl_cache c). \<not> job_dead j \<longrightarrow> job_Active j = 0 \<and> job_Succeeded j = 1"
  shows "stored_Sign_Sync sch hash img mld source push owner c = (Ok StatusCompleted, c) \<or>
    (\<exists>st xs n. st \<noteq> StatusCompleted \<and> stored_Sign_Sync sch hash img mld source push owner c = (Ok st, c\<lparr>cl_objects := xs, cl_next := n\<rparr>) \<and>
      moves job_meta (mld_Namespace mld) (mld_Name mld @ ''-sign-'') (sign_job_of mld owner)
        (job_changed sch hash img mld source push owner (cl_rest c)) job_dead (cl_cache c) (cl_objects c) (cl_next c) xs n)"
  using s
proof (cases rule: settleable_cases)
  case absent
  obtain t where t: "job_template_for sch hash img mld source push owner (cl_rest c) = Ok t"
    using assms(1) by (cases "job_template_for sch hash img mld source push owner (cl_rest c)") auto
  then have m: "MakeJobTemplate (signer_reader sch hash img) mld (sign_labels mld) source push owner c = (Ok t, c)"
    by (simp add: job_template_for)
  let ?c = "t\<lparr>job_meta := named (cl_next c) (job_meta t)\<rparr>"
  have "moves job_meta (mld_Namespace mld) (mld_Name mld @ ''-sign-'') (sign_job_of mld owner)
      (job_changed sch hash img mld source push owner (cl_rest c)) job_dead
      (cl_cache c) (cl_objects c) (cl_next c) (cl_objects c @ [?c]) (Suc (cl_next c))"
    using absent t job_template_mine[OF m] job_template_current[OF m] job_template_key[OF m]
    by (simp add: moves_def job_changed_def against_def job_dead_def)
  moreover have "stored_Sign_Sync sch hash img mld source push owner c =
      (Ok StatusCreated, c\<lparr>cl_objects := cl_objects c @ [?c], cl_next := Suc (cl_next c)\<rparr>)"
    using absent t assms(2) by (simp add: sign_sync_simps)
  ultimately show ?thesis by (intro disjI2) (fastforce simp: StatusCreated_def StatusCompleted_def)
next
  case (outdated x)
  from settling_sign.replaces[OF assms(1,2) this]
  show ?thesis using outdated by (intro disjI2 exI[of _ StatusInProgress]) (auto simp: moves_def StatusInProgress_def StatusCompleted_def)
next
  case (current x)
  then have "x \<in> set (filter (sign_job_of mld owner) (cl_cache c))" by simp
  then have "job_Active x = 0" "job_Succeeded x = 1" using assms(4) current(3) by simp_all
  then have "finish_job mld owner x = x" by (simp add: finish_job_def)
  with settling_sign.completed[OF assms(1) current(4,3) _ current(2)] current(1) show ?thesis by simp
qed

end
