(* ===== verification/Driver_Store.thy ===== *)
theory Driver_Store
  imports Stage_Moves
begin

text \<open>
  The DaemonSets of one Module on the API server: what makes a set of them sound, and that creating or patching the driver
  of a kernel and the device plugin keeps it so.
\<close>

section \<open>Sound sets of DaemonSets\<close>

abbreviation ds_key :: "DaemonSet \<Rightarrow> NamespacedName" where
  "ds_key d \<equiv> ObjectKeyFromObject (ds_meta d)"

definition of_module :: "Module \<Rightarrow> DaemonSet \<Rightarrow> bool" where
  "of_module md d = selected (fmupd ModuleNameLabel (mod_Name md) fmempty) (Some (mod_Namespace md)) (ds_meta d)"

definition ds_kernel :: "DaemonSet \<Rightarrow> string" where
  "ds_kernel d = get_label (ds_meta d) KernelLabel"

text \<open>The Module can be made the controller.\<close>

definition adoptable :: "scheme \<Rightarrow> Module \<Rightarrow> ObjectMeta \<Rightarrow> bool" where
  "adoptable sch md m \<longleftrightarrow> refs_wellformed m \<and> is_ok (SetControllerReference sch (module_owner md) m)"

definition plugin_key :: "Module \<Rightarrow> NamespacedName" where
  "plugin_key md = \<lparr>nn_Namespace = mod_Namespace md, nn_Name = mod_Name md @ ''-device-plugin''\<rparr>"

text \<open>All that matters of a DaemonSet for the others.\<close>

definition ds_tag :: "scheme \<Rightarrow> Module \<Rightarrow> DaemonSet \<Rightarrow> NamespacedName \<times> bool \<times> string \<times> bool" where
  "ds_tag sch md d = (ds_key d, of_module md d, ds_kernel d, adoptable sch md (ds_meta d))"

definition ds_sound :: "scheme \<Rightarrow> Module \<Rightarrow> nat \<Rightarrow> DaemonSet list \<Rightarrow> bool" where
  "ds_sound sch md n ds \<longleftrightarrow> keyed ds_meta (mod_Namespace md) (mod_Name md @ ''-'') n ds \<and>
     distinct (map ds_kernel (filter (of_module md) ds)) \<and>
     (\<forall>d \<in> set ds. om_Name (ds_meta d) \<noteq> [] \<and> (of_module md d \<longrightarrow> adoptable sch md (ds_meta d)) \<and>
        (ds_key d = plugin_key md \<longleftrightarrow> of_module md d \<and> ds_kernel d = []))"

lemma keyed_image:
  "keyed meta ns g n xs \<longleftrightarrow> distinct (map (\<lambda>x. ObjectKeyFromObject (meta x)) xs) \<and>
     (\<forall>k \<in> (\<lambda>x. ObjectKeyFromObject (meta x)) ` set xs. \<forall>m \<ge> n. k \<noteq> \<lparr>nn_Namespace = ns, nn_Name = g @ decimal m\<rparr>)"
  by (simp add: keyed_def)

lemma ds_sound_tags:
  assumes "map (ds_tag sch md) ds' = map (ds_tag sch md) ds" "ds_sound sch md n ds"
  shows "ds_sound sch md n ds'"
proof -
  have "list_all2 (\<lambda>d' d. ds_tag sch md d' = ds_tag sch md d) ds' ds"
    using assms(1) by (simp add: list_all2_conv_all_nth list_eq_iff_nth_eq)
  then have t: "map ds_key ds' = map ds_key ds" "map ds_kernel (filter (of_module md) ds') = map ds_kernel (filter (of_module md) ds)"
    "\<forall>d' \<in> set ds'. \<exists>d \<in> set ds. ds_tag sch md d' = ds_tag sch md d"
    by (induction rule: list_all2_induct) (auto simp: ds_tag_def)
  have keys: "ds_key ` set ds' = ds_key ` set ds" using t(1) by (metis list.set_map)
  have "keyed ds_meta (mod_Namespace md) (mod_Name md @ ''-'') n ds'"
    using assms(2)[unfolded ds_sound_def, THEN conjunct1] unfolding keyed_image t(1) keys .
  moreover have "om_Name (ds_meta d') \<noteq> [] \<and> (of_module md d' \<longrightarrow> adoptable sch md (ds_meta d')) \<and>
      (ds_key d' = plugin_key md \<longleftrightarrow> of_module md d' \<and> ds_kernel d' = [])" if in': "d' \<in> set ds'" for d'
  proof -
    obtain d where d: "d \<in> set ds" "ds_tag sch md d' = ds_tag sch md d" using bspec[OF t(3) in'] by blast
    then have e: "ds_key d' = ds_key d" "of_module md d' = of_module md d" "ds_kernel d' = ds_kernel d"
      "adoptable sch md (ds_meta d') = adoptable sch md (ds_meta d)" by (simp_all add: ds_tag_def)
    have "om_Name (ds_meta d') = om_Name (ds_meta d)" using e(1) by (simp add: ObjectKeyFromObject_def)
    with e d(1) assms(2) show ?thesis by (simp add: ds_sound_def)
  qed
  ultimately show ?thesis using assms(2) t(2) by (simp add: ds_sound_def)
qed

lemma ds_sound_later: "ds_sound sch md n ds \<Longrightarrow> n \<le> n' \<Longrightarrow> ds_sound sch md n' ds"
  by (auto simp: ds_sound_def intro: keyed_later)

lemma ds_sound_filter: "ds_sound sch md n ds \<Longrightarrow> ds_sound sch md n (filter p ds)"
  by (auto simp: ds_sound_def keyed_filter filter_swap[of _ p] distinct_map_filter simp del: filter_filter)

lemma ds_sound_key: "ds_sound sch md n ds \<Longrightarrow> x \<in> set ds \<Longrightarrow> y \<in> set ds \<Longrightarrow> ds_key x = ds_key y \<Longrightarrow> x = y"
  by (auto simp: ds_sound_def intro: keyed_same)

lemma ds_sound_kernel:
  assumes "ds_sound sch md n ds" "x \<in> set ds" "y \<in> set ds" "of_module md x" "of_module md y" "ds_kernel x = ds_kernel y"
  shows "x = y"
  using assms by (auto simp: ds_sound_def distinct_map dest: inj_onD)

section \<open>Adopting\<close>

lemma adoptable_labels:
  assumes "adoptable sch md m" "sch ''Module'' = Ok gvk" "parse_group (gvk_APIVersion gvk) \<noteq> None"
  shows "\<exists>m'. SetControllerReference sch (module_owner md) (m\<lparr>om_Labels := l\<rparr>) = Ok m' \<and> adoptable sch md m' \<and>
    om_Labels m' = l \<and> ObjectKeyFromObject m' = ObjectKeyFromObject m \<and> om_GenerateName m' = om_GenerateName m"
proof -
  let ?ref = "controller_ref gvk (mod_meta md)"
  obtain m1 where m1: "SetControllerReference sch (module_owner md) m = Ok m1" using assms(1) by (auto simp: adoptable_def is_ok_iff)
  have c: "GetControllerOf (m\<lparr>om_Labels := l\<rparr>) = GetControllerOf m" by (simp add: GetControllerOf_def)
  from m1 have ok: "SetControllerReference sch (module_owner md) (m\<lparr>om_Labels := l\<rparr>) = Ok (upsertOwnerRef ?ref (m\<lparr>om_Labels := l\<rparr>))"
    using assms(2) by (auto simp: SetControllerReference_def validateOwner_def module_owner_def Let_def c split: if_split_asm option.split_asm)
  have "set (upsert_ref r rs) \<subseteq> insert r (set rs)" for r rs by (induction rs) auto
  then have wf: "refs_wellformed (upsertOwnerRef ?ref (m\<lparr>om_Labels := l\<rparr>))"
    using assms(1,3) by (fastforce simp: adoptable_def refs_wellformed_def upsertOwnerRef_def controller_ref_def)
  with SetControllerReference_again[OF ok wf] ok show ?thesis
    by (intro exI[of _ "upsertOwnerRef ?ref (m\<lparr>om_Labels := l\<rparr>)"]) (simp add: adoptable_def ObjectKeyFromObject_def)
qed

section \<open>Setting up DaemonSets\<close>

definition module_kind :: "scheme \<Rightarrow> bool" where
  "module_kind sch \<longleftrightarrow> (\<exists>gvk. sch ''Module'' = Ok gvk \<and> parse_group (gvk_APIVersion gvk) \<noteq> None)"

definition mld_for :: "Module \<Rightarrow> ModuleLoaderData \<Rightarrow> bool" where
  "mld_for md mld \<longleftrightarrow> mld_Name mld = mod_Name md \<and> mld_Namespace mld = mod_Namespace md \<and> mld_Owner mld = module_owner md"

lemma manager_scheme_kind: "module_kind (manager_scheme v)"
  by (simp add: module_kind_def manager_scheme_kinds parse_group_def)

lemma adoptable_new: "module_kind sch \<Longrightarrow> adoptable sch md (empty_meta\<lparr>om_Name := a, om_Namespace := mod_Namespace md, om_GenerateName := g\<rparr>)"
  by (auto simp: module_kind_def adoptable_def refs_wellformed_def empty_meta_def SetControllerReference_def validateOwner_def
      module_owner_def GetControllerOf_def)

lemma of_module_iff:
  "of_module md d \<longleftrightarrow> fmlookup (nil_map (om_Labels (ds_meta d))) ModuleNameLabel = Some (mod_Name md) \<and>
     om_Namespace (ds_meta d) = mod_Namespace md"
  by (auto simp: of_module_def selected_def fmsubset.rep_eq map_le_def)

lemma ds_kernel_lookup: "ds_kernel d = (case fmlookup (nil_map (om_Labels (ds_meta d))) KernelLabel of Some v \<Rightarrow> v | None \<Rightarrow> [])"
  by (simp add: ds_kernel_def get_label_def sm_get_def)

lemma SetDriver_adopts:
  assumes "module_kind sch" "mld_for md mld" "mld_ContainerImage mld \<noteq> []" "mld_KernelVersion mld \<noteq> []"
    and "adoptable sch md (ds_meta d)" "om_Namespace (ds_meta d) = mod_Namespace md"
  shows "\<exists>d'. SetDriverContainerAsDesired KernelLabel sch (Some d) mld sa = Ok d' \<and> ds_key d' = ds_key d \<and>
    om_GenerateName (ds_meta d') = om_GenerateName (ds_meta d) \<and> of_module md d' \<and> ds_kernel d' = mld_KernelVersion mld \<and>
    adoptable sch md (ds_meta d') \<and> ds_Template d' = driver_template KernelLabel mld sa \<and> get_status ds_ops d' = get_status ds_ops d"
proof -
  let ?l = "Some (OverrideLabels (om_Labels (ds_meta d)) (driver_labels KernelLabel mld))"
  from assms(1) adoptable_labels[OF assms(5), of _ ?l] obtain m where
      m: "SetControllerReference sch (module_owner md) ((ds_meta d)\<lparr>om_Labels := ?l\<rparr>) = Ok m" "adoptable sch md m" "om_Labels m = ?l"
        "ObjectKeyFromObject m = ObjectKeyFromObject (ds_meta d)" "om_GenerateName m = om_GenerateName (ds_meta d)"
    unfolding module_kind_def by blast
  let ?d = "d\<lparr>ds_meta := m, ds_Selector := driver_labels KernelLabel mld, ds_Template := driver_template KernelLabel mld sa\<rparr>"
  have "om_Namespace m = mod_Namespace md" using m(4) assms(6) by (simp add: ObjectKeyFromObject_def)
  moreover have "KernelLabel \<noteq> ModuleNameLabel" by (simp add: KernelLabel_def ModuleNameLabel_def)
  ultimately have "of_module md ?d" "ds_kernel ?d = mld_KernelVersion mld"
    using assms(2) m(3) by (simp_all add: of_module_iff ds_kernel_lookup OverrideLabels_lookup driver_labels_def mld_for_def)
  moreover have "SetDriverContainerAsDesired KernelLabel sch (Some d) mld sa = Ok ?d"
    using m(1) assms(2-4) by (simp add: SetDriverContainerAsDesired_def mld_for_def Let_def)
  ultimately show ?thesis using m by (intro exI[of _ ?d]) simp
qed

lemma SetDevicePlugin_adopts:
  assumes "module_kind sch" "ms_DevicePlugin (mod_Spec md) = Some dp"
    and "adoptable sch md (ds_meta d)" "om_Namespace (ds_meta d) = mod_Namespace md"
  shows "\<exists>d'. SetDevicePluginAsDesired sch (Some d) md sa = Ok d' \<and> ds_key d' = ds_key d \<and>
    om_GenerateName (ds_meta d') = om_GenerateName (ds_meta d) \<and> of_module md d' \<and> ds_kernel d' = ds_kernel d \<and>
    adoptable sch md (ds_meta d') \<and> get_status ds_ops d' = get_status ds_ops d"
proof -
  let ?l = "Some (OverrideLabels (om_Labels (ds_meta d)) (fmupd ModuleNameLabel (mod_Name md) fmempty))"
  from assms(1) adoptable_labels[OF assms(3), of _ ?l] obtain m where
      m: "SetControllerReference sch (module_owner md) ((ds_meta d)\<lparr>om_Labels := ?l\<rparr>) = Ok m" "adoptable sch md m" "om_Labels m = ?l"
        "ObjectKeyFromObject m = ObjectKeyFromObject (ds_meta d)" "om_GenerateName m = om_GenerateName (ds_meta d)"
    unfolding module_kind_def by blast
  let ?d = "d\<lparr>ds_meta := m, ds_Selector := fmupd ModuleNameLabel (mod_Name md) fmempty, ds_Template := device_plugin_template md dp sa\<rparr>"
  have "om_Namespace m = mod_Namespace md" using m(4) assms(4) by (simp add: ObjectKeyFromObject_def)
  moreover have "KernelLabel \<noteq> ModuleNameLabel" by (simp add: KernelLabel_def ModuleNameLabel_def)
  ultimately have "of_module md ?d" "ds_kernel ?d = ds_kernel d"
    using m(3) by (simp_all add: of_module_iff ds_kernel_lookup OverrideLabels_lookup)
  moreover have "SetDevicePluginAsDesired sch (Some d) md sa = Ok ?d"
    using m(1) assms(2) by (simp add: SetDevicePluginAsDesired_def Let_def)
  ultimately show ?thesis using m by (intro exI[of _ ?d]) simp
qed

section \<open>CreateOrPatch on the store\<close>

definition replaced :: "DaemonSet \<Rightarrow> DaemonSet list \<Rightarrow> DaemonSet list" where
  "replaced d' ds = map (\<lambda>y. if ds_key y = ds_key d' then d' else y) ds"

lemma store_patches:
  assumes "find (\<lambda>x. ds_key x = ds_key ob) (cl_cache c) = Some d" "f d = Ok d'" "ds_key d' = ds_key d"
    and "get_status ds_ops d' = get_status ds_ops d" "\<not> cl_fails c" "d \<in> set (cl_objects c)" "\<And>y. y \<in> set (cl_objects c) \<Longrightarrow> ds_key y = ds_key d \<Longrightarrow> y = d"
  shows "\<exists>r. CreateOrPatch daemonset_store ds_ops ob f c = (Ok (r, d'), c\<lparr>cl_objects := replaced d' (cl_objects c)\<rparr>)"
proof -
  have key: "ds_key ob = ds_key d" using find_SomeD[OF assms(1)] by simp
  have g: "k_get daemonset_store (ds_key ob) c = (Ok d, c)" using assms(1) by (simp add: daemonset_store_def store_client_def Let_def)
  have e: "CreateOrPatch daemonset_store ds_ops ob f c = patch_existing daemonset_store ds_ops d d' c"
    using g assms(2,3) key by (intro CreateOrPatch_existing) simp_all
  show ?thesis
  proof (cases "d' = d")
    case True
    then have "replaced d' (cl_objects c) = cl_objects c" using assms(7) unfolding replaced_def by (intro map_idI) auto
    then show ?thesis using True by (simp add: e patch_existing_unchanged)
  next
    case False
    have "set_status ds_ops (get_status ds_ops d) d' \<noteq> d" using False assms(4) by (simp add: ds_ops_def) (metis DaemonSet.surjective DaemonSet.update_convs(4,5))
    moreover have "k_patch daemonset_store d' d c = (Ok d', c\<lparr>cl_objects := replaced d' (cl_objects c)\<rparr>)"
      using assms(3,5,6) by (auto simp: daemonset_store_def store_client_def replaced_def Let_def)
    ultimately show ?thesis using assms(4) by (simp add: e patch_existing_def Let_def bind_io_def)
  qed
qed

lemma store_creates:
  assumes "find (\<lambda>x. ds_key x = ds_key ob) (cl_cache c) = None" "f ob = Ok d'" "ds_key d' = ds_key ob" "\<not> cl_fails c"
  shows "\<exists>r x. CreateOrPatch daemonset_store ds_ops ob f c =
    (Ok (r, x), c\<lparr>cl_objects := cl_objects c @ [d'\<lparr>ds_meta := named (cl_next c) (ds_meta d')\<rparr>], cl_next := Suc (cl_next c)\<rparr>)"
  using assms by (simp add: CreateOrPatch_def mutate_def daemonset_store_def store_client_def Let_def bind_io_def attempt_io_def)

section \<open>Soundness is kept\<close>

lemma replaced_sound:
  assumes "ds_sound sch md n ds" "d \<in> set ds" "ds_tag sch md d' = ds_tag sch md d"
  shows "ds_sound sch md n (replaced d' ds)"
proof (rule ds_sound_tags[OF _ assms(1)])
  have "ds_key d' = ds_key d" using assms(3) by (simp add: ds_tag_def)
  then show "map (ds_tag sch md) (replaced d' ds) = map (ds_tag sch md) ds"
    using assms(3) ds_sound_key[OF assms(1) _ assms(2)] by (auto simp: replaced_def)
qed

lemma decimal_not_letter: "decimal n \<noteq> CHR ''d'' # s"
proof -
  have "\<forall>c \<in> set (decimal n). of_char c < (58 :: nat)"
  proof (induction n rule: decimal.induct)
    case (1 n)
    then show ?case by (subst decimal.simps) (auto simp: of_char_digit_char)
  qed
  then show ?thesis by (cases "decimal n") auto
qed

lemma generated_not_plugin: "plugin_key md \<noteq> \<lparr>nn_Namespace = mod_Namespace md, nn_Name = (mod_Name md @ ''-'') @ decimal m\<rparr>"
  using decimal_not_letter[of m "''evice-plugin''"] by (auto simp: plugin_key_def dest: sym)

lemma new_driver_sound:
  assumes "ds_sound sch md n ds" "ds_key c = \<lparr>nn_Namespace = mod_Namespace md, nn_Name = (mod_Name md @ ''-'') @ decimal n\<rparr>"
    and "of_module md c" "adoptable sch md (ds_meta c)" "ds_kernel c \<noteq> []" "\<forall>d \<in> set ds. of_module md d \<longrightarrow> ds_kernel d \<noteq> ds_kernel c"
  shows "ds_sound sch md (Suc n) (ds @ [c])"
proof -
  have "om_Name (ds_meta c) \<noteq> []" using assms(2) by (simp add: ObjectKeyFromObject_def)
  moreover have "ds_key c \<noteq> plugin_key md" using assms(2) generated_not_plugin[of md n] by simp
  moreover have "keyed ds_meta (mod_Namespace md) (mod_Name md @ ''-'') (Suc n) (ds @ [c])"
    using assms(1,2) by (intro keyed_named) (simp_all add: ds_sound_def)
  ultimately show ?thesis using assms by (auto simp: ds_sound_def)
qed

lemma new_plugin_sound:
  assumes "ds_sound sch md n ds" "ds_key c = plugin_key md" "of_module md c" "adoptable sch md (ds_meta c)" "ds_kernel c = []"
    and "\<forall>d \<in> set ds. ds_key d \<noteq> plugin_key md"
  shows "ds_sound sch md n (ds @ [c])"
proof -
  have "keyed ds_meta (mod_Namespace md) (mod_Name md @ ''-'') n (ds @ [c])"
    using assms(1,2,6) generated_not_plugin[of md] by (auto simp: ds_sound_def keyed_def)
  moreover have "om_Name (ds_meta c) \<noteq> []" using assms(2) by (simp add: ObjectKeyFromObject_def plugin_key_def)
  moreover have "\<forall>d \<in> set ds. of_module md d \<longrightarrow> ds_kernel d \<noteq> []" using assms(1,6) by (auto simp: ds_sound_def)
  ultimately show ?thesis using assms(1-5) by (auto simp: ds_sound_def)
qed

end
