(* ===== verification/Kernel_Steps.thy ===== *)
theory Kernel_Steps
  imports Driver_Store
begin

text \<open>
  What the Module reconciler does for one kernel on the API server: a build or a signing that is not complete moves on by a
  step, and when both are complete the kernel has its driver.
\<close>

section \<open>Calls that leave the objects alone\<close>

definition rest_only :: "'y server \<Rightarrow> 'y server \<Rightarrow> bool" where
  "rest_only w w' \<longleftrightarrow> w' = w\<lparr>sv_more := sv_more w'\<rparr>"

definition answers :: "('y server, 'a) io \<Rightarrow> bool" where
  "answers m \<longleftrightarrow> (\<forall>w. \<exists>a w'. m w = (Ok a, w') \<and> rest_only w w')"

lemma rest_only_refl [simp]: "rest_only w w"
  by (simp add: rest_only_def)

lemma rest_only_trans: "rest_only w w1 \<Longrightarrow> rest_only w1 w2 \<Longrightarrow> rest_only w w2"
  unfolding rest_only_def by (metis server.surjective server.update_convs(10))

lemma rest_only_fields:
  assumes "rest_only w w'"
  shows "sv_builds w' = sv_builds w" "sv_builds_seen w' = sv_builds_seen w" "sv_jobs w' = sv_jobs w" "sv_jobs_seen w' = sv_jobs_seen w"
    "sv_daemonsets w' = sv_daemonsets w" "sv_daemonsets_seen w' = sv_daemonsets_seen w" "sv_next w' = sv_next w"
    "sv_fails w' = sv_fails w" "sv_inputs w' = sv_inputs w"
  by (subst assms[unfolded rest_only_def], simp)+

section \<open>The stages of one kernel\<close>

abbreviation b_changed :: "('w, 'k, 'a) platform \<Rightarrow> ModuleLoaderData \<Rightarrow> stage_inputs \<Rightarrow> OcpBuild \<Rightarrow> bool result" where
  "b_changed pf mld \<equiv> build_changed (pf_scheme pf) (pf_hash_build pf) mld True (mld_Owner mld)"

abbreviation s_changed :: "('w, 'k, 'a) platform \<Rightarrow> ModuleLoaderData \<Rightarrow> stage_inputs \<Rightarrow> Job \<Rightarrow> bool result" where
  "s_changed pf mld \<equiv> job_changed (pf_scheme pf) (pf_hash_sign pf) (pf_getenv pf ''RELATED_IMAGES_SIGN'') mld (sign_source mld) True (mld_Owner mld)"

abbreviation signing_jobs :: "ModuleLoaderData \<Rightarrow> Job \<Rightarrow> bool" where
  "signing_jobs mld \<equiv> sign_job_of mld (mld_Owner mld)"

text \<open>The inputs of a kernel's stages give a template, and the registries answer.\<close>

definition kernel_feasible :: "('y server, 'k, 'a) platform \<Rightarrow> stage_inputs \<Rightarrow> ModuleLoaderData \<Rightarrow> bool" where
  "kernel_feasible pf x mld \<longleftrightarrow>
     (ShouldBeBuilt mld \<longrightarrow> is_ok (build_template_for (pf_scheme pf) (pf_hash_build pf) mld True (mld_Owner mld) x) \<and>
        answers (module_ImageExists (wired_registry (on_server pf)) mld (build_target mld))) \<and>
     (ShouldBeSigned mld \<longrightarrow> is_ok (job_template_for (pf_scheme pf) (pf_hash_sign pf) (pf_getenv pf ''RELATED_IMAGES_SIGN'') mld
          (sign_source mld) True (mld_Owner mld) x) \<and>
        answers (module_ImageExists (wired_registry (on_server pf)) mld (mld_ContainerImage mld)))"

text \<open>What is there of Builds and jobs for the kernel can be gone on from.\<close>

definition kernel_sound :: "('y server, 'k, 'a) platform \<Rightarrow> ModuleLoaderData \<Rightarrow> stage_inputs \<Rightarrow> OcpBuild list \<Rightarrow> Job list \<Rightarrow> bool" where
  "kernel_sound pf mld x bs js \<longleftrightarrow>
     (ShouldBeBuilt mld \<longrightarrow> settleable (build_of mld) (b_changed pf mld x) build_dead bs) \<and>
     (ShouldBeSigned mld \<longrightarrow> settleable (signing_jobs mld) (s_changed pf mld x) job_dead js)"

definition done_builds :: "OcpBuild list \<Rightarrow> bool" where
  "done_builds bs \<longleftrightarrow> (\<forall>b \<in> set bs. \<not> build_dead b \<longrightarrow> ob_Phase b = ''Complete'')"

definition done_jobs :: "Job list \<Rightarrow> bool" where
  "done_jobs js \<longleftrightarrow> (\<forall>j \<in> set js. \<not> job_dead j \<longrightarrow> job_Active j = 0 \<and> job_Succeeded j = 1)"

lemma on_server_simps [simp]:
  "pf_vendored (on_server pf) = pf_vendored pf" "pf_hash_build (on_server pf) = pf_hash_build pf"
  "pf_regexp (on_server pf) = pf_regexp pf" "pf_template (on_server pf) = pf_template pf"
  "pf_modules (on_server pf) = pf_modules pf" "pf_nodes (on_server pf) = pf_nodes pf"
  "pf_daemonsets (on_server pf) = server_daemonsets" "pf_jobs (on_server pf) = server_jobs"
  by (simp_all add: on_server_def)

lemma rest_only_update:
  assumes "rest_only v v1"
  shows "rest_only (v\<lparr>sv_builds := bs, sv_next := n\<rparr>) (v1\<lparr>sv_builds := bs, sv_next := n\<rparr>)"
    "rest_only (v\<lparr>sv_jobs := js, sv_next := n\<rparr>) (v1\<lparr>sv_jobs := js, sv_next := n\<rparr>)"
  using assms unfolding rest_only_def by (cases v; cases v1; simp)+

lemma server_handleBuild:
  assumes "kernel_feasible pf (sv_inputs v) mld" "\<not> sv_fails v" "kernel_sound pf mld (sv_inputs v) (sv_builds_seen v) js" "done_builds (sv_builds_seen v)"
  shows "\<exists>v'. handleBuild (manager_of pf ns) mld v = (Ok True, v') \<and> rest_only v v' \<or>
    handleBuild (manager_of pf ns) mld v = (Ok False, v') \<and> ShouldBeBuilt mld \<and>
    (\<exists>xs n. rest_only (v\<lparr>sv_builds := xs, sv_next := n\<rparr>) v' \<and>
      moves ob_meta (mld_Namespace mld) (mld_Name mld @ ''-'') (build_of mld) (b_changed pf mld (sv_inputs v)) build_dead
        (sv_builds_seen v) (sv_builds v) (sv_next v) xs n)"
proof (cases "ShouldBeBuilt mld")
  case False
  then show ?thesis by (simp add: handleBuild_def manager_module_env_simps operator_build_def Build_ShouldSync_def bind_io_def wrap_io_def)
next
  case True
  let ?sync = "stored_Build_Sync (pf_scheme pf) (pf_hash_build pf) mld True (mld_Owner mld)"
  have "answers (module_ImageExists (wired_registry (on_server pf)) mld (build_target mld))" using assms(1) True by (simp add: kernel_feasible_def)
  then obtain ex v1 where q: "module_ImageExists (wired_registry (on_server pf)) mld (build_target mld) v = (Ok ex, v1)" "rest_only v v1"
    unfolding answers_def by blast
  note f = rest_only_fields[OF q(2)]
  have h: "handleBuild (manager_of pf ns) mld v = (if ex then (Ok True, v1) else (Ok (st = StatusCompleted), put_builds c v1))"
    if "?sync (view_builds v1) = (Ok st, c)" for st c
    using that True q(1)
    by (simp add: handleBuild_def manager_module_env_simps operator_build_def Build_ShouldSync_def build_target_def[symmetric]
        server_Build_Sync Let_def through_def bind_io_def wrap_io_def)
  have "is_ok (build_template_for (pf_scheme pf) (pf_hash_build pf) mld True (mld_Owner mld) (cl_rest (view_builds v1)))"
    "settleable (build_of mld) (b_changed pf mld (cl_rest (view_builds v1))) build_dead (cl_cache (view_builds v1))"
    "\<not> cl_fails (view_builds v1)" "\<forall>b \<in> set (cl_cache (view_builds v1)). \<not> build_dead b \<longrightarrow> ob_Phase b = ''Complete''"
    using assms True by (simp_all add: view_builds_def f kernel_feasible_def kernel_sound_def done_builds_def)
  from Build_Sync_moves[OF this(1,3,2,4)] show ?thesis
  proof (elim disjE exE conjE)
    assume "?sync (view_builds v1) = (Ok StatusCompleted, view_builds v1)"
    from h[OF this] q(2) show ?thesis by (auto simp: on_builds.put_get)
  next
    fix st xs n
    assume s: "st \<noteq> StatusCompleted" "?sync (view_builds v1) = (Ok st, (view_builds v1)\<lparr>cl_objects := xs, cl_next := n\<rparr>)"
      and m: "moves ob_meta (mld_Namespace mld) (mld_Name mld @ ''-'') (build_of mld) (b_changed pf mld (cl_rest (view_builds v1))) build_dead
        (cl_cache (view_builds v1)) (cl_objects (view_builds v1)) (cl_next (view_builds v1)) xs n"
    have "put_builds ((view_builds v1)\<lparr>cl_objects := xs, cl_next := n\<rparr>) v1 = v1\<lparr>sv_builds := xs, sv_next := n\<rparr>"
      by (simp add: view_defs)
    with h[OF s(2)] s(1) m q(2) True rest_only_update(1)[OF q(2)] show ?thesis by (cases ex) (auto simp: view_builds_def f)
  qed
qed

lemma server_handleSigning:
  assumes "kernel_feasible pf (sv_inputs v) mld" "\<not> sv_fails v" "kernel_sound pf mld (sv_inputs v) bs (sv_jobs_seen v)" "done_jobs (sv_jobs_seen v)"
  shows "\<exists>v'. handleSigning (manager_of pf ns) mld v = (Ok True, v') \<and> rest_only v v' \<or>
    handleSigning (manager_of pf ns) mld v = (Ok False, v') \<and> ShouldBeSigned mld \<and>
    (\<exists>xs n. rest_only (v\<lparr>sv_jobs := xs, sv_next := n\<rparr>) v' \<and>
      moves job_meta (mld_Namespace mld) (mld_Name mld @ ''-sign-'') (signing_jobs mld) (s_changed pf mld (sv_inputs v)) job_dead
        (sv_jobs_seen v) (sv_jobs v) (sv_next v) xs n)"
proof (cases "ShouldBeSigned mld")
  case False
  then show ?thesis by (simp add: handleSigning_def manager_module_env_simps operator_sign_def Sign_ShouldSync_def bind_io_def wrap_io_def)
next
  case True
  let ?sync = "stored_Sign_Sync (pf_scheme pf) (pf_hash_sign pf) (pf_getenv pf ''RELATED_IMAGES_SIGN'') mld (sign_source mld) True (mld_Owner mld)"
  have "answers (module_ImageExists (wired_registry (on_server pf)) mld (mld_ContainerImage mld))" using assms(1) True by (simp add: kernel_feasible_def)
  then obtain ex v1 where q: "module_ImageExists (wired_registry (on_server pf)) mld (mld_ContainerImage mld) v = (Ok ex, v1)" "rest_only v v1"
    unfolding answers_def by blast
  note f = rest_only_fields[OF q(2)]
  have h: "handleSigning (manager_of pf ns) mld v = (if ex then (Ok True, v1) else (Ok (st = StatusCompleted), put_jobs c v1))"
    if "?sync (view_jobs v1) = (Ok st, c)" for st c
    using that True q(1)
    by (simp add: handleSigning_def manager_module_env_simps operator_sign_def Sign_ShouldSync_def sign_source_def[symmetric]
        server_Sign_Sync[unfolded on_server_simps] Let_def through_def bind_io_def wrap_io_def)
  have "is_ok (job_template_for (pf_scheme pf) (pf_hash_sign pf) (pf_getenv pf ''RELATED_IMAGES_SIGN'') mld (sign_source mld) True (mld_Owner mld) (cl_rest (view_jobs v1)))"
    "settleable (signing_jobs mld) (s_changed pf mld (cl_rest (view_jobs v1))) job_dead (cl_cache (view_jobs v1))"
    "\<not> cl_fails (view_jobs v1)" "\<forall>j \<in> set (cl_cache (view_jobs v1)). \<not> job_dead j \<longrightarrow> job_Active j = 0 \<and> job_Succeeded j = 1"
    using assms True by (simp_all add: view_jobs_def f kernel_feasible_def kernel_sound_def done_jobs_def)
  from Sign_Sync_moves[OF this(1,3,2,4)] show ?thesis
  proof (elim disjE exE conjE)
    assume "?sync (view_jobs v1) = (Ok StatusCompleted, view_jobs v1)"
    from h[OF this] q(2) show ?thesis by (auto simp: on_jobs.put_get)
  next
    fix st xs n
    assume s: "st \<noteq> StatusCompleted" "?sync (view_jobs v1) = (Ok st, (view_jobs v1)\<lparr>cl_objects := xs, cl_next := n\<rparr>)"
      and m: "moves job_meta (mld_Namespace mld) (mld_Name mld @ ''-sign-'') (signing_jobs mld) (s_changed pf mld (cl_rest (view_jobs v1))) job_dead
        (cl_cache (view_jobs v1)) (cl_objects (view_jobs v1)) (cl_next (view_jobs v1)) xs n"
    have "put_jobs ((view_jobs v1)\<lparr>cl_objects := xs, cl_next := n\<rparr>) v1 = v1\<lparr>sv_jobs := xs, sv_next := n\<rparr>"
      by (simp add: view_defs)
    with h[OF s(2)] s(1) m q(2) True rest_only_update(2)[OF q(2)] show ?thesis by (cases ex) (auto simp: view_jobs_def f)
  qed
qed

section \<open>The driver of one kernel\<close>

abbreviation default_account :: "string \<Rightarrow> Module \<Rightarrow> bool" where
  "default_account ns md \<equiv> mod_Namespace md = ns"

text \<open>A DaemonSet that is the driver of the kernel.\<close>

definition driver_of :: "string \<Rightarrow> Module \<Rightarrow> ModuleLoaderData \<Rightarrow> DaemonSet \<Rightarrow> bool" where
  "driver_of ns md mld d \<longleftrightarrow> of_module md d \<and> ds_kernel d = mld_KernelVersion mld \<and>
     ds_Template d = driver_template KernelLabel mld (default_account ns md)"

definition has_driver :: "string \<Rightarrow> Module \<Rightarrow> ModuleLoaderData \<Rightarrow> DaemonSet list \<Rightarrow> bool" where
  "has_driver ns md mld ds \<longleftrightarrow> (\<exists>d \<in> set ds. driver_of ns md mld d)"

text \<open>A change of the DaemonSets that concerns one kernel only.\<close>

definition ds_change :: "Module \<Rightarrow> string \<Rightarrow> DaemonSet list \<Rightarrow> DaemonSet list \<Rightarrow> bool" where
  "ds_change md k ds ds' \<longleftrightarrow> (\<forall>d \<in> set ds. of_module md d \<and> ds_kernel d \<noteq> k \<longrightarrow> d \<in> set ds') \<and>
     (\<forall>d \<in> set ds'. of_module md d \<longrightarrow> ds_kernel d = k \<or> d \<in> set ds)"

lemma server_CreateOrPatch:
  "CreateOrPatch daemonset_store ds_ops ob f (view_daemonsets v) = (r, (view_daemonsets v)\<lparr>cl_objects := xs\<rparr>) \<Longrightarrow>
     CreateOrPatch server_daemonsets ds_ops ob f v = (r, v\<lparr>sv_daemonsets := xs\<rparr>)"
  "CreateOrPatch daemonset_store ds_ops ob f (view_daemonsets v) = (r, (view_daemonsets v)\<lparr>cl_objects := xs, cl_next := n\<rparr>) \<Longrightarrow>
     CreateOrPatch server_daemonsets ds_ops ob f v = (r, v\<lparr>sv_daemonsets := xs, sv_next := n\<rparr>)"
  unfolding on_daemonsets.CreateOrPatch_through through_def by (simp_all add: view_defs)

lemma replaced_change:
  assumes "ds_sound sch md n ds" "d \<in> set ds" "ds_tag sch md d' = ds_tag sch md d" "ds_kernel d = k"
  shows "ds_change md k ds (replaced d' ds)" "d' \<in> set (replaced d' ds)"
proof -
  have key: "ds_key d' = ds_key d" and tag: "ds_kernel d' = k" using assms(3,4) by (simp_all add: ds_tag_def)
  show "ds_change md k ds (replaced d' ds)"
    unfolding ds_change_def replaced_def using ds_sound_key[OF assms(1) _ assms(2)] key tag assms(4) by auto
  show "d' \<in> set (replaced d' ds)" unfolding replaced_def using assms(2) key by force
qed

lemma find_unique: "x \<in> set xs \<Longrightarrow> P x \<Longrightarrow> (\<And>y. y \<in> set xs \<Longrightarrow> P y \<Longrightarrow> y = x) \<Longrightarrow> find P xs = Some x"
proof (induction xs)
  case (Cons y ys)
  show ?case
  proof (cases "P y")
    case True
    with Cons.prems(3)[of y] show ?thesis by simp
  next
    case False
    with Cons.prems(1,2) have "x \<in> set ys" by auto
    from Cons.IH[OF this Cons.prems(2)] Cons.prems(3) have "find P ys = Some x" by (meson list.set_intros(2))
    with False show ?thesis by simp
  qed
qed simp

lemma named_ds:
  "of_module md (d\<lparr>ds_meta := named n (ds_meta d)\<rparr>) = of_module md d" "ds_kernel (d\<lparr>ds_meta := named n (ds_meta d)\<rparr>) = ds_kernel d"
  "adoptable sch md (named n m) = adoptable sch md m"
proof -
  have "GetControllerOf (named n m) = GetControllerOf m" "om_OwnerReferences (named n m) = om_OwnerReferences m"
    by (simp_all add: named_def GetControllerOf_def)
  then show "adoptable sch md (named n m) = adoptable sch md m"
    by (cases "sch ''Module''"; cases "GetControllerOf m"; simp add: adoptable_def refs_wellformed_def SetControllerReference_def validateOwner_def module_owner_def Let_def)
qed (simp_all add: of_module_iff ds_kernel_lookup)

lemma update_known: "map_of xs k = Some y \<Longrightarrow> map fst (AList.update k x xs) = map fst xs"
  by (induction xs) (auto split: if_split_asm)

text \<open>The driver of a kernel is there, and nothing else has changed.\<close>

definition driver_placed ::
    "('y server, 'k, 'a) platform \<Rightarrow> string \<Rightarrow> Module \<Rightarrow> ModuleLoaderData \<Rightarrow> DaemonSet assoc \<Rightarrow> 'y server \<Rightarrow> DaemonSet assoc result \<times> 'y server \<Rightarrow> bool" where
  "driver_placed pf ns md mld dsBy v rv \<longleftrightarrow> (\<exists>dsBy' ds' n'. rv = (Ok dsBy', v\<lparr>sv_daemonsets := ds', sv_next := n'\<rparr>) \<and>
     sv_next v \<le> n' \<and> ds_sound (pf_scheme pf) md n' ds' \<and> has_driver ns md mld ds' \<and> ds_change md (mld_KernelVersion mld) (sv_daemonsets v) ds' \<and>
     (\<forall>k. k \<noteq> mld_KernelVersion mld \<longrightarrow> map_of dsBy' k = map_of dsBy k) \<and> map fst dsBy' = map fst dsBy)"

lemma manager_namespace: "me_operatorNamespace (manager_of pf ns) = ns"
  by (simp add: manager_module_env_def Let_def)

lemma driver_patched:
  assumes mld: "mld_for md mld" "mld_ContainerImage mld \<noteq> []" "mld_KernelVersion mld \<noteq> []"
    and v: "\<not> sv_fails v" "ds_sound (pf_scheme pf) md (sv_next v) (sv_daemonsets v)" "ds_sound (pf_scheme pf) md n0 (sv_daemonsets_seen v)"
    and Some: "map_of dsBy (mld_KernelVersion mld) = Some d"
    and d: "d \<in> set (sv_daemonsets_seen v)" "d \<in> set (sv_daemonsets v)" "of_module md d" "ds_kernel d = mld_KernelVersion mld"
  shows "driver_placed pf ns md mld dsBy v (handleDriverContainer (manager_of pf ns) mld dsBy v)"
proof -
  let ?k = "mld_KernelVersion mld" and ?sa = "default_account ns md"
  let ?f = "\<lambda>d. SetDriverContainerAsDesired KernelLabel (pf_scheme pf) (Some d) mld ?sa"
  have find: "find (\<lambda>x. ds_key x = ds_key d) (cl_cache (view_daemonsets v)) = Some d"
    using d ds_sound_key[OF v(3)] by (intro find_unique) (auto simp: view_daemonsets_def)
  have ad: "adoptable (pf_scheme pf) md (ds_meta d)" "om_Namespace (ds_meta d) = mod_Namespace md"
    using d v(2) by (auto simp: ds_sound_def of_module_iff)
  from SetDriver_adopts[OF manager_scheme_kind mld ad, where sa = ?sa] obtain d' where d': "?f d = Ok d'" "ds_key d' = ds_key d" "of_module md d'"
      "ds_kernel d' = ?k" "adoptable (pf_scheme pf) md (ds_meta d')" "ds_Template d' = driver_template KernelLabel mld ?sa"
      "get_status ds_ops d' = get_status ds_ops d" by blast
  have tag: "ds_tag (pf_scheme pf) md d' = ds_tag (pf_scheme pf) md d" using d' d ad(1) by (simp add: ds_tag_def)
  from store_patches[where c = "view_daemonsets v" and ob = d and f = ?f, OF find d'(1,2,7)] obtain r where
    "CreateOrPatch daemonset_store ds_ops d ?f (view_daemonsets v) = (Ok (r, d'), (view_daemonsets v)\<lparr>cl_objects := replaced d' (sv_daemonsets v)\<rparr>)"
    using v(1) d ds_sound_key[OF v(2)] by (auto simp: view_daemonsets_def)
  from server_CreateOrPatch(1)[OF this] have
    "handleDriverContainer (manager_of pf ns) mld dsBy v = (Ok (AList.update ?k d' dsBy), v\<lparr>sv_daemonsets := replaced d' (sv_daemonsets v)\<rparr>)"
    using Some mld(1) by (simp add: handleDriverContainer_def manager_module_env_simps manager_namespace mld_for_def Let_def bind_io_def)
  moreover have "v\<lparr>sv_daemonsets := replaced d' (sv_daemonsets v)\<rparr> = v\<lparr>sv_daemonsets := replaced d' (sv_daemonsets v), sv_next := sv_next v\<rparr>" by simp
  moreover note replaced_sound[OF v(2) _ tag] replaced_change[OF v(2) _ tag] update_known[OF Some, of d']
  ultimately show ?thesis using d d' unfolding driver_placed_def
    by (intro exI[of _ "AList.update ?k d' dsBy"] exI[of _ "replaced d' (sv_daemonsets v)"] exI[of _ "sv_next v"])
      (auto simp: has_driver_def driver_of_def update_conv')
qed

lemma driver_created:
  assumes mld: "mld_for md mld" "mld_ContainerImage mld \<noteq> []" "mld_KernelVersion mld \<noteq> []"
    and v: "\<not> sv_fails v" "ds_sound (pf_scheme pf) md (sv_next v) (sv_daemonsets v)" "ds_sound (pf_scheme pf) md n0 (sv_daemonsets_seen v)"
    and None: "map_of dsBy (mld_KernelVersion mld) = None" "\<forall>d \<in> set (sv_daemonsets v). of_module md d \<longrightarrow> ds_kernel d \<noteq> mld_KernelVersion mld"
  shows "driver_placed pf ns md mld dsBy v (handleDriverContainer (manager_of pf ns) mld dsBy v)"
proof -
  let ?k = "mld_KernelVersion mld" and ?sa = "default_account ns md"
  let ?f = "\<lambda>d. SetDriverContainerAsDesired KernelLabel (pf_scheme pf) (Some d) mld ?sa"
  let ?new = "new_daemonset (empty_meta\<lparr>om_Namespace := mld_Namespace mld, om_GenerateName := mld_Name mld @ ''-''\<rparr>)"
  have ns: "mld_Namespace mld = mod_Namespace md" using mld(1) by (simp add: mld_for_def)
  have "adoptable (pf_scheme pf) md (ds_meta ?new)"
    using adoptable_new[OF manager_scheme_kind, where md = md and a = "[]"] by (simp add: new_daemonset_def ns empty_meta_def)
  from SetDriver_adopts[OF manager_scheme_kind mld this, where sa = ?sa] obtain d' where d': "?f ?new = Ok d'" "ds_key d' = ds_key ?new"
      "om_GenerateName (ds_meta d') = om_GenerateName (ds_meta ?new)" "of_module md d'" "ds_kernel d' = ?k"
      "adoptable (pf_scheme pf) md (ds_meta d')" "ds_Template d' = driver_template KernelLabel mld ?sa"
    by (auto simp: new_daemonset_def ns)
  let ?c = "d'\<lparr>ds_meta := named (sv_next v) (ds_meta d')\<rparr>"
  have find: "find (\<lambda>x. ds_key x = ds_key ?new) (cl_cache (view_daemonsets v)) = None"
    using v(3) by (auto simp: view_daemonsets_def find_None_iff ds_sound_def ObjectKeyFromObject_def new_daemonset_def empty_meta_def)
  from store_creates[where c = "view_daemonsets v" and ob = ?new and f = ?f, OF find d'(1,2)] obtain r x where
    "CreateOrPatch daemonset_store ds_ops ?new ?f (view_daemonsets v) =
       (Ok (r, x), (view_daemonsets v)\<lparr>cl_objects := sv_daemonsets v @ [?c], cl_next := Suc (sv_next v)\<rparr>)"
    using v(1) by (auto simp: view_daemonsets_def)
  from server_CreateOrPatch(2)[OF this] have
    "handleDriverContainer (manager_of pf ns) mld dsBy v = (Ok dsBy, v\<lparr>sv_daemonsets := sv_daemonsets v @ [?c], sv_next := Suc (sv_next v)\<rparr>)"
    using None(1) by (simp add: handleDriverContainer_def manager_module_env_simps manager_namespace ns Let_def bind_io_def)
  moreover have c: "of_module md ?c" "ds_kernel ?c = ?k" "adoptable (pf_scheme pf) md (ds_meta ?c)" using d'(4-6) by (simp_all add: named_ds)
  moreover have key: "ds_key ?c = \<lparr>nn_Namespace = mod_Namespace md, nn_Name = (mod_Name md @ ''-'') @ decimal (sv_next v)\<rparr>"
  proof -
    have "om_Name (ds_meta d') = []" "om_Namespace (ds_meta d') = mod_Namespace md" "om_GenerateName (ds_meta d') = mod_Name md @ ''-''"
      using d'(2,3) mld(1) by (simp_all add: ObjectKeyFromObject_def new_daemonset_def empty_meta_def mld_for_def)
    then show ?thesis by (simp add: named_key)
  qed
  moreover have "ds_sound (pf_scheme pf) md (Suc (sv_next v)) (sv_daemonsets v @ [?c])"
    using new_driver_sound[OF v(2) key c(1,3)] c(2) mld(3) None(2) by simp
  ultimately show ?thesis using c d'(7) unfolding driver_placed_def
    by (intro exI[of _ dsBy] exI[of _ "sv_daemonsets v @ [?c]"] exI[of _ "Suc (sv_next v)"])
      (simp add: has_driver_def driver_of_def ds_change_def)
qed

lemma server_handleDriverContainer:
  assumes "mld_for md mld" "mld_ContainerImage mld \<noteq> []" "mld_KernelVersion mld \<noteq> []"
    and "\<not> sv_fails v" "ds_sound (pf_scheme pf) md (sv_next v) (sv_daemonsets v)" "ds_sound (pf_scheme pf) md n0 (sv_daemonsets_seen v)"
    and "\<And>d. map_of dsBy (mld_KernelVersion mld) = Some d \<Longrightarrow>
        d \<in> set (sv_daemonsets_seen v) \<and> d \<in> set (sv_daemonsets v) \<and> of_module md d \<and> ds_kernel d = mld_KernelVersion mld"
    and "map_of dsBy (mld_KernelVersion mld) = None \<Longrightarrow> \<forall>d \<in> set (sv_daemonsets v). of_module md d \<longrightarrow> ds_kernel d \<noteq> mld_KernelVersion mld"
  shows "driver_placed pf ns md mld dsBy v (handleDriverContainer (manager_of pf ns) mld dsBy v)"
  using driver_patched[OF assms(1-6)] driver_created[OF assms(1-6)] assms(7,8) by (cases "map_of dsBy (mld_KernelVersion mld)") simp_all

end
