(* ===== verification/Kernel_Loop.thy ===== *)
theory Kernel_Loop
  imports Kernel_Steps
begin

text \<open>
  The loop of the Module reconciler over the kernels, on the API server: it does not stop at any kernel, and every kernel comes
  closer to its driver or has it.
\<close>

section \<open>Sound worlds\<close>

definition kernels_feasible :: "('y server, 'k, 'a) platform \<Rightarrow> Module \<Rightarrow> stage_inputs \<Rightarrow> (string \<times> ModuleLoaderData) list \<Rightarrow> bool" where
  "kernels_feasible pf md x ms \<longleftrightarrow> distinct (map fst ms) \<and> (\<forall>(k, mld) \<in> set ms. mld_KernelVersion mld = k \<and> k \<noteq> [] \<and>
     mld_for md mld \<and> mld_ContainerImage mld \<noteq> [] \<and> kernel_feasible pf x mld)"

definition objects_sound :: "('y server, 'k, 'a) platform \<Rightarrow> Module \<Rightarrow> 'y server \<Rightarrow> bool" where
  "objects_sound pf md w \<longleftrightarrow> \<not> sv_fails w \<and>
     keyed ob_meta (mod_Namespace md) (mod_Name md @ ''-'') (sv_next w) (sv_builds w) \<and>
     keyed job_meta (mod_Namespace md) (mod_Name md @ ''-sign-'') (sv_next w) (sv_jobs w) \<and>
     ds_sound (pf_scheme pf) md (sv_next w) (sv_daemonsets w)"

definition world_sound :: "('y server, 'k, 'a) platform \<Rightarrow> Module \<Rightarrow> (string \<times> ModuleLoaderData) list \<Rightarrow> 'y server \<Rightarrow> bool" where
  "world_sound pf md ms w \<longleftrightarrow> objects_sound pf md w \<and> (\<forall>(k, mld) \<in> set ms. kernel_sound pf mld (sv_inputs w) (sv_builds w) (sv_jobs w))"

text \<open>The world at the beginning of a round.\<close>

definition settled :: "'y server \<Rightarrow> bool" where
  "settled w \<longleftrightarrow> sv_builds_seen w = sv_builds w \<and> sv_jobs_seen w = sv_jobs w \<and> sv_daemonsets_seen w = sv_daemonsets w \<and>
     done_builds (sv_builds w) \<and> done_jobs (sv_jobs w)"

section \<open>The loop over the kernels\<close>

abbreviation build_left :: "('w, 'k, 'a) platform \<Rightarrow> ModuleLoaderData \<Rightarrow> stage_inputs \<Rightarrow> OcpBuild list \<Rightarrow> nat" where
  "build_left pf mld x \<equiv> distance (build_of mld) (b_changed pf mld x)"

abbreviation sign_left :: "('w, 'k, 'a) platform \<Rightarrow> ModuleLoaderData \<Rightarrow> stage_inputs \<Rightarrow> Job list \<Rightarrow> nat" where
  "sign_left pf mld x \<equiv> distance (signing_jobs mld) (s_changed pf mld x)"

definition kernel_out :: "('y server, 'k, 'a) platform \<Rightarrow> string \<Rightarrow> Module \<Rightarrow> 'y server \<Rightarrow> ModuleLoaderData \<Rightarrow> 'y server \<Rightarrow> bool" where
  "kernel_out pf ns md w mld v \<longleftrightarrow>
     kernel_sound pf mld (sv_inputs w) (sv_builds v) (sv_jobs v) \<and>
     (has_driver ns md mld (sv_daemonsets w) \<longrightarrow> has_driver ns md mld (sv_daemonsets v)) \<and>
     (has_driver ns md mld (sv_daemonsets v) \<or>
      ShouldBeBuilt mld \<and> build_left pf mld (sv_inputs w) (sv_builds v) < build_left pf mld (sv_inputs w) (sv_builds w) \<and>
        filter (signing_jobs mld) (sv_jobs v) = filter (signing_jobs mld) (sv_jobs w) \<or>
      ShouldBeSigned mld \<and> filter (build_of mld) (sv_builds v) = filter (build_of mld) (sv_builds w) \<and>
        sign_left pf mld (sv_inputs w) (sv_jobs v) < sign_left pf mld (sv_inputs w) (sv_jobs w) \<and>
        (\<forall>j \<in> set (filter (signing_jobs mld) (sv_jobs v)). \<forall>i \<in> set (sv_jobs w). ObjectKeyFromObject (job_meta j) \<noteq> ObjectKeyFromObject (job_meta i)))"

text \<open>\<^verbatim>\<open>w\<close> is the world at the beginning of the round, \<^verbatim>\<open>ks\<close> are the kernels that are done.\<close>

definition in_loop ::
    "('y server, 'k, 'a) platform \<Rightarrow> string \<Rightarrow> Module \<Rightarrow> (string \<times> ModuleLoaderData) list \<Rightarrow> DaemonSet assoc \<Rightarrow> 'y server \<Rightarrow> string set \<Rightarrow>
     DaemonSet assoc \<Rightarrow> 'y server \<Rightarrow> bool" where
  "in_loop pf ns md ms dsBy0 w ks dsBy v \<longleftrightarrow> objects_sound pf md v \<and> sv_inputs v = sv_inputs w \<and> sv_next w \<le> sv_next v \<and>
     sv_builds_seen v = sv_builds w \<and> sv_jobs_seen v = sv_jobs w \<and> sv_daemonsets_seen v = sv_daemonsets w \<and>
     (\<forall>(k, mld) \<in> set ms. if k \<in> ks then kernel_out pf ns md w mld v
        else filter (build_of mld) (sv_builds v) = filter (build_of mld) (sv_builds w) \<and>
          filter (signing_jobs mld) (sv_jobs v) = filter (signing_jobs mld) (sv_jobs w)) \<and>
     (\<forall>d \<in> set (sv_daemonsets w). of_module md d \<and> ds_kernel d \<notin> ks \<longrightarrow> d \<in> set (sv_daemonsets v)) \<and>
     (\<forall>d \<in> set (sv_daemonsets v). of_module md d \<and> ds_kernel d \<notin> ks \<longrightarrow> d \<in> set (sv_daemonsets w)) \<and>
     (\<forall>k. k \<notin> ks \<longrightarrow> map_of dsBy k = map_of dsBy0 k) \<and> map fst dsBy = map fst dsBy0"

lemma keyed_fresh:
  "keyed meta ns g n xs \<Longrightarrow> x \<in> set xs \<Longrightarrow> n \<le> m \<Longrightarrow> \<lparr>nn_Namespace = ns, nn_Name = g @ decimal m\<rparr> \<noteq> ObjectKeyFromObject (meta x)"
  unfolding keyed_def by metis

lemma kernel_labels:
  "build_of mld b \<Longrightarrow> get_label (ob_meta b) TargetKernelTarget = mld_KernelVersion mld"
  "sign_job_of mld owner j \<Longrightarrow> get_label (job_meta j) TargetKernelTarget = mld_KernelVersion mld"
  by (auto simp: build_of_def sign_job_of_def selected_def fmsubset.rep_eq map_le_def GetBuildLabels_def JobLabels_def moduleKernelLabels_def
      get_label_def sm_get_def split: if_split_asm option.split)

lemma distance_cong: "filter mine xs = filter mine ys \<Longrightarrow> distance mine changed xs = distance mine changed ys"
  by (simp add: distance_def)

lemma settleable_cong: "filter mine xs = filter mine ys \<Longrightarrow> settleable mine changed dead xs = settleable mine changed dead ys"
  by (simp add: settleable_def)

lemma kernel_out_cong:
  assumes "kernel_out pf ns md w mld v" "filter (build_of mld) (sv_builds v') = filter (build_of mld) (sv_builds v)"
    and "filter (signing_jobs mld) (sv_jobs v') = filter (signing_jobs mld) (sv_jobs v)"
    and "has_driver ns md mld (sv_daemonsets v) \<Longrightarrow> has_driver ns md mld (sv_daemonsets v')"
  shows "kernel_out pf ns md w mld v'"
  using assms(1,4) unfolding kernel_out_def kernel_sound_def
    distance_cong[OF assms(2)] distance_cong[OF assms(3)] settleable_cong[OF assms(2)] settleable_cong[OF assms(3)] assms(2,3) by blast

text \<open>Objects of different kernels are different.\<close>

lemma kernels_disjoint:
  assumes "kernels_feasible pf md x ms" "(k, mld) \<in> set ms" "(k', mld') \<in> set ms" "k' \<noteq> k"
  shows "build_of mld b \<Longrightarrow> \<not> build_of mld' b" "signing_jobs mld j \<Longrightarrow> \<not> signing_jobs mld' j"
proof -
  have "mld_KernelVersion mld = k" "mld_KernelVersion mld' = k'" using assms(1-3) by (auto simp: kernels_feasible_def)
  then show "build_of mld b \<Longrightarrow> \<not> build_of mld' b" "signing_jobs mld j \<Longrightarrow> \<not> signing_jobs mld' j"
    using assms(4) kernel_labels by metis+
qed

lemma feasible_kernel:
  assumes "kernels_feasible pf md x ms" "(k, mld) \<in> set ms"
  shows "mld_KernelVersion mld = k" "k \<noteq> []" "mld_for md mld" "mld_ContainerImage mld \<noteq> []" "kernel_feasible pf x mld"
    "mld_Name mld = mod_Name md" "mld_Namespace mld = mod_Namespace md" "(k, mld') \<in> set ms \<Longrightarrow> mld' = mld"
  using assms by (auto simp: kernels_feasible_def mld_for_def dest: eq_key_imp_eq_value)

lemma in_loop_driver:
  assumes "in_loop pf ns md ms dsBy0 w ks dsBy v" "mld_KernelVersion mld \<notin> ks" "has_driver ns md mld (sv_daemonsets w)"
  shows "has_driver ns md mld (sv_daemonsets v)"
  using assms by (fastforce simp: in_loop_def has_driver_def driver_of_def)

lemma in_loop_rest:
  assumes "in_loop pf ns md ms dsBy0 w ks dsBy v" "rest_only v v'"
  shows "in_loop pf ns md ms dsBy0 w ks dsBy v'"
  using assms(1) unfolding in_loop_def objects_sound_def kernel_out_def rest_only_fields[OF assms(2)] .

text \<open>The facts about a kernel that has not been handled yet.\<close>

lemma in_loop_kernel:
  assumes "in_loop pf ns md ms dsBy0 w ks dsBy v" "(k, mld) \<in> set ms" "k \<notin> ks"
  shows "filter (build_of mld) (sv_builds v) = filter (build_of mld) (sv_builds_seen v)"
    "filter (signing_jobs mld) (sv_jobs v) = filter (signing_jobs mld) (sv_jobs_seen v)"
  using assms by (auto simp: in_loop_def)

lemma ds_change_refl [simp]: "ds_change md k ds ds"
  by (simp add: ds_change_def)

lemma ds_change_driver: "ds_change md k ds ds' \<Longrightarrow> mld_KernelVersion mld \<noteq> k \<Longrightarrow> has_driver ns md mld ds \<Longrightarrow> has_driver ns md mld ds'"
  by (auto simp: ds_change_def has_driver_def driver_of_def)

lemma in_loop_step:
  assumes l: "in_loop pf ns md ms dsBy0 w ks dsBy v" and f: "kernels_feasible pf md (sv_inputs w) ms" 
    and out: "\<And>mld. (k, mld) \<in> set ms \<Longrightarrow> kernel_out pf ns md w mld v'" and sound: "objects_sound pf md v'"
    and same: "sv_inputs v' = sv_inputs v" "sv_next v \<le> sv_next v'" "sv_builds_seen v' = sv_builds_seen v" "sv_jobs_seen v' = sv_jobs_seen v"
      "sv_daemonsets_seen v' = sv_daemonsets_seen v"
    and others: "\<And>k' mld'. (k', mld') \<in> set ms \<Longrightarrow> k' \<noteq> k \<Longrightarrow> filter (build_of mld') (sv_builds v') = filter (build_of mld') (sv_builds v) \<and>
        filter (signing_jobs mld') (sv_jobs v') = filter (signing_jobs mld') (sv_jobs v)"
    and ds: "ds_change md k (sv_daemonsets v) (sv_daemonsets v')" "\<forall>k'. k' \<noteq> k \<longrightarrow> map_of dsBy' k' = map_of dsBy k'" "map fst dsBy' = map fst dsBy"
  shows "in_loop pf ns md ms dsBy0 w (insert k ks) dsBy' v'"
proof -
  note l' = l[unfolded in_loop_def]
  have kernel: "if k' \<in> insert k ks then kernel_out pf ns md w mld' v'
        else filter (build_of mld') (sv_builds v') = filter (build_of mld') (sv_builds w) \<and>
          filter (signing_jobs mld') (sv_jobs v') = filter (signing_jobs mld') (sv_jobs w)" if h: "(k', mld') \<in> set ms" for k' mld'
  proof (cases "k' = k")
    case True
    with out h show ?thesis by simp
  next
    case False
    note o = others[OF h False]
    have "kernel_out pf ns md w mld' v'" if "k' \<in> ks"
    proof (rule kernel_out_cong[of pf ns md w mld' v])
      show "kernel_out pf ns md w mld' v" using l' h that by auto
      show "has_driver ns md mld' (sv_daemonsets v')" if "has_driver ns md mld' (sv_daemonsets v)"
        using ds_change_driver[OF ds(1) _ that] feasible_kernel(1)[OF f h] False by simp
    qed (simp_all add: o)
    then show ?thesis using l' h o False by auto
  qed
  have dss: "\<forall>d \<in> set (sv_daemonsets w). of_module md d \<and> ds_kernel d \<notin> insert k ks \<longrightarrow> d \<in> set (sv_daemonsets v')"
    "\<forall>d \<in> set (sv_daemonsets v'). of_module md d \<and> ds_kernel d \<notin> insert k ks \<longrightarrow> d \<in> set (sv_daemonsets w)"
    using l' ds(1) by (auto simp: ds_change_def)
  have maps: "\<forall>k'. k' \<notin> insert k ks \<longrightarrow> map_of dsBy' k' = map_of dsBy0 k'" using l' ds(2) by simp
  have ks: "\<forall>(k', mld') \<in> set ms. if k' \<in> insert k ks then kernel_out pf ns md w mld' v'
        else filter (build_of mld') (sv_builds v') = filter (build_of mld') (sv_builds w) \<and>
          filter (signing_jobs mld') (sv_jobs v') = filter (signing_jobs mld') (sv_jobs w)"
    using kernel by (intro ballI) (simp only: split_paired_all prod.case)
  have rest: "sv_next w \<le> sv_next v'" "sv_inputs v' = sv_inputs w" "sv_builds_seen v' = sv_builds w" "sv_jobs_seen v' = sv_jobs w"
    "sv_daemonsets_seen v' = sv_daemonsets w" "map fst dsBy' = map fst dsBy0"
    using l' same ds(3) by simp_all
  show ?thesis unfolding in_loop_def by (intro conjI sound dss maps ks rest)
qed

lemma step_build:
  assumes l: "in_loop pf ns md ms dsBy0 w ks dsBy v" and f: "kernels_feasible pf md (sv_inputs w) ms" and k: "(k, mld) \<in> set ms" "k \<notin> ks"
    and s: "kernel_sound pf mld (sv_inputs w) (sv_builds w) (sv_jobs w)" and b: "ShouldBeBuilt mld"
    and m: "moves ob_meta (mld_Namespace mld) (mld_Name mld @ ''-'') (build_of mld) (b_changed pf mld (sv_inputs v)) build_dead
        (sv_builds_seen v) (sv_builds v) (sv_next v) xs n"
  shows "in_loop pf ns md ms dsBy0 w (insert k ks) dsBy (v\<lparr>sv_builds := xs, sv_next := n\<rparr>)"
proof -
  note fk = feasible_kernel[OF f k(1)] and same = in_loop_kernel[OF l k] and l' = l[unfolded in_loop_def]
  have kb: "keyed ob_meta (mld_Namespace mld) (mld_Name mld @ ''-'') (sv_next v) (sv_builds v)"
    using l' by (simp add: objects_sound_def fk)
  note kb' = moves_keyed[OF m kb] and mine = moves_mine[OF m same(1)]
  have out: "kernel_out pf ns md w mld (v\<lparr>sv_builds := xs, sv_next := n\<rparr>)"
    using mine(1,2) same(2) l' s b in_loop_driver[OF l, of mld] k(2) by (simp add: fk(1) kernel_out_def kernel_sound_def settleable_cong[of _ "sv_jobs v" "sv_jobs w"])
  have sound: "objects_sound pf md (v\<lparr>sv_builds := xs, sv_next := n\<rparr>)"
    using l' kb' by (auto simp: objects_sound_def fk intro: keyed_later ds_sound_later)
  show ?thesis
    by (rule in_loop_step[OF l f _ sound]) (use kb' moves_others[OF m same(1) kb kernels_disjoint(1)[OF f k(1)]] out fk(8) in simp_all)
qed

lemma step_sign:
  assumes l: "in_loop pf ns md ms dsBy0 w ks dsBy v" and f: "kernels_feasible pf md (sv_inputs w) ms" and k: "(k, mld) \<in> set ms" "k \<notin> ks"
    and w: "objects_sound pf md w" "kernel_sound pf mld (sv_inputs w) (sv_builds w) (sv_jobs w)" and b: "ShouldBeSigned mld"
    and m: "moves job_meta (mld_Namespace mld) (mld_Name mld @ ''-sign-'') (signing_jobs mld) (s_changed pf mld (sv_inputs v)) job_dead
        (sv_jobs_seen v) (sv_jobs v) (sv_next v) xs n"
  shows "in_loop pf ns md ms dsBy0 w (insert k ks) dsBy (v\<lparr>sv_jobs := xs, sv_next := n\<rparr>)"
proof -
  note fk = feasible_kernel[OF f k(1)] and same = in_loop_kernel[OF l k] and l' = l[unfolded in_loop_def]
  have kj: "keyed job_meta (mld_Namespace mld) (mld_Name mld @ ''-sign-'') (sv_next v) (sv_jobs v)"
    using l' by (simp add: objects_sound_def fk)
  note kj' = moves_keyed[OF m kj] and mine = moves_mine[OF m same(2)]
  have "ObjectKeyFromObject (job_meta j) \<noteq> ObjectKeyFromObject (job_meta i)" if h: "j \<in> set (filter (signing_jobs mld) xs)" "i \<in> set (sv_jobs w)" for i j
  proof -
    have "filter (signing_jobs mld) xs \<noteq> []" using h(1) by (metis empty_iff list.set(1))
    with mine(3) obtain c where "filter (signing_jobs mld) xs = [c]"
        "ObjectKeyFromObject (job_meta c) = \<lparr>nn_Namespace = mld_Namespace mld, nn_Name = (mld_Name mld @ ''-sign-'') @ decimal (sv_next v)\<rparr>" by blast
    with h(1) have "ObjectKeyFromObject (job_meta j) = \<lparr>nn_Namespace = mld_Namespace mld, nn_Name = (mld_Name mld @ ''-sign-'') @ decimal (sv_next v)\<rparr>"
      by (simp del: set_filter)
    moreover have "sv_next w \<le> sv_next v" using l' by simp
    moreover have "keyed job_meta (mld_Namespace mld) (mld_Name mld @ ''-sign-'') (sv_next w) (sv_jobs w)" using w(1) by (simp only: objects_sound_def fk)
    ultimately show ?thesis using keyed_fresh[OF _ h(2)] by metis
  qed
  then have out: "kernel_out pf ns md w mld (v\<lparr>sv_jobs := xs, sv_next := n\<rparr>)"
    using mine(1,2) same(1) l' w(2) b in_loop_driver[OF l, of mld] k(2) by (simp add: fk(1) kernel_out_def kernel_sound_def settleable_cong[of _ "sv_builds v" "sv_builds w"])
  have sound: "objects_sound pf md (v\<lparr>sv_jobs := xs, sv_next := n\<rparr>)"
    using l' kj' by (auto simp: objects_sound_def fk intro: keyed_later ds_sound_later)
  show ?thesis
    by (rule in_loop_step[OF l f _ sound]) (use kj' moves_others[OF m same(2) kj kernels_disjoint(2)[OF f k(1)]] out fk(8) in simp_all)
qed

lemma step_driver:
  assumes l: "in_loop pf ns md ms dsBy0 w ks dsBy v" and f: "kernels_feasible pf md (sv_inputs w) ms" and k: "(k, mld) \<in> set ms" "k \<notin> ks"
    and w: "objects_sound pf md w" "kernel_sound pf mld (sv_inputs w) (sv_builds w) (sv_jobs w)"
    and index: "\<And>k d. map_of dsBy0 k = Some d \<longleftrightarrow> d \<in> set (sv_daemonsets w) \<and> of_module md d \<and> ds_kernel d = k"
  shows "\<exists>dsBy' v'. handleDriverContainer (manager_of pf ns) mld dsBy v = (Ok dsBy', v') \<and> in_loop pf ns md ms dsBy0 w (insert k ks) dsBy' v'"
proof -
  note fk = feasible_kernel[OF f k(1)] and same = in_loop_kernel[OF l k] and l' = l[unfolded in_loop_def]
  have by0: "map_of dsBy k = map_of dsBy0 k" using l' k(2) by blast
  have "driver_placed pf ns md mld dsBy v (handleDriverContainer (manager_of pf ns) mld dsBy v)"
  proof (rule server_handleDriverContainer[OF fk(3,4), of v pf "sv_next w"])
    show "d \<in> set (sv_daemonsets_seen v) \<and> d \<in> set (sv_daemonsets v) \<and> of_module md d \<and> ds_kernel d = mld_KernelVersion mld"
      if "map_of dsBy (mld_KernelVersion mld) = Some d" for d
      using that l' k(2) by (simp add: fk by0 index)
    show "\<forall>d \<in> set (sv_daemonsets v). of_module md d \<longrightarrow> ds_kernel d \<noteq> mld_KernelVersion mld"
      if "map_of dsBy (mld_KernelVersion mld) = None"
    proof (intro ballI impI notI)
      fix d assume d: "d \<in> set (sv_daemonsets v)" "of_module md d" "ds_kernel d = mld_KernelVersion mld"
      then have "d \<in> set (sv_daemonsets w)" using l' k(2) by (simp add: fk)
      with d that show False using index[of k d] by (simp add: fk by0)
    qed
  qed (use l' w(1) fk in \<open>simp_all add: objects_sound_def\<close>)
  then obtain dsBy' ds' n' where h: "handleDriverContainer (manager_of pf ns) mld dsBy v = (Ok dsBy', v\<lparr>sv_daemonsets := ds', sv_next := n'\<rparr>)"
      "sv_next v \<le> n'" "ds_sound (pf_scheme pf) md n' ds'" "has_driver ns md mld ds'" "ds_change md k (sv_daemonsets v) ds'"
      "\<forall>k'. k' \<noteq> k \<longrightarrow> map_of dsBy' k' = map_of dsBy k'" "map fst dsBy' = map fst dsBy"
    unfolding driver_placed_def fk(1) by blast
  let ?v = "v\<lparr>sv_daemonsets := ds', sv_next := n'\<rparr>"
  have out: "kernel_out pf ns md w mld ?v"
    using h(4) w(2) same l' by (simp add: kernel_out_def kernel_sound_def settleable_cong[of _ "sv_builds v" "sv_builds w"]
        settleable_cong[of _ "sv_jobs v" "sv_jobs w"])
  have sound: "objects_sound pf md ?v" using l' h(2,3) by (auto simp: objects_sound_def intro: keyed_later)
  have "in_loop pf ns md ms dsBy0 w (insert k ks) dsBy' ?v"
    by (rule in_loop_step[OF l f _ sound]) (use h out fk(8) in simp_all)
  with h(1) show ?thesis by blast
qed

lemma kernel_step:
  assumes l: "in_loop pf ns md ms dsBy0 w ks dsBy v" and f: "kernels_feasible pf md (sv_inputs w) ms" and k: "(k, mld) \<in> set ms" "k \<notin> ks"
    and w: "world_sound pf md ms w" "settled w"
    and index: "\<And>k d. map_of dsBy0 k = Some d \<longleftrightarrow> d \<in> set (sv_daemonsets w) \<and> of_module md d \<and> ds_kernel d = k"
  shows "\<exists>dsBy' v'. reconcile_kernel (manager_of pf ns) dsBy (k, mld) v = (Ok dsBy', v') \<and> in_loop pf ns md ms dsBy0 w (insert k ks) dsBy' v'"
proof -
  have wo: "objects_sound pf md w" and ws: "kernel_sound pf mld (sv_inputs w) (sv_builds w) (sv_jobs w)"
    using w(1) k(1) by (auto simp: world_sound_def)
  have here: "kernel_feasible pf (sv_inputs u) mld" "\<not> sv_fails u" "kernel_sound pf mld (sv_inputs u) (sv_builds_seen u) (sv_jobs_seen u)"
    "done_builds (sv_builds_seen u)" "done_jobs (sv_jobs_seen u)" if "in_loop pf ns md ms dsBy0 w ks dsBy u" for u
    using that w(2) ws feasible_kernel(5)[OF f k(1)] by (simp_all add: in_loop_def settled_def objects_sound_def)
  from server_handleBuild[OF here(1-4)[OF l]] obtain v1 where
    "handleBuild (manager_of pf ns) mld v = (Ok True, v1) \<and> rest_only v v1 \<or>
     handleBuild (manager_of pf ns) mld v = (Ok False, v1) \<and> ShouldBeBuilt mld \<and>
     (\<exists>xs n. rest_only (v\<lparr>sv_builds := xs, sv_next := n\<rparr>) v1 \<and>
       moves ob_meta (mld_Namespace mld) (mld_Name mld @ ''-'') (build_of mld) (b_changed pf mld (sv_inputs v)) build_dead
        (sv_builds_seen v) (sv_builds v) (sv_next v) xs n)" by blast
  then show ?thesis
  proof (elim disjE conjE exE)
    fix xs n assume h: "handleBuild (manager_of pf ns) mld v = (Ok False, v1)" "ShouldBeBuilt mld" "rest_only (v\<lparr>sv_builds := xs, sv_next := n\<rparr>) v1"
      and m: "moves ob_meta (mld_Namespace mld) (mld_Name mld @ ''-'') (build_of mld) (b_changed pf mld (sv_inputs v)) build_dead
        (sv_builds_seen v) (sv_builds v) (sv_next v) xs n"
    have "reconcile_kernel (manager_of pf ns) dsBy (k, mld) v = (Ok dsBy, v1)" using h(1) by (simp add: reconcile_kernel_def bind_io_def wrap_io_def)
    with in_loop_rest[OF step_build[OF l f k ws h(2) m] h(3)] show ?thesis by blast
  next
    assume b: "handleBuild (manager_of pf ns) mld v = (Ok True, v1)" "rest_only v v1"
    note l1 = in_loop_rest[OF l b(2)]
    from server_handleSigning[OF here(1-3)[OF l1] here(5)[OF l1]] obtain v2 where
      "handleSigning (manager_of pf ns) mld v1 = (Ok True, v2) \<and> rest_only v1 v2 \<or>
       handleSigning (manager_of pf ns) mld v1 = (Ok False, v2) \<and> ShouldBeSigned mld \<and>
       (\<exists>xs n. rest_only (v1\<lparr>sv_jobs := xs, sv_next := n\<rparr>) v2 \<and>
         moves job_meta (mld_Namespace mld) (mld_Name mld @ ''-sign-'') (signing_jobs mld) (s_changed pf mld (sv_inputs v1)) job_dead
          (sv_jobs_seen v1) (sv_jobs v1) (sv_next v1) xs n)" by blast
    then show ?thesis
    proof (elim disjE conjE exE)
      fix xs n assume h: "handleSigning (manager_of pf ns) mld v1 = (Ok False, v2)" "ShouldBeSigned mld" "rest_only (v1\<lparr>sv_jobs := xs, sv_next := n\<rparr>) v2"
        and m: "moves job_meta (mld_Namespace mld) (mld_Name mld @ ''-sign-'') (signing_jobs mld) (s_changed pf mld (sv_inputs v1)) job_dead
          (sv_jobs_seen v1) (sv_jobs v1) (sv_next v1) xs n"
      have "reconcile_kernel (manager_of pf ns) dsBy (k, mld) v = (Ok dsBy, v2)"
        using b(1) h(1) by (simp add: reconcile_kernel_def bind_io_def wrap_io_def)
      with in_loop_rest[OF step_sign[OF l1 f k wo ws h(2) m] h(3)] show ?thesis by blast
    next
      assume h: "handleSigning (manager_of pf ns) mld v1 = (Ok True, v2)" "rest_only v1 v2"
      from step_driver[OF in_loop_rest[OF l1 h(2)] f k wo ws index] obtain dsBy' v' where
        d: "handleDriverContainer (manager_of pf ns) mld dsBy v2 = (Ok dsBy', v')" "in_loop pf ns md ms dsBy0 w (insert k ks) dsBy' v'" by blast
      then have "reconcile_kernel (manager_of pf ns) dsBy (k, mld) v = (Ok dsBy', v')"
        using b(1) h(1) by (simp add: reconcile_kernel_def bind_io_def wrap_io_def)
      with d(2) show ?thesis by blast
    qed
  qed
qed

lemma kernels_loop:
  assumes "in_loop pf ns md ms dsBy0 w ks dsBy v" "kernels_feasible pf md (sv_inputs w) ms" "world_sound pf md ms w" "settled w"
    and index: "\<And>k d. map_of dsBy0 k = Some d \<longleftrightarrow> d \<in> set (sv_daemonsets w) \<and> of_module md d \<and> ds_kernel d = k"
    and "set ms' \<subseteq> set ms" "distinct (map fst ms')" "fst ` set ms' \<inter> ks = {}"
  shows "\<exists>dsBy' v'. for_io (reconcile_kernel (manager_of pf ns)) dsBy ms' v = (Ok dsBy', v') \<and>
    in_loop pf ns md ms dsBy0 w (ks \<union> fst ` set ms') dsBy' v'"
  using assms(1,6-8)
proof (induction ms' arbitrary: ks dsBy v)
  case (Cons m ms')
  obtain k mld where m: "m = (k, mld)" by fastforce
  from kernel_step[OF Cons.prems(1) assms(2) _ _ assms(3,4) index, of k mld] Cons.prems(2-4) obtain dsBy1 v1 where
    s: "reconcile_kernel (manager_of pf ns) dsBy (k, mld) v = (Ok dsBy1, v1)" "in_loop pf ns md ms dsBy0 w (insert k ks) dsBy1 v1"
    by (auto simp: m)
  from Cons.IH[OF s(2)] Cons.prems(2-4) obtain dsBy' v' where
    "for_io (reconcile_kernel (manager_of pf ns)) dsBy1 ms' v1 = (Ok dsBy', v')" "in_loop pf ns md ms dsBy0 w (insert k ks \<union> fst ` set ms') dsBy' v'"
    by (auto simp: m)
  with s(1) show ?case by (auto simp: m bind_io_def)
qed simp

end
