(* ===== verification/Round_End.thy ===== *)
theory Round_End
  imports Kernel_Loop
begin

text \<open>
  The end of a round of the Module reconciler on the API server: after the loop over the kernels come the device plugin, the garbage
  collection of DaemonSets and jobs, and the status. None of them undoes what the loop has done.
\<close>

section \<open>After the loop\<close>

text \<open>How far a kernel is from its driver.\<close>

definition kernel_distance :: "('y server, 'k, 'a) platform \<Rightarrow> ModuleLoaderData \<Rightarrow> 'y server \<Rightarrow> nat" where
  "kernel_distance pf mld w =
     2 * (if ShouldBeBuilt mld then build_left pf mld (sv_inputs w) (sv_builds w) else 0) +
     (if ShouldBeSigned mld then sign_left pf mld (sv_inputs w) (sv_jobs w) else 0)"

definition loop_done :: "('y server, 'k, 'a) platform \<Rightarrow> string \<Rightarrow> Module \<Rightarrow> (string \<times> ModuleLoaderData) list \<Rightarrow> 'y server \<Rightarrow> 'y server \<Rightarrow> bool" where
  "loop_done pf ns md ms w v \<longleftrightarrow> objects_sound pf md v \<and> sv_inputs v = sv_inputs w \<and> sv_jobs_seen v = sv_jobs w \<and>
     (\<forall>(k, mld) \<in> set ms. kernel_out pf ns md w mld v)"

definition round_done :: "('y server, 'k, 'a) platform \<Rightarrow> string \<Rightarrow> Module \<Rightarrow> (string \<times> ModuleLoaderData) list \<Rightarrow> 'y server \<Rightarrow> 'y server \<Rightarrow> bool" where
  "round_done pf ns md ms w v \<longleftrightarrow> world_sound pf md ms v \<and> sv_inputs v = sv_inputs w \<and>
     (\<forall>(k, mld) \<in> set ms. (has_driver ns md mld (sv_daemonsets w) \<longrightarrow> has_driver ns md mld (sv_daemonsets v)) \<and>
        (has_driver ns md mld (sv_daemonsets v) \<or> kernel_distance pf mld v < kernel_distance pf mld w))"

text \<open>The jobs that the garbage collection deletes are among those of the beginning of the round.\<close>

lemma loop_done_trim:
  assumes l: "loop_done pf ns md ms w v" and w: "world_sound pf md ms w"
    and p: "\<And>j. (\<forall>i \<in> set (sv_jobs w). ObjectKeyFromObject (job_meta j) \<noteq> ObjectKeyFromObject (job_meta i)) \<Longrightarrow> p j"
  shows "round_done pf ns md ms w (v\<lparr>sv_jobs := filter p (sv_jobs v)\<rparr>)"
proof -
  let ?v = "v\<lparr>sv_jobs := filter p (sv_jobs v)\<rparr>"
  have x: "sv_inputs v = sv_inputs w" using l by (simp add: loop_done_def)
  have kernel: "kernel_sound pf mld (sv_inputs w) (sv_builds v) (filter p (sv_jobs v)) \<and>
      (has_driver ns md mld (sv_daemonsets w) \<longrightarrow> has_driver ns md mld (sv_daemonsets v)) \<and>
      (has_driver ns md mld (sv_daemonsets v) \<or> kernel_distance pf mld ?v < kernel_distance pf mld w)" if k: "(k, mld) \<in> set ms" for k mld
  proof -
    have out: "kernel_out pf ns md w mld v" using l k by (auto simp: loop_done_def)
    have sw: "kernel_sound pf mld (sv_inputs w) (sv_builds w) (sv_jobs w)" using w k by (auto simp: world_sound_def)
    have sound: "kernel_sound pf mld (sv_inputs w) (sv_builds v) (filter p (sv_jobs v))"
      using out by (auto simp: kernel_out_def kernel_sound_def stage_filter(2))
    let ?b = "build_left pf mld (sv_inputs w)" and ?s = "sign_left pf mld (sv_inputs w)"
    from out consider "has_driver ns md mld (sv_daemonsets v)"
      | "ShouldBeBuilt mld" "?b (sv_builds v) < ?b (sv_builds w)" "filter (signing_jobs mld) (sv_jobs v) = filter (signing_jobs mld) (sv_jobs w)"
      | "ShouldBeSigned mld" "filter (build_of mld) (sv_builds v) = filter (build_of mld) (sv_builds w)" "?s (sv_jobs v) < ?s (sv_jobs w)"
        "\<forall>j \<in> set (filter (signing_jobs mld) (sv_jobs v)). \<forall>i \<in> set (sv_jobs w). ObjectKeyFromObject (job_meta j) \<noteq> ObjectKeyFromObject (job_meta i)"
      unfolding kernel_out_def by blast
    then have "has_driver ns md mld (sv_daemonsets v) \<or> kernel_distance pf mld ?v < kernel_distance pf mld w"
    proof cases
      case 2
      have "?s (filter p (sv_jobs v)) \<le> ?s (sv_jobs w) + 1" if "ShouldBeSigned mld"
        using stage_filter(1)[of "signing_jobs mld" _ job_dead "sv_jobs v" p] distance_cong[OF 2(3)] out that
        by (auto simp: kernel_out_def kernel_sound_def)
      with 2(1,2) show ?thesis by (auto simp: kernel_distance_def x)
    next
      case 3
      have "filter (signing_jobs mld) (filter p (sv_jobs v)) = filter (signing_jobs mld) (sv_jobs v)"
        unfolding filter_swap[of "signing_jobs mld"] using 3(4) p by (intro filter_True) blast
      then have "?s (filter p (sv_jobs v)) < ?s (sv_jobs w)" using 3(3) by (simp only: distance_def)
      with 3(1,2) show ?thesis by (simp add: kernel_distance_def x distance_cong[OF 3(2)])
    qed simp
    with sound out show ?thesis by (simp add: kernel_out_def)
  qed
  have "objects_sound pf md ?v" using l by (simp add: loop_done_def objects_sound_def keyed_filter)
  with kernel x show ?thesis by (auto simp: round_done_def world_sound_def)
qed

lemma loop_done_round:
  assumes "loop_done pf ns md ms w v" "world_sound pf md ms w"
  shows "round_done pf ns md ms w v"
  using loop_done_trim[OF assms, of "\<lambda>_. True"] by simp

lemma round_done_rest:
  assumes "round_done pf ns md ms w v" "rest_only v v'"
  shows "round_done pf ns md ms w v'"
  using assms(1) unfolding round_done_def world_sound_def objects_sound_def kernel_distance_def rest_only_fields[OF assms(2)] .

section \<open>Garbage collection\<close>

text \<open>What a computation does to the world, whatever it returns.\<close>

definition effect :: "('w \<Rightarrow> 'w \<Rightarrow> bool) \<Rightarrow> ('w, 'a) io \<Rightarrow> bool" where
  "effect R m \<longleftrightarrow> (\<forall>v r v'. m v = (r, v') \<longrightarrow> R v v')"

lemma effect_basic: "reflp R \<Longrightarrow> effect R (return_io a)" "effect R m \<Longrightarrow> effect R (wrap_io g m)"
  by (auto simp: effect_def reflp_def wrap_io_def split: prod.split_asm)

lemma effect_bind:
  assumes "transp R" "effect R m" "\<And>a. effect R (f a)"
  shows "effect R (bind_io m f)"
  using assms(2,3) transpD[OF assms(1)] unfolding effect_def bind_io_def by (fastforce split: prod.split_asm result.split_asm)

lemma effect_for:
  assumes "reflp R" "transp R" "\<And>s x. x \<in> set xs \<Longrightarrow> effect R (body s x)"
  shows "effect R (for_io body s xs)"
  using assms(3) by (induction xs arbitrary: s) (simp_all add: effect_basic assms(1) effect_bind[OF assms(2)])

definition trims_jobs :: "NamespacedName set \<Rightarrow> 'y server \<Rightarrow> 'y server \<Rightarrow> bool" where
  "trims_jobs K v v' \<longleftrightarrow> (\<exists>p. v' = v\<lparr>sv_jobs := filter p (sv_jobs v)\<rparr> \<and> (\<forall>j. ObjectKeyFromObject (job_meta j) \<notin> K \<longrightarrow> p j))"

definition trims_daemonsets :: "NamespacedName set \<Rightarrow> 'y server \<Rightarrow> 'y server \<Rightarrow> bool" where
  "trims_daemonsets K v v' \<longleftrightarrow> (\<exists>p. v' = v\<lparr>sv_daemonsets := filter p (sv_daemonsets v)\<rparr> \<and> (\<forall>d. ds_key d \<notin> K \<longrightarrow> p d))"

lemma trims_order:
  "reflp (trims_jobs K)" "transp (trims_jobs K)" "reflp (trims_daemonsets K)" "transp (trims_daemonsets K)"
proof -
  show "reflp (trims_jobs K)" by (rule reflpI) (auto simp: trims_jobs_def intro!: exI[of _ "\<lambda>_. True"])
  show "reflp (trims_daemonsets K)" by (rule reflpI) (auto simp: trims_daemonsets_def intro!: exI[of _ "\<lambda>_. True"])
  show "transp (trims_jobs K)"
  proof (rule transpI, unfold trims_jobs_def, elim exE conjE)
    fix u v w :: "'y server" and p q
    assume "v = u\<lparr>sv_jobs := filter p (sv_jobs u)\<rparr>" "w = v\<lparr>sv_jobs := filter q (sv_jobs v)\<rparr>"
      "\<forall>j. ObjectKeyFromObject (job_meta j) \<notin> K \<longrightarrow> p j" "\<forall>j. ObjectKeyFromObject (job_meta j) \<notin> K \<longrightarrow> q j"
    then show "\<exists>p. w = u\<lparr>sv_jobs := filter p (sv_jobs u)\<rparr> \<and> (\<forall>j. ObjectKeyFromObject (job_meta j) \<notin> K \<longrightarrow> p j)"
      by (intro exI[of _ "\<lambda>j. p j \<and> q j"]) simp
  qed
  show "transp (trims_daemonsets K)"
  proof (rule transpI, unfold trims_daemonsets_def, elim exE conjE)
    fix u v w :: "'z server" and p q
    assume "v = u\<lparr>sv_daemonsets := filter p (sv_daemonsets u)\<rparr>" "w = v\<lparr>sv_daemonsets := filter q (sv_daemonsets v)\<rparr>"
      "\<forall>d. ds_key d \<notin> K \<longrightarrow> p d" "\<forall>d. ds_key d \<notin> K \<longrightarrow> q d"
    then show "\<exists>p. w = u\<lparr>sv_daemonsets := filter p (sv_daemonsets u)\<rparr> \<and> (\<forall>d. ds_key d \<notin> K \<longrightarrow> p d)"
      by (intro exI[of _ "\<lambda>d. p d \<and> q d"]) simp
  qed
qed

lemma server_deletes:
  "snd (k_delete server_jobs j v) = v \<or>
   snd (k_delete server_jobs j v) = v\<lparr>sv_jobs := filter (\<lambda>y. ObjectKeyFromObject (job_meta y) \<noteq> ObjectKeyFromObject (job_meta j)) (sv_jobs v)\<rparr>"
  "snd (k_delete server_daemonsets d u) = u \<or>
   snd (k_delete server_daemonsets d u) = u\<lparr>sv_daemonsets := filter (\<lambda>y. ds_key y \<noteq> ds_key d) (sv_daemonsets u)\<rparr>"
  by (simp_all add: through_client_simps through_def job_store_def daemonset_store_def store_client_def Let_def view_defs)

lemma delete_trims:
  "ObjectKeyFromObject (job_meta j) \<in> K \<Longrightarrow> effect (trims_jobs K) (k_delete server_jobs j)"
  "ds_key d \<in> L \<Longrightarrow> effect (trims_daemonsets L) (k_delete server_daemonsets d)"
proof -
  assume "ObjectKeyFromObject (job_meta j) \<in> K"
  then have "trims_jobs K v (v\<lparr>sv_jobs := filter (\<lambda>y. ObjectKeyFromObject (job_meta y) \<noteq> ObjectKeyFromObject (job_meta j)) (sv_jobs v)\<rparr>)" for v :: "'y server"
    unfolding trims_jobs_def by (intro exI[of _ "\<lambda>y. ObjectKeyFromObject (job_meta y) \<noteq> ObjectKeyFromObject (job_meta j)"] conjI refl) auto
  then show "effect (trims_jobs K) (k_delete server_jobs j :: ('y server, unit) io)"
    unfolding effect_def using server_deletes(1) reflpD[OF trims_order(1)] by (metis snd_conv)
next
  assume "ds_key d \<in> L"
  then have "trims_daemonsets L v (v\<lparr>sv_daemonsets := filter (\<lambda>y. ds_key y \<noteq> ds_key d) (sv_daemonsets v)\<rparr>)" for v :: "'z server"
    unfolding trims_daemonsets_def by (intro exI[of _ "\<lambda>y. ds_key y \<noteq> ds_key d"] conjI refl) auto
  then show "effect (trims_daemonsets L) (k_delete server_daemonsets d :: ('z server, unit) io)"
    unfolding effect_def using server_deletes(2) reflpD[OF trims_order(3)] by (metis snd_conv)
qed

lemma Sign_GC_trims:
  fixes v v' :: "'y server"
  assumes "Sign_GarbageCollect server_jobs n ns owner v = (r, v')"
  shows "trims_jobs ((\<lambda>j. ObjectKeyFromObject (job_meta j)) ` set (sv_jobs_seen v)) v v'"
proof -
  let ?K = "(\<lambda>j. ObjectKeyFromObject (job_meta j)) ` set (sv_jobs_seen v)"
  obtain js where js: "GetModuleJobs server_jobs n ns JobTypeSign owner v = (Ok js, v)" "set js \<subseteq> set (sv_jobs_seen v)"
    by (auto simp: GetModuleJobs_def getJobs_def filterJobsByOwner_def through_client_simps through_def job_store_def store_client_def Let_def
        view_defs bind_io_def wrap_io_def)
  have "effect (trims_jobs ?K) (for_io (\<lambda>deleteNames job. if job_Succeeded job = 1
      then bind_io (wrap_io (Errorf_v (''failed to delete build job '' @ om_Name (job_meta job))) (DeleteJob server_jobs job)) (\<lambda>_.
           return_io (deleteNames @ [om_Name (job_meta job)])) else return_io deleteNames) [] js :: ('y server, string list) io)"
    using js(2) by (intro effect_for trims_order) (auto simp: DeleteJob_def intro!: effect_bind effect_basic trims_order delete_trims)
  then show ?thesis using assms js(1) unfolding Sign_GarbageCollect_def effect_def by (auto simp: bind_io_def wrap_io_def)
qed

lemma DS_GC_trims:
  fixes v v' :: "'y server"
  assumes "DS_GarbageCollect server_daemonsets KernelLabel dsBy valid v = (r, v')"
    and "\<And>k d. (k, d) \<in> set dsBy \<Longrightarrow> k \<notin> valid \<Longrightarrow> ds_kernel d \<noteq> [] \<Longrightarrow> ds_key d \<in> K"
  shows "trims_daemonsets K v v'"
proof -
  have "effect (trims_daemonsets K) (DS_GarbageCollect server_daemonsets KernelLabel dsBy valid :: ('y server, string list) io)"
    unfolding DS_GarbageCollect_def using assms(2)
    by (intro effect_for trims_order) (auto simp: isDevicePluginDaemonSet_def ds_kernel_def intro!: effect_bind effect_basic trims_order delete_trims)
  with assms(1) show ?thesis by (simp add: effect_def)
qed

section \<open>What follows the loop\<close>

lemma in_loop_out: "in_loop pf ns md ms dsBy0 w ks dsBy v \<Longrightarrow> (k, mld) \<in> set ms \<Longrightarrow> k \<in> ks \<Longrightarrow> kernel_out pf ns md w mld v"
  unfolding in_loop_def by (auto dest: bspec)

lemma in_loop_plugin:
  assumes l: "in_loop pf ns md ms dsBy0 w ks dsBy v" and f: "kernels_feasible pf md (sv_inputs w) ms"
    and ds: "ds_change md [] (sv_daemonsets v) ds" "ds_sound (pf_scheme pf) md n ds" "sv_next v \<le> n"
  shows "in_loop pf ns md ms dsBy0 w (insert [] ks) dsBy (v\<lparr>sv_daemonsets := ds, sv_next := n\<rparr>)"
proof (rule in_loop_step[OF l f])
  show "kernel_out pf ns md w mld (v\<lparr>sv_daemonsets := ds, sv_next := n\<rparr>)" if "([], mld) \<in> set ms" for mld
    using feasible_kernel(2)[OF f that] by simp
  show "objects_sound pf md (v\<lparr>sv_daemonsets := ds, sv_next := n\<rparr>)"
    using l ds(2,3) by (auto simp: in_loop_def objects_sound_def intro: keyed_later)
qed (use ds in simp_all)

abbreviation plugin_new :: "Module \<Rightarrow> DaemonSet" where
  "plugin_new md \<equiv> new_daemonset (empty_meta\<lparr>om_Name := mod_Name md @ ''-device-plugin'', om_Namespace := mod_Namespace md\<rparr>)"

lemma plugin_new_key: "ds_key (plugin_new md) = plugin_key md"
  by (simp add: new_daemonset_def ObjectKeyFromObject_def plugin_key_def)

definition plugin_placed :: "('y server, 'k, 'a) platform \<Rightarrow> Module \<Rightarrow> 'y server \<Rightarrow> 'b result \<times> 'y server \<Rightarrow> bool" where
  "plugin_placed pf md v rv \<longleftrightarrow> (\<exists>q ds n. rv = (Ok q, v\<lparr>sv_daemonsets := ds, sv_next := n\<rparr>) \<and> ds_change md [] (sv_daemonsets v) ds \<and>
     ds_sound (pf_scheme pf) md n ds \<and> sv_next v \<le> n)"

lemma plugin_patched:
  assumes v: "\<not> sv_fails v" "ds_sound (pf_scheme pf) md (sv_next v) (sv_daemonsets v)" and dp: "ms_DevicePlugin (mod_Spec md) = Some dp"
    and found: "find (\<lambda>x. ds_key x = plugin_key md) (sv_daemonsets_seen v) = Some d" "d \<in> set (sv_daemonsets v)"
  shows "plugin_placed pf md v
    (CreateOrPatch server_daemonsets ds_ops (plugin_new md) (\<lambda>d. SetDevicePluginAsDesired (pf_scheme pf) (Some d) md sa) v)"
proof -
  let ?f = "\<lambda>d. SetDevicePluginAsDesired (pf_scheme pf) (Some d) md sa"
  have key: "ds_key d = plugin_key md" using find_SomeD[OF found(1)] by simp
  then have d: "of_module md d" "ds_kernel d = []" "adoptable (pf_scheme pf) md (ds_meta d)" "om_Namespace (ds_meta d) = mod_Namespace md"
    using v(2) found(2) by (auto simp: ds_sound_def of_module_iff)
  from SetDevicePlugin_adopts[OF manager_scheme_kind dp d(3,4)] obtain d' where d': "?f d = Ok d'" "ds_key d' = ds_key d"
      "of_module md d'" "ds_kernel d' = ds_kernel d" "adoptable (pf_scheme pf) md (ds_meta d')" "get_status ds_ops d' = get_status ds_ops d" by blast
  have tag: "ds_tag (pf_scheme pf) md d' = ds_tag (pf_scheme pf) md d" using d d' by (simp add: ds_tag_def)
  from store_patches[where c = "view_daemonsets v" and ob = "plugin_new md" and f = ?f, OF _ d'(1,2,6)] obtain q where
    "CreateOrPatch daemonset_store ds_ops (plugin_new md) ?f (view_daemonsets v) = (Ok (q, d'), (view_daemonsets v)\<lparr>cl_objects := replaced d' (sv_daemonsets v)\<rparr>)"
    using found v(1) ds_sound_key[OF v(2)] by (auto simp: view_daemonsets_def plugin_new_key)
  from server_CreateOrPatch(1)[OF this] show ?thesis
    using replaced_change(1)[OF v(2) found(2) tag d(2)] replaced_sound[OF v(2) found(2) tag] unfolding plugin_placed_def
    by (intro exI[of _ "(q, d')"] exI[of _ "replaced d' (sv_daemonsets v)"] exI[of _ "sv_next v"]) simp
qed

lemma plugin_created:
  assumes v: "\<not> sv_fails v" "ds_sound (pf_scheme pf) md (sv_next v) (sv_daemonsets v)" and dp: "ms_DevicePlugin (mod_Spec md) = Some dp"
    and None: "find (\<lambda>x. ds_key x = plugin_key md) (sv_daemonsets_seen v) = None" "\<forall>d \<in> set (sv_daemonsets v). ds_key d \<noteq> plugin_key md"
  shows "plugin_placed pf md v
    (CreateOrPatch server_daemonsets ds_ops (plugin_new md) (\<lambda>d. SetDevicePluginAsDesired (pf_scheme pf) (Some d) md sa) v)"
proof -
  let ?f = "\<lambda>d. SetDevicePluginAsDesired (pf_scheme pf) (Some d) md sa" and ?new = "plugin_new md"
  have ad: "adoptable (pf_scheme pf) md (ds_meta ?new)"
    using adoptable_new[OF manager_scheme_kind, where md = md and a = "mod_Name md @ ''-device-plugin''" and g = "[]"]
    by (simp add: new_daemonset_def empty_meta_def)
  from SetDevicePlugin_adopts[OF manager_scheme_kind dp ad] obtain d' where d': "?f ?new = Ok d'" "ds_key d' = ds_key ?new"
      "of_module md d'" "ds_kernel d' = ds_kernel ?new" "adoptable (pf_scheme pf) md (ds_meta d')" by (auto simp: new_daemonset_def)
  have k: "ds_kernel d' = []" using d'(4) by (simp add: ds_kernel_lookup new_daemonset_def empty_meta_def)
  have "om_Name (ds_meta d') \<noteq> []" using d'(2) by (simp add: ObjectKeyFromObject_def new_daemonset_def)
  then have nm: "d'\<lparr>ds_meta := named (sv_next v) (ds_meta d')\<rparr> = d'" by (simp add: named_def)
  from store_creates[where c = "view_daemonsets v" and ob = ?new and f = ?f, OF _ d'(1,2)] obtain q x where
    "CreateOrPatch daemonset_store ds_ops ?new ?f (view_daemonsets v) =
       (Ok (q, x), (view_daemonsets v)\<lparr>cl_objects := sv_daemonsets v @ [d'], cl_next := Suc (sv_next v)\<rparr>)"
    using None(1) v(1) nm by (auto simp: view_daemonsets_def plugin_new_key)
  from server_CreateOrPatch(2)[OF this] have
    "CreateOrPatch server_daemonsets ds_ops ?new ?f v = (Ok (q, x), v\<lparr>sv_daemonsets := sv_daemonsets v @ [d'], sv_next := Suc (sv_next v)\<rparr>)" .
  moreover have "ds_sound (pf_scheme pf) md (Suc (sv_next v)) (sv_daemonsets v @ [d'])"
    by (rule ds_sound_later[OF new_plugin_sound[OF v(2) trans[OF d'(2) plugin_new_key] d'(3,5) k None(2)]]) simp
  moreover have "ds_change md [] (sv_daemonsets v) (sv_daemonsets v @ [d'])" using k by (auto simp: ds_change_def)
  ultimately show ?thesis unfolding plugin_placed_def
    by (intro exI[of _ "(q, x)"] exI[of _ "sv_daemonsets v @ [d']"] exI[of _ "Suc (sv_next v)"]) simp
qed

lemma server_handleDevicePlugin:
  assumes l: "in_loop pf ns md ms dsBy0 w ks dsBy v" and f: "kernels_feasible pf md (sv_inputs w) ms" and ks: "[] \<notin> ks"
    and w: "objects_sound pf md w" and h: "handleDevicePlugin (manager_of pf ns) md v = (r, v')"
  shows "in_loop pf ns md ms dsBy0 w (insert [] ks) dsBy v'"
proof (cases "ms_DevicePlugin (mod_Spec md)")
  case None
  then have "v' = v\<lparr>sv_daemonsets := sv_daemonsets v, sv_next := sv_next v\<rparr>" using h by (simp add: handleDevicePlugin_def)
  then show ?thesis using in_loop_plugin[OF l f, of "sv_daemonsets v" "sv_next v"] l by (simp add: in_loop_def objects_sound_def)
next
  case (Some dp)
  note l' = l[unfolded in_loop_def]
  have v: "\<not> sv_fails v" "ds_sound (pf_scheme pf) md (sv_next v) (sv_daemonsets v)" "sv_daemonsets_seen v = sv_daemonsets w"
    using l' by (simp_all add: objects_sound_def)
  have plugin: "d \<in> set (sv_daemonsets w) \<longleftrightarrow> d \<in> set (sv_daemonsets v)" if "ds_key d = plugin_key md" for d
    using that l' w v(2) ks by (auto simp: objects_sound_def ds_sound_def)
  let ?q = "CreateOrPatch server_daemonsets ds_ops (plugin_new md) (\<lambda>d. SetDevicePluginAsDesired (pf_scheme pf) (Some d) md (mod_Namespace md = ns)) v"
  have "plugin_placed pf md v ?q"
  proof (cases "find (\<lambda>x. ds_key x = plugin_key md) (sv_daemonsets_seen v)")
    case found: (Some d)
    then have "d \<in> set (sv_daemonsets v)" using find_SomeD[OF found] plugin[of d] v(3) by simp
    from plugin_patched[OF v(1,2) Some found this] show ?thesis .
  next
    case None
    then have "\<forall>d \<in> set (sv_daemonsets v). ds_key d \<noteq> plugin_key md" using plugin v(3) by (auto simp: find_None_iff)
    from plugin_created[OF v(1,2) Some None this] show ?thesis .
  qed
  then obtain q ds n where c: "?q = (Ok q, v\<lparr>sv_daemonsets := ds, sv_next := n\<rparr>)"
      "ds_change md [] (sv_daemonsets v) ds" "ds_sound (pf_scheme pf) md n ds" "sv_next v \<le> n"
    unfolding plugin_placed_def by blast
  then have "v' = v\<lparr>sv_daemonsets := ds, sv_next := n\<rparr>"
    using h Some by (simp add: handleDevicePlugin_def manager_module_env_def Let_def bind_io_def)
  with in_loop_plugin[OF l f c(2-4)] show ?thesis by simp
qed

lemma server_DS_GC:
  assumes l: "in_loop pf ns md ms dsBy0 w (insert [] (fst ` set ms)) dsBy v" and f: "kernels_feasible pf md (sv_inputs w) ms"
    and h: "DS_GarbageCollect server_daemonsets KernelLabel dsBy (fst ` set ms) v = (r, v')"
    and by0: "\<And>k d. (k, d) \<in> set dsBy \<Longrightarrow> k \<notin> fst ` set ms \<Longrightarrow> d \<in> set (sv_daemonsets w) \<and> of_module md d \<and> ds_kernel d = k"
  shows "loop_done pf ns md ms w v'"
proof -
  note l' = l[unfolded in_loop_def]
  let ?K = "ds_key ` {d \<in> set (sv_daemonsets w). of_module md d \<and> ds_kernel d \<notin> insert [] (fst ` set ms)}"
  have "trims_daemonsets ?K v v'" by (rule DS_GC_trims[OF h]) (use by0 in force)
  then obtain p where p: "v' = v\<lparr>sv_daemonsets := filter p (sv_daemonsets v)\<rparr>" "\<And>d. ds_key d \<notin> ?K \<Longrightarrow> p d"
    unfolding trims_daemonsets_def by blast
  have sound: "ds_sound (pf_scheme pf) md (sv_next v) (sv_daemonsets v)" using l' by (simp add: objects_sound_def)
  have "kernel_out pf ns md w mld v'" if k: "(k, mld) \<in> set ms" for k mld
  proof (rule kernel_out_cong[of pf ns md w mld v])
    have "k \<in> insert [] (fst ` set ms)" using image_eqI[OF _ k, of k fst] by simp
    then show "kernel_out pf ns md w mld v" by (rule in_loop_out[OF l k])
    show "has_driver ns md mld (sv_daemonsets v')" if driver: "has_driver ns md mld (sv_daemonsets v)"
    proof -
      obtain x where x: "x \<in> set (sv_daemonsets v)" "driver_of ns md mld x" using driver by (auto simp: has_driver_def)
      have "ds_kernel x \<in> fst ` set ms" using x(2) feasible_kernel(1)[OF f k] k by (force simp: driver_of_def)
      have "ds_key x \<notin> ?K"
      proof
        assume "ds_key x \<in> ?K"
        then obtain d where d: "d \<in> set (sv_daemonsets w)" "of_module md d" "ds_kernel d \<notin> insert [] (fst ` set ms)" "ds_key x = ds_key d" by blast
        then have "d \<in> set (sv_daemonsets v)" using l' by blast
        from ds_sound_key[OF sound x(1) this d(4)] d(3) \<open>ds_kernel x \<in> fst ` set ms\<close> show False by simp
      qed
      with x show ?thesis using p by (auto simp: has_driver_def)
    qed
  qed (simp_all add: p(1))
  moreover have "objects_sound pf md v'" using l' by (simp add: p(1) objects_sound_def ds_sound_filter)
  ultimately show ?thesis using l' by (auto simp: loop_done_def p(1))
qed

lemma server_Sign_GC:
  assumes "loop_done pf ns md ms w v" "world_sound pf md ms w" "Sign_GarbageCollect server_jobs n ns' owner v = (r, v')"
  shows "round_done pf ns md ms w v'"
proof -
  have "sv_jobs_seen v = sv_jobs w" using assms(1) by (simp add: loop_done_def)
  with Sign_GC_trims[OF assms(3)] obtain p where p: "v' = v\<lparr>sv_jobs := filter p (sv_jobs v)\<rparr>"
      "\<And>j. ObjectKeyFromObject (job_meta j) \<notin> (\<lambda>j. ObjectKeyFromObject (job_meta j)) ` set (sv_jobs w) \<Longrightarrow> p j"
    unfolding trims_jobs_def by auto
  show ?thesis unfolding p(1) by (rule loop_done_trim[OF assms(1,2)]) (use p(2) in force)
qed

lemma in_loop_done:
  assumes "in_loop pf ns md ms dsBy0 w ks dsBy v" "fst ` set ms \<subseteq> ks"
  shows "loop_done pf ns md ms w v"
proof -
  have "kernel_out pf ns md w mld v" if k: "(k, mld) \<in> set ms" for k mld
    by (rule in_loop_out[OF assms(1) k]) (use assms(2) image_eqI[OF _ k, of k fst] in auto)
  then show ?thesis using assms(1) by (auto simp: loop_done_def in_loop_def)
qed

lemma effect_runs: "effect R m \<Longrightarrow> R v (snd (m v))"
  unfolding effect_def by (metis prod.collapse)

lemma snd_bind: "snd (bind_io m f v) = (case fst (m v) of Ok a \<Rightarrow> snd (f a (snd (m v))) | _ \<Rightarrow> snd (m v))"
  by (simp add: bind_io_def split: prod.split result.split)

lemma snd_wrap: "snd (wrap_io g m v) = snd (m v)"
  by (simp add: wrap_io_def split: prod.split)

lemma fst_wrap: "fst (wrap_io g m v) = map_err g (fst (m v))"
  by (simp add: wrap_io_def split: prod.split)

text \<open>Device plugin, garbage collection and status, whichever of them fails.\<close>

lemma after_kernels:
  assumes l: "in_loop pf ns md ms dsBy0 w (fst ` set ms) dsBy v" and f: "kernels_feasible pf md (sv_inputs w) ms"
    and w: "world_sound pf md ms w"
    and by0: "\<And>k d. (k, d) \<in> set dsBy \<Longrightarrow> k \<notin> fst ` set ms \<Longrightarrow> d \<in> set (sv_daemonsets w) \<and> of_module md d \<and> ds_kernel d = k"
    and status: "effect rest_only status"
  shows "round_done pf ns md ms w (snd (bind_io (wrap_io g1 (handleDevicePlugin (manager_of pf ns) md)) (\<lambda>_.
    bind_io (wrap_io g2 (garbageCollect (manager_of pf ns) md ms dsBy)) (\<lambda>_. wrap_io g3 status)) v))"
proof -
  let ?v1 = "snd (handleDevicePlugin (manager_of pf ns) md v)"
  let ?v2 = "snd (DS_GarbageCollect server_daemonsets KernelLabel dsBy (fst ` set ms) ?v1)"
  let ?v3 = "snd (Sign_GarbageCollect server_jobs (mod_Name md) (mod_Namespace md) (mod_meta md) ?v2)"
  have "[] \<notin> fst ` set ms" using feasible_kernel(2)[OF f] by force
  then have l1: "in_loop pf ns md ms dsBy0 w (insert [] (fst ` set ms)) dsBy ?v1"
    using server_handleDevicePlugin[OF l f _ _ prod.collapse[symmetric]] w by (simp add: world_sound_def)
  have l2: "loop_done pf ns md ms w ?v2" by (rule server_DS_GC[OF l1 f prod.collapse[symmetric] by0])
  have l3: "round_done pf ns md ms w ?v3" by (rule server_Sign_GC[OF l2 w prod.collapse[symmetric]])
  have r1: "round_done pf ns md ms w ?v1" using in_loop_done[OF l1] loop_done_round[OF _ w] by blast
  have r4: "round_done pf ns md ms w (snd (status ?v3))" by (rule round_done_rest[OF l3 effect_runs[OF status]])
  have gc: "snd (garbageCollect (manager_of pf ns) md ms dsBy ?v1) \<in> {?v2, ?v3} \<and>
      (is_ok (fst (garbageCollect (manager_of pf ns) md ms dsBy ?v1)) \<longrightarrow> snd (garbageCollect (manager_of pf ns) md ms dsBy ?v1) = ?v3)"
    by (auto simp: garbageCollect_def manager_module_env_simps operator_build_def operator_sign_def Build_GarbageCollect_def module_owner_def
        Let_def bind_io_def wrap_io_def split: prod.split result.split)
  then have "round_done pf ns md ms w (snd (garbageCollect (manager_of pf ns) md ms dsBy ?v1))" using loop_done_round[OF l2 w] l3 by auto
  with r1 r4 gc show ?thesis by (auto simp: snd_bind snd_wrap fst_wrap split: result.split)
qed

end
