(* ===== verification/Module_Convergence.thy ===== *)
theory Module_Convergence
  imports Round_End
begin

text \<open>
  The whole Module reconciler on one API server, round after round: the cluster finishes what was started, the cache catches up, and the
  reconciler runs once. Within seven rounds every kernel of the Module has its driver.
\<close>

section \<open>Rounds\<close>

definition finish_builds :: "OcpBuild \<Rightarrow> OcpBuild" where
  "finish_builds b = (if build_dead b then b else b\<lparr>ob_Phase := ''Complete''\<rparr>)"

definition finish_jobs :: "Job \<Rightarrow> Job" where
  "finish_jobs j = (if job_dead j then j else j\<lparr>job_Active := 0, job_Succeeded := 1\<rparr>)"

definition server_settles :: "'y server \<Rightarrow> 'y server" where
  "server_settles w = w\<lparr>sv_builds := map finish_builds (sv_builds w), sv_builds_seen := map finish_builds (sv_builds w),
     sv_jobs := map finish_jobs (sv_jobs w), sv_jobs_seen := map finish_jobs (sv_jobs w), sv_daemonsets_seen := sv_daemonsets w\<rparr>"

text \<open>Between the rounds everything else may change: the registries, the status of the Module, the metrics.\<close>

fun module_rounds :: "'y server module_env \<Rightarrow> NamespacedName \<Rightarrow> 'y list \<Rightarrow> 'y server \<Rightarrow> 'y server" where
  "module_rounds env req [] w = w"
| "module_rounds env req (y # ys) w = module_rounds env req ys (snd (Module_Reconcile env req (server_settles (w\<lparr>sv_more := y\<rparr>))))"

section \<open>One round\<close>

definition metrics_aside :: "'y server metrics_api \<Rightarrow> bool" where
  "metrics_aside api \<longleftrightarrow> (\<forall>n w. rest_only w (ma_SetKMMModulesNum api n w) \<and> rest_only w (ma_SetKMMInClusterBuildNum api n w) \<and>
     rest_only w (ma_SetKMMInClusterSignNum api n w) \<and> rest_only w (ma_SetKMMDevicePluginNum api n w)) \<and>
     (\<forall>a b c w. rest_only w (ma_SetKMMModprobeArgs api a b c w) \<and> rest_only w (ma_SetKMMModprobeRawArgs api a b c w))"

text \<open>Apart from its status the Module stays as it is, the nodes stay, and the calls for other kinds leave the three kinds alone.\<close>

definition calm :: "('y server, 'k, 'a) platform \<Rightarrow> string \<Rightarrow> NamespacedName \<Rightarrow> Module \<Rightarrow> Node list \<Rightarrow> stage_inputs \<Rightarrow> bool" where
  "calm pf ns req md nodes x \<longleftrightarrow>
     (\<forall>w. \<exists>st w'. k_get (pf_modules pf) req w = (Ok (md\<lparr>mod_Status := st\<rparr>), w') \<and> rest_only w w') \<and>
     (\<forall>w. \<exists>r w'. k_list (pf_modules pf) fmempty None w = (r, w') \<and> \<not> is_panic r \<and> rest_only w w') \<and>
     (\<forall>m m'. effect rest_only (k_status_patch (pf_modules pf) m m')) \<and>
     (\<forall>w. \<exists>w'. k_list (pf_nodes pf) (ms_Selector (mod_Spec md)) None w = (Ok nodes, w') \<and> rest_only w w') \<and>
     metrics_aside (pf_metrics pf) \<and>
     (nn_Namespace req \<noteq> ns \<longrightarrow> (\<forall>w :: 'y server. sv_inputs w = x \<longrightarrow> (\<exists>w'.
        ca_Sync (server_reader in_configmap in_configmaps) (pf_scheme pf) (nn_Namespace req) (module_owner md) w = (Ok (), w') \<and> rest_only w w')))"

lemma manager_fields:
  "me_modules (manager_of pf ns) = pf_modules pf" "me_nodes (manager_of pf ns) = pf_nodes pf" "me_operatorNamespace (manager_of pf ns) = ns"
  "me_metricsAPI (manager_of pf ns) = pf_metrics pf"
  by (simp_all add: manager_module_env_def on_server_def Let_def)

lemma metrics_quiet:
  assumes "calm pf ns req md nodes x"
  shows "\<exists>w'. setKMMOMetrics (manager_of pf ns) w = (Ok (), w') \<and> rest_only w w'"
proof -
  obtain r w1 where r: "k_list (pf_modules pf) fmempty None w = (r, w1)" "\<not> is_panic r" "rest_only w w1"
    using assms unfolding calm_def by blast
  have api: "metrics_aside (pf_metrics pf)" using assms by (simp add: calm_def)
  have "rest_only u (modprobe_metrics (pf_metrics pf) m u)" for m u
    using api unfolding modprobe_metrics_def metrics_aside_def Let_def by (auto split: option.split) (meson rest_only_trans)
  then have fold: "rest_only u (fold (modprobe_metrics (pf_metrics pf)) mods u)" for mods u
    by (induction mods arbitrary: u) (auto intro: rest_only_trans)
  show ?thesis
  proof (cases r)
    case (Ok mods)
    have "rest_only u (ma_SetKMMModulesNum (pf_metrics pf) n u)" "rest_only u (ma_SetKMMInClusterBuildNum (pf_metrics pf) n u)"
      "rest_only u (ma_SetKMMInClusterSignNum (pf_metrics pf) n u)" "rest_only u (ma_SetKMMDevicePluginNum (pf_metrics pf) n u)" for n u
      using api by (simp_all add: metrics_aside_def)
    with r(3) fold Ok r(1) show ?thesis
      by (simp add: setKMMOMetrics_def manager_fields Let_def bind_io_def attempt_io_def do_io_def) (meson rest_only_trans)
  qed (use r in \<open>simp_all add: setKMMOMetrics_def manager_fields bind_io_def attempt_io_def\<close>)
qed

text \<open>The reconciler does not look at the status of the Module, except to write it.\<close>

lemma kernelAPI_status: "wired_kernelAPI pf (md\<lparr>mod_Status := st\<rparr>) = wired_kernelAPI pf md"
  by (simp add: fun_eq_iff wired_kernelAPI_def GetModuleLoaderDataForKernel_def prepareModuleLoaderData_def module_owner_def)

lemma status_aside:
  "module_owner (md\<lparr>mod_Status := st\<rparr>) = module_owner md"
  "getRelevantKernelMappingsAndNodes (manager_of pf ns) (md\<lparr>mod_Status := st\<rparr>) = getRelevantKernelMappingsAndNodes (manager_of pf ns) md"
  "getNodesListBySelector env (md\<lparr>mod_Status := st\<rparr>) = getNodesListBySelector env md"
  "handleDevicePlugin env (md\<lparr>mod_Status := st\<rparr>) = handleDevicePlugin env md"
  "garbageCollect env (md\<lparr>mod_Status := st\<rparr>) = garbageCollect env md"
proof -
  show owner: "module_owner (md\<lparr>mod_Status := st\<rparr>) = module_owner md" by (simp add: module_owner_def)
  show "getRelevantKernelMappingsAndNodes (manager_of pf ns) (md\<lparr>mod_Status := st\<rparr>) = getRelevantKernelMappingsAndNodes (manager_of pf ns) md"
    by (simp add: getRelevantKernelMappingsAndNodes_def[abs_def] manager_module_env_simps kernelAPI_status)
  show "getNodesListBySelector env (md\<lparr>mod_Status := st\<rparr>) = getNodesListBySelector env md"
    by (simp add: getNodesListBySelector_def)
  have "SetDevicePluginAsDesired sch od (md\<lparr>mod_Status := st\<rparr>) sa = SetDevicePluginAsDesired sch od md sa" for sch od sa
    by (simp add: SetDevicePluginAsDesired_def owner device_plugin_template_def split: option.split)
  then show "handleDevicePlugin env (md\<lparr>mod_Status := st\<rparr>) = handleDevicePlugin env md"
    by (simp add: handleDevicePlugin_def split: option.split)
  show "garbageCollect env (md\<lparr>mod_Status := st\<rparr>) = garbageCollect env md"
    by (simp add: fun_eq_iff garbageCollect_def owner)
qed

text \<open>The index of the DaemonSets.\<close>

definition ds_index :: "Module \<Rightarrow> DaemonSet list \<Rightarrow> DaemonSet assoc" where
  "ds_index md ds = map (\<lambda>d. (ds_kernel d, d)) (filter (of_module md) ds)"

lemma server_index:
  assumes "ds_sound sch md n (sv_daemonsets_seen v)"
  shows "ModuleDaemonSetsByKernelVersion server_daemonsets KernelLabel (mod_Name md) (mod_Namespace md) v = (Ok (ds_index md (sv_daemonsets_seen v)), v)"
proof -
  have l: "k_list server_daemonsets (fmupd ModuleNameLabel (mod_Name md) fmempty) (Some (mod_Namespace md)) v =
      (Ok (filter (of_module md) (sv_daemonsets_seen v)), v)"
    by (simp add: through_client_simps through_def daemonset_store_def store_client_def Let_def view_defs of_module_def[abs_def])
  have d: "distinct_keys (ds_index md (sv_daemonsets_seen v))"
    using assms by (simp add: ds_sound_def ds_index_def distinct_keys_def comp_def)
  then have "index_by_kernel KernelLabel [] (filter (of_module md) (sv_daemonsets_seen v)) = Ok (ds_index md (sv_daemonsets_seen v))"
    using index_by_kernel_eq[of "[]"] by (simp add: ds_index_def ds_kernel_def[abs_def])
  with l show ?thesis by (simp add: ModuleDaemonSetsByKernelVersion_def moduleDaemonSets_def bind_io_def wrap_io_def)
qed

lemma ds_index_lookup:
  assumes "ds_sound sch md n ds"
  shows "map_of (ds_index md ds) k = Some d \<longleftrightarrow> d \<in> set ds \<and> of_module md d \<and> ds_kernel d = k" "distinct (map fst (ds_index md ds))"
proof -
  show d: "distinct (map fst (ds_index md ds))" using assms by (simp add: ds_sound_def ds_index_def comp_def)
  show "map_of (ds_index md ds) k = Some d \<longleftrightarrow> d \<in> set ds \<and> of_module md d \<and> ds_kernel d = k"
    using map_of_eq_Some_iff[OF d] by (auto simp: ds_index_def)
qed

lemma in_loop_start: "objects_sound pf md w \<Longrightarrow> settled w \<Longrightarrow> in_loop pf ns md ms dsBy w {} dsBy w"
  by (simp add: in_loop_def settled_def)

text \<open>From the index of the DaemonSets to the status.\<close>

lemma server_kernels_and_rest:
  assumes f: "kernels_feasible pf md (sv_inputs w) ms" and w: "world_sound pf md ms w" "settled w" and status: "\<And>dsBy. effect rest_only (status dsBy)"
  shows "round_done pf ns md ms w (snd (bind_io (for_io (reconcile_kernel (manager_of pf ns)) (ds_index md (sv_daemonsets w)) ms) (\<lambda>dsBy.
    bind_io (wrap_io g1 (handleDevicePlugin (manager_of pf ns) md)) (\<lambda>_.
    bind_io (wrap_io g2 (garbageCollect (manager_of pf ns) md ms dsBy)) (\<lambda>_. wrap_io g3 (status dsBy)))) w))"
proof -
  have o: "objects_sound pf md w" using w(1) by (simp add: world_sound_def)
  then have ds: "ds_sound (pf_scheme pf) md (sv_next w) (sv_daemonsets w)" by (simp add: objects_sound_def)
  note index = ds_index_lookup[OF ds]
  have d: "distinct (map fst ms)" using f by (simp add: kernels_feasible_def)
  from kernels_loop[OF in_loop_start[OF o w(2), of ns] f w index(1) subset_refl d] obtain dsBy v where
    l: "for_io (reconcile_kernel (manager_of pf ns)) (ds_index md (sv_daemonsets w)) ms w = (Ok dsBy, v)"
      "in_loop pf ns md ms (ds_index md (sv_daemonsets w)) w (fst ` set ms) dsBy v" by auto
  have by0: "d \<in> set (sv_daemonsets w) \<and> of_module md d \<and> ds_kernel d = k" if "(k, d) \<in> set dsBy" "k \<notin> fst ` set ms" for k d
  proof -
    have "map fst dsBy = map fst (ds_index md (sv_daemonsets w))" "map_of dsBy k = map_of (ds_index md (sv_daemonsets w)) k"
      using l(2) that(2) by (simp_all add: in_loop_def)
    then show ?thesis using map_of_is_SomeI[OF _ that(1)] index by metis
  qed
  from after_kernels[OF l(2) f w(1) by0 status] show ?thesis by (simp add: bind_io_def l(1))
qed

lemma settled_rest:
  assumes "rest_only w w'"
  shows "settled w' = settled w" "world_sound pf md ms w' = world_sound pf md ms w" "round_done pf ns md ms w' v = round_done pf ns md ms w v"
  unfolding settled_def world_sound_def objects_sound_def round_done_def kernel_distance_def rest_only_fields[OF assms] by simp_all

lemma module_round:
  assumes c: "calm pf ns req md nodes (sv_inputs w)"
    and rel: "getRelevantKernelMappingsAndNodes (manager_of pf ns) md (filter isNodeSchedulable nodes) = Ok (ms, mapped)"
    and f: "kernels_feasible pf md (sv_inputs w) ms" and w: "world_sound pf md ms w" "settled w"
  shows "round_done pf ns md ms w (snd (Module_Reconcile (manager_of pf ns) req w))"
proof -
  note env = manager_module_env_simps manager_fields on_server_simps
  obtain st w1 where g: "k_get (pf_modules pf) req w = (Ok (md\<lparr>mod_Status := st\<rparr>), w1)" "rest_only w w1"
    using c unfolding calm_def by blast
  let ?ca = "if nn_Namespace req \<noteq> ns then wrap_io (Errorf_v ''failed to synchronize CA ConfigMaps'')
       (me_caSync (manager_of pf ns) (nn_Namespace req) (module_owner md)) else return_io ()"
  have "sv_inputs w1 = sv_inputs w" using rest_only_fields[OF g(2)] by simp
  then obtain w2 where ca: "?ca w1 = (Ok (), w2)" "rest_only w1 w2"
    using c unfolding calm_def
    by (cases "nn_Namespace req = ns") (auto simp: manager_module_env_def Let_def on_server_def wrap_io_def)
  obtain w3 where m: "setKMMOMetrics (manager_of pf ns) w2 = (Ok (), w3)" "rest_only w2 w3" using metrics_quiet[OF c] by blast
  obtain w4 where n: "k_list (pf_nodes pf) (ms_Selector (mod_Spec md)) None w3 = (Ok nodes, w4)" "rest_only w3 w4"
    using c unfolding calm_def by blast
  have r: "rest_only w w4" using g(2) ca(2) m(2) n(2) by (meson rest_only_trans)
  have w4: "world_sound pf md ms w4" "settled w4" "kernels_feasible pf md (sv_inputs w4) ms"
    using w f by (simp_all add: settled_rest[OF r] rest_only_fields[OF r])
  then have "ds_sound (pf_scheme pf) md (sv_next w4) (sv_daemonsets_seen w4)" "sv_daemonsets_seen w4 = sv_daemonsets w4"
    by (simp_all add: world_sound_def objects_sound_def settled_def)
  note index = server_index[OF this(1), unfolded this(2)]
  have status: "effect rest_only (ModuleUpdateStatus (pf_modules pf) m a b d)" for m a b d
    using c unfolding calm_def ModuleUpdateStatus_def
    by (intro effect_bind effect_basic reflpI transpI) (auto intro: rest_only_trans)
  let ?md = "md\<lparr>mod_Status := st\<rparr>" and ?nodes = "filter isNodeSchedulable nodes"
  have "Module_Reconcile (manager_of pf ns) req w =
     bind_io (for_io (reconcile_kernel (manager_of pf ns)) (ds_index md (sv_daemonsets w4)) ms) (\<lambda>dsBy.
       bind_io (wrap_io (Errorf_w ''could handle device plugin'') (handleDevicePlugin (manager_of pf ns) md)) (\<lambda>_.
       bind_io (wrap_io (Errorf_v ''failed to run garbage collection'') (garbageCollect (manager_of pf ns) md ms dsBy)) (\<lambda>_.
       wrap_io (Errorf_w ''failed to update status of the module'') (ModuleUpdateStatus (pf_modules pf) ?md mapped ?nodes dsBy)))) w4"
  proof -
    have "attempt_io (getRequestedModule (manager_of pf ns) req) w = (Ok (Inr ?md), w1)"
      "wrap_io (Errorf_w ''could get targeted nodes for module'') (getNodesListBySelector (manager_of pf ns) md) w3 = (Ok ?nodes, w4)"
      "wrap_io (Errorf_v ''could not get DaemonSets for module'')
         (ModuleDaemonSetsByKernelVersion server_daemonsets KernelLabel (mod_Name md) (mod_Namespace md)) w4 = (Ok (ds_index md (sv_daemonsets w4)), w4)"
      using g(1) n(1) index by (simp_all add: getRequestedModule_def getNodesListBySelector_def env bind_io_def wrap_io_def attempt_io_def)
    then show ?thesis using ca(1) m(1)
      by (cases "nn_Namespace req = ns") (simp_all add: Module_Reconcile_def env status_aside rel)
  qed
  with server_kernels_and_rest[OF w4(3,1,2) status] have "round_done pf ns md ms w4 (snd (Module_Reconcile (manager_of pf ns) req w))" by simp
  then show ?thesis unfolding settled_rest(3)[OF r] .
qed

section \<open>All rounds\<close>

lemma stage_map:
  assumes "\<And>x. mine (f x) = mine x" "\<And>x. changed (f x) = changed x" "\<And>x. \<not> dead x \<Longrightarrow> \<not> dead (f x)"
  shows "distance mine changed (map f xs) = distance mine changed xs" "settleable mine changed dead xs \<Longrightarrow> settleable mine changed dead (map f xs)"
proof -
  have "filter mine (map f xs) = map f (filter mine xs)" using assms(1) by (simp add: filter_map comp_def)
  then show "distance mine changed (map f xs) = distance mine changed xs" "settleable mine changed dead xs \<Longrightarrow> settleable mine changed dead (map f xs)"
    using assms(2,3) by (auto simp: distance_def settleable_def split: list.split)
qed

lemma changed_meta:
  "isBuildChanged (b\<lparr>ob_Phase := p\<rparr>) = isBuildChanged b" "IsJobChanged (j\<lparr>job_Active := a, job_Succeeded := c\<rparr>) = IsJobChanged j"
  by (auto simp: fun_eq_iff isBuildChanged_def IsJobChanged_def split: option.split)

lemma finish_keeps:
  "ob_meta (finish_builds b) = ob_meta b" "build_of mld (finish_builds b) = build_of mld b" "b_changed pf mld x (finish_builds b) = b_changed pf mld x b"
  "\<not> build_dead b \<Longrightarrow> \<not> build_dead (finish_builds b)"
  "job_meta (finish_jobs j) = job_meta j" "sign_job_of mld owner (finish_jobs j) = sign_job_of mld owner j" "s_changed pf mld x (finish_jobs j) = s_changed pf mld x j"
  "\<not> job_dead j \<Longrightarrow> \<not> job_dead (finish_jobs j)"
  by (simp_all add: finish_builds_def finish_jobs_def build_of_def sign_job_of_def build_changed_def job_changed_def changed_meta
      build_dead_def job_dead_def)

lemma settles_settled: "settled (server_settles w)"
  by (auto simp: settled_def server_settles_def done_builds_def done_jobs_def finish_builds_def finish_jobs_def)

lemma settles_keeps:
  "world_sound pf md ms w \<Longrightarrow> world_sound pf md ms (server_settles w)" "sv_inputs (server_settles w) = sv_inputs w"
  "sv_daemonsets (server_settles w) = sv_daemonsets w" "kernel_distance pf mld (server_settles w) = kernel_distance pf mld w"
proof -
  have "build_left pf mld x (map finish_builds bs) = build_left pf mld x bs"
    "settleable (build_of mld) (b_changed pf mld x) build_dead bs \<Longrightarrow> settleable (build_of mld) (b_changed pf mld x) build_dead (map finish_builds bs)"
    "sign_left pf mld x (map finish_jobs js) = sign_left pf mld x js"
    "settleable (signing_jobs mld) (s_changed pf mld x) job_dead js \<Longrightarrow> settleable (signing_jobs mld) (s_changed pf mld x) job_dead (map finish_jobs js)" for mld x bs js
    by (simp_all add: stage_map finish_keeps)
  then show "world_sound pf md ms w \<Longrightarrow> world_sound pf md ms (server_settles w)" "kernel_distance pf mld (server_settles w) = kernel_distance pf mld w"
    by (auto simp: world_sound_def objects_sound_def kernel_sound_def kernel_distance_def server_settles_def keyed_map finish_keeps)
qed (simp_all add: server_settles_def)

lemma kernel_distance_bound: "kernel_distance pf mld w < 7"
proof -
  have "distance mine changed xs \<le> 2" for mine :: "'o \<Rightarrow> bool" and changed xs by (simp add: distance_def split: list.split)
  then have "build_left pf mld (sv_inputs w) (sv_builds w) \<le> 2"
    "sign_left pf mld (sv_inputs w) (sv_jobs w) \<le> 2" by blast+
  then show ?thesis by (simp add: kernel_distance_def)
qed

text \<open>What is left to do after some rounds.\<close>

definition drivers_within :: "('y server, 'k, 'a) platform \<Rightarrow> string \<Rightarrow> Module \<Rightarrow> (string \<times> ModuleLoaderData) list \<Rightarrow> nat \<Rightarrow> 'y server \<Rightarrow> bool" where
  "drivers_within pf ns md ms n w \<longleftrightarrow> world_sound pf md ms w \<and>
     (\<forall>(k, mld) \<in> set ms. has_driver ns md mld (sv_daemonsets w) \<or> kernel_distance pf mld w < n)"

lemma drivers_closer:
  assumes "calm pf ns req md nodes (sv_inputs w)"
    and "getRelevantKernelMappingsAndNodes (manager_of pf ns) md (filter isNodeSchedulable nodes) = Ok (ms, mapped)"
    and "kernels_feasible pf md (sv_inputs w) ms" and d: "drivers_within pf ns md ms n w"
  shows "drivers_within pf ns md ms (n - 1) (snd (Module_Reconcile (manager_of pf ns) req (server_settles (w\<lparr>sv_more := y\<rparr>))))"
    "sv_inputs (snd (Module_Reconcile (manager_of pf ns) req (server_settles (w\<lparr>sv_more := y\<rparr>)))) = sv_inputs w"
proof -
  let ?w = "w\<lparr>sv_more := y\<rparr>" and ?v = "snd (Module_Reconcile (manager_of pf ns) req (server_settles (w\<lparr>sv_more := y\<rparr>)))"
  have "rest_only w ?w" by (simp add: rest_only_def)
  note same = settled_rest[OF this] rest_only_fields[OF this]
  have ws: "world_sound pf md ms (server_settles ?w)" using d by (auto simp: drivers_within_def same intro: settles_keeps)
  have r: "round_done pf ns md ms (server_settles ?w) ?v"
    by (rule module_round[OF _ assms(2) _ ws settles_settled]) (use assms(1,3) in \<open>simp_all add: settles_keeps\<close>)
  have dist: "kernel_distance pf mld ?w = kernel_distance pf mld w" for mld by (simp add: kernel_distance_def)
  show "sv_inputs ?v = sv_inputs w" using r by (simp add: round_done_def settles_keeps)
  have "has_driver ns md mld (sv_daemonsets ?v) \<or> kernel_distance pf mld ?v < n - 1" if "(k, mld) \<in> set ms" for k mld
  proof -
    have "has_driver ns md mld (sv_daemonsets w) \<longrightarrow> has_driver ns md mld (sv_daemonsets ?v)"
      "has_driver ns md mld (sv_daemonsets ?v) \<or> kernel_distance pf mld ?v < kernel_distance pf mld w"
      using r that by (auto simp: round_done_def settles_keeps dist)
    moreover have "has_driver ns md mld (sv_daemonsets w) \<or> kernel_distance pf mld w < n" using d that by (auto simp: drivers_within_def)
    ultimately show ?thesis by linarith
  qed
  then show "drivers_within pf ns md ms (n - 1) ?v" using r by (auto simp: drivers_within_def round_done_def)
qed

lemma drivers_after:
  assumes "getRelevantKernelMappingsAndNodes (manager_of pf ns) md (filter isNodeSchedulable nodes) = Ok (ms, mapped)"
    and "calm pf ns req md nodes (sv_inputs w)" "kernels_feasible pf md (sv_inputs w) ms" "drivers_within pf ns md ms n w"
  shows "drivers_within pf ns md ms (n - length ys) (module_rounds (manager_of pf ns) req ys w)"
  using assms(2-4)
proof (induction ys arbitrary: w n)
  case (Cons y ys)
  let ?v = "snd (Module_Reconcile (manager_of pf ns) req (server_settles (w\<lparr>sv_more := y\<rparr>)))"
  note step = drivers_closer[OF Cons.prems(1) assms(1) Cons.prems(2,3), of y]
  from Cons.IH[of ?v "n - 1"] step Cons.prems(1,2) show ?case by simp
qed simp

section \<open>Jobs that are deleted twice\<close>

lemma for_stuck:
  assumes "x \<in> set xs" "\<And>s y v. P v \<Longrightarrow> P (snd (body s y v))" "\<And>s v. P v \<Longrightarrow> \<not> is_ok (fst (body s x v))" "P v"
  shows "\<not> is_ok (fst (for_io body s xs v))"
  using assms(1,4)
proof (induction xs arbitrary: s v)
  case (Cons y ys)
  show ?case
  proof (cases "body s y v")
    case (Pair r v')
    have "P v'" using assms(2)[OF Cons.prems(2), of s y] Pair by simp
    moreover have "\<not> is_ok r" if "y = x" using assms(3)[OF Cons.prems(2), of s] Pair that by simp
    ultimately show ?thesis using Cons Pair by (cases r) (auto simp: bind_io_def)
  qed
qed simp

lemma store_delete_job:
  "k_delete job_store j c = (if cl_fails c then (Err write_failed, c)
     else if \<forall>y \<in> set (cl_objects c). ObjectKeyFromObject (job_meta y) \<noteq> ObjectKeyFromObject (job_meta j)
     then (Err (StatusError StatusReasonNotFound (om_Name (job_meta j))), c)
     else (Ok (), c\<lparr>cl_objects := filter (\<lambda>y. ObjectKeyFromObject (job_meta y) \<noteq> ObjectKeyFromObject (job_meta j)) (cl_objects c)\<rparr>))"
  by (simp add: job_store_def store_client_def Let_def)

text \<open>A job that has succeeded and is outdated is deleted by the synchronisation. The garbage collection of the same reconciliation still finds it in the
  cache, deletes it again, and fails.\<close>

theorem outdated_job_deleted_twice:
  assumes "is_ok (job_template_for sch hash img mld source push owner (cl_rest c))" "\<not> cl_fails c"
    and "filter (sign_job_of mld owner) (cl_cache c) = [j]" "job_changed sch hash img mld source push owner (cl_rest c) j = Ok True"
    and "job_Succeeded j = 1"
  shows "\<exists>c'. stored_Sign_Sync sch hash img mld source push owner c = (Ok StatusInProgress, c') \<and>
    \<not> is_ok (fst (Sign_GarbageCollect job_store (mld_Name mld) (mld_Namespace mld) (oo_meta owner) c'))"
proof -
  let ?key = "\<lambda>j. ObjectKeyFromObject (job_meta j)"
  let ?c = "c\<lparr>cl_objects := filter (\<lambda>y. ?key y \<noteq> ?key j) (cl_objects c)\<rparr>"
  let ?js = "filterJobsByOwner (filter (\<lambda>x. selected (moduleLabels (mld_Name mld) JobTypeSign) (Some (mld_Namespace mld)) (job_meta x)) (cl_cache c)) (oo_meta owner)"
  have list: "GetModuleJobs job_store (mld_Name mld) (mld_Namespace mld) JobTypeSign (oo_meta owner) ?c = (Ok ?js, ?c)"
    by (simp add: GetModuleJobs_def getJobs_def job_store_def store_client_def Let_def bind_io_def wrap_io_def)
  have "j \<in> set (filter (sign_job_of mld owner) (cl_cache c))" using assms(3) by simp
  then have "j \<in> set ?js" by (auto simp: filterJobsByOwner_def sign_job_of_def selected_def fmsubset.rep_eq map_le_def JobLabels_def moduleKernelLabels_def
      moduleLabels_def JobTypeSign_def split: if_split_asm)
  then have "\<not> is_ok (fst (for_io (\<lambda>deleteNames job. if job_Succeeded job = 1
      then bind_io (wrap_io (Errorf_v (''failed to delete build job '' @ om_Name (job_meta job))) (DeleteJob job_store job)) (\<lambda>_.
           return_io (deleteNames @ [om_Name (job_meta job)])) else return_io deleteNames) [] ?js ?c))"
    by (rule for_stuck[where P = "\<lambda>v. \<forall>y \<in> set (cl_objects v). ?key y \<noteq> ?key j"])
      (use assms(5) in \<open>auto simp: DeleteJob_def store_delete_job bind_io_def wrap_io_def\<close>)
  then have "\<not> is_ok (fst (Sign_GarbageCollect job_store (mld_Name mld) (mld_Namespace mld) (oo_meta owner) ?c))"
    using list by (auto simp: Sign_GarbageCollect_def bind_io_def wrap_io_def)
  with settling_sign.replaces[OF assms(1-4)] show ?thesis by blast
qed

section \<open>Properties\<close>

text \<open>C2. Every kernel of a Module gets its driver. The operator as its main program builds it reconciles the Module again and again
  on an API server that serves its writes; between two reconciliations the cluster finishes the Builds and jobs that
  have been started, the cache catches up, and registries, metrics and the status of the Module may change at will. When the inputs of the stages
  give a Build and a job for every kernel that the Module maps, and no object of the Module is beyond recovery at the
  start, after seven reconciliations there is a DaemonSet with the driver of each such kernel, exactly as the Module asks for it, and it
  stays.\<close>

theorem module_gets_its_drivers:
  assumes "calm pf ns req md nodes (sv_inputs w)"
    and "getRelevantKernelMappingsAndNodes (manager_of pf ns) md (filter isNodeSchedulable nodes) = Ok (ms, mapped)"
    and "\<forall>(k, mld) \<in> set ms. k \<noteq> [] \<and> mld_ContainerImage mld \<noteq> [] \<and> kernel_feasible pf (sv_inputs w) mld"
    and "world_sound pf md ms w" "7 \<le> length ys" "(k, mld) \<in> set ms"
  shows "\<exists>d \<in> set (sv_daemonsets (module_rounds (manager_of pf ns) req ys w)). of_module md d \<and> ds_kernel d = k \<and>
    ds_Template d = driver_template KernelLabel mld (mod_Namespace md = ns)"
proof -
  have api: "\<forall>(k, mld) \<in> set ms. GetModuleLoaderDataForKernel (pf_regexp pf) (pf_template pf) md k = Ok mld"
    using relevant_mappings(1)[OF assms(2)] by (simp add: manager_module_env_simps wired_kernelAPI_def)
  have "distinct (map fst ms)" using relevant_loop_Ok[OF assms(2)[unfolded getRelevantKernelMappingsAndNodes_def]] by (simp add: distinct_keys_def)
  then have "kernels_feasible pf md (sv_inputs w) ms"
    using assms(3) api unfolding kernels_feasible_def mld_for_def by (auto dest: km.mld_kernel km.mld_module)
  moreover have "drivers_within pf ns md ms 7 w" using assms(4) kernel_distance_bound by (auto simp: drivers_within_def)
  ultimately have "drivers_within pf ns md ms (7 - length ys) (module_rounds (manager_of pf ns) req ys w)"
    by (rule drivers_after[OF assms(2,1)])
  then have "has_driver ns md mld (sv_daemonsets (module_rounds (manager_of pf ns) req ys w))" using assms(5,6) by (auto simp: drivers_within_def)
  moreover have "mld_KernelVersion mld = k" using api assms(6) km.mld_kernel by fastforce
  ultimately show ?thesis by (simp add: has_driver_def driver_of_def)
qed

text \<open>A cluster with one node and one Module whose image has to be built and signed; the registry never has the image.\<close>

definition quiet_client :: "'o list \<Rightarrow> ('w, 'o) kclient" where
  "quiet_client obs = \<lparr>k_get = \<lambda>_. (case obs of [] \<Rightarrow> fail_io (StatusError StatusReasonNotFound []) | x # _ \<Rightarrow> return_io x),
     k_list = \<lambda>_ _. return_io obs, k_create = return_io, k_delete = \<lambda>_. return_io (), k_patch = \<lambda>x _. return_io x,
     k_status_patch = \<lambda>x _. return_io x, k_status_update = return_io\<rparr>"

definition made_kmod :: Module where
  "made_kmod = sample_module [(sample_mapping ''5.14.0-70'' ''quay.io/org/kmod:v1'')\<lparr>km_Build := Some sample_build, km_Sign := Some sample_sign\<rparr>]"

definition made_kmod_mld :: ModuleLoaderData where
  "made_kmod_mld = (sample_mld (Some sample_build) (Some sample_sign))\<lparr>mld_ContainerImage := ''quay.io/org/kmod:v1'',
     mld_Owner := module_owner made_kmod\<rparr>"

definition quiet_platform :: "(unit server, unit, unit) platform" where
  "quiet_platform =
     \<lparr>pf_modules = quiet_client [made_kmod], pf_nodes = quiet_client [sample_node], pf_daemonsets = quiet_client [],
      pf_configmaps = quiet_client [], pf_builds = quiet_client [], pf_jobs = quiet_client [], pf_serviceaccounts = quiet_client [],
      pf_secrets = quiet_client [], pf_preflights = quiet_client [], pf_preflights_ocp = quiet_client [], pf_mcms = quiet_client [],
      pf_clusters = quiet_client [], pf_manifestworks = quiet_client [], pf_NewFromPullSecrets = \<lambda>_. return_io (),
      pf_NewKeychain = \<lambda>_ _. return_io (),
      pf_crane = \<lparr>crane_Manifest = \<lambda>_ _. fail_io (TransportError 404), crane_PullLayer = \<lambda>_ _. fail_io (TransportError 404),
        crane_Pull = \<lambda>_ _. fail_io (TransportError 404), crane_Push = \<lambda>_ _ _. return_io ()\<rparr>,
      pf_json = re_json empty_registry, pf_json_ImageStream = \<lambda>_. Ok [], pf_json_dtkRelease = \<lambda>_. Err (ErrorMsg []),
      pf_GOARCH = ''amd64'', pf_regexp = \<lambda>r s. Ok (r = s), pf_template = \<lambda>env t. Ok t, pf_hash_build = \<lambda>_. Ok 7, pf_hash_sign = \<lambda>_. Ok 7,
      pf_getenv = \<lambda>_. ''signimage'', pf_clock = \<lambda>_. [], pf_mapping = \<lambda>_. NewKernelOsDtkMapping,
      pf_metrics = \<lparr>ma_SetKMMModulesNum = \<lambda>_ w. w, ma_SetKMMInClusterBuildNum = \<lambda>_ w. w, ma_SetKMMInClusterSignNum = \<lambda>_ w. w,
        ma_SetKMMDevicePluginNum = \<lambda>_ w. w, ma_SetKMMPreflightsNum = \<lambda>_ w. w, ma_SetKMMModprobeArgs = \<lambda>_ _ _ w. w,
        ma_SetKMMModprobeRawArgs = \<lambda>_ _ _ w. w\<rparr>,
      pf_vendored = \<lambda>_. Err (ErrorMsg [])\<rparr>"

definition empty_server :: "unit server" where
  "empty_server = \<lparr>sv_builds = [], sv_builds_seen = [], sv_jobs = [], sv_jobs_seen = [], sv_daemonsets = [], sv_daemonsets_seen = [],
     sv_next = 0, sv_fails = False,
     sv_inputs = \<lparr>in_configmap = \<lambda>_. Ok sample_dockerfile, in_configmaps = \<lambda>_ _. Ok [sample_dockerfile],
       in_serviceaccount = \<lambda>_. Ok \<lparr>sa_meta = sample_meta ''builder'', sa_Secrets = []\<rparr>,
       in_secret = \<lambda>_. Ok \<lparr>secret_meta = sample_meta ''keys'',
         secret_Data = fmupd PrivateSignDataKey ''priv'' (fmupd PublicSignDataKey ''pub'' fmempty)\<rparr>,
       in_mapping = \<lparr>kernelToOs = fmupd ''5.14.0-70'' ''os'' fmempty, osToDtk = fmupd ''os'' ''dtk'' fmempty\<rparr>\<rparr>,
     sv_more = ()\<rparr>"

lemma quiet_mapped:
  "getRelevantKernelMappingsAndNodes (manager_of quiet_platform ''ns'') made_kmod (filter isNodeSchedulable [sample_node])
     = Ok ([(''5.14.0-70'', made_kmod_mld)], [sample_node])"
  by (simp add: getRelevantKernelMappingsAndNodes_def manager_module_env_simps wired_kernelAPI_def quiet_platform_def on_server_def
      isNodeSchedulable_def sample_node_def trim_kernel_def strings_TrimSuffix_char GetModuleLoaderDataForKernel_def prepareModuleLoaderData_def
      GetRelevantSign_def replaceTemplates_def KernelComponentsAsEnvVars_def kernelRegexp_Split_def made_kmod_def made_kmod_mld_def sample_defs module_owner_def Let_def)

lemma quiet_calm: "calm quiet_platform ''ns'' \<lparr>nn_Namespace = ''ns'', nn_Name = ''md''\<rparr> made_kmod [sample_node] x"
proof -
  have "\<exists>st. made_kmod = made_kmod\<lparr>mod_Status := st\<rparr>" by (intro exI[of _ "mod_Status made_kmod"]) simp
  then show ?thesis
    by (auto simp: calm_def metrics_aside_def effect_def quiet_platform_def quiet_client_def return_io_def)
qed

lemma quiet_feasible: "kernel_feasible quiet_platform (sv_inputs empty_server) made_kmod_mld"
proof -
  have "is_ok (build_template_for (pf_scheme quiet_platform) (pf_hash_build quiet_platform) made_kmod_mld True (module_owner made_kmod)
      (sv_inputs empty_server))"
    by (simp add: build_template_for_def MakeBuildTemplate_def getDockerfileData_def dtk_overrides_def configmap_reader_def read_client_def
      dtk_reader_def GetImage_def empty_server_def quiet_platform_def sample_dockerfile_def sample_defs made_kmod_def made_kmod_mld_def module_owner_def
      SetControllerReference_def validateOwner_def manager_scheme_kinds GetControllerOf_def empty_meta_def dtkBuildArg_def bind_io_def wrap_io_def Let_def)
  moreover have "is_ok (job_template_for (pf_scheme quiet_platform) (pf_hash_sign quiet_platform) (pf_getenv quiet_platform ''RELATED_IMAGES_SIGN'')
      made_kmod_mld (sign_source made_kmod_mld) True (module_owner made_kmod) (sv_inputs empty_server))"
    by (simp add: job_template_for_def MakeJobTemplate_def sign_args_def sign_push_args_def GetClusterCA_def GetServiceCA_def getConfigMap_def
      getSAImageRepoSecret_def sign_secret_names_def getHashAnnotationValue_def getSecretData_def getHashValue_def signer_reader_def configmap_reader_def
      read_client_def empty_server_def quiet_platform_def sample_defs made_kmod_def made_kmod_mld_def module_owner_def SetControllerReference_def
      validateOwner_def manager_scheme_kinds GetControllerOf_def empty_meta_def PrivateSignDataKey_def PublicSignDataKey_def bind_io_def wrap_io_def Let_def
      sign_source_def ShouldBeBuilt_def IntermediateImageName_def AppendToTag_def)
  moreover have answered: "answers (module_ImageExists (wired_registry (on_server quiet_platform)) made_kmod_mld i)" if "repo_of_image i \<noteq> []" for i
    using that by (simp add: answers_def module_ImageExists_def ImageExists_def getImageManifest_def getPullOptions_def getManifestStreamFromImage_def
      wired_registry_def on_server_def quiet_platform_def NewRegistryAuthGetterFrom_def made_kmod_mld_def sample_mld_def bind_io_def wrap_io_def
      attempt_io_def Let_def exI[of Not False])
  moreover have "repo_of_image (mld_ContainerImage made_kmod_mld) \<noteq> []" "repo_of_image (build_target made_kmod_mld) \<noteq> []"
    by (simp_all add: repo_of_image_def made_kmod_mld_def sample_mld_def build_target_def ShouldBeSigned_def IntermediateImageName_def
        AppendToTag_def)
  ultimately show ?thesis by (simp add: kernel_feasible_def made_kmod_mld_def)
qed

theorem module_gets_its_drivers_witness:
  "\<exists>d \<in> set (sv_daemonsets (module_rounds (manager_of quiet_platform ''ns'') \<lparr>nn_Namespace = ''ns'', nn_Name = ''md''\<rparr>
       (replicate 7 ()) empty_server)). of_module made_kmod d \<and> ds_kernel d = ''5.14.0-70'' \<and>
     ds_Template d = driver_template KernelLabel made_kmod_mld True"
proof -
  have "world_sound quiet_platform made_kmod [(''5.14.0-70'', made_kmod_mld)] empty_server"
    by (simp add: world_sound_def objects_sound_def kernel_sound_def settleable_def keyed_def ds_sound_def empty_server_def)
  from module_gets_its_drivers[OF quiet_calm quiet_mapped _ this] show ?thesis
    using quiet_feasible by (simp add: made_kmod_def made_kmod_mld_def sample_defs)
qed

end
