(* ===== verification/Work_Queue.thy ===== *)
theory Work_Queue
  imports Kube
begin

text \<open>
  The machinery that calls the reconcilers: the work queue of client-go with its delaying and rate
  limiting layers (k8s.io/client-go/util/workqueue) and the workers of a controller
  (controller-runtime, pkg/internal/controller). Every operation of the queue runs under its lock, so
  it is one step; the workers, the event handlers, the goroutine of the delaying queue and the clock interleave.
\<close>

section \<open>The queue\<close>

text \<open>The three Go types embed one another, as the records extend one another. \<^verbatim>\<open>dq_channel\<close> is
  \<^verbatim>\<open>waitingForAddCh\<close>, \<^verbatim>\<open>dq_waiting\<close> is \<^verbatim>\<open>waitingEntryByData\<close>: the entries of the priority queue by item, with
  the time at which they are ready.\<close>

record 'k workqueue =
  wq_queue :: "'k list"
  wq_dirty :: "'k set"
  wq_processing :: "'k set"
  wq_shuttingDown :: bool
  wq_drain :: bool

record 'k delaying = "'k workqueue" +
  dq_channel :: "('k \<times> int) list"
  dq_waiting :: "'k \<rightharpoonup> int"

record ('k, 'r) rate_limiting = "'k delaying" +
  rl_state :: 'r

record ('k, 'r) rate_limiter =
  rl_When :: "'k \<Rightarrow> 'r \<Rightarrow> int \<times> 'r"
  rl_Forget :: "'k \<Rightarrow> 'r \<Rightarrow> 'r"

definition wq_Add :: "'k \<Rightarrow> ('k, 'a) workqueue_scheme \<Rightarrow> ('k, 'a) workqueue_scheme" where
  "wq_Add item q =
     (if wq_shuttingDown q then q
      else if item \<in> wq_dirty q then q
      else let q1 = q\<lparr>wq_dirty := insert item (wq_dirty q)\<rparr> in
        if item \<in> wq_processing q1 then q1
        else q1\<lparr>wq_queue := wq_queue q1 @ [item]\<rparr>)"

text \<open>\<^verbatim>\<open>Get\<close> waits while there is nothing to do.\<close>

datatype ('k, 'q) got = Waits | ShutsDown | Got 'k 'q

definition wq_Get :: "('k, 'a) workqueue_scheme \<Rightarrow> ('k, ('k, 'a) workqueue_scheme) got" where
  "wq_Get q =
     (case wq_queue q of
        [] \<Rightarrow> if wq_shuttingDown q then ShutsDown else Waits
      | item # rest \<Rightarrow> Got item (q\<lparr>wq_queue := rest, wq_processing := insert item (wq_processing q),
          wq_dirty := wq_dirty q - {item}\<rparr>))"

definition wq_Done :: "'k \<Rightarrow> ('k, 'a) workqueue_scheme \<Rightarrow> ('k, 'a) workqueue_scheme" where
  "wq_Done item q =
     (let q1 = q\<lparr>wq_processing := wq_processing q - {item}\<rparr> in
      if item \<in> wq_dirty q1 then q1\<lparr>wq_queue := wq_queue q1 @ [item]\<rparr> else q1)"

definition wq_Len :: "('k, 'a) workqueue_scheme \<Rightarrow> nat" where
  "wq_Len q = length (wq_queue q)"

definition wq_ShutDown :: "('k, 'a) workqueue_scheme \<Rightarrow> ('k, 'a) workqueue_scheme" where
  "wq_ShutDown q = q\<lparr>wq_drain := False, wq_shuttingDown := True\<rparr>"

text \<open>The delaying layer: \<^verbatim>\<open>AddAfter\<close> at the time \<^verbatim>\<open>now\<close>, and what the goroutine \<^verbatim>\<open>waitingLoop\<close> does with an entry
  it receives and with one that is ready.\<close>

definition AddAfter :: "int \<Rightarrow> 'k \<Rightarrow> int \<Rightarrow> ('k, 'a) delaying_scheme \<Rightarrow> ('k, 'a) delaying_scheme" where
  "AddAfter now item duration q =
     (if wq_shuttingDown q then q
      else if duration \<le> 0 then wq_Add item q
      else q\<lparr>dq_channel := dq_channel q @ [(item, now + duration)]\<rparr>)"

definition dq_insert :: "'k \<Rightarrow> int \<Rightarrow> ('k \<rightharpoonup> int) \<Rightarrow> ('k \<rightharpoonup> int)" where
  "dq_insert item readyAt known =
     (case known item of
        Some existing \<Rightarrow> if existing > readyAt then known(item \<mapsto> readyAt) else known
      | None \<Rightarrow> known(item \<mapsto> readyAt))"

definition dq_receive :: "int \<Rightarrow> ('k, 'a) delaying_scheme \<Rightarrow> ('k, 'a) delaying_scheme option" where
  "dq_receive now q =
     (case dq_channel q of
        [] \<Rightarrow> None
      | (item, readyAt) # rest \<Rightarrow>
          (let q1 = q\<lparr>dq_channel := rest\<rparr> in
           Some (if readyAt > now then q1\<lparr>dq_waiting := dq_insert item readyAt (dq_waiting q1)\<rparr> else wq_Add item q1)))"

definition dq_ready :: "int \<Rightarrow> 'k \<Rightarrow> ('k, 'a) delaying_scheme \<Rightarrow> ('k, 'a) delaying_scheme option" where
  "dq_ready now item q =
     (case dq_waiting q item of
        Some readyAt \<Rightarrow>
          if readyAt > now then None
          else Some ((wq_Add item q)\<lparr>dq_waiting := (dq_waiting q)(item := None)\<rparr>)
      | None \<Rightarrow> None)"

definition AddRateLimited :: "('k, 'r) rate_limiter \<Rightarrow> int \<Rightarrow> 'k \<Rightarrow> ('k, 'r) rate_limiting \<Rightarrow> ('k, 'r) rate_limiting" where
  "AddRateLimited lim now item q =
     (let (d, r) = rl_When lim item (rl_state q) in AddAfter now item d (q\<lparr>rl_state := r\<rparr>))"

definition rl_forget :: "('k, 'r) rate_limiter \<Rightarrow> 'k \<Rightarrow> ('k, 'r) rate_limiting \<Rightarrow> ('k, 'r) rate_limiting" where
  "rl_forget lim item q = q\<lparr>rl_state := rl_Forget lim item (rl_state q)\<rparr>"

definition newQueue :: "'r \<Rightarrow> ('k, 'r) rate_limiting" where
  "newQueue r = \<lparr>wq_queue = [], wq_dirty = {}, wq_processing = {}, wq_shuttingDown = False, wq_drain = False,
     dq_channel = [], dq_waiting = Map.empty, rl_state = r\<rparr>"

section \<open>The workers of a controller\<close>

record Result =
  Requeue :: bool
  RequeueAfter :: int

text \<open>What \<^verbatim>\<open>reconcileHandler\<close> does with the outcome of the reconciler.\<close>

definition reconcileHandler ::
    "('k, 'r) rate_limiter \<Rightarrow> int \<Rightarrow> 'k \<Rightarrow> Result \<Rightarrow> goerr option \<Rightarrow> ('k, 'r) rate_limiting \<Rightarrow> ('k, 'r) rate_limiting" where
  "reconcileHandler lim now req res err q =
     (if err \<noteq> None then AddRateLimited lim now req q
      else if RequeueAfter res > 0 then AddAfter now req (RequeueAfter res) (rl_forget lim req q)
      else if Requeue res then AddRateLimited lim now req q
      else rl_forget lim req q)"

text \<open>A worker runs \<^verbatim>\<open>processNextWorkItem\<close> over and over: it gets a request, calls the reconciler and handles the
  outcome, and then the deferred \<^verbatim>\<open>Done\<close> runs.\<close>

datatype 'k worker = Idle | Working 'k | Handled 'k | Stopped

record ('k, 'r, 'w) controller =
  ct_Queue :: "('k, 'r) rate_limiting"
  ct_workers :: "'k worker list"
  ct_now :: int
  ct_world :: 'w
  ct_crashed :: bool

datatype 'k act = Event 'k | Starts nat 'k | Stops nat | Handles nat 'k | Finishes nat 'k
  | Clock int | Receives | Ready 'k | ShutDown | Crashes nat 'k | Outside

text \<open>\<^verbatim>\<open>rec\<close> is the reconciler. A panic in it ends the process. \<^verbatim>\<open>Outside\<close> is anything that changes the world without
  the controller.\<close>

inductive ctl_step ::
    "('k, 'r) rate_limiter \<Rightarrow> ('k \<Rightarrow> ('w, Result) io) \<Rightarrow> ('k, 'r, 'w) controller \<Rightarrow> 'k act \<Rightarrow> ('k, 'r, 'w) controller \<Rightarrow> bool"
  for lim rec where
  event: "\<not> ct_crashed c \<Longrightarrow> ctl_step lim rec c (Event k) (c\<lparr>ct_Queue := wq_Add k (ct_Queue c)\<rparr>)"
| starts: "\<lbrakk>\<not> ct_crashed c; i < length (ct_workers c); ct_workers c ! i = Idle; wq_Get (ct_Queue c) = Got k q\<rbrakk> \<Longrightarrow>
    ctl_step lim rec c (Starts i k) (c\<lparr>ct_Queue := q, ct_workers := (ct_workers c)[i := Working k]\<rparr>)"
| stops: "\<lbrakk>\<not> ct_crashed c; i < length (ct_workers c); ct_workers c ! i = Idle; wq_Get (ct_Queue c) = ShutsDown\<rbrakk> \<Longrightarrow>
    ctl_step lim rec c (Stops i) (c\<lparr>ct_workers := (ct_workers c)[i := Stopped]\<rparr>)"
| reconciled: "\<lbrakk>\<not> ct_crashed c; i < length (ct_workers c); ct_workers c ! i = Working k; rec k (ct_world c) = (Ok res, w)\<rbrakk> \<Longrightarrow>
    ctl_step lim rec c (Handles i k) (c\<lparr>ct_Queue := reconcileHandler lim (ct_now c) k res None (ct_Queue c),
      ct_workers := (ct_workers c)[i := Handled k], ct_world := w\<rparr>)"
| failed: "\<lbrakk>\<not> ct_crashed c; i < length (ct_workers c); ct_workers c ! i = Working k; rec k (ct_world c) = (Err e, w)\<rbrakk> \<Longrightarrow>
    ctl_step lim rec c (Handles i k) (c\<lparr>ct_Queue := reconcileHandler lim (ct_now c) k res (Some e) (ct_Queue c),
      ct_workers := (ct_workers c)[i := Handled k], ct_world := w\<rparr>)"
| crashes: "\<lbrakk>\<not> ct_crashed c; i < length (ct_workers c); ct_workers c ! i = Working k; rec k (ct_world c) = (Panic s, w)\<rbrakk> \<Longrightarrow>
    ctl_step lim rec c (Crashes i k) (c\<lparr>ct_crashed := True, ct_world := w\<rparr>)"
| finishes: "\<lbrakk>\<not> ct_crashed c; i < length (ct_workers c); ct_workers c ! i = Handled k\<rbrakk> \<Longrightarrow>
    ctl_step lim rec c (Finishes i k) (c\<lparr>ct_Queue := wq_Done k (ct_Queue c), ct_workers := (ct_workers c)[i := Idle]\<rparr>)"
| clock: "\<lbrakk>\<not> ct_crashed c; 0 \<le> d\<rbrakk> \<Longrightarrow> ctl_step lim rec c (Clock d) (c\<lparr>ct_now := ct_now c + d\<rparr>)"
| receives: "\<lbrakk>\<not> ct_crashed c; \<not> wq_shuttingDown (ct_Queue c); dq_receive (ct_now c) (ct_Queue c) = Some q\<rbrakk> \<Longrightarrow>
    ctl_step lim rec c Receives (c\<lparr>ct_Queue := q\<rparr>)"
| ready: "\<lbrakk>\<not> ct_crashed c; \<not> wq_shuttingDown (ct_Queue c); dq_ready (ct_now c) k (ct_Queue c) = Some q\<rbrakk> \<Longrightarrow>
    ctl_step lim rec c (Ready k) (c\<lparr>ct_Queue := q\<rparr>)"
| shutdown: "\<not> ct_crashed c \<Longrightarrow> ctl_step lim rec c ShutDown (c\<lparr>ct_Queue := wq_ShutDown (ct_Queue c)\<rparr>)"
| outside: "ctl_step lim rec c Outside (c\<lparr>ct_world := w\<rparr>)"

inductive ctl_steps ::
    "('k, 'r) rate_limiter \<Rightarrow> ('k \<Rightarrow> ('w, Result) io) \<Rightarrow> ('k, 'r, 'w) controller \<Rightarrow> 'k act list \<Rightarrow> ('k, 'r, 'w) controller \<Rightarrow> bool"
  for lim rec where
  none: "ctl_steps lim rec c [] c"
| more: "ctl_steps lim rec c as c1 \<Longrightarrow> ctl_step lim rec c1 a c2 \<Longrightarrow> ctl_steps lim rec c (as @ [a]) c2"

definition ctl_start :: "nat \<Rightarrow> 'r \<Rightarrow> 'w \<Rightarrow> ('k, 'r, 'w) controller" where
  "ctl_start workers r w = \<lparr>ct_Queue = newQueue r, ct_workers = replicate workers Idle, ct_now = 0, ct_world = w, ct_crashed = False\<rparr>"


section \<open>The invariant of the queue\<close>

text \<open>The queue holds, once each, the items that are dirty and not being processed.\<close>

definition queue_ok :: "('k, 'a) workqueue_scheme \<Rightarrow> bool" where
  "queue_ok q \<longleftrightarrow> distinct (wq_queue q) \<and> set (wq_queue q) = wq_dirty q - wq_processing q"

text \<open>What every operation but \<^verbatim>\<open>Get\<close> and \<^verbatim>\<open>Done\<close> does: it may add items.\<close>

definition adds :: "('k, 'a) workqueue_scheme \<Rightarrow> ('k, 'a) workqueue_scheme \<Rightarrow> bool" where
  "adds q q' \<longleftrightarrow> (queue_ok q \<longrightarrow> queue_ok q') \<and> wq_processing q' = wq_processing q \<and> wq_dirty q \<subseteq> wq_dirty q' \<and>
     wq_shuttingDown q' = wq_shuttingDown q"

lemma adds_refl [simp]: "adds q q"
  by (simp add: adds_def)

lemma adds_trans: "adds q q1 \<Longrightarrow> adds q1 q2 \<Longrightarrow> adds q q2"
  by (auto simp: adds_def)

lemma adds_Add [simp]: "adds q (wq_Add k q)"
proof (cases "wq_shuttingDown q \<or> k \<in> wq_dirty q")
  case True
  then have "wq_Add k q = q" by (auto simp: wq_Add_def)
  then show ?thesis by simp
next
  case False
  then have "k \<notin> wq_dirty q" "insert k (wq_dirty q) - wq_processing q =
      (if k \<in> wq_processing q then wq_dirty q - wq_processing q else insert k (wq_dirty q - wq_processing q))" by auto
  with False show ?thesis by (simp add: adds_def wq_Add_def queue_ok_def Let_def subset_insertI)
qed

lemma adds_fields [simp]:
  "adds q' (q\<lparr>dq_channel := x\<rparr>) = adds q' q" "adds q' (q\<lparr>dq_waiting := y\<rparr>) = adds q' q"
  "adds p' (p\<lparr>rl_state := z\<rparr>) = adds p' p"
  "adds (q\<lparr>dq_channel := x\<rparr>) q' = adds q q'" "adds (p\<lparr>rl_state := z\<rparr>) p' = adds p p'"
  by (simp_all add: adds_def queue_ok_def)

lemma adds_AddAfter [simp]: "adds q (AddAfter now k d q)"
  by (simp add: AddAfter_def)

lemma adds_AddRateLimited [simp]: "adds q (AddRateLimited lim now k q)"
  by (auto simp: AddRateLimited_def split: prod.split intro!: adds_trans[OF _ adds_AddAfter])

lemma adds_handler [simp]: "adds q (reconcileHandler lim now k res err q)"
  by (auto simp: reconcileHandler_def rl_forget_def intro!: adds_trans[OF _ adds_AddAfter])

lemma adds_receive: "dq_receive now q = Some q' \<Longrightarrow> adds q q'"
  by (auto simp: dq_receive_def Let_def split: list.split_asm prod.split_asm if_split_asm intro!: adds_trans[OF _ adds_Add])

lemma adds_ready: "dq_ready now k q = Some q' \<Longrightarrow> adds q q'"
  by (auto simp: dq_ready_def split: option.split_asm if_split_asm)

lemma queue_ok_Get:
  assumes "queue_ok q" "wq_Get q = Got k q'"
  shows "queue_ok q'" "k \<in> wq_dirty q" "k \<notin> wq_processing q" "wq_processing q' = insert k (wq_processing q)"
    "wq_dirty q' = wq_dirty q - {k}" "wq_shuttingDown q' = wq_shuttingDown q"
proof -
  obtain rest where r: "wq_queue q = k # rest"
    and q': "q' = q\<lparr>wq_queue := rest, wq_processing := insert k (wq_processing q), wq_dirty := wq_dirty q - {k}\<rparr>"
    using assms(2) by (auto simp: wq_Get_def split: list.split_asm if_split_asm)
  have q: "k \<notin> set rest" "distinct rest" "insert k (set rest) = wq_dirty q - wq_processing q"
    using assms(1) r by (simp_all add: queue_ok_def)
  from q(3) show "k \<in> wq_dirty q" "k \<notin> wq_processing q" by auto
  from q have "set rest = (wq_dirty q - {k}) - insert k (wq_processing q)" by auto
  with q(2) show "queue_ok q'" by (simp add: queue_ok_def q')
  show "wq_processing q' = insert k (wq_processing q)" "wq_dirty q' = wq_dirty q - {k}" "wq_shuttingDown q' = wq_shuttingDown q"
    by (simp_all add: q')
qed

lemma queue_ok_Done:
  assumes "queue_ok q" "k \<in> wq_processing q"
  shows "queue_ok (wq_Done k q)" "wq_processing (wq_Done k q) = wq_processing q - {k}" "wq_dirty (wq_Done k q) = wq_dirty q"
    "wq_shuttingDown (wq_Done k q) = wq_shuttingDown q"
proof -
  have "wq_dirty q - (wq_processing q - {k}) =
      (if k \<in> wq_dirty q then insert k (wq_dirty q - wq_processing q) else wq_dirty q - wq_processing q)" by auto
  then show "queue_ok (wq_Done k q)" using assms by (simp add: wq_Done_def queue_ok_def Let_def)
qed (simp_all add: wq_Done_def Let_def)

section \<open>The invariant of the controller\<close>

primrec busy :: "'k worker \<Rightarrow> 'k option" where
  "busy Idle = None"
| "busy (Working k) = Some k"
| "busy (Handled k) = Some k"
| "busy Stopped = None"

text \<open>The items being processed are those of the busy workers, each of one worker; workers stop at shutdown only.\<close>

definition owned :: "'k worker list \<Rightarrow> 'k set \<Rightarrow> bool" where
  "owned ws ks \<longleftrightarrow> ks = {k. \<exists>i < length ws. busy (ws ! i) = Some k} \<and>
     (\<forall>i j k. i < length ws \<longrightarrow> j < length ws \<longrightarrow> busy (ws ! i) = Some k \<longrightarrow> busy (ws ! j) = Some k \<longrightarrow> i = j)"

definition ctl_ok :: "('k, 'r, 'w) controller \<Rightarrow> bool" where
  "ctl_ok c \<longleftrightarrow> queue_ok (ct_Queue c) \<and> owned (ct_workers c) (wq_processing (ct_Queue c)) \<and>
     (Stopped \<in> set (ct_workers c) \<longrightarrow> wq_shuttingDown (ct_Queue c))"

lemma owned_start:
  assumes "owned ws ks" "i < length ws" "ws ! i = Idle" "k \<notin> ks"
  shows "owned (ws[i := Working k]) (insert k ks)"
  using assms unfolding owned_def
  by (auto simp: nth_list_update) (metis busy.simps(1) option.distinct(1))

lemma owned_same:
  assumes "owned ws ks" "i < length ws" "busy w = busy (ws ! i)"
  shows "owned (ws[i := w]) ks"
proof -
  have "busy (ws[i := w] ! j) = busy (ws ! j)" for j using assms(2,3) by (cases "i = j") simp_all
  then show ?thesis using assms(1) by (simp add: owned_def)
qed

lemma owned_finish:
  assumes "owned ws ks" "i < length ws" "ws ! i = Handled k"
  shows "owned (ws[i := Idle]) (ks - {k})" "k \<in> ks"
proof -
  have k: "busy (ws ! i) = Some k" using assms(3) by simp
  show "k \<in> ks" using assms(1,2) k unfolding owned_def by blast
  have "busy (ws[i := Idle] ! j) = Some x \<longleftrightarrow> busy (ws ! j) = Some x \<and> x \<noteq> k" if "j < length ws" for j x
    using assms(1,2) k that unfolding owned_def by (cases "j = i") (simp, metis nth_list_update_neq)
  with assms(1) show "owned (ws[i := Idle]) (ks - {k})" by (auto simp: owned_def)
qed

lemma ctl_ok_adds:
  assumes "ctl_ok c" "adds (ct_Queue c) q" "ct_Queue c' = q" "ct_workers c' = ct_workers c"
  shows "ctl_ok c'"
  using assms by (simp add: ctl_ok_def adds_def)

lemma not_stopped_update: "Stopped \<in> set (ws[i := w]) \<Longrightarrow> w \<noteq> Stopped \<Longrightarrow> Stopped \<in> set ws"
  using set_update_subset_insert by fastforce

lemma ctl_step_ok: "ctl_step lim rec c a c' \<Longrightarrow> ctl_ok c \<Longrightarrow> ctl_ok c'"
proof (induction rule: ctl_step.induct)
  case (starts c i k q)
  note g = queue_ok_Get[OF _ starts(4)]
  from starts.prems g owned_start[OF _ starts(2,3), of _ k] show ?case
    by (auto simp: ctl_ok_def dest: not_stopped_update)
next
  case (stops c i)
  then show ?case
    by (auto simp: ctl_ok_def wq_Get_def intro: owned_same split: list.split_asm if_split_asm)
next
  case (reconciled c i k res w)
  have "adds (ct_Queue c) (reconcileHandler lim (ct_now c) k res None (ct_Queue c))" by simp
  with reconciled owned_same[OF _ reconciled(2), of _ "Handled k"] show ?case
    by (auto simp: ctl_ok_def adds_def dest: not_stopped_update)
next
  case (failed c i k e w res)
  have "adds (ct_Queue c) (reconcileHandler lim (ct_now c) k res (Some e) (ct_Queue c))" by simp
  with failed owned_same[OF _ failed(2), of _ "Handled k"] show ?case
    by (auto simp: ctl_ok_def adds_def dest: not_stopped_update)
next
  case (finishes c i k)
  from finishes.prems have "owned (ct_workers c) (wq_processing (ct_Queue c))" "queue_ok (ct_Queue c)" by (simp_all add: ctl_ok_def)
  from queue_ok_Done[OF this(2) owned_finish(2)[OF this(1) finishes(2,3)]] owned_finish(1)[OF this(1) finishes(2,3)] finishes.prems
  show ?case by (auto simp: ctl_ok_def dest: not_stopped_update)
next
  case (event c k)
  then show ?case by (auto intro: ctl_ok_adds[OF _ adds_Add])
next
  case (receives c q)
  then show ?case by (auto intro: ctl_ok_adds[OF _ adds_receive])
next
  case (ready c k q)
  then show ?case by (auto intro: ctl_ok_adds[OF _ adds_ready])
qed (simp_all add: ctl_ok_def queue_ok_def wq_ShutDown_def)

lemma ctl_start_ok: "ctl_ok (ctl_start n r w)"
  by (auto simp: ctl_ok_def ctl_start_def newQueue_def queue_ok_def owned_def)

lemma ctl_steps_ok: "ctl_steps lim rec c as c' \<Longrightarrow> ctl_ok c \<Longrightarrow> ctl_ok c'"
  by (induction rule: ctl_steps.induct) (auto intro: ctl_step_ok)

lemmas reachable_ok = ctl_steps_ok[OF _ ctl_start_ok]


section \<open>Nothing is lost\<close>

lemma dirty_kept:
  "ctl_step lim rec c a c' \<Longrightarrow> ctl_ok c \<Longrightarrow> k \<in> wq_dirty (ct_Queue c) \<Longrightarrow> \<forall>i. a \<noteq> Starts i k \<Longrightarrow> k \<in> wq_dirty (ct_Queue c')"
proof (induction rule: ctl_step.induct)
  case (starts c i l q)
  then show ?case using queue_ok_Get(5)[OF _ starts(4)] by (auto simp: ctl_ok_def)
next
  case (event c l)
  then show ?case using adds_Add[of "ct_Queue c" l] by (auto simp: adds_def)
next
  case (reconciled c i l res w)
  then show ?case using adds_handler[of "ct_Queue c" lim "ct_now c" l res None] by (auto simp: adds_def)
next
  case (failed c i l e w res)
  then show ?case using adds_handler[of "ct_Queue c" lim "ct_now c" l res "Some e"] by (auto simp: adds_def)
next
  case (receives c q)
  then show ?case using adds_receive[OF receives(3)] by (auto simp: adds_def)
next
  case (ready c l q)
  then show ?case using adds_ready[OF ready(3)] by (auto simp: adds_def)
qed (simp_all add: wq_Done_def wq_ShutDown_def Let_def)

lemma dirty_kept_steps:
  "ctl_steps lim rec c as c' \<Longrightarrow> ctl_ok c \<Longrightarrow> k \<in> wq_dirty (ct_Queue c) \<Longrightarrow> \<forall>i. Starts i k \<notin> set as \<Longrightarrow>
     k \<in> wq_dirty (ct_Queue c')"
proof (induction rule: ctl_steps.induct)
  case (more c as c1 a c2)
  then show ?case using dirty_kept[OF more(2) ctl_steps_ok[OF more(1)]] by auto
qed simp

lemma dirty_pending:
  assumes "ctl_ok c" "k \<in> wq_dirty (ct_Queue c)"
  shows "k \<in> set (wq_queue (ct_Queue c)) \<or> (\<exists>i < length (ct_workers c). busy (ct_workers c ! i) = Some k)"
  using assms by (auto simp: ctl_ok_def queue_ok_def owned_def)

lemma busy_worker_acts:
  assumes "\<not> ct_crashed c" "i < length (ct_workers c)" "busy (ct_workers c ! i) = Some k"
  shows "\<exists>a c'. ctl_step lim rec c a c' \<and> a \<in> {Handles i k, Finishes i k, Crashes i k}"
proof (cases "ct_workers c ! i")
  case (Working l)
  then have l: "l = k" using assms(3) by simp
  obtain r w where r: "rec k (ct_world c) = (r, w)" by fastforce
  show ?thesis
  proof (cases r)
    case (Ok res)
    then show ?thesis using ctl_step.reconciled[OF assms(1,2) Working[unfolded l]] r by blast
  next
    case (Err e)
    then show ?thesis using ctl_step.failed[OF assms(1,2) Working[unfolded l]] r by blast
  next
    case (Panic s)
    then show ?thesis using ctl_step.crashes[OF assms(1,2) Working[unfolded l]] r by blast
  qed
next
  case (Handled l)
  then show ?thesis using ctl_step.finishes[OF assms(1,2)] assms(3) by force
qed (use assms(3) in simp_all)

section \<open>Retries\<close>

text \<open>A request that was handed to the delaying queue is dirty again once its time has come and the
  goroutine has received it.\<close>

lemma ctl_steps_append: "ctl_steps lim rec c1 bs c2 \<Longrightarrow> ctl_steps lim rec c as c1 \<Longrightarrow> ctl_steps lim rec c (as @ bs) c2"
proof (induction rule: ctl_steps.induct)
  case (more c bs c1 a c2)
  then show ?case using ctl_steps.more by (metis append.assoc)
qed simp

lemma ctl_steps_one: "ctl_step lim rec c a c' \<Longrightarrow> ctl_steps lim rec c [a] c'"
  using ctl_steps.more[OF ctl_steps.none] by force

lemma channel_drains:
  assumes "\<not> ct_crashed c" "\<not> wq_shuttingDown (ct_Queue c)" "\<forall>(l, t) \<in> set (dq_channel (ct_Queue c)). t \<le> ct_now c"
    and "k \<in> fst ` set (dq_channel (ct_Queue c))"
  shows "\<exists>as c'. ctl_steps lim rec c as c' \<and> set as \<subseteq> {Receives} \<and> k \<in> wq_dirty (ct_Queue c')"
  using assms
proof (induction "dq_channel (ct_Queue c)" arbitrary: c)
  case (Cons e rest)
  obtain l t where e: "e = (l, t)" by fastforce
  let ?q = "wq_Add l ((ct_Queue c)\<lparr>dq_channel := rest\<rparr>)"
  have t: "t \<le> ct_now c" using Cons.prems(3) Cons.hyps(2)[symmetric] e by auto
  have "dq_receive (ct_now c) (ct_Queue c) = Some ?q" using t by (simp add: dq_receive_def Cons.hyps(2)[symmetric] e)
  then have s: "ctl_step lim rec c Receives (c\<lparr>ct_Queue := ?q\<rparr>)" by (rule ctl_step.receives[OF Cons.prems(1,2)])
  have q: "dq_channel ?q = rest" "wq_shuttingDown ?q = wq_shuttingDown (ct_Queue c)" by (simp_all add: wq_Add_def Let_def)
  show ?case
  proof (cases "k = l")
    case True
    then have "k \<in> wq_dirty ?q" using Cons.prems(2) by (simp add: wq_Add_def Let_def)
    then show ?thesis using ctl_steps_one[OF s] by force
  next
    case False
    have "\<exists>as c'. ctl_steps lim rec (c\<lparr>ct_Queue := ?q\<rparr>) as c' \<and> set as \<subseteq> {Receives} \<and> k \<in> wq_dirty (ct_Queue c')"
      by (rule Cons.hyps(1)) (use False Cons.prems Cons.hyps(2)[symmetric] e q in auto)
    then show ?thesis using ctl_steps_append[OF _ ctl_steps_one[OF s]] by fastforce
  qed
qed simp

lemma delayed_becomes_dirty:
  assumes "\<not> ct_crashed c" "\<not> wq_shuttingDown (ct_Queue c)" "k \<in> fst ` set (dq_channel (ct_Queue c))"
  shows "\<exists>as c'. ctl_steps lim rec c as c' \<and> set as \<subseteq> insert Receives (range Clock) \<and> k \<in> wq_dirty (ct_Queue c')"
proof -
  obtain d where d: "0 \<le> d" "\<forall>(l, t) \<in> set (dq_channel (ct_Queue c)). t \<le> ct_now c + d"
  proof -
    let ?m = "Max (insert 0 ((\<lambda>(l, t). t - ct_now c) ` set (dq_channel (ct_Queue c))))"
    have "(case e of (l, t) \<Rightarrow> t - ct_now c) \<le> ?m" if "e \<in> set (dq_channel (ct_Queue c))" for e
      using that by (intro Max_ge) auto
    then have "\<forall>(l, t) \<in> set (dq_channel (ct_Queue c)). t \<le> ct_now c + ?m" by fastforce
    moreover have "0 \<le> ?m" by simp
    ultimately show ?thesis using that by blast
  qed
  have s: "ctl_step lim rec c (Clock d) (c\<lparr>ct_now := ct_now c + d\<rparr>)" by (rule ctl_step.clock[OF assms(1) d(1)])
  obtain as c' where "ctl_steps lim rec (c\<lparr>ct_now := ct_now c + d\<rparr>) as c'" "set as \<subseteq> {Receives}" "k \<in> wq_dirty (ct_Queue c')"
    using channel_drains[of "c\<lparr>ct_now := ct_now c + d\<rparr>" k lim rec] assms d(2) by auto
  with ctl_steps_append[OF _ ctl_steps_one[OF s]] show ?thesis by (intro exI[of _ "[Clock d] @ as"]) fastforce
qed

text \<open>A failed request goes to the queue or, with a delay, to the delaying queue.\<close>

lemma AddRateLimited_pending:
  assumes "\<not> wq_shuttingDown q"
  shows "k \<in> wq_dirty (AddRateLimited lim now k q) \<or> k \<in> fst ` set (dq_channel (AddRateLimited lim now k q))"
  using assms by (auto simp: AddRateLimited_def AddAfter_def wq_Add_def Let_def split: prod.split)


section \<open>Properties\<close>

text \<open>C6. However the workers of a controller, its events, its retries and the clock interleave, a request is
  never reconciled by two workers at the same time, and a request that is being reconciled is not handed out again.\<close>

theorem one_worker_per_request:
  assumes "ctl_steps lim rec (ctl_start n r w) as c"
    and "i < length (ct_workers c)" "busy (ct_workers c ! i) = Some k"
  shows "(\<forall>j < length (ct_workers c). busy (ct_workers c ! j) = Some k \<longrightarrow> j = i) \<and>
    (\<forall>q. wq_Get (ct_Queue c) \<noteq> Got k q)"
proof -
  have ok: "queue_ok (ct_Queue c)" "owned (ct_workers c) (wq_processing (ct_Queue c))"
    using reachable_ok[OF assms(1)] by (simp_all add: ctl_ok_def)
  have "k \<in> wq_processing (ct_Queue c)" using ok(2) assms(2,3) unfolding owned_def by blast
  then have "\<forall>q. wq_Get (ct_Queue c) \<noteq> Got k q" using queue_ok_Get(3)[OF ok(1)] by blast
  with ok(2) assms(2,3) show ?thesis unfolding owned_def by blast
qed

text \<open>C7. An event that arrives while the controller runs is not lost, even when its request is being reconciled at
  that moment: until a worker starts on the request again it is in the queue or its worker will put it
  there, and as long as a worker is left, some worker can act.\<close>

theorem events_are_not_lost:
  assumes "ctl_steps lim rec (ctl_start n r w) as c" "\<not> wq_shuttingDown (ct_Queue c)"
    and "ctl_step lim rec c (Event k) c1" "ctl_steps lim rec c1 bs c2" "\<forall>i. Starts i k \<notin> set bs"
  shows "k \<in> wq_dirty (ct_Queue c2) \<and>
    (k \<in> set (wq_queue (ct_Queue c2)) \<or> (\<exists>i < length (ct_workers c2). busy (ct_workers c2 ! i) = Some k)) \<and>
    (\<not> ct_crashed c2 \<longrightarrow> (\<exists>i < length (ct_workers c2). ct_workers c2 ! i \<noteq> Stopped) \<longrightarrow>
      (\<exists>i l a c3. ctl_step lim rec c2 a c3 \<and> a \<in> {Starts i l, Handles i l, Finishes i l, Crashes i l}))"
proof -
  have ok: "ctl_ok c1" using ctl_step_ok[OF assms(3) reachable_ok[OF assms(1)]] .
  have "k \<in> wq_dirty (ct_Queue c1)" using assms(2,3) by (auto elim!: ctl_step.cases simp: wq_Add_def Let_def)
  then have d: "k \<in> wq_dirty (ct_Queue c2)" using dirty_kept_steps[OF assms(4) ok] assms(5) by blast
  note ok2 = ctl_steps_ok[OF assms(4) ok]
  have "\<exists>i l a c3. ctl_step lim rec c2 a c3 \<and> a \<in> {Starts i l, Handles i l, Finishes i l, Crashes i l}"
    if "\<not> ct_crashed c2" and j: "j < length (ct_workers c2)" "ct_workers c2 ! j \<noteq> Stopped" for j
  proof (cases "\<exists>i < length (ct_workers c2). \<exists>l. busy (ct_workers c2 ! i) = Some l")
    case True
    then show ?thesis using busy_worker_acts[OF that(1)] by blast
  next
    case False
    with dirty_pending[OF ok2 d] obtain l rest where q: "wq_queue (ct_Queue c2) = l # rest"
      by (cases "wq_queue (ct_Queue c2)") auto
    have "ct_workers c2 ! j = Idle" using False j by (cases "ct_workers c2 ! j") auto
    with ctl_step.starts[OF that(1) j(1)] show ?thesis by (force simp: wq_Get_def q)
  qed
  with d dirty_pending[OF ok2 d] show ?thesis by blast
qed



text \<open>Two workers and a reconciler that fails: the first worker is on the only request.\<close>

definition sample_limiter :: "(nat, nat) rate_limiter" where
  "sample_limiter = \<lparr>rl_When = \<lambda>k r. (5, r + 1), rl_Forget = \<lambda>k r. 0\<rparr>"

definition sample_rec :: "nat \<Rightarrow> (nat, Result) io" where
  "sample_rec k w = (Err (ErrorMsg ''failed''), w + 1)"

definition sample_busy :: "(nat, nat, nat) controller" where
  "sample_busy = (ctl_start 2 0 0)\<lparr>ct_Queue := (newQueue 0)\<lparr>wq_processing := {7}\<rparr>, ct_workers := [Working 7, Idle]\<rparr>"

lemma sample_busy_reached: "ctl_steps sample_limiter sample_rec (ctl_start 2 0 0) ([] @ [Event 7] @ [Starts 0 7]) sample_busy"
proof -
  let ?c = "ctl_start 2 0 0 :: (nat, nat, nat) controller"
  let ?c1 = "?c\<lparr>ct_Queue := wq_Add 7 (ct_Queue ?c)\<rparr>"
  have "ctl_step sample_limiter sample_rec ?c (Event 7) ?c1" by (rule ctl_step.event) (simp add: ctl_start_def)
  moreover have "ctl_step sample_limiter sample_rec ?c1 (Starts 0 7) sample_busy"
  proof -
    have "wq_Get (ct_Queue ?c1) = Got 7 ((newQueue 0)\<lparr>wq_processing := {7}\<rparr>)"
      by (simp add: ctl_start_def newQueue_def wq_Get_def wq_Add_def Let_def)
    from ctl_step.starts[OF _ _ _ this, of 0] show ?thesis
      by (simp add: ctl_start_def sample_busy_def numeral_2_eq_2)
  qed
  ultimately show ?thesis using ctl_steps.more[OF ctl_steps.more[OF ctl_steps.none]] by fastforce
qed

theorem one_worker_per_request_witness:
  "busy (ct_workers sample_busy ! 0) = Some 7 \<and> (\<forall>q. wq_Get (ct_Queue sample_busy) \<noteq> Got 7 q)"
  using one_worker_per_request[OF sample_busy_reached, of 0 7] by (simp add: sample_busy_def)

lemma sample_busy_running: "\<not> wq_shuttingDown (ct_Queue sample_busy)" "\<not> ct_crashed sample_busy"
  by (simp_all add: sample_busy_def newQueue_def ctl_start_def)

theorem events_are_not_lost_witness:
  "\<exists>c1. ctl_step sample_limiter sample_rec sample_busy (Event 7) c1 \<and> 7 \<in> wq_dirty (ct_Queue c1)"
proof -
  note s = ctl_step.event[OF sample_busy_running(2), of sample_limiter sample_rec 7]
  from events_are_not_lost[OF sample_busy_reached sample_busy_running(1) s ctl_steps.none] s show ?thesis by auto
qed


end
