(* ===== verification/Rate_Limiter.thy ===== *)
theory Rate_Limiter
  imports Work_Queue
begin

text \<open>
  The rate limiters of client-go (util/workqueue/default_rate_limiters.go): how long the work queue of a controller waits
  before a failed request comes back. The token bucket is the Limiter of golang.org/x/time/rate, a parameter.
\<close>

section \<open>The limiters\<close>

text \<open>\<^verbatim>\<open>ItemExponentialFailureRateLimiter\<close>: failures by item, missing entries count as 0. Durations are in nanoseconds. A base
  delay below \<open>2 ^ 53\<close> and its doublings are exact as float64, or infinite when they are beyond the comparison anyway, so
  the product is that of the integers. \<^verbatim>\<open>conv\<close> is the conversion of a float64 that no int64 represents, which Go leaves open.\<close>

definition nanoseconds_max :: int where
  "nanoseconds_max = 2 ^ 63"

definition failures_of :: "('k \<rightharpoonup> nat) \<Rightarrow> 'k \<Rightarrow> nat" where
  "failures_of failures item = (case failures item of Some n \<Rightarrow> n | None \<Rightarrow> 0)"

definition exponential_delay :: "(int \<Rightarrow> int) \<Rightarrow> int \<Rightarrow> int \<Rightarrow> nat \<Rightarrow> int" where
  "exponential_delay conv baseDelay maxDelay exp =
     (let backoff = baseDelay * 2 ^ exp in
      if backoff > nanoseconds_max then maxDelay
      else let calculated = (if backoff < nanoseconds_max then backoff else conv backoff) in
        if calculated > maxDelay then maxDelay else calculated)"

definition ItemExponential_When :: "(int \<Rightarrow> int) \<Rightarrow> int \<Rightarrow> int \<Rightarrow> 'k \<Rightarrow> ('k \<rightharpoonup> nat) \<Rightarrow> int \<times> ('k \<rightharpoonup> nat)" where
  "ItemExponential_When conv baseDelay maxDelay item failures =
     (let exp = failures_of failures item in
      (exponential_delay conv baseDelay maxDelay exp, failures(item \<mapsto> failures_of failures item + 1)))"

definition ItemExponential_NumRequeues :: "'k \<Rightarrow> ('k \<rightharpoonup> nat) \<Rightarrow> nat" where
  "ItemExponential_NumRequeues item failures = failures_of failures item"

definition ItemExponential_Forget :: "'k \<Rightarrow> ('k \<rightharpoonup> nat) \<Rightarrow> ('k \<rightharpoonup> nat)" where
  "ItemExponential_Forget item failures = failures(item := None)"

text \<open>The state of the default limiter: the failures of the one part and the bucket of the other.\<close>

type_synonym ('k, 'b) limits = "('k \<rightharpoonup> nat) \<times> 'b"

definition NewItemExponentialFailureRateLimiter :: "(int \<Rightarrow> int) \<Rightarrow> int \<Rightarrow> int \<Rightarrow> ('k, ('k, 'b) limits) rate_limiter" where
  "NewItemExponentialFailureRateLimiter conv baseDelay maxDelay =
     \<lparr>rl_When = \<lambda>item (failures, b). (let (d, failures') = ItemExponential_When conv baseDelay maxDelay item failures in (d, failures', b)),
      rl_Forget = \<lambda>item (failures, b). (ItemExponential_Forget item failures, b)\<rparr>"

definition BucketRateLimiter :: "('b \<Rightarrow> int \<times> 'b) \<Rightarrow> ('k, ('k, 'b) limits) rate_limiter" where
  "BucketRateLimiter reserve =
     \<lparr>rl_When = \<lambda>item (failures, b). (let (d, b') = reserve b in (d, failures, b')), rl_Forget = \<lambda>item s. s\<rparr>"

fun max_when :: "('k, 'r) rate_limiter list \<Rightarrow> 'k \<Rightarrow> int \<Rightarrow> 'r \<Rightarrow> int \<times> 'r" where
  "max_when [] item ret s = (ret, s)"
| "max_when (limiter # limiters) item ret s =
     (let (curr, s') = rl_When limiter item s in max_when limiters item (if curr > ret then curr else ret) s')"

definition NewMaxOfRateLimiter :: "('k, 'r) rate_limiter list \<Rightarrow> ('k, 'r) rate_limiter" where
  "NewMaxOfRateLimiter limiters =
     \<lparr>rl_When = \<lambda>item. max_when limiters item 0, rl_Forget = \<lambda>item s. fold (\<lambda>limiter. rl_Forget limiter item) limiters s\<rparr>"

definition DefaultControllerRateLimiter :: "(int \<Rightarrow> int) \<Rightarrow> ('b \<Rightarrow> int \<times> 'b) \<Rightarrow> ('k, ('k, 'b) limits) rate_limiter" where
  "DefaultControllerRateLimiter conv reserve =
     NewMaxOfRateLimiter [NewItemExponentialFailureRateLimiter conv (5 * 10 ^ 6) (1000 * 10 ^ 9), BucketRateLimiter reserve]"

section \<open>Lemmas\<close>

text \<open>The reference: doubling up to the maximum. The conversion that Go leaves open is never reached, unless the base is a power of two.\<close>

definition doubled :: "int \<Rightarrow> int \<Rightarrow> nat \<Rightarrow> int" where
  "doubled base cap n = min cap (base * 2 ^ n)"

lemma exponential_delay_doubled:
  assumes "0 < base" "cap < nanoseconds_max" "\<forall>n. base * 2 ^ n \<noteq> nanoseconds_max"
  shows "exponential_delay conv base cap n = doubled base cap n"
proof -
  have "base * 2 ^ n < nanoseconds_max \<or> nanoseconds_max < base * 2 ^ n" using assms(3) by (metis linorder_neqE)
  with assms(2) show ?thesis by (auto simp: exponential_delay_def doubled_def Let_def min_def)
qed

lemma default_base: "(5 * 10 ^ 6 :: int) * 2 ^ n \<noteq> nanoseconds_max"
proof
  assume h: "(5 * 10 ^ 6 :: int) * 2 ^ n = nanoseconds_max"
  have "(5 :: int) dvd 5 * 10 ^ 6 * 2 ^ n" by (rule dvd_mult2) simp
  then show False unfolding h by (simp add: nanoseconds_max_def dvd_def) presburger
qed

text \<open>A history of the limiter, and how often an item has failed since it was last forgotten.\<close>

datatype 'k limiter_event = CalledWhen 'k | CalledForget 'k

fun limiter_call :: "('k, 'r) rate_limiter \<Rightarrow> 'k limiter_event \<Rightarrow> 'r \<Rightarrow> 'r" where
  "limiter_call lim (CalledWhen k) s = snd (rl_When lim k s)"
| "limiter_call lim (CalledForget k) s = rl_Forget lim k s"

fun in_a_row :: "'k \<Rightarrow> nat \<Rightarrow> 'k limiter_event list \<Rightarrow> nat" where
  "in_a_row k n [] = n"
| "in_a_row k n (CalledWhen j # h) = in_a_row k (if j = k then Suc n else n) h"
| "in_a_row k n (CalledForget j # h) = in_a_row k (if j = k then 0 else n) h"

lemma failures_of_upd [simp]:
  "failures_of (f(j \<mapsto> n)) k = (if j = k then n else failures_of f k)"
  "failures_of (f(j := None)) k = (if j = k then 0 else failures_of f k)" "failures_of Map.empty k = 0"
  by (simp_all add: failures_of_def)

lemma default_When:
  "rl_When (DefaultControllerRateLimiter conv reserve) k (f, b) =
     (max 0 (max (exponential_delay conv (5 * 10 ^ 6) (1000 * 10 ^ 9) (failures_of f k)) (fst (reserve b))),
      f(k \<mapsto> failures_of f k + 1), snd (reserve b))"
  by (auto simp: DefaultControllerRateLimiter_def NewMaxOfRateLimiter_def NewItemExponentialFailureRateLimiter_def
      BucketRateLimiter_def ItemExponential_When_def Let_def max_def split: prod.split)

lemma default_Forget: "rl_Forget (DefaultControllerRateLimiter conv reserve) k (f, b) = (f(k := None), b)"
  by (simp add: DefaultControllerRateLimiter_def NewMaxOfRateLimiter_def NewItemExponentialFailureRateLimiter_def
      BucketRateLimiter_def ItemExponential_Forget_def)

lemma failures_after:
  "failures_of (fst (fold (limiter_call (DefaultControllerRateLimiter conv reserve)) h (f, b))) k = in_a_row k (failures_of f k) h"
proof (induction h arbitrary: f b)
  case (Cons c h)
  show ?case
  proof (cases c)
    case (CalledWhen j)
    then show ?thesis using Cons.IH[of "f(j \<mapsto> failures_of f j + 1)"] by (simp add: default_When del: fun_upd_apply)
  next
    case (CalledForget j)
    then show ?thesis using Cons.IH[of "f(j := None)"] by (simp add: default_Forget del: fun_upd_apply)
  qed
qed simp

lemma doubled_saturates: "18 \<le> n \<Longrightarrow> doubled (5 * 10 ^ 6) (1000 * 10 ^ 9) n = 1000 * 10 ^ 9"
proof -
  assume "18 \<le> n"
  then have "(2 :: int) ^ 18 \<le> 2 ^ n" by (rule power_increasing) simp
  then show ?thesis by (simp add: doubled_def)
qed

section \<open>Properties\<close>

text \<open>C9. How long a failed request waits: whatever else the limiter was asked before, a request that has failed \<open>n\<close> times since
  it last succeeded goes to the delaying queue with 5 ms doubled \<open>n\<close> times, at most 1000 s (reached after 18 failures), or with the
  delay of the overall token bucket when that is longer. The computation never overflows.\<close>

theorem retry_delays_double:
  assumes "\<not> wq_shuttingDown q" "rl_state q = fold (limiter_call (DefaultControllerRateLimiter conv reserve)) h (Map.empty, b)"
  shows "dq_channel (AddRateLimited (DefaultControllerRateLimiter conv reserve) now k q) = dq_channel q @
      [(k, now + max (min (1000 * 10 ^ 9) (5 * 10 ^ 6 * 2 ^ in_a_row k 0 h)) (fst (reserve (snd (rl_state q)))))] \<and>
    (18 \<le> in_a_row k 0 h \<longrightarrow> min (1000 * 10 ^ 9) (5 * 10 ^ 6 * 2 ^ in_a_row k 0 h) = (1000 * 10 ^ 9 :: int))"
proof
  obtain f b' where s: "rl_state q = (f, b')" by fastforce
  have n: "failures_of f k = in_a_row k 0 h"
    using failures_after[of conv reserve h Map.empty b k] unfolding assms(2)[symmetric] s by simp
  define d where "d = min (1000 * 10 ^ 9) (5 * 10 ^ 6 * 2 ^ in_a_row k 0 h :: int)"
  have "exponential_delay conv (5 * 10 ^ 6) (1000 * 10 ^ 9) (in_a_row k 0 h) = d"
    using default_base by (subst exponential_delay_doubled) (simp_all add: nanoseconds_max_def d_def doubled_def)
  then have "rl_When (DefaultControllerRateLimiter conv reserve) k (f, b') =
      (max 0 (max d (fst (reserve b'))), f(k \<mapsto> failures_of f k + 1), snd (reserve b'))" by (simp add: default_When n)
  moreover have "0 < d" by (simp add: d_def)
  ultimately show "dq_channel (AddRateLimited (DefaultControllerRateLimiter conv reserve) now k q) = dq_channel q @
      [(k, now + max (min (1000 * 10 ^ 9) (5 * 10 ^ 6 * 2 ^ in_a_row k 0 h)) (fst (reserve (snd (rl_state q)))))]"
    using assms(1) unfolding d_def[symmetric] by (simp add: AddRateLimited_def s AddAfter_def)
  show "18 \<le> in_a_row k 0 h \<longrightarrow> min (1000 * 10 ^ 9) (5 * 10 ^ 6 * 2 ^ in_a_row k 0 h) = (1000 * 10 ^ 9 :: int)"
    using doubled_saturates[of "in_a_row k 0 h"] by (simp add: doubled_def)
qed

theorem retry_delays_double_witness:
  "dq_channel (AddRateLimited (DefaultControllerRateLimiter (\<lambda>x. x) (\<lambda>b. (7, b))) 100 (1 :: nat)
     (newQueue ([1 \<mapsto> 2, 3 \<mapsto> 1], ()))) = [(1, 20000100)]"
proof -
  let ?h = "[CalledWhen 1, CalledForget 1, CalledWhen 1, CalledWhen 3, CalledWhen (1 :: nat)]"
  have "rl_state (newQueue ([1 \<mapsto> 2, 3 \<mapsto> 1], ())) =
      fold (limiter_call (DefaultControllerRateLimiter (\<lambda>x. x) (\<lambda>b. (7, b)))) ?h (Map.empty, ())"
    by (simp add: newQueue_def default_When default_Forget failures_of_def fun_eq_iff)
  from retry_delays_double[OF _ this, of 100 1] show ?thesis by (simp add: newQueue_def)
qed

end
