(* ===== verification/Go_Heap.thy ===== *)
theory Go_Heap
  imports Prelude
begin

text \<open>
  Go values in memory, for the places where it matters which of them share storage: structs, and
  pointers, slices and maps as references to cells of a heap. A value is read through its type as a
  tree, which forgets the addresses; the contract of a deep copy is stated once, as a locale, and every
  way the generated code copies a field is shown to meet it.
\<close>

section \<open>Types, values and cells\<close>

datatype base = BStr string | BBool bool | BInt int

datatype gty = TStr | TBool | TInt | TPtr gty | TSlice gty | TMap gty | TStruct "gty list"

datatype gval = VBase base | VRef "nat option" | VStruct "gval list"

text \<open>What a reference points to: one value, the array of a slice, the entries of a map with string
  keys.\<close>

datatype cell = CPtr gval | CSlice "gval list" | CMap "(string \<times> gval) list"

record heap =
  h_cells :: "nat \<rightharpoonup> cell"
  h_next :: nat

definition alloc :: "cell \<Rightarrow> heap \<Rightarrow> heap \<times> nat" where
  "alloc c h = (h\<lparr>h_cells := (h_cells h)(h_next h \<mapsto> c), h_next := Suc (h_next h)\<rparr>, h_next h)"

definition heap_ok :: "heap \<Rightarrow> bool" where
  "heap_ok h \<longleftrightarrow> (\<forall>a \<ge> h_next h. h_cells h a = None)"

definition extends :: "heap \<Rightarrow> heap \<Rightarrow> bool" where
  "extends h h' \<longleftrightarrow> h_next h \<le> h_next h' \<and> (\<forall>a < h_next h. h_cells h' a = h_cells h a)"

section \<open>Reading a value through its type\<close>

datatype gtree = NBase base | NNil | NPtr gtree | NSlice "gtree list" | NMap "(string \<times> gtree) list" | NStruct "gtree list"

definition read_base :: "(base \<Rightarrow> bool) \<Rightarrow> gval \<Rightarrow> gtree option" where
  "read_base p v = (case v of VBase b \<Rightarrow> if p b then Some (NBase b) else None | _ \<Rightarrow> None)"

primrec is_str :: "base \<Rightarrow> bool" where "is_str (BStr s) = True" | "is_str (BBool b) = False" | "is_str (BInt i) = False"
primrec is_bool :: "base \<Rightarrow> bool" where "is_bool (BStr s) = False" | "is_bool (BBool b) = True" | "is_bool (BInt i) = False"
primrec is_int :: "base \<Rightarrow> bool" where "is_int (BStr s) = False" | "is_int (BBool b) = False" | "is_int (BInt i) = True"

text \<open>The cell of a non-nil reference, \<^const>\<open>NNil\<close> for nil; a dangling reference, or one to a cell of
  another kind, has no reading.\<close>

definition read_ref :: "(cell \<Rightarrow> gtree option) \<Rightarrow> heap \<Rightarrow> gval \<Rightarrow> gtree option" where
  "read_ref f h v =
     (case v of VRef None \<Rightarrow> Some NNil
      | VRef (Some a) \<Rightarrow> (case h_cells h a of Some c \<Rightarrow> f c | None \<Rightarrow> None)
      | _ \<Rightarrow> None)"

fun read :: "gty \<Rightarrow> heap \<Rightarrow> gval \<Rightarrow> gtree option"
  and read_fields :: "gty list \<Rightarrow> heap \<Rightarrow> gval list \<Rightarrow> gtree list option" where
  "read TStr h v = read_base is_str v"
| "read TBool h v = read_base is_bool v"
| "read TInt h v = read_base is_int v"
| "read (TPtr t) h v = read_ref (\<lambda>c. case c of CPtr x \<Rightarrow> map_option NPtr (read t h x) | _ \<Rightarrow> None) h v"
| "read (TSlice t) h v = read_ref (\<lambda>c. case c of CSlice xs \<Rightarrow> map_option NSlice (those (map (read t h) xs)) | _ \<Rightarrow> None) h v"
| "read (TMap t) h v = read_ref (\<lambda>c. case c of
     CMap es \<Rightarrow> map_option (\<lambda>ts. NMap (zip (map fst es) ts)) (those (map (read t h) (map snd es))) | _ \<Rightarrow> None) h v"
| "read (TStruct ts) h v = (case v of VStruct vs \<Rightarrow> map_option NStruct (read_fields ts h vs) | _ \<Rightarrow> None)"
| "read_fields [] h vs = (if vs = [] then Some [] else None)"
| "read_fields (t # ts) h vs = (case vs of [] \<Rightarrow> None
     | x # xs \<Rightarrow> (case read t h x of None \<Rightarrow> None
         | Some n \<Rightarrow> map_option (\<lambda>ns. n # ns) (read_fields ts h xs)))"

text \<open>The cells a value reaches.\<close>

definition refs_ref :: "(cell \<Rightarrow> nat set) \<Rightarrow> heap \<Rightarrow> gval \<Rightarrow> nat set" where
  "refs_ref f h v =
     (case v of VRef (Some a) \<Rightarrow> insert a (case h_cells h a of Some c \<Rightarrow> f c | None \<Rightarrow> {}) | _ \<Rightarrow> {})"

fun refs :: "gty \<Rightarrow> heap \<Rightarrow> gval \<Rightarrow> nat set"
  and refs_fields :: "gty list \<Rightarrow> heap \<Rightarrow> gval list \<Rightarrow> nat set" where
  "refs TStr h v = {}"
| "refs TBool h v = {}"
| "refs TInt h v = {}"
| "refs (TPtr t) h v = refs_ref (\<lambda>c. case c of CPtr x \<Rightarrow> refs t h x | _ \<Rightarrow> {}) h v"
| "refs (TSlice t) h v = refs_ref (\<lambda>c. case c of CSlice xs \<Rightarrow> \<Union>(refs t h ` set xs) | _ \<Rightarrow> {}) h v"
| "refs (TMap t) h v = refs_ref (\<lambda>c. case c of CMap es \<Rightarrow> \<Union>(refs t h ` set (map snd es)) | _ \<Rightarrow> {}) h v"
| "refs (TStruct ts) h v = (case v of VStruct vs \<Rightarrow> refs_fields ts h vs | _ \<Rightarrow> {})"
| "refs_fields [] h vs = {}"
| "refs_fields (t # ts) h vs = (case vs of [] \<Rightarrow> {} | x # xs \<Rightarrow> refs t h x \<union> refs_fields ts h xs)"

section \<open>How generated code copies\<close>

type_synonym copier = "heap \<Rightarrow> gval \<Rightarrow> heap \<times> gval"

text \<open>\<^verbatim>\<open>*out = *in\<close>, which is all there is to do for a type without references.\<close>

definition assign :: copier where
  "assign h v = (h, v)"

text \<open>The fields of a struct, or the elements of a slice, one after the other.\<close>

fun copy_fields :: "copier list \<Rightarrow> heap \<Rightarrow> gval list \<Rightarrow> heap \<times> gval list" where
  "copy_fields (c # cs) h (x # xs) =
     (let (h1, x') = c h x; (h2, xs') = copy_fields cs h1 xs in (h2, x' # xs'))"
| "copy_fields _ h xs = (h, xs)"

text \<open>Nil stays nil; otherwise there is a new cell with copies of the contents. In which order the cell
  is allocated and filled is not visible.\<close>

definition copy_ref :: "(heap \<Rightarrow> cell \<Rightarrow> heap \<times> cell) \<Rightarrow> copier" where
  "copy_ref f h v =
     (case v of VRef (Some a) \<Rightarrow>
        (case h_cells h a of
           Some c \<Rightarrow> (let (h1, c') = f h c; (h2, a') = alloc c' h1 in (h2, VRef (Some a')))
         | None \<Rightarrow> (h, v))
      | _ \<Rightarrow> (h, v))"

definition copy_ptr :: "copier \<Rightarrow> copier" where
  "copy_ptr c = copy_ref (\<lambda>h x. case x of CPtr y \<Rightarrow> (let (h1, y') = c h y in (h1, CPtr y')) | _ \<Rightarrow> (h, x))"

definition copy_slice :: "copier \<Rightarrow> copier" where
  "copy_slice c = copy_ref (\<lambda>h x. case x of
     CSlice xs \<Rightarrow> (let (h1, xs') = copy_fields (replicate (length xs) c) h xs in (h1, CSlice xs')) | _ \<Rightarrow> (h, x))"

definition copy_map :: "copier \<Rightarrow> copier" where
  "copy_map c = copy_ref (\<lambda>h x. case x of
     CMap es \<Rightarrow> (let (h1, xs') = copy_fields (replicate (length es) c) h (map snd es) in (h1, CMap (zip (map fst es) xs')))
   | _ \<Rightarrow> (h, x))"

definition copy_struct :: "copier list \<Rightarrow> copier" where
  "copy_struct cs h v = (case v of VStruct xs \<Rightarrow> (let (h1, xs') = copy_fields cs h xs in (h1, VStruct xs')) | _ \<Rightarrow> (h, v))"

section \<open>Frames\<close>

lemma those_map_Some: "those (map f xs) = Some ys \<longleftrightarrow> list_all2 (\<lambda>x y. f x = Some y) xs ys"
  by (induction xs arbitrary: ys) (auto split: option.splits simp: list_all2_Cons1)

lemma those_map_cong: "(\<And>x. x \<in> set xs \<Longrightarrow> f x = g x) \<Longrightarrow> those (map f xs) = those (map g xs)"
  by (simp cong: map_cong)

lemma read_ref_Some:
  "read_ref f h v = Some n \<longleftrightarrow>
     v = VRef None \<and> n = NNil \<or> (\<exists>a c. v = VRef (Some a) \<and> h_cells h a = Some c \<and> f c = Some n)"
  by (auto simp: read_ref_def split: gval.split option.split)

lemma read_ptr_Some:
  "read (TPtr t) h v = Some n \<longleftrightarrow> v = VRef None \<and> n = NNil \<or>
     (\<exists>a x m. v = VRef (Some a) \<and> h_cells h a = Some (CPtr x) \<and> read t h x = Some m \<and> n = NPtr m)"
  by (auto simp: read_ref_Some split: cell.split_asm)

lemma read_slice_Some:
  "read (TSlice t) h v = Some n \<longleftrightarrow> v = VRef None \<and> n = NNil \<or>
     (\<exists>a xs ms. v = VRef (Some a) \<and> h_cells h a = Some (CSlice xs) \<and> list_all2 (\<lambda>x m. read t h x = Some m) xs ms \<and> n = NSlice ms)"
  by (auto simp: read_ref_Some those_map_Some split: cell.split_asm)

lemma read_map_Some:
  "read (TMap t) h v = Some n \<longleftrightarrow> v = VRef None \<and> n = NNil \<or>
     (\<exists>a es ms. v = VRef (Some a) \<and> h_cells h a = Some (CMap es) \<and>
        list_all2 (\<lambda>x m. read t h x = Some m) (map snd es) ms \<and> n = NMap (zip (map fst es) ms))"
  by (auto simp: read_ref_Some those_map_Some split: cell.split_asm simp del: map_map)

lemma read_fields_Some:
  "read_fields ts h vs = Some ns \<longleftrightarrow> length ts = length vs \<and> list_all2 (\<lambda>(t, x) n. read t h x = Some n) (zip ts vs) ns"
  by (induction ts arbitrary: vs ns) (auto split: list.splits option.splits simp: list_all2_Cons1)

lemma refs_fields_zip: "refs_fields ts h vs = (\<Union>(t, x) \<in> set (zip ts vs). refs t h x)"
  by (induction ts arbitrary: vs) (auto split: list.splits)

text \<open>A value reads the same as long as the cells it reaches stay as they are.\<close>

lemma read_frame:
  "\<forall>a \<in> refs t h v. h_cells h' a = h_cells h a \<Longrightarrow> read t h' v = read t h v \<and> refs t h' v = refs t h v"
proof (induction t arbitrary: v)
  case (TPtr t)
  then show ?case by (auto simp: read_ref_def refs_ref_def split: gval.splits option.splits cell.splits)
next
  case (TSlice t)
  then show ?case
    by (auto simp: read_ref_def refs_ref_def split: gval.splits option.splits cell.splits
        intro!: arg_cong[where f = "map_option NSlice"] those_map_cong)
next
  case (TMap t)
  then show ?case
    by (auto simp: read_ref_def refs_ref_def simp del: map_map split: gval.splits option.splits cell.splits
        intro!: arg_cong[where f = "map_option f" for f] those_map_cong)
next
  case (TStruct ts)
  have "\<forall>a \<in> refs_fields ts h vs. h_cells h' a = h_cells h a \<Longrightarrow>
      read_fields ts h' vs = read_fields ts h vs \<and> refs_fields ts h' vs = refs_fields ts h vs" for vs
    using TStruct.IH by (induction ts arbitrary: vs) (auto split: list.splits option.splits)
  with TStruct.prems show ?case by (auto split: gval.splits)
qed simp_all

lemmas read_unchanged = read_frame[THEN conjunct1] and refs_unchanged = read_frame[THEN conjunct2]

text \<open>A value that reads reaches allocated cells only, so allocation changes nothing for it.\<close>

lemma allocated: "heap_ok h \<Longrightarrow> h_cells h a = Some c \<Longrightarrow> a < h_next h"
  unfolding heap_ok_def by (metis not_le option.distinct(1))

lemma refs_allocated:
  assumes ok: "heap_ok h"
  shows "read t h v = Some n \<Longrightarrow> refs t h v \<subseteq> {..<h_next h}"
proof (induction t arbitrary: v n)
  case (TPtr t)
  from TPtr.prems show ?case
    by (fastforce simp: read_ptr_Some refs_ref_def simp del: read.simps intro: allocated[OF ok] dest: TPtr.IH)
next
  case (TSlice t)
  from TSlice.prems show ?case
    by (fastforce simp: read_slice_Some refs_ref_def list_all2_conv_all_nth in_set_conv_nth simp del: read.simps
        intro: allocated[OF ok] dest: TSlice.IH)
next
  case (TMap t)
  from TMap.prems show ?case
    by (fastforce simp: read_map_Some refs_ref_def list_all2_conv_all_nth in_set_conv_nth simp del: read.simps
        intro: allocated[OF ok] dest: TMap.IH)
next
  case (TStruct ts)
  have "read_fields ts h vs = Some ns \<Longrightarrow> refs_fields ts h vs \<subseteq> {..<h_next h}" for vs ns
    using TStruct.IH by (induction ts arbitrary: vs ns) (fastforce split: list.splits option.splits)+
  with TStruct.prems show ?case by (auto split: gval.splits)
qed simp_all

lemma extends_refl [simp]: "extends h h"
  by (simp add: extends_def)

lemma extends_trans [trans]: "extends h h1 \<Longrightarrow> extends h1 h2 \<Longrightarrow> extends h h2"
  by (simp add: extends_def)

lemma extends_next: "extends h h' \<Longrightarrow> h_next h \<le> h_next h'"
  by (simp add: extends_def)

lemma heap_ok_alloc: "heap_ok h \<Longrightarrow> heap_ok (fst (alloc c h))"
  by (simp add: heap_ok_def alloc_def)

lemma extends_alloc: "heap_ok h \<Longrightarrow> extends h (fst (alloc c h))"
  by (simp add: extends_def alloc_def)

lemma read_extends:
  assumes "heap_ok h" "extends h h'" "read t h v = Some n"
  shows "read t h' v = Some n" "refs t h' v = refs t h v"
proof -
  have "\<forall>a \<in> refs t h v. h_cells h' a = h_cells h a"
    using refs_allocated[OF assms(1,3)] assms(2) by (auto simp: extends_def)
  from read_frame[OF this] assms(3) show "read t h' v = Some n" "refs t h' v = refs t h v" by simp_all
qed


text \<open>The fields of a struct read together as the struct does, the elements of a slice as fields of one type.\<close>

lemma read_fields_extends:
  assumes "heap_ok h" "extends h h'" "read_fields ts h vs = Some ns"
  shows "read_fields ts h' vs = Some ns" "refs_fields ts h' vs = refs_fields ts h vs"
  using read_extends[of h h' "TStruct ts" "VStruct vs" "NStruct ns"] assms by auto

lemma those_read: "those (map (read t h) xs) = read_fields (replicate (length xs) t) h xs"
  by (induction xs) (auto split: option.splits)

lemma refs_elements: "\<Union>(refs t h ` set xs) = refs_fields (replicate (length xs) t) h xs"
  by (induction xs) auto

lemma length_read_fields: "read_fields ts h vs = Some ns \<Longrightarrow> length vs = length ts \<and> length ns = length ts"
  by (auto simp: read_fields_Some dest: list_all2_lengthD)

section \<open>The contract of a deep copy\<close>

text \<open>Copying a value that reads as some tree allocates, and changes no cell that was there; the copy
  reads as the same tree and reaches new cells only.\<close>

locale deep_copier =
  fixes copy :: copier and ty :: gty
  assumes copies: "\<lbrakk>heap_ok h; read ty h v = Some n; copy h v = (h', v')\<rbrakk> \<Longrightarrow>
    heap_ok h' \<and> extends h h' \<and> read ty h' v' = Some n \<and> refs ty h' v' \<subseteq> {h_next h..<h_next h'}"
begin

text \<open>The original still reads as it did, and the two share no cell.\<close>

lemma original_kept:
  assumes "heap_ok h" "read ty h v = Some n" "copy h v = (h', v')"
  shows "read ty h' v = Some n" and "refs ty h' v \<inter> refs ty h' v' = {}"
proof -
  have c: "extends h h'" "refs ty h' v' \<subseteq> {h_next h..<h_next h'}" using copies[OF assms] by auto
  show "read ty h' v = Some n" by (rule read_extends[OF assms(1) c(1) assms(2)])
  show "refs ty h' v \<inter> refs ty h' v' = {}"
    using refs_allocated[OF assms(1,2)] c(2) read_extends(2)[OF assms(1) c(1) assms(2)] by fastforce
qed

text \<open>So writing through one of them, at any type and any number of times, leaves the other as it was.\<close>

lemma writes_to_copy:
  assumes "heap_ok h" "read ty h v = Some n" "copy h v = (h', v')"
    and "\<forall>a. a \<notin> refs ty h' v' \<longrightarrow> h_cells h'' a = h_cells h' a"
  shows "read ty h'' v = Some n"
proof -
  have "\<forall>a \<in> refs ty h' v. h_cells h'' a = h_cells h' a"
    using original_kept(2)[OF assms(1-3)] assms(4) by blast
  from read_unchanged[OF this] original_kept(1)[OF assms(1-3)] show ?thesis by simp
qed

lemma writes_to_original:
  assumes "heap_ok h" "read ty h v = Some n" "copy h v = (h', v')"
    and "\<forall>a. a \<notin> refs ty h' v \<longrightarrow> h_cells h'' a = h_cells h' a"
  shows "read ty h'' v' = Some n"
proof -
  have "\<forall>a \<in> refs ty h' v'. h_cells h'' a = h_cells h' a"
    using original_kept(2)[OF assms(1-3)] assms(4) by blast
  from read_unchanged[OF this] copies[OF assms(1-3)] show ?thesis by simp
qed

end

text \<open>Every way of copying a field that the generated code has meets the contract, at its type. The
  collection builds the proof of a struct from the proofs of its fields.\<close>

named_theorems deep_copy

lemma assign_copies [deep_copy]:
  "deep_copier assign TStr" "deep_copier assign TBool" "deep_copier assign TInt"
  by (unfold_locales, simp add: assign_def)+

lemma copy_fields_copies:
  "\<lbrakk>list_all2 deep_copier cs ts; heap_ok h; read_fields ts h vs = Some ns; copy_fields cs h vs = (h', vs')\<rbrakk> \<Longrightarrow>
     heap_ok h' \<and> extends h h' \<and> read_fields ts h' vs' = Some ns \<and> refs_fields ts h' vs' \<subseteq> {h_next h..<h_next h'}"
proof (induction arbitrary: h vs ns h' vs' rule: list_all2_induct)
  case Nil
  then show ?case by (simp split: if_split_asm)
next
  case (Cons c cs t ts)
  obtain x xs where vs: "vs = x # xs" using Cons.prems(2) by (cases vs) simp_all
  with Cons.prems(2) obtain n ms where r: "read t h x = Some n" "read_fields ts h xs = Some ms" "ns = n # ms"
    by (auto split: option.splits)
  obtain h1 x' where c: "c h x = (h1, x')" by fastforce
  obtain xs' where cs: "copy_fields cs h1 xs = (h', xs')" and vs': "vs' = x' # xs'"
    using Cons.prems(3) c vs by (auto split: prod.splits)
  have 1: "heap_ok h1" "extends h h1" "read t h1 x' = Some n" "refs t h1 x' \<subseteq> {h_next h..<h_next h1}"
    using deep_copier.copies[OF Cons.hyps(1) Cons.prems(1) r(1) c] by auto
  have 2: "heap_ok h'" "extends h1 h'" "read_fields ts h' xs' = Some ms" "refs_fields ts h' xs' \<subseteq> {h_next h1..<h_next h'}"
    using Cons.IH[OF 1(1) read_fields_extends(1)[OF Cons.prems(1) 1(2) r(2)] cs] by auto
  have "refs t h' x' \<subseteq> {h_next h..<h_next h'}"
    using 1(4) read_extends(2)[OF 1(1) 2(2) 1(3)] extends_next[OF 2(2)] by auto
  with 2 extends_trans[OF 1(2) 2(2)] extends_next[OF 1(2)] read_extends(1)[OF 1(1) 2(2) 1(3)] vs' r(3) show ?case by auto
qed

lemma copy_struct_copies [deep_copy]:
  assumes "list_all2 deep_copier cs ts"
  shows "deep_copier (copy_struct cs) (TStruct ts)"
proof
  fix h v n h' v'
  assume ok: "heap_ok h" and r: "read (TStruct ts) h v = Some n" and c: "copy_struct cs h v = (h', v')"
  from r obtain vs ns where v: "v = VStruct vs" "read_fields ts h vs = Some ns" "n = NStruct ns"
    by (auto split: gval.splits)
  with c obtain vs' where "copy_fields cs h vs = (h', vs')" "v' = VStruct vs'"
    by (auto simp: copy_struct_def split: prod.splits)
  with copy_fields_copies[OF assms ok v(2)] v(3)
  show "heap_ok h' \<and> extends h h' \<and> read (TStruct ts) h' v' = Some n \<and> refs (TStruct ts) h' v' \<subseteq> {h_next h..<h_next h'}"
    by auto
qed


text \<open>A pointer, a slice and a map are a new cell that holds copies of what the old one holds.\<close>

lemma new_cell_copies:
  assumes "deep_copier c t" "heap_ok h" "read_fields (replicate k t) h xs = Some ms"
    and copied: "copy_fields (replicate k c) h xs = (h1, xs')" and new: "alloc cl h1 = (h', a)"
  shows "heap_ok h'" "extends h h'" "h_cells h' a = Some cl" "length xs' = k"
    "read_fields (replicate k t) h' xs' = Some ms"
    "insert a (refs_fields (replicate k t) h' xs') \<subseteq> {h_next h..<h_next h'}"
proof -
  have 1: "heap_ok h1" "extends h h1" "read_fields (replicate k t) h1 xs' = Some ms"
    "refs_fields (replicate k t) h1 xs' \<subseteq> {h_next h..<h_next h1}"
    using copy_fields_copies[OF _ assms(2-4)] assms(1) by (auto simp: list_all2_conv_all_nth)
  have 2: "heap_ok h'" "extends h1 h'" using heap_ok_alloc[OF 1(1), of cl] extends_alloc[OF 1(1), of cl] new by simp_all
  note kept = read_fields_extends[OF 1(1) 2(2) 1(3)]
  have a: "a = h_next h1" "h_next h' = Suc (h_next h1)" "h_cells h' a = Some cl" using new by (auto simp: alloc_def)
  show "heap_ok h'" "extends h h'" "h_cells h' a = Some cl" "read_fields (replicate k t) h' xs' = Some ms"
    using 2 a kept extends_trans[OF 1(2) 2(2)] by simp_all
  show "length xs' = k" using length_read_fields[OF 1(3)] by simp
  show "insert a (refs_fields (replicate k t) h' xs') \<subseteq> {h_next h..<h_next h'}"
    using a kept(2) 1(4) extends_next[OF 1(2)] by auto
qed

lemma copy_ptr_copies [deep_copy]:
  assumes "deep_copier c t"
  shows "deep_copier (copy_ptr c) (TPtr t)"
proof
  fix h v n h' v'
  assume ok: "heap_ok h" and r: "read (TPtr t) h v = Some n" and c: "copy_ptr c h v = (h', v')"
  show "heap_ok h' \<and> extends h h' \<and> read (TPtr t) h' v' = Some n \<and> refs (TPtr t) h' v' \<subseteq> {h_next h..<h_next h'}"
  proof (cases "v = VRef None")
    case True
    then show ?thesis using ok r c by (auto simp: copy_ptr_def copy_ref_def read_ref_def refs_ref_def)
  next
    case False
    with r obtain a x m where v: "v = VRef (Some a)" "h_cells h a = Some (CPtr x)" "read t h x = Some m" "n = NPtr m"
      unfolding read_ptr_Some by blast
    obtain h1 x' where cx: "c h x = (h1, x')" by fastforce
    with c v obtain a' where v': "alloc (CPtr x') h1 = (h', a')" "v' = VRef (Some a')"
      by (auto simp: copy_ptr_def copy_ref_def split: prod.splits)
    have "read_fields (replicate 1 t) h [x] = Some [m]" "copy_fields (replicate 1 c) h [x] = (h1, [x'])"
      using v(3) cx by simp_all
    from new_cell_copies[OF assms ok this v'(1)] v' v show ?thesis
      by (auto simp: read_ref_def refs_ref_def split: option.splits)
  qed
qed

lemma copy_slice_copies [deep_copy]:
  assumes "deep_copier c t"
  shows "deep_copier (copy_slice c) (TSlice t)"
proof
  fix h v n h' v'
  assume ok: "heap_ok h" and r: "read (TSlice t) h v = Some n" and c: "copy_slice c h v = (h', v')"
  show "heap_ok h' \<and> extends h h' \<and> read (TSlice t) h' v' = Some n \<and> refs (TSlice t) h' v' \<subseteq> {h_next h..<h_next h'}"
  proof (cases "v = VRef None")
    case True
    then show ?thesis using ok r c by (auto simp: copy_slice_def copy_ref_def read_ref_def refs_ref_def)
  next
    case False
    with r obtain a xs ms where v: "v = VRef (Some a)" "h_cells h a = Some (CSlice xs)"
        "read_fields (replicate (length xs) t) h xs = Some ms" "n = NSlice ms"
      unfolding read_slice_Some by (auto simp: those_map_Some[symmetric] those_read)
    obtain h1 xs' where cx: "copy_fields (replicate (length xs) c) h xs = (h1, xs')" by fastforce
    with c v obtain a' where v': "alloc (CSlice xs') h1 = (h', a')" "v' = VRef (Some a')"
      by (auto simp: copy_slice_def copy_ref_def split: prod.splits)
    from new_cell_copies[OF assms ok v(3) cx v'(1)] v' v show ?thesis
      by (auto simp: read_ref_def refs_ref_def those_read refs_elements)
  qed
qed

lemma copy_map_copies [deep_copy]:
  assumes "deep_copier c t"
  shows "deep_copier (copy_map c) (TMap t)"
proof
  fix h v n h' v'
  assume ok: "heap_ok h" and r: "read (TMap t) h v = Some n" and c: "copy_map c h v = (h', v')"
  show "heap_ok h' \<and> extends h h' \<and> read (TMap t) h' v' = Some n \<and> refs (TMap t) h' v' \<subseteq> {h_next h..<h_next h'}"
  proof (cases "v = VRef None")
    case True
    then show ?thesis using ok r c by (auto simp: copy_map_def copy_ref_def read_ref_def refs_ref_def)
  next
    case False
    with r obtain a es ms where v: "v = VRef (Some a)" "h_cells h a = Some (CMap es)"
        "read_fields (replicate (length es) t) h (map snd es) = Some ms" "n = NMap (zip (map fst es) ms)"
      unfolding read_map_Some by (auto simp: those_map_Some[symmetric] those_read simp del: map_map)
    obtain h1 xs' where cx: "copy_fields (replicate (length es) c) h (map snd es) = (h1, xs')" by fastforce
    with c v obtain a' where v': "alloc (CMap (zip (map fst es) xs')) h1 = (h', a')" "v' = VRef (Some a')"
      by (auto simp: copy_map_def copy_ref_def split: prod.splits)
    from new_cell_copies[OF assms ok v(3) cx v'(1)] v' v show ?thesis
      by (auto simp: read_ref_def refs_ref_def those_read refs_elements simp del: map_map set_map)
  qed
qed


section \<open>Fields of nested structs\<close>

text \<open>A field is named by the positions on the way to it.\<close>

type_synonym path = "nat list"

fun type_at :: "path \<Rightarrow> gty \<Rightarrow> gty option" where
  "type_at [] t = Some t"
| "type_at (i # p) (TStruct ts) = (if i < length ts then type_at p (ts ! i) else None)"
| "type_at (i # p) t = None"

fun get_field :: "path \<Rightarrow> gval \<Rightarrow> gval option" where
  "get_field [] v = Some v"
| "get_field (i # p) (VStruct vs) = (if i < length vs then get_field p (vs ! i) else None)"
| "get_field (i # p) v = None"

fun set_field :: "path \<Rightarrow> gval \<Rightarrow> gval \<Rightarrow> gval" where
  "set_field [] x v = x"
| "set_field (i # p) x (VStruct vs) = VStruct (if i < length vs then vs[i := set_field p x (vs ! i)] else vs)"
| "set_field (i # p) x v = v"

fun get_tree :: "path \<Rightarrow> gtree \<Rightarrow> gtree option" where
  "get_tree [] n = Some n"
| "get_tree (i # p) (NStruct ns) = (if i < length ns then get_tree p (ns ! i) else None)"
| "get_tree (i # p) n = None"

fun set_tree :: "path \<Rightarrow> gtree \<Rightarrow> gtree \<Rightarrow> gtree" where
  "set_tree [] m n = m"
| "set_tree (i # p) m (NStruct ns) = NStruct (if i < length ns then ns[i := set_tree p m (ns ! i)] else ns)"
| "set_tree (i # p) m n = n"

text \<open>Reading a struct reads its fields, and assigning to a field assigns to the tree.\<close>

lemma read_struct_nth:
  "read (TStruct ts) h v = Some n \<longleftrightarrow>
     (\<exists>vs ns. v = VStruct vs \<and> n = NStruct ns \<and> length vs = length ts \<and> length ns = length ts \<and>
       (\<forall>i < length ts. read (ts ! i) h (vs ! i) = Some (ns ! i)))"
  by (auto simp: read_fields_Some list_all2_conv_all_nth split: gval.splits)

lemma read_field:
  assumes "type_at p t = Some t'" "read t h v = Some n"
  shows "\<exists>x m. get_field p v = Some x \<and> get_tree p n = Some m \<and> read t' h x = Some m \<and> refs t' h x \<subseteq> refs t h v"
  using assms
proof (induction p t arbitrary: v n rule: type_at.induct)
  case (2 i p ts)
  from 2(2) have i: "i < length ts" "type_at p (ts ! i) = Some t'" by (auto split: if_split_asm)
  from 2(3) obtain vs ns where v: "v = VStruct vs" "n = NStruct ns" "length vs = length ts" "length ns = length ts"
      and r: "read (ts ! i) h (vs ! i) = Some (ns ! i)"
    unfolding read_struct_nth using i(1) by blast
  have "(ts ! i, vs ! i) \<in> set (zip ts vs)" using v(3) i(1) by (auto simp: set_zip)
  then have "refs (ts ! i) h (vs ! i) \<subseteq> refs (TStruct ts) h v"
    unfolding v(1) by (force simp: refs_fields_zip)
  with 2(1)[OF i(1) i(2) r] v i(1) show ?case by (simp del: refs.simps) blast
qed auto

lemma read_set_field:
  assumes "type_at p t = Some t'" "read t h v = Some n" "read t' h x = Some m"
  shows "read t h (set_field p x v) = Some (set_tree p m n)"
  using assms
proof (induction p t arbitrary: v n rule: type_at.induct)
  case (2 i p ts)
  from 2(2) have i: "i < length ts" "type_at p (ts ! i) = Some t'" by (auto split: if_split_asm)
  from 2(3) obtain vs ns where v: "v = VStruct vs" "n = NStruct ns" "length vs = length ts" "length ns = length ts"
      and r: "\<forall>i < length ts. read (ts ! i) h (vs ! i) = Some (ns ! i)"
    unfolding read_struct_nth by blast
  from 2(1)[OF i(1) i(2) _ 2(4)] r i(1) have "read (ts ! i) h (set_field p x (vs ! i)) = Some (set_tree p m (ns ! i))" by blast
  with v r i(1) show ?case by (auto simp: read_struct_nth nth_list_update simp del: read.simps)
qed auto

end
