(* ===== verification/Deep_Copy.thy ===== *)
theory Deep_Copy
  imports Go_Heap Api_Types
begin

text \<open>
  The generated copy functions of \<^verbatim>\<open>api/v1beta1\<close> and \<^verbatim>\<open>api-hub/v1beta1\<close>, on the memory of Go programs.
  For every struct: its type, with the fields in the order of the source; \<^verbatim>\<open>DeepCopyInto\<close>, with one copier
  per field; \<^verbatim>\<open>DeepCopy\<close> and, for the kinds that are registered with the scheme, \<^verbatim>\<open>DeepCopyObject\<close>. The
  structs that come from the Kubernetes libraries are translated from the vendored packages, except
  \<^verbatim>\<open>resource.Quantity\<close>, whose copy goes through big-number arithmetic, and \<^verbatim>\<open>VolumeSource\<close>, a union of
  some thirty structs: these two are parameters.
\<close>

text \<open>The two structs that are parameters, with their copy functions, which are documented to be deep.\<close>

record vendored =
  Quantity_type :: gty
  Quantity_copy :: copier
  VolumeSource_type :: gty
  VolumeSource_copy :: copier

definition vendored_ok :: "vendored \<Rightarrow> bool" where
  "vendored_ok V \<longleftrightarrow> deep_copier (Quantity_copy V) (Quantity_type V) \<and> deep_copier (VolumeSource_copy V) (VolumeSource_type V)"

text \<open>\<^verbatim>\<open>DeepCopyObject\<close> returns the copy as an interface, and the nil interface for a nil pointer.\<close>

definition as_object :: "copier \<Rightarrow> copier" where
  "as_object c h v = (case c h v of (h', c') \<Rightarrow> if c' \<noteq> VRef None then (h', c') else (h', VRef None))"

text \<open>\<^verbatim>\<open>metav1.Time\<close> is copied by assignment. It holds an instant and a pointer to immutable zone data, and
  is one value here.\<close>

definition Time_type :: gty where
  "Time_type = TInt"

definition Time_DeepCopyInto :: copier where
  "Time_DeepCopyInto = assign"

section \<open>Structs of the Kubernetes libraries\<close>

definition TypeMeta_type :: "gty" where
  "TypeMeta_type = TStruct [TStr, TStr]"

definition LocalObjectReference_type :: "gty" where
  "LocalObjectReference_type = TStruct [TStr]"

definition OwnerReference_type :: "gty" where
  "OwnerReference_type = TStruct [TStr, TStr, TStr, TStr, TPtr TBool, TPtr TBool]"

definition OwnerReference_DeepCopyInto :: "copier" where
  "OwnerReference_DeepCopyInto = copy_struct [assign, assign, assign, assign, copy_ptr assign, copy_ptr assign]"

definition FieldsV1_type :: "gty" where
  "FieldsV1_type = TStruct [TSlice TInt]"

definition FieldsV1_DeepCopyInto :: "copier" where
  "FieldsV1_DeepCopyInto = copy_struct [copy_slice assign]"

definition ManagedFieldsEntry_type :: "gty" where
  "ManagedFieldsEntry_type = TStruct [TStr, TStr, TStr, TPtr Time_type, TStr, TPtr FieldsV1_type, TStr]"

definition ManagedFieldsEntry_DeepCopyInto :: "copier" where
  "ManagedFieldsEntry_DeepCopyInto = copy_struct [assign, assign, assign, copy_ptr Time_DeepCopyInto, assign, copy_ptr FieldsV1_DeepCopyInto, assign]"

definition ObjectMeta_type :: "gty" where
  "ObjectMeta_type = TStruct [TStr, TStr, TStr, TStr, TStr, TStr, TInt, Time_type, TPtr Time_type, TPtr TInt, TMap TStr,
     TMap TStr, TSlice OwnerReference_type, TSlice TStr, TSlice ManagedFieldsEntry_type]"

definition ObjectMeta_DeepCopyInto :: "copier" where
  "ObjectMeta_DeepCopyInto = copy_struct [assign, assign, assign, assign, assign, assign, assign, Time_DeepCopyInto,
     copy_ptr Time_DeepCopyInto, copy_ptr assign, copy_map assign, copy_map assign,
     copy_slice OwnerReference_DeepCopyInto, copy_slice assign,
     copy_slice ManagedFieldsEntry_DeepCopyInto]"

definition ListMeta_type :: "gty" where
  "ListMeta_type = TStruct [TStr, TStr, TStr, TPtr TInt]"

definition ListMeta_DeepCopyInto :: "copier" where
  "ListMeta_DeepCopyInto = copy_struct [assign, assign, assign, copy_ptr assign]"

definition ObjectFieldSelector_type :: "gty" where
  "ObjectFieldSelector_type = TStruct [TStr, TStr]"

definition ResourceFieldSelector_type :: "vendored \<Rightarrow> gty" where
  "ResourceFieldSelector_type V = TStruct [TStr, TStr, Quantity_type V]"

definition ResourceFieldSelector_DeepCopyInto :: "vendored \<Rightarrow> copier" where
  "ResourceFieldSelector_DeepCopyInto V = copy_struct [assign, assign, Quantity_copy V]"

definition ConfigMapKeySelector_type :: "gty" where
  "ConfigMapKeySelector_type = TStruct [LocalObjectReference_type, TStr, TPtr TBool]"

definition ConfigMapKeySelector_DeepCopyInto :: "copier" where
  "ConfigMapKeySelector_DeepCopyInto = copy_struct [assign, assign, copy_ptr assign]"

definition SecretKeySelector_type :: "gty" where
  "SecretKeySelector_type = TStruct [LocalObjectReference_type, TStr, TPtr TBool]"

definition SecretKeySelector_DeepCopyInto :: "copier" where
  "SecretKeySelector_DeepCopyInto = copy_struct [assign, assign, copy_ptr assign]"

definition EnvVarSource_type :: "vendored \<Rightarrow> gty" where
  "EnvVarSource_type V = TStruct [TPtr ObjectFieldSelector_type, TPtr (ResourceFieldSelector_type V), TPtr ConfigMapKeySelector_type,
     TPtr SecretKeySelector_type]"

definition EnvVarSource_DeepCopyInto :: "vendored \<Rightarrow> copier" where
  "EnvVarSource_DeepCopyInto V = copy_struct [copy_ptr assign, copy_ptr (ResourceFieldSelector_DeepCopyInto V),
     copy_ptr ConfigMapKeySelector_DeepCopyInto, copy_ptr SecretKeySelector_DeepCopyInto]"

definition EnvVar_type :: "vendored \<Rightarrow> gty" where
  "EnvVar_type V = TStruct [TStr, TStr, TPtr (EnvVarSource_type V)]"

definition EnvVar_DeepCopyInto :: "vendored \<Rightarrow> copier" where
  "EnvVar_DeepCopyInto V = copy_struct [assign, assign, copy_ptr (EnvVarSource_DeepCopyInto V)]"

definition ResourceRequirements_type :: "vendored \<Rightarrow> gty" where
  "ResourceRequirements_type V = TStruct [TMap (Quantity_type V), TMap (Quantity_type V)]"

definition ResourceRequirements_DeepCopyInto :: "vendored \<Rightarrow> copier" where
  "ResourceRequirements_DeepCopyInto V = copy_struct [copy_map (Quantity_copy V), copy_map (Quantity_copy V)]"

definition VolumeMount_type :: "gty" where
  "VolumeMount_type = TStruct [TStr, TBool, TStr, TStr, TPtr TStr, TStr]"

definition VolumeMount_DeepCopyInto :: "copier" where
  "VolumeMount_DeepCopyInto = copy_struct [assign, assign, assign, assign, copy_ptr assign, assign]"

definition Volume_type :: "vendored \<Rightarrow> gty" where
  "Volume_type V = TStruct [TStr, VolumeSource_type V]"

definition Volume_DeepCopyInto :: "vendored \<Rightarrow> copier" where
  "Volume_DeepCopyInto V = copy_struct [assign, VolumeSource_copy V]"

section \<open>Modules\<close>

text \<open>A field without references keeps the value that \<^verbatim>\<open>*out = *in\<close> gave it.\<close>

definition BuildArg_type :: "gty" where
  "BuildArg_type = TStruct [TStr, TStr]"

definition BuildArg_DeepCopyInto :: "copier" where
  "BuildArg_DeepCopyInto = assign"

definition BuildArg_DeepCopy :: "copier" where
  "BuildArg_DeepCopy = copy_ptr BuildArg_DeepCopyInto"

definition TLSOptions_type :: "gty" where
  "TLSOptions_type = TStruct [TBool, TBool]"

definition TLSOptions_DeepCopyInto :: "copier" where
  "TLSOptions_DeepCopyInto = assign"

definition TLSOptions_DeepCopy :: "copier" where
  "TLSOptions_DeepCopy = copy_ptr TLSOptions_DeepCopyInto"

definition KanikoParams_type :: "gty" where
  "KanikoParams_type = TStruct [TStr]"

definition KanikoParams_DeepCopyInto :: "copier" where
  "KanikoParams_DeepCopyInto = assign"

definition KanikoParams_DeepCopy :: "copier" where
  "KanikoParams_DeepCopy = copy_ptr KanikoParams_DeepCopyInto"

definition Build_type :: "gty" where
  "Build_type = TStruct [TSlice BuildArg_type, TPtr LocalObjectReference_type, TLSOptions_type,
     TSlice LocalObjectReference_type, TPtr KanikoParams_type]"

definition Build_DeepCopyInto :: "copier" where
  "Build_DeepCopyInto = copy_struct [copy_slice assign, copy_ptr assign, assign, copy_slice assign, copy_ptr assign]"

definition Build_DeepCopy :: "copier" where
  "Build_DeepCopy = copy_ptr Build_DeepCopyInto"

definition Sign_type :: "gty" where
  "Sign_type = TStruct [TStr, TLSOptions_type, TPtr LocalObjectReference_type, TPtr LocalObjectReference_type, TSlice TStr]"

definition Sign_DeepCopyInto :: "copier" where
  "Sign_DeepCopyInto = copy_struct [assign, assign, copy_ptr assign, copy_ptr assign, copy_slice assign]"

definition Sign_DeepCopy :: "copier" where
  "Sign_DeepCopy = copy_ptr Sign_DeepCopyInto"

definition KernelMapping_type :: "gty" where
  "KernelMapping_type = TStruct [TPtr Build_type, TPtr Sign_type, TStr, TStr, TPtr TLSOptions_type, TStr]"

definition KernelMapping_DeepCopyInto :: "copier" where
  "KernelMapping_DeepCopyInto = copy_struct [copy_ptr Build_DeepCopyInto, copy_ptr Sign_DeepCopyInto, assign, assign, copy_ptr assign, assign]"

definition KernelMapping_DeepCopy :: "copier" where
  "KernelMapping_DeepCopy = copy_ptr KernelMapping_DeepCopyInto"

definition ModprobeArgs_type :: "gty" where
  "ModprobeArgs_type = TStruct [TSlice TStr, TSlice TStr]"

definition ModprobeArgs_DeepCopyInto :: "copier" where
  "ModprobeArgs_DeepCopyInto = copy_struct [copy_slice assign, copy_slice assign]"

definition ModprobeArgs_DeepCopy :: "copier" where
  "ModprobeArgs_DeepCopy = copy_ptr ModprobeArgs_DeepCopyInto"

definition ModprobeSpec_type :: "gty" where
  "ModprobeSpec_type = TStruct [TStr, TSlice TStr, TStr, TPtr ModprobeArgs_type, TPtr ModprobeArgs_type, TStr]"

definition ModprobeSpec_DeepCopyInto :: "copier" where
  "ModprobeSpec_DeepCopyInto = copy_struct [assign, copy_slice assign, assign, copy_ptr ModprobeArgs_DeepCopyInto,
     copy_ptr ModprobeArgs_DeepCopyInto, assign]"

definition ModprobeSpec_DeepCopy :: "copier" where
  "ModprobeSpec_DeepCopy = copy_ptr ModprobeSpec_DeepCopyInto"

definition ModuleLoaderContainerSpec_type :: "gty" where
  "ModuleLoaderContainerSpec_type = TStruct [TPtr Build_type, TPtr Sign_type, TStr, TStr, TSlice KernelMapping_type, ModprobeSpec_type,
     TLSOptions_type]"

definition ModuleLoaderContainerSpec_DeepCopyInto :: "copier" where
  "ModuleLoaderContainerSpec_DeepCopyInto = copy_struct [copy_ptr Build_DeepCopyInto, copy_ptr Sign_DeepCopyInto, assign, assign,
     copy_slice KernelMapping_DeepCopyInto, ModprobeSpec_DeepCopyInto, assign]"

definition ModuleLoaderContainerSpec_DeepCopy :: "copier" where
  "ModuleLoaderContainerSpec_DeepCopy = copy_ptr ModuleLoaderContainerSpec_DeepCopyInto"

definition ModuleLoaderSpec_type :: "gty" where
  "ModuleLoaderSpec_type = TStruct [ModuleLoaderContainerSpec_type, TStr]"

definition ModuleLoaderSpec_DeepCopyInto :: "copier" where
  "ModuleLoaderSpec_DeepCopyInto = copy_struct [ModuleLoaderContainerSpec_DeepCopyInto, assign]"

definition ModuleLoaderSpec_DeepCopy :: "copier" where
  "ModuleLoaderSpec_DeepCopy = copy_ptr ModuleLoaderSpec_DeepCopyInto"

definition DevicePluginContainerSpec_type :: "vendored \<Rightarrow> gty" where
  "DevicePluginContainerSpec_type V = TStruct [TSlice TStr, TSlice TStr, TSlice (EnvVar_type V), TStr, TStr, ResourceRequirements_type V,
     TSlice VolumeMount_type]"

definition DevicePluginContainerSpec_DeepCopyInto :: "vendored \<Rightarrow> copier" where
  "DevicePluginContainerSpec_DeepCopyInto V = copy_struct [copy_slice assign, copy_slice assign, copy_slice (EnvVar_DeepCopyInto V), assign, assign,
     ResourceRequirements_DeepCopyInto V, copy_slice VolumeMount_DeepCopyInto]"

definition DevicePluginContainerSpec_DeepCopy :: "vendored \<Rightarrow> copier" where
  "DevicePluginContainerSpec_DeepCopy V = copy_ptr (DevicePluginContainerSpec_DeepCopyInto V)"

definition DevicePluginSpec_type :: "vendored \<Rightarrow> gty" where
  "DevicePluginSpec_type V = TStruct [DevicePluginContainerSpec_type V, TStr, TSlice (Volume_type V)]"

definition DevicePluginSpec_DeepCopyInto :: "vendored \<Rightarrow> copier" where
  "DevicePluginSpec_DeepCopyInto V = copy_struct [DevicePluginContainerSpec_DeepCopyInto V, assign, copy_slice (Volume_DeepCopyInto V)]"

definition DevicePluginSpec_DeepCopy :: "vendored \<Rightarrow> copier" where
  "DevicePluginSpec_DeepCopy V = copy_ptr (DevicePluginSpec_DeepCopyInto V)"

definition ModuleSpec_type :: "vendored \<Rightarrow> gty" where
  "ModuleSpec_type V = TStruct [TPtr (DevicePluginSpec_type V), ModuleLoaderSpec_type, TPtr LocalObjectReference_type, TMap TStr]"

definition ModuleSpec_DeepCopyInto :: "vendored \<Rightarrow> copier" where
  "ModuleSpec_DeepCopyInto V = copy_struct [copy_ptr (DevicePluginSpec_DeepCopyInto V), ModuleLoaderSpec_DeepCopyInto, copy_ptr assign,
     copy_map assign]"

definition ModuleSpec_DeepCopy :: "vendored \<Rightarrow> copier" where
  "ModuleSpec_DeepCopy V = copy_ptr (ModuleSpec_DeepCopyInto V)"

definition DaemonSetStatus_type :: "gty" where
  "DaemonSetStatus_type = TStruct [TInt, TInt, TInt]"

definition DaemonSetStatus_DeepCopyInto :: "copier" where
  "DaemonSetStatus_DeepCopyInto = assign"

definition DaemonSetStatus_DeepCopy :: "copier" where
  "DaemonSetStatus_DeepCopy = copy_ptr DaemonSetStatus_DeepCopyInto"

definition ModuleStatus_type :: "gty" where
  "ModuleStatus_type = TStruct [DaemonSetStatus_type, DaemonSetStatus_type]"

definition ModuleStatus_DeepCopyInto :: "copier" where
  "ModuleStatus_DeepCopyInto = copy_struct [assign, assign]"

definition ModuleStatus_DeepCopy :: "copier" where
  "ModuleStatus_DeepCopy = copy_ptr ModuleStatus_DeepCopyInto"

definition Module_type :: "vendored \<Rightarrow> gty" where
  "Module_type V = TStruct [TypeMeta_type, ObjectMeta_type, ModuleSpec_type V, ModuleStatus_type]"

definition Module_DeepCopyInto :: "vendored \<Rightarrow> copier" where
  "Module_DeepCopyInto V = copy_struct [assign, ObjectMeta_DeepCopyInto, ModuleSpec_DeepCopyInto V, assign]"

definition Module_DeepCopy :: "vendored \<Rightarrow> copier" where
  "Module_DeepCopy V = copy_ptr (Module_DeepCopyInto V)"

definition Module_DeepCopyObject :: "vendored \<Rightarrow> copier" where
  "Module_DeepCopyObject V = as_object (Module_DeepCopy V)"

definition ModuleList_type :: "vendored \<Rightarrow> gty" where
  "ModuleList_type V = TStruct [TypeMeta_type, ListMeta_type, TSlice (Module_type V)]"

definition ModuleList_DeepCopyInto :: "vendored \<Rightarrow> copier" where
  "ModuleList_DeepCopyInto V = copy_struct [assign, ListMeta_DeepCopyInto, copy_slice (Module_DeepCopyInto V)]"

definition ModuleList_DeepCopy :: "vendored \<Rightarrow> copier" where
  "ModuleList_DeepCopy V = copy_ptr (ModuleList_DeepCopyInto V)"

definition ModuleList_DeepCopyObject :: "vendored \<Rightarrow> copier" where
  "ModuleList_DeepCopyObject V = as_object (ModuleList_DeepCopy V)"

section \<open>Preflight validations\<close>

definition PreflightValidationSpec_type :: "gty" where
  "PreflightValidationSpec_type = TStruct [TStr, TBool]"

definition PreflightValidationSpec_DeepCopyInto :: "copier" where
  "PreflightValidationSpec_DeepCopyInto = assign"

definition PreflightValidationSpec_DeepCopy :: "copier" where
  "PreflightValidationSpec_DeepCopy = copy_ptr PreflightValidationSpec_DeepCopyInto"

definition CRStatus_type :: "gty" where
  "CRStatus_type = TStruct [TStr, TStr, TStr, Time_type]"

definition CRStatus_DeepCopyInto :: "copier" where
  "CRStatus_DeepCopyInto = copy_struct [assign, assign, assign, Time_DeepCopyInto]"

definition CRStatus_DeepCopy :: "copier" where
  "CRStatus_DeepCopy = copy_ptr CRStatus_DeepCopyInto"

definition PreflightValidationStatus_type :: "gty" where
  "PreflightValidationStatus_type = TStruct [TMap (TPtr CRStatus_type)]"

definition PreflightValidationStatus_DeepCopyInto :: "copier" where
  "PreflightValidationStatus_DeepCopyInto = copy_struct [copy_map (copy_ptr CRStatus_DeepCopyInto)]"

definition PreflightValidationStatus_DeepCopy :: "copier" where
  "PreflightValidationStatus_DeepCopy = copy_ptr PreflightValidationStatus_DeepCopyInto"

definition PreflightValidation_type :: "gty" where
  "PreflightValidation_type = TStruct [TypeMeta_type, ObjectMeta_type, PreflightValidationSpec_type, PreflightValidationStatus_type]"

definition PreflightValidation_DeepCopyInto :: "copier" where
  "PreflightValidation_DeepCopyInto = copy_struct [assign, ObjectMeta_DeepCopyInto, assign, PreflightValidationStatus_DeepCopyInto]"

definition PreflightValidation_DeepCopy :: "copier" where
  "PreflightValidation_DeepCopy = copy_ptr PreflightValidation_DeepCopyInto"

definition PreflightValidation_DeepCopyObject :: "copier" where
  "PreflightValidation_DeepCopyObject = as_object PreflightValidation_DeepCopy"

definition PreflightValidationList_type :: "gty" where
  "PreflightValidationList_type = TStruct [TypeMeta_type, ListMeta_type, TSlice PreflightValidation_type]"

definition PreflightValidationList_DeepCopyInto :: "copier" where
  "PreflightValidationList_DeepCopyInto = copy_struct [assign, ListMeta_DeepCopyInto, copy_slice PreflightValidation_DeepCopyInto]"

definition PreflightValidationList_DeepCopy :: "copier" where
  "PreflightValidationList_DeepCopy = copy_ptr PreflightValidationList_DeepCopyInto"

definition PreflightValidationList_DeepCopyObject :: "copier" where
  "PreflightValidationList_DeepCopyObject = as_object PreflightValidationList_DeepCopy"

definition PreflightValidationOCPSpec_type :: "gty" where
  "PreflightValidationOCPSpec_type = TStruct [TStr, TBool, TBool]"

definition PreflightValidationOCPSpec_DeepCopyInto :: "copier" where
  "PreflightValidationOCPSpec_DeepCopyInto = assign"

definition PreflightValidationOCPSpec_DeepCopy :: "copier" where
  "PreflightValidationOCPSpec_DeepCopy = copy_ptr PreflightValidationOCPSpec_DeepCopyInto"

definition PreflightValidationOCP_type :: "gty" where
  "PreflightValidationOCP_type = TStruct [TypeMeta_type, ObjectMeta_type, PreflightValidationOCPSpec_type, PreflightValidationStatus_type]"

definition PreflightValidationOCP_DeepCopyInto :: "copier" where
  "PreflightValidationOCP_DeepCopyInto = copy_struct [assign, ObjectMeta_DeepCopyInto, assign, PreflightValidationStatus_DeepCopyInto]"

definition PreflightValidationOCP_DeepCopy :: "copier" where
  "PreflightValidationOCP_DeepCopy = copy_ptr PreflightValidationOCP_DeepCopyInto"

definition PreflightValidationOCP_DeepCopyObject :: "copier" where
  "PreflightValidationOCP_DeepCopyObject = as_object PreflightValidationOCP_DeepCopy"

definition PreflightValidationOCPList_type :: "gty" where
  "PreflightValidationOCPList_type = TStruct [TypeMeta_type, ListMeta_type, TSlice PreflightValidationOCP_type]"

definition PreflightValidationOCPList_DeepCopyInto :: "copier" where
  "PreflightValidationOCPList_DeepCopyInto = copy_struct [assign, ListMeta_DeepCopyInto, copy_slice PreflightValidationOCP_DeepCopyInto]"

definition PreflightValidationOCPList_DeepCopy :: "copier" where
  "PreflightValidationOCPList_DeepCopy = copy_ptr PreflightValidationOCPList_DeepCopyInto"

definition PreflightValidationOCPList_DeepCopyObject :: "copier" where
  "PreflightValidationOCPList_DeepCopyObject = as_object PreflightValidationOCPList_DeepCopy"

section \<open>Managed cluster modules\<close>

definition ManagedClusterModuleSpec_type :: "vendored \<Rightarrow> gty" where
  "ManagedClusterModuleSpec_type V = TStruct [ModuleSpec_type V, TStr, TMap TStr]"

definition ManagedClusterModuleSpec_DeepCopyInto :: "vendored \<Rightarrow> copier" where
  "ManagedClusterModuleSpec_DeepCopyInto V = copy_struct [ModuleSpec_DeepCopyInto V, assign, copy_map assign]"

definition ManagedClusterModuleSpec_DeepCopy :: "vendored \<Rightarrow> copier" where
  "ManagedClusterModuleSpec_DeepCopy V = copy_ptr (ManagedClusterModuleSpec_DeepCopyInto V)"

definition ManagedClusterModuleStatus_type :: "gty" where
  "ManagedClusterModuleStatus_type = TStruct [TInt, TInt, TInt]"

definition ManagedClusterModuleStatus_DeepCopyInto :: "copier" where
  "ManagedClusterModuleStatus_DeepCopyInto = assign"

definition ManagedClusterModuleStatus_DeepCopy :: "copier" where
  "ManagedClusterModuleStatus_DeepCopy = copy_ptr ManagedClusterModuleStatus_DeepCopyInto"

definition ManagedClusterModule_type :: "vendored \<Rightarrow> gty" where
  "ManagedClusterModule_type V = TStruct [TypeMeta_type, ObjectMeta_type, ManagedClusterModuleSpec_type V, ManagedClusterModuleStatus_type]"

definition ManagedClusterModule_DeepCopyInto :: "vendored \<Rightarrow> copier" where
  "ManagedClusterModule_DeepCopyInto V = copy_struct [assign, ObjectMeta_DeepCopyInto, ManagedClusterModuleSpec_DeepCopyInto V, assign]"

definition ManagedClusterModule_DeepCopy :: "vendored \<Rightarrow> copier" where
  "ManagedClusterModule_DeepCopy V = copy_ptr (ManagedClusterModule_DeepCopyInto V)"

definition ManagedClusterModule_DeepCopyObject :: "vendored \<Rightarrow> copier" where
  "ManagedClusterModule_DeepCopyObject V = as_object (ManagedClusterModule_DeepCopy V)"

definition ManagedClusterModuleList_type :: "vendored \<Rightarrow> gty" where
  "ManagedClusterModuleList_type V = TStruct [TypeMeta_type, ListMeta_type, TSlice (ManagedClusterModule_type V)]"

definition ManagedClusterModuleList_DeepCopyInto :: "vendored \<Rightarrow> copier" where
  "ManagedClusterModuleList_DeepCopyInto V = copy_struct [assign, ListMeta_DeepCopyInto, copy_slice (ManagedClusterModule_DeepCopyInto V)]"

definition ManagedClusterModuleList_DeepCopy :: "vendored \<Rightarrow> copier" where
  "ManagedClusterModuleList_DeepCopy V = copy_ptr (ManagedClusterModuleList_DeepCopyInto V)"

definition ManagedClusterModuleList_DeepCopyObject :: "vendored \<Rightarrow> copier" where
  "ManagedClusterModuleList_DeepCopyObject V = as_object (ManagedClusterModuleList_DeepCopy V)"

section \<open>Every copy meets the contract\<close>

text \<open>A type without references: assignment is a deep copy.\<close>

fun flat :: "gty \<Rightarrow> bool" where
  "flat (TStruct ts) = list_all flat ts"
| "flat (TPtr t) = False"
| "flat (TSlice t) = False"
| "flat (TMap t) = False"
| "flat t = True"

lemma flat_refs: "flat t \<Longrightarrow> refs t h v = {}"
proof (induction t arbitrary: v)
  case (TStruct ts)
  have "refs_fields ts h vs = {}" for vs
    using TStruct by (induction ts arbitrary: vs) (auto split: list.splits)
  then show ?case by (auto split: gval.splits)
qed simp_all

lemma assign_flat [deep_copy]: "flat t \<Longrightarrow> deep_copier assign t"
  by unfold_locales (auto simp: assign_def flat_refs)

lemma flat_Time [simp]: "flat Time_type"
  by (simp add: Time_type_def)

lemma Time_copies [deep_copy]: "deep_copier Time_DeepCopyInto Time_type"
  unfolding Time_DeepCopyInto_def by (simp add: deep_copy)

lemma as_object_eq [simp]: "as_object c = c"
  by (rule ext)+ (simp add: as_object_def split: prod.split)

lemma flat_types [simp]:
  "flat TypeMeta_type"
  "flat LocalObjectReference_type"
  "flat ObjectFieldSelector_type"
  "flat BuildArg_type"
  "flat TLSOptions_type"
  "flat KanikoParams_type"
  "flat DaemonSetStatus_type"
  "flat ModuleStatus_type"
  "flat PreflightValidationSpec_type"
  "flat PreflightValidationOCPSpec_type"
  "flat ManagedClusterModuleStatus_type"
  by (simp_all add: TypeMeta_type_def LocalObjectReference_type_def ObjectFieldSelector_type_def BuildArg_type_def TLSOptions_type_def KanikoParams_type_def DaemonSetStatus_type_def ModuleStatus_type_def PreflightValidationSpec_type_def PreflightValidationOCPSpec_type_def ManagedClusterModuleStatus_type_def)

lemma OwnerReference_copies [deep_copy]: "deep_copier OwnerReference_DeepCopyInto OwnerReference_type"
  unfolding OwnerReference_DeepCopyInto_def OwnerReference_type_def by (rule copy_struct_copies) (simp add: deep_copy vendored_ok_def)

lemma FieldsV1_copies [deep_copy]: "deep_copier FieldsV1_DeepCopyInto FieldsV1_type"
  unfolding FieldsV1_DeepCopyInto_def FieldsV1_type_def by (rule copy_struct_copies) (simp add: deep_copy vendored_ok_def)

lemma ManagedFieldsEntry_copies [deep_copy]: "deep_copier ManagedFieldsEntry_DeepCopyInto ManagedFieldsEntry_type"
  unfolding ManagedFieldsEntry_DeepCopyInto_def ManagedFieldsEntry_type_def by (rule copy_struct_copies) (simp add: deep_copy vendored_ok_def)

lemma ObjectMeta_copies [deep_copy]: "deep_copier ObjectMeta_DeepCopyInto ObjectMeta_type"
  unfolding ObjectMeta_DeepCopyInto_def ObjectMeta_type_def by (rule copy_struct_copies) (simp add: deep_copy vendored_ok_def)

lemma ListMeta_copies [deep_copy]: "deep_copier ListMeta_DeepCopyInto ListMeta_type"
  unfolding ListMeta_DeepCopyInto_def ListMeta_type_def by (rule copy_struct_copies) (simp add: deep_copy vendored_ok_def)

lemma ResourceFieldSelector_copies [deep_copy]: "vendored_ok V \<Longrightarrow> deep_copier (ResourceFieldSelector_DeepCopyInto V) (ResourceFieldSelector_type V)"
  unfolding ResourceFieldSelector_DeepCopyInto_def ResourceFieldSelector_type_def by (rule copy_struct_copies) (simp add: deep_copy vendored_ok_def)

lemma ConfigMapKeySelector_copies [deep_copy]: "deep_copier ConfigMapKeySelector_DeepCopyInto ConfigMapKeySelector_type"
  unfolding ConfigMapKeySelector_DeepCopyInto_def ConfigMapKeySelector_type_def by (rule copy_struct_copies) (simp add: deep_copy vendored_ok_def)

lemma SecretKeySelector_copies [deep_copy]: "deep_copier SecretKeySelector_DeepCopyInto SecretKeySelector_type"
  unfolding SecretKeySelector_DeepCopyInto_def SecretKeySelector_type_def by (rule copy_struct_copies) (simp add: deep_copy vendored_ok_def)

lemma EnvVarSource_copies [deep_copy]: "vendored_ok V \<Longrightarrow> deep_copier (EnvVarSource_DeepCopyInto V) (EnvVarSource_type V)"
  unfolding EnvVarSource_DeepCopyInto_def EnvVarSource_type_def by (rule copy_struct_copies) (simp add: deep_copy vendored_ok_def)

lemma EnvVar_copies [deep_copy]: "vendored_ok V \<Longrightarrow> deep_copier (EnvVar_DeepCopyInto V) (EnvVar_type V)"
  unfolding EnvVar_DeepCopyInto_def EnvVar_type_def by (rule copy_struct_copies) (simp add: deep_copy vendored_ok_def)

lemma ResourceRequirements_copies [deep_copy]: "vendored_ok V \<Longrightarrow> deep_copier (ResourceRequirements_DeepCopyInto V) (ResourceRequirements_type V)"
  unfolding ResourceRequirements_DeepCopyInto_def ResourceRequirements_type_def by (rule copy_struct_copies) (simp add: deep_copy vendored_ok_def)

lemma VolumeMount_copies [deep_copy]: "deep_copier VolumeMount_DeepCopyInto VolumeMount_type"
  unfolding VolumeMount_DeepCopyInto_def VolumeMount_type_def by (rule copy_struct_copies) (simp add: deep_copy vendored_ok_def)

lemma Volume_copies [deep_copy]: "vendored_ok V \<Longrightarrow> deep_copier (Volume_DeepCopyInto V) (Volume_type V)"
  unfolding Volume_DeepCopyInto_def Volume_type_def by (rule copy_struct_copies) (simp add: deep_copy vendored_ok_def)

lemma BuildArg_copies [deep_copy]: "deep_copier BuildArg_DeepCopyInto BuildArg_type"
  unfolding BuildArg_DeepCopyInto_def by (simp add: deep_copy)

lemma TLSOptions_copies [deep_copy]: "deep_copier TLSOptions_DeepCopyInto TLSOptions_type"
  unfolding TLSOptions_DeepCopyInto_def by (simp add: deep_copy)

lemma KanikoParams_copies [deep_copy]: "deep_copier KanikoParams_DeepCopyInto KanikoParams_type"
  unfolding KanikoParams_DeepCopyInto_def by (simp add: deep_copy)

lemma Build_copies [deep_copy]: "deep_copier Build_DeepCopyInto Build_type"
  unfolding Build_DeepCopyInto_def Build_type_def by (rule copy_struct_copies) (simp add: deep_copy vendored_ok_def)

lemma Sign_copies [deep_copy]: "deep_copier Sign_DeepCopyInto Sign_type"
  unfolding Sign_DeepCopyInto_def Sign_type_def by (rule copy_struct_copies) (simp add: deep_copy vendored_ok_def)

lemma KernelMapping_copies [deep_copy]: "deep_copier KernelMapping_DeepCopyInto KernelMapping_type"
  unfolding KernelMapping_DeepCopyInto_def KernelMapping_type_def by (rule copy_struct_copies) (simp add: deep_copy vendored_ok_def)

lemma ModprobeArgs_copies [deep_copy]: "deep_copier ModprobeArgs_DeepCopyInto ModprobeArgs_type"
  unfolding ModprobeArgs_DeepCopyInto_def ModprobeArgs_type_def by (rule copy_struct_copies) (simp add: deep_copy vendored_ok_def)

lemma ModprobeSpec_copies [deep_copy]: "deep_copier ModprobeSpec_DeepCopyInto ModprobeSpec_type"
  unfolding ModprobeSpec_DeepCopyInto_def ModprobeSpec_type_def by (rule copy_struct_copies) (simp add: deep_copy vendored_ok_def)

lemma ModuleLoaderContainerSpec_copies [deep_copy]: "deep_copier ModuleLoaderContainerSpec_DeepCopyInto ModuleLoaderContainerSpec_type"
  unfolding ModuleLoaderContainerSpec_DeepCopyInto_def ModuleLoaderContainerSpec_type_def by (rule copy_struct_copies) (simp add: deep_copy vendored_ok_def)

lemma ModuleLoaderSpec_copies [deep_copy]: "deep_copier ModuleLoaderSpec_DeepCopyInto ModuleLoaderSpec_type"
  unfolding ModuleLoaderSpec_DeepCopyInto_def ModuleLoaderSpec_type_def by (rule copy_struct_copies) (simp add: deep_copy vendored_ok_def)

lemma DevicePluginContainerSpec_copies [deep_copy]: "vendored_ok V \<Longrightarrow> deep_copier (DevicePluginContainerSpec_DeepCopyInto V) (DevicePluginContainerSpec_type V)"
  unfolding DevicePluginContainerSpec_DeepCopyInto_def DevicePluginContainerSpec_type_def by (rule copy_struct_copies) (simp add: deep_copy vendored_ok_def)

lemma DevicePluginSpec_copies [deep_copy]: "vendored_ok V \<Longrightarrow> deep_copier (DevicePluginSpec_DeepCopyInto V) (DevicePluginSpec_type V)"
  unfolding DevicePluginSpec_DeepCopyInto_def DevicePluginSpec_type_def by (rule copy_struct_copies) (simp add: deep_copy vendored_ok_def)

lemma ModuleSpec_copies [deep_copy]: "vendored_ok V \<Longrightarrow> deep_copier (ModuleSpec_DeepCopyInto V) (ModuleSpec_type V)"
  unfolding ModuleSpec_DeepCopyInto_def ModuleSpec_type_def by (rule copy_struct_copies) (simp add: deep_copy vendored_ok_def)

lemma DaemonSetStatus_copies [deep_copy]: "deep_copier DaemonSetStatus_DeepCopyInto DaemonSetStatus_type"
  unfolding DaemonSetStatus_DeepCopyInto_def by (simp add: deep_copy)

lemma ModuleStatus_copies [deep_copy]: "deep_copier ModuleStatus_DeepCopyInto ModuleStatus_type"
  unfolding ModuleStatus_DeepCopyInto_def ModuleStatus_type_def by (rule copy_struct_copies) (simp add: deep_copy vendored_ok_def)

lemma Module_copies [deep_copy]: "vendored_ok V \<Longrightarrow> deep_copier (Module_DeepCopyInto V) (Module_type V)"
  unfolding Module_DeepCopyInto_def Module_type_def by (rule copy_struct_copies) (simp add: deep_copy vendored_ok_def)

lemma ModuleList_copies [deep_copy]: "vendored_ok V \<Longrightarrow> deep_copier (ModuleList_DeepCopyInto V) (ModuleList_type V)"
  unfolding ModuleList_DeepCopyInto_def ModuleList_type_def by (rule copy_struct_copies) (simp add: deep_copy vendored_ok_def)

lemma PreflightValidationSpec_copies [deep_copy]: "deep_copier PreflightValidationSpec_DeepCopyInto PreflightValidationSpec_type"
  unfolding PreflightValidationSpec_DeepCopyInto_def by (simp add: deep_copy)

lemma CRStatus_copies [deep_copy]: "deep_copier CRStatus_DeepCopyInto CRStatus_type"
  unfolding CRStatus_DeepCopyInto_def CRStatus_type_def by (rule copy_struct_copies) (simp add: deep_copy vendored_ok_def)

lemma PreflightValidationStatus_copies [deep_copy]: "deep_copier PreflightValidationStatus_DeepCopyInto PreflightValidationStatus_type"
  unfolding PreflightValidationStatus_DeepCopyInto_def PreflightValidationStatus_type_def by (rule copy_struct_copies) (simp add: deep_copy vendored_ok_def)

lemma PreflightValidation_copies [deep_copy]: "deep_copier PreflightValidation_DeepCopyInto PreflightValidation_type"
  unfolding PreflightValidation_DeepCopyInto_def PreflightValidation_type_def by (rule copy_struct_copies) (simp add: deep_copy vendored_ok_def)

lemma PreflightValidationList_copies [deep_copy]: "deep_copier PreflightValidationList_DeepCopyInto PreflightValidationList_type"
  unfolding PreflightValidationList_DeepCopyInto_def PreflightValidationList_type_def by (rule copy_struct_copies) (simp add: deep_copy vendored_ok_def)

lemma PreflightValidationOCPSpec_copies [deep_copy]: "deep_copier PreflightValidationOCPSpec_DeepCopyInto PreflightValidationOCPSpec_type"
  unfolding PreflightValidationOCPSpec_DeepCopyInto_def by (simp add: deep_copy)

lemma PreflightValidationOCP_copies [deep_copy]: "deep_copier PreflightValidationOCP_DeepCopyInto PreflightValidationOCP_type"
  unfolding PreflightValidationOCP_DeepCopyInto_def PreflightValidationOCP_type_def by (rule copy_struct_copies) (simp add: deep_copy vendored_ok_def)

lemma PreflightValidationOCPList_copies [deep_copy]: "deep_copier PreflightValidationOCPList_DeepCopyInto PreflightValidationOCPList_type"
  unfolding PreflightValidationOCPList_DeepCopyInto_def PreflightValidationOCPList_type_def by (rule copy_struct_copies) (simp add: deep_copy vendored_ok_def)

lemma ManagedClusterModuleSpec_copies [deep_copy]: "vendored_ok V \<Longrightarrow> deep_copier (ManagedClusterModuleSpec_DeepCopyInto V) (ManagedClusterModuleSpec_type V)"
  unfolding ManagedClusterModuleSpec_DeepCopyInto_def ManagedClusterModuleSpec_type_def by (rule copy_struct_copies) (simp add: deep_copy vendored_ok_def)

lemma ManagedClusterModuleStatus_copies [deep_copy]: "deep_copier ManagedClusterModuleStatus_DeepCopyInto ManagedClusterModuleStatus_type"
  unfolding ManagedClusterModuleStatus_DeepCopyInto_def by (simp add: deep_copy)

lemma ManagedClusterModule_copies [deep_copy]: "vendored_ok V \<Longrightarrow> deep_copier (ManagedClusterModule_DeepCopyInto V) (ManagedClusterModule_type V)"
  unfolding ManagedClusterModule_DeepCopyInto_def ManagedClusterModule_type_def by (rule copy_struct_copies) (simp add: deep_copy vendored_ok_def)

lemma ManagedClusterModuleList_copies [deep_copy]: "vendored_ok V \<Longrightarrow> deep_copier (ManagedClusterModuleList_DeepCopyInto V) (ManagedClusterModuleList_type V)"
  unfolding ManagedClusterModuleList_DeepCopyInto_def ManagedClusterModuleList_type_def by (rule copy_struct_copies) (simp add: deep_copy vendored_ok_def)

text \<open>The \<^verbatim>\<open>DeepCopy\<close> functions of the two packages, with the type each one is called on.\<close>

definition api_copies :: "vendored \<Rightarrow> (copier \<times> gty) list" where
  "api_copies V = [
    (BuildArg_DeepCopy, TPtr BuildArg_type),
    (TLSOptions_DeepCopy, TPtr TLSOptions_type),
    (KanikoParams_DeepCopy, TPtr KanikoParams_type),
    (Build_DeepCopy, TPtr Build_type),
    (Sign_DeepCopy, TPtr Sign_type),
    (KernelMapping_DeepCopy, TPtr KernelMapping_type),
    (ModprobeArgs_DeepCopy, TPtr ModprobeArgs_type),
    (ModprobeSpec_DeepCopy, TPtr ModprobeSpec_type),
    (ModuleLoaderContainerSpec_DeepCopy, TPtr ModuleLoaderContainerSpec_type),
    (ModuleLoaderSpec_DeepCopy, TPtr ModuleLoaderSpec_type),
    (DevicePluginContainerSpec_DeepCopy V, TPtr (DevicePluginContainerSpec_type V)),
    (DevicePluginSpec_DeepCopy V, TPtr (DevicePluginSpec_type V)),
    (ModuleSpec_DeepCopy V, TPtr (ModuleSpec_type V)),
    (DaemonSetStatus_DeepCopy, TPtr DaemonSetStatus_type),
    (ModuleStatus_DeepCopy, TPtr ModuleStatus_type),
    (Module_DeepCopy V, TPtr (Module_type V)),
    (ModuleList_DeepCopy V, TPtr (ModuleList_type V)),
    (PreflightValidationSpec_DeepCopy, TPtr PreflightValidationSpec_type),
    (CRStatus_DeepCopy, TPtr CRStatus_type),
    (PreflightValidationStatus_DeepCopy, TPtr PreflightValidationStatus_type),
    (PreflightValidation_DeepCopy, TPtr PreflightValidation_type),
    (PreflightValidationList_DeepCopy, TPtr PreflightValidationList_type),
    (PreflightValidationOCPSpec_DeepCopy, TPtr PreflightValidationOCPSpec_type),
    (PreflightValidationOCP_DeepCopy, TPtr PreflightValidationOCP_type),
    (PreflightValidationOCPList_DeepCopy, TPtr PreflightValidationOCPList_type),
    (ManagedClusterModuleSpec_DeepCopy V, TPtr (ManagedClusterModuleSpec_type V)),
    (ManagedClusterModuleStatus_DeepCopy, TPtr ManagedClusterModuleStatus_type),
    (ManagedClusterModule_DeepCopy V, TPtr (ManagedClusterModule_type V)),
    (ManagedClusterModuleList_DeepCopy V, TPtr (ManagedClusterModuleList_type V))]"

lemma api_copies_deep: "vendored_ok V \<Longrightarrow> (copy, ty) \<in> set (api_copies V) \<Longrightarrow> deep_copier copy ty"
  by (auto simp: api_copies_def BuildArg_DeepCopy_def
      TLSOptions_DeepCopy_def
      KanikoParams_DeepCopy_def
      Build_DeepCopy_def
      Sign_DeepCopy_def
      KernelMapping_DeepCopy_def
      ModprobeArgs_DeepCopy_def
      ModprobeSpec_DeepCopy_def
      ModuleLoaderContainerSpec_DeepCopy_def
      ModuleLoaderSpec_DeepCopy_def
      DevicePluginContainerSpec_DeepCopy_def
      DevicePluginSpec_DeepCopy_def
      ModuleSpec_DeepCopy_def
      DaemonSetStatus_DeepCopy_def
      ModuleStatus_DeepCopy_def
      Module_DeepCopy_def
      ModuleList_DeepCopy_def
      PreflightValidationSpec_DeepCopy_def
      CRStatus_DeepCopy_def
      PreflightValidationStatus_DeepCopy_def
      PreflightValidation_DeepCopy_def
      PreflightValidationList_DeepCopy_def
      PreflightValidationOCPSpec_DeepCopy_def
      PreflightValidationOCP_DeepCopy_def
      PreflightValidationOCPList_DeepCopy_def
      ManagedClusterModuleSpec_DeepCopy_def
      ManagedClusterModuleStatus_DeepCopy_def
      ManagedClusterModule_DeepCopy_def
      ManagedClusterModuleList_DeepCopy_def intro!: deep_copy)

text \<open>The kinds without parameters are instances as they stand.\<close>

interpretation preflight: deep_copier PreflightValidation_DeepCopy "TPtr PreflightValidation_type"
  using deep_copy by (simp add: PreflightValidation_DeepCopy_def)

interpretation preflight_ocp: deep_copier PreflightValidationOCP_DeepCopy "TPtr PreflightValidationOCP_type"
  using deep_copy by (simp add: PreflightValidationOCP_DeepCopy_def)

interpretation mapping: deep_copier KernelMapping_DeepCopy "TPtr KernelMapping_type"
  using deep_copy by (simp add: KernelMapping_DeepCopy_def)

section \<open>Properties\<close>

text \<open>C11. Every generated copy function, called on a pointer that reads at its type, returns a pointer that
  reads at the same type as the same value, leaves the original reading as it did, and shares no cell
  with it: no field that holds a pointer, a slice or a map is missed in any of the structs.\<close>

theorem generated_copies_keep_types:
  assumes "vendored_ok V" "(copy, ty) \<in> set (api_copies V)"
    and "heap_ok h" "read ty h v = Some n" "copy h v = (h', v')"
  shows "heap_ok h' \<and> read ty h' v' = Some n \<and> read ty h' v = Some n \<and> refs ty h' v \<inter> refs ty h' v' = {}"
proof -
  note c = api_copies_deep[OF assms(1,2)]
  show ?thesis using deep_copier.copies[OF c assms(3-5)] deep_copier.original_kept[OF c assms(3-5)] by simp
qed

text \<open>A kernel mapping with a build section of one argument.\<close>

definition sample_vendored :: vendored where
  "sample_vendored = \<lparr>Quantity_type = TStruct [TInt, TPtr TInt], Quantity_copy = copy_struct [assign, copy_ptr assign],
     VolumeSource_type = TPtr (TStruct [TStr]), VolumeSource_copy = copy_ptr assign\<rparr>"

definition go_str :: "string \<Rightarrow> gval" where
  "go_str s = VBase (BStr s)"

definition sample_heap :: heap where
  "sample_heap = \<lparr>h_cells = [
     0 \<mapsto> CPtr (VStruct [VRef (Some 1), VRef None, go_str ''quay.io/kmod:v1'', go_str [], VRef None, go_str ''.*'']),
     1 \<mapsto> CPtr (VStruct [VRef (Some 2), VRef None, VStruct [VBase (BBool False), VBase (BBool False)], VRef None, VRef None]),
     2 \<mapsto> CSlice [VStruct [go_str ''NAME'', go_str ''value'']]], h_next = 3\<rparr>"

lemma sample_vendored_ok: "vendored_ok sample_vendored"
  by (simp add: vendored_ok_def sample_vendored_def deep_copy)

lemmas mapping_types = KernelMapping_type_def Build_type_def Sign_type_def TLSOptions_type_def BuildArg_type_def
  LocalObjectReference_type_def KanikoParams_type_def

lemmas mapping_copiers = KernelMapping_DeepCopy_def KernelMapping_DeepCopyInto_def Build_DeepCopyInto_def
  copy_ptr_def copy_slice_def copy_ref_def copy_struct_def assign_def alloc_def

theorem generated_copies_keep_types_witness:
  "\<exists>h' n. KernelMapping_DeepCopy sample_heap (VRef (Some 0)) = (h', VRef (Some 5)) \<and>
     read (TPtr KernelMapping_type) h' (VRef (Some 5)) = Some n \<and> read (TPtr KernelMapping_type) h' (VRef (Some 0)) = Some n \<and>
     refs (TPtr KernelMapping_type) h' (VRef (Some 0)) \<inter> refs (TPtr KernelMapping_type) h' (VRef (Some 5)) = {}"
proof -
  have "heap_ok sample_heap" by (simp add: heap_ok_def sample_heap_def)
  moreover have "\<exists>n. read (TPtr KernelMapping_type) sample_heap (VRef (Some 0)) = Some n"
    by (simp add: sample_heap_def mapping_types read_ref_def read_base_def go_str_def)
  moreover have "\<exists>h'. KernelMapping_DeepCopy sample_heap (VRef (Some 0)) = (h', VRef (Some 5))"
    by (simp add: sample_heap_def mapping_copiers)
  moreover have "(KernelMapping_DeepCopy, TPtr KernelMapping_type) \<in> set (api_copies sample_vendored)"
    by (simp add: api_copies_def)
  ultimately show ?thesis using generated_copies_keep_types[OF sample_vendored_ok] by blast
qed

end
