(* ===== verification/Object_Cache.thy ===== *)
theory Object_Cache
  imports Deep_Copy Hub_Reconciler "HOL-Library.Monad_Syntax"
begin

text \<open>
  The objects the reconcilers work on. The client reads them from a cache that all controllers share: the
  cache reader of controller-runtime hands out deep copies. The hub's ManifestWork generator then
  writes through the slice of kernel mappings of the object it got, which is passed by value and therefore shared with
  its caller. Both are modelled on the heap; the record-level model of the hub reconciler follows from it.
\<close>

section \<open>The cache reader\<close>

text \<open>\<^verbatim>\<open>cr_indexer\<close> is the thread-safe store, which never returns an error; the object is a pointer to a struct whose
  first field is its \<^verbatim>\<open>TypeMeta\<close>. \<^verbatim>\<open>cr_DeepCopyObject\<close> is the method of the kind the reader is for.\<close>

record cache_reader =
  cr_indexer :: "string \<Rightarrow> gval option"
  cr_kind :: string
  cr_apiVersion :: string
  cr_root_scope :: bool
  cr_disableDeepCopy :: bool
  cr_DeepCopyObject :: copier

definition objectKeyToStoreKey :: "NamespacedName \<Rightarrow> string" where
  "objectKeyToStoreKey k = (if nn_Namespace k = [] then nn_Name k else nn_Namespace k @ ''/'' @ nn_Name k)"

definition deref :: "heap \<Rightarrow> gval \<Rightarrow> gval result" where
  "deref h v = (case v of VRef (Some a) \<Rightarrow> (case h_cells h a of Some (CPtr x) \<Rightarrow> Ok x | _ \<Rightarrow> Panic ''reflect'')
     | _ \<Rightarrow> Panic ''reflect'')"

definition CacheReader_Get :: "cache_reader \<Rightarrow> NamespacedName \<Rightarrow> heap \<Rightarrow> gval result \<times> heap" where
  "CacheReader_Get c key h =
     (let key' = if cr_root_scope c then key\<lparr>nn_Namespace := []\<rparr> else key in
      case cr_indexer c (objectKeyToStoreKey key') of
        None \<Rightarrow> (Err (StatusError StatusReasonNotFound (nn_Name key')), h)
      | Some obj \<Rightarrow>
          (let (h1, obj') = if cr_disableDeepCopy c then (h, obj) else cr_DeepCopyObject c h obj in
           (case deref h1 obj' of
              Ok x \<Rightarrow> (Ok (if cr_disableDeepCopy c then x
                           else set_field [0] (VStruct [go_str (cr_kind c), go_str (cr_apiVersion c)]) x), h1)
            | Err e \<Rightarrow> (Err e, h1)
            | Panic s \<Rightarrow> (Panic s, h1))))"

section \<open>The ManifestWork generator on the heap\<close>

text \<open>The positions of the fields in \<^verbatim>\<open>mcm.Spec.ModuleSpec.ModuleLoader.Container\<close>, and in a kernel mapping.\<close>

definition container_path :: path where
  "container_path = [2, 0, 1, 0]"

definition clear_mapping :: "gval \<Rightarrow> gval" where
  "clear_mapping m = set_field [1] (VRef None) (set_field [0] (VRef None) m)"

text \<open>\<^verbatim>\<open>kernelMappings[i].Build = nil; kernelMappings[i].Sign = nil\<close>, in the array of the slice.\<close>

definition write_cell :: "nat \<Rightarrow> cell \<Rightarrow> heap \<Rightarrow> heap" where
  "write_cell a c h = h\<lparr>h_cells := (h_cells h)(a \<mapsto> c)\<rparr>"

definition clear_nth :: "nat \<Rightarrow> nat \<Rightarrow> heap \<Rightarrow> heap" where
  "clear_nth a i h = (case h_cells h a of
     Some (CSlice xs) \<Rightarrow> write_cell a (CSlice (xs[i := clear_mapping (xs ! i)])) h
   | _ \<Rightarrow> h)"

definition strip_in_place :: "heap \<Rightarrow> gval \<Rightarrow> heap \<times> gval" where
  "strip_in_place h mcm =
     (let mcm1 = set_field (container_path @ [0]) (VRef None) mcm;
          mcm2 = set_field (container_path @ [1]) (VRef None) mcm1
      in case get_field (container_path @ [4]) mcm2 of
           Some (VRef (Some a)) \<Rightarrow>
             (case h_cells h a of
                Some (CSlice xs) \<Rightarrow> (fold (clear_nth a) [0..<length xs] h, mcm2)
              | _ \<Rightarrow> (h, mcm2))
         | _ \<Rightarrow> (h, mcm2))"

section \<open>The structs of the record-level model\<close>

text \<open>A tree as the record it stands for; nil and empty slices are the same list there.\<close>

fun as_str :: "gtree \<Rightarrow> string option" where
  "as_str (NBase (BStr s)) = Some s"
| "as_str n = None"

fun as_bool :: "gtree \<Rightarrow> bool option" where
  "as_bool (NBase (BBool b)) = Some b"
| "as_bool n = None"

fun as_pointer :: "(gtree \<Rightarrow> 'a option) \<Rightarrow> gtree \<Rightarrow> 'a option option" where
  "as_pointer f NNil = Some None"
| "as_pointer f (NPtr n) = map_option Some (f n)"
| "as_pointer f n = None"

fun as_slice :: "(gtree \<Rightarrow> 'a option) \<Rightarrow> gtree \<Rightarrow> 'a list option" where
  "as_slice f NNil = Some []"
| "as_slice f (NSlice ns) = those (map f ns)"
| "as_slice f n = None"

fun as_reference :: "gtree \<Rightarrow> LocalObjectReference option" where
  "as_reference (NStruct [n]) = do { s \<leftarrow> as_str n; Some \<lparr>lor_Name = s\<rparr> }"
| "as_reference n = None"

fun as_TLSOptions :: "gtree \<Rightarrow> TLSOptions option" where
  "as_TLSOptions (NStruct [i, s]) = do { i \<leftarrow> as_bool i; s \<leftarrow> as_bool s; Some \<lparr>tls_Insecure = i, tls_InsecureSkipTLSVerify = s\<rparr> }"
| "as_TLSOptions n = None"

fun as_BuildArg :: "gtree \<Rightarrow> BuildArg option" where
  "as_BuildArg (NStruct [k, v]) = do { k \<leftarrow> as_str k; v \<leftarrow> as_str v; Some \<lparr>ba_Name = k, ba_Value = v\<rparr> }"
| "as_BuildArg n = None"

fun as_KanikoParams :: "gtree \<Rightarrow> KanikoParams option" where
  "as_KanikoParams (NStruct [t]) = do { t \<leftarrow> as_str t; Some \<lparr>kaniko_Tag = t\<rparr> }"
| "as_KanikoParams n = None"

fun as_Build :: "gtree \<Rightarrow> Build option" where
  "as_Build (NStruct [args, df, tls, secrets, kaniko]) = do {
     args \<leftarrow> as_slice as_BuildArg args; df \<leftarrow> as_pointer as_reference df; tls \<leftarrow> as_TLSOptions tls;
     secrets \<leftarrow> as_slice as_reference secrets; kaniko \<leftarrow> as_pointer as_KanikoParams kaniko;
     Some \<lparr>b_BuildArgs = args, b_DockerfileConfigMap = df, b_BaseImageRegistryTLS = tls, b_Secrets = secrets,
       b_KanikoParams = kaniko\<rparr> }"
| "as_Build n = None"

fun as_Sign :: "gtree \<Rightarrow> Sign option" where
  "as_Sign (NStruct [img, tls, key, cert, names]) = do {
     img \<leftarrow> as_str img; tls \<leftarrow> as_TLSOptions tls; key \<leftarrow> as_pointer as_reference key;
     cert \<leftarrow> as_pointer as_reference cert; names \<leftarrow> as_slice as_str names;
     Some \<lparr>s_UnsignedImage = img, s_UnsignedImageRegistryTLS = tls, s_KeySecret = key, s_CertSecret = cert,
       s_FilesToSign = names\<rparr> }"
| "as_Sign n = None"

fun as_KernelMapping :: "gtree \<Rightarrow> KernelMapping option" where
  "as_KernelMapping (NStruct [b, s, img, lit, tls, rx]) = do {
     b \<leftarrow> as_pointer as_Build b; s \<leftarrow> as_pointer as_Sign s; img \<leftarrow> as_str img; lit \<leftarrow> as_str lit;
     tls \<leftarrow> as_pointer as_TLSOptions tls; rx \<leftarrow> as_str rx;
     Some \<lparr>km_Build = b, km_Sign = s, km_ContainerImage = img, km_Literal = lit, km_RegistryTLS = tls, km_Regexp = rx\<rparr> }"
| "as_KernelMapping n = None"


section \<open>What the loop writes\<close>

lemma write_cell_simps [simp]:
  "h_cells (write_cell a c h) b = (if b = a then Some c else h_cells h b)"
  "h_next (write_cell a c h) = h_next h"
  "write_cell a d (write_cell a c h) = write_cell a d h"
  by (simp_all add: write_cell_def)

lemma write_cell_same: "h_cells h a = Some c \<Longrightarrow> write_cell a c h = h"
  by (simp add: write_cell_def map_upd_triv)

lemma clear_loop:
  "h_cells h a = Some (CSlice xs) \<Longrightarrow> k \<le> length xs \<Longrightarrow>
     fold (clear_nth a) [0..<k] h = write_cell a (CSlice (map clear_mapping (take k xs) @ drop k xs)) h"
proof (induction k)
  case 0
  then show ?case by (simp add: write_cell_same)
next
  case (Suc k)
  let ?ys = "map clear_mapping (take k xs) @ drop k xs"
  have "?ys[k := clear_mapping (?ys ! k)] = map clear_mapping (take (Suc k) xs) @ drop (Suc k) xs"
    using Suc.prems(2) by (simp add: list_update_append nth_append take_Suc_conv_app_nth Cons_nth_drop_Suc[symmetric])
  with Suc show ?case by (simp add: clear_nth_def)
qed

lemma get_set_field_other: "i \<noteq> j \<Longrightarrow> get_field (p @ [i]) (set_field (p @ [j]) x v) = get_field (p @ [i]) v"
  by (induction p arbitrary: v) (case_tac v; simp)+

lemma strip_in_place_slice:
  assumes "get_field (container_path @ [4]) mcm = Some (VRef (Some a))" "h_cells h a = Some (CSlice xs)"
  shows "fst (strip_in_place h mcm) = write_cell a (CSlice (map clear_mapping xs)) h"
  using assms by (simp add: strip_in_place_def get_set_field_other clear_loop)

lemma strip_in_place_nil:
  assumes "get_field (container_path @ [4]) mcm = Some (VRef None)"
  shows "fst (strip_in_place h mcm) = h"
  using assms by (simp add: strip_in_place_def get_set_field_other)

text \<open>A mapping whose two sections are cleared reads with nil there; what it still reaches are pointers, so
  overwriting the array of a slice does not matter to it.\<close>

definition clear_tree :: "gtree \<Rightarrow> gtree" where
  "clear_tree n = set_tree [1] NNil (set_tree [0] NNil n)"

lemma read_clear_mapping:
  assumes "read KernelMapping_type h m = Some n" "h_cells h a = Some (CSlice xs)"
  shows "read KernelMapping_type (write_cell a c h) (clear_mapping m) = Some (clear_tree n)"
proof -
  have r: "read KernelMapping_type h (clear_mapping m) = Some (clear_tree n)"
    unfolding clear_mapping_def clear_tree_def using assms(1)
    by (intro read_set_field[where t' = "TPtr Sign_type"] read_set_field[where t' = "TPtr Build_type"])
      (simp_all add: KernelMapping_type_def read_ref_def del: read.simps(7))
  let ?ts = "[TPtr Build_type, TPtr Sign_type, TStr, TStr, TPtr TLSOptions_type, TStr]"
  obtain vs ns where m: "m = VStruct vs" "length vs = length ?ts"
      and f: "\<forall>i < length ?ts. read (?ts ! i) h (vs ! i) = Some (ns ! i)"
    using assms(1) unfolding KernelMapping_type_def read_struct_nth by blast
  have tls: "read (TPtr TLSOptions_type) h (vs ! 4) = Some (ns ! 4)" using f[rule_format, of 4] by simp
  have "length vs = Suc (Suc (Suc (Suc (Suc (Suc 0)))))" using m(2) by simp
  with m(1) obtain x0 x1 x2 x3 x4 x5 where "m = VStruct [x0, x1, x2, x3, x4, x5]" "vs ! 4 = x4"
    unfolding length_Suc_conv by auto
  then have "refs KernelMapping_type h (clear_mapping m) = refs (TPtr TLSOptions_type) h x4"
    by (simp add: clear_mapping_def KernelMapping_type_def refs_ref_def del: refs.simps(4)) (simp add: refs_ref_def)
  moreover have "a \<notin> refs (TPtr TLSOptions_type) h x4"
    using tls assms(2) \<open>vs ! 4 = x4\<close> unfolding read_ptr_Some by (auto simp: refs_ref_def flat_refs)
  ultimately have "\<forall>b \<in> refs KernelMapping_type h (clear_mapping m). h_cells (write_cell a c h) b = h_cells h b" by auto
  from read_unchanged[OF this] r show ?thesis by simp
qed


section \<open>The record-level model\<close>

lemma as_cleared_mapping: "as_KernelMapping n = Some m \<Longrightarrow> as_KernelMapping (clear_tree n) = Some (strip_mapping m)"
  by (induction n rule: as_KernelMapping.induct) (auto simp: clear_tree_def strip_mapping_def split: Option.bind_splits)

lemma read_cleared_slice:
  assumes "h_cells h a = Some (CSlice xs)" "list_all2 (\<lambda>x m. read KernelMapping_type h x = Some m) xs ms"
  shows "read (TSlice KernelMapping_type) (write_cell a (CSlice (map clear_mapping xs)) h) (VRef (Some a)) =
    Some (NSlice (map clear_tree ms))"
  unfolding read_slice_Some using assms by (auto simp: list.rel_map elim!: list.rel_mono_strong intro: read_clear_mapping)

lemma as_slice_map:
  assumes "as_slice as_KernelMapping (NSlice ms) = Some kms"
  shows "as_slice as_KernelMapping (NSlice (map clear_tree ms)) = Some (map strip_mapping kms)"
  using assms unfolding as_slice.simps map_map o_def those_map_Some
  by (auto simp: list.rel_map elim!: list.rel_mono_strong intro: as_cleared_mapping)

lemma mappings_type: "type_at (container_path @ [4]) (ManagedClusterModule_type V) = Some (TSlice KernelMapping_type)"
  by (simp add: container_path_def ManagedClusterModule_type_def ManagedClusterModuleSpec_type_def ModuleSpec_type_def
      ModuleLoaderSpec_type_def ModuleLoaderContainerSpec_type_def)

abbreviation mcm_mappings :: "ManagedClusterModule \<Rightarrow> KernelMapping list" where
  "mcm_mappings mcm \<equiv> mlc_KernelMappings (ml_Container (ms_ModuleLoader (mcms_ModuleSpec (mcm_Spec mcm))))"

text \<open>C38. The generator is given the ManagedClusterModule by value and clears the build and sign sections of
  its kernel mappings: on the heap the write goes through the shared array, so the caller's object
  reads afterwards with the kernel mappings that the record-level model gives it.\<close>

theorem hub_sharing_refines:
  assumes "read (ManagedClusterModule_type V) h v = Some n"
    and "get_tree (container_path @ [4]) n = Some ns" "as_slice as_KernelMapping ns = Some (mcm_mappings mcm)"
    and "strip_in_place h v = (h', v')"
  shows "\<exists>x ns'. get_field (container_path @ [4]) v = Some x \<and> get_field (container_path @ [4]) v' = Some x \<and>
    read (TSlice KernelMapping_type) h' x = Some ns' \<and> as_slice as_KernelMapping ns' = Some (mcm_mappings (share_stripped mcm))"
proof -
  obtain x where x: "get_field (container_path @ [4]) v = Some x" "read (TSlice KernelMapping_type) h x = Some ns"
    using read_field[OF mappings_type assms(1)] assms(2) by auto
  have v': "get_field (container_path @ [4]) v' = Some x"
    using assms(4) x(1) by (auto simp: strip_in_place_def Let_def get_set_field_other split: gval.splits option.splits cell.splits)
  have strip: "mcm_mappings (share_stripped mcm) = map strip_mapping (mcm_mappings mcm)"
    by (simp add: share_stripped_def strip_mappings_def update_container_def)
  consider (empty) "x = VRef None" "ns = NNil"
    | (array) a xs ms where "x = VRef (Some a)" "h_cells h a = Some (CSlice xs)" "ns = NSlice ms"
        "list_all2 (\<lambda>x m. read KernelMapping_type h x = Some m) xs ms"
    using x(2) unfolding read_slice_Some by blast
  then have "\<exists>ns'. read (TSlice KernelMapping_type) h' x = Some ns' \<and>
      as_slice as_KernelMapping ns' = Some (map strip_mapping (mcm_mappings mcm))"
  proof cases
    case empty
    with x(1) assms(3) strip_in_place_nil[of v h] assms(4) show ?thesis by (auto simp: read_ref_def)
  next
    case array
    then have "h' = write_cell a (CSlice (map clear_mapping xs)) h"
      using strip_in_place_slice[of v a h xs] x(1) assms(4) by simp
    with read_cleared_slice[OF array(2,4)] as_slice_map[of ms] assms(3) array(1,3) show ?thesis by metis
  qed
  with x(1) v' strip show ?thesis by metis
qed


lemma CacheReader_Get_Ok:
  assumes "CacheReader_Get c key h = (Ok x', h1)" "\<not> cr_disableDeepCopy c"
  obtains k obj obj' x where "cr_indexer c k = Some obj" "cr_DeepCopyObject c h obj = (h1, obj')" "deref h1 obj' = Ok x"
    "x' = set_field [0] (VStruct [go_str (cr_kind c), go_str (cr_apiVersion c)]) x"
  using assms by (auto simp: CacheReader_Get_def Let_def split: option.splits prod.splits result.splits if_split_asm)

lemma deref_reads:
  assumes "deref h v = Ok x" "read (TPtr t) h v = Some n"
  obtains m where "read t h x = Some m" "refs t h x \<subseteq> refs (TPtr t) h v"
  using assms unfolding read_ptr_Some by (auto simp: deref_def refs_ref_def subset_insertI)

lemma strip_in_place_frame:
  assumes "read (ManagedClusterModule_type V) h v = Some n"
    and "get_field (container_path @ [4]) w = get_field (container_path @ [4]) v"
  shows "a \<notin> refs (ManagedClusterModule_type V) h v \<longrightarrow> h_cells (fst (strip_in_place h w)) a = h_cells h a"
    and "h_next (fst (strip_in_place h w)) = h_next h"
proof -
  obtain y m where y: "get_field (container_path @ [4]) w = Some y" "read (TSlice KernelMapping_type) h y = Some m"
      "refs (TSlice KernelMapping_type) h y \<subseteq> refs (ManagedClusterModule_type V) h v"
    using read_field[OF mappings_type assms(1)] assms(2) by auto
  consider (empty) "y = VRef None" | (array) b xs where "y = VRef (Some b)" "h_cells h b = Some (CSlice xs)"
    using y(2) unfolding read_slice_Some by blast
  then have "(a \<notin> refs (ManagedClusterModule_type V) h v \<longrightarrow> h_cells (fst (strip_in_place h w)) a = h_cells h a) \<and>
      h_next (fst (strip_in_place h w)) = h_next h"
  proof cases
    case empty
    with y(1) show ?thesis by (simp add: strip_in_place_nil)
  next
    case array
    with y(1,3) show ?thesis by (auto simp: strip_in_place_slice refs_ref_def)
  qed
  then show "a \<notin> refs (ManagedClusterModule_type V) h v \<longrightarrow> h_cells (fst (strip_in_place h w)) a = h_cells h a"
    and "h_next (fst (strip_in_place h w)) = h_next h" by simp_all
qed

lemma mcm_copier: "vendored_ok V \<Longrightarrow> deep_copier (ManagedClusterModule_DeepCopy V) (TPtr (ManagedClusterModule_type V))"
  by (simp add: ManagedClusterModule_DeepCopy_def deep_copy)

text \<open>C39. Reading a ManagedClusterModule through the cache and clearing its kernel mappings in place touches
  nothing that was in memory before: every object of the cache, the one that was read included,
  still reads as it did.\<close>

theorem cache_untouched_by_stripping:
  assumes "vendored_ok V" "heap_ok h" "\<not> cr_disableDeepCopy c"
    and "cr_DeepCopyObject c = ManagedClusterModule_DeepCopyObject V"
    and "\<forall>k obj. cr_indexer c k = Some obj \<longrightarrow> (\<exists>n. read (TPtr (ManagedClusterModule_type V)) h obj = Some n)"
    and "CacheReader_Get c key h = (Ok mcm, h1)" "strip_in_place h1 mcm = (h2, mcm')"
    and "read t h v = Some m"
  shows "read t h2 v = Some m"
proof -
  let ?T = "ManagedClusterModule_type V"
  obtain k obj obj' x where g: "cr_indexer c k = Some obj" "ManagedClusterModule_DeepCopy V h obj = (h1, obj')"
      "deref h1 obj' = Ok x" and mcm: "mcm = set_field [0] (VStruct [go_str (cr_kind c), go_str (cr_apiVersion c)]) x"
    by (rule CacheReader_Get_Ok[OF assms(6,3)]) (simp add: assms(4) ManagedClusterModule_DeepCopyObject_def)
  obtain n where n: "read (TPtr ?T) h obj = Some n" using assms(5) g(1) by blast
  have c: "extends h h1" "read (TPtr ?T) h1 obj' = Some n" "refs (TPtr ?T) h1 obj' \<subseteq> {h_next h..<h_next h1}"
    using deep_copier.copies[OF mcm_copier[OF assms(1)] assms(2) n g(2)] by auto
  obtain n' where x: "read ?T h1 x = Some n'" "refs ?T h1 x \<subseteq> refs (TPtr ?T) h1 obj'"
    by (rule deref_reads[OF g(3) c(2)])
  have "get_field (container_path @ [4]) mcm = get_field (container_path @ [4]) x"
    unfolding mcm container_path_def by (cases x) simp_all
  from strip_in_place_frame[OF x(1) this] assms(7)
  have w: "\<forall>a. a \<notin> refs ?T h1 x \<longrightarrow> h_cells h2 a = h_cells h1 a" "h_next h2 = h_next h1" by simp_all
  have "refs ?T h1 x \<subseteq> {h_next h..<h_next h1}" by (rule subset_trans[OF x(2) c(3)])
  then have "\<forall>a < h_next h. a \<notin> refs ?T h1 x" by (meson atLeastLessThan_iff not_le subsetD)
  with w c(1) have "extends h h2" by (simp add: extends_def)
  from read_extends(1)[OF assms(2) this assms(8)] show ?thesis .
qed


section \<open>A ManagedClusterModule in memory\<close>

text \<open>One kernel mapping with a build section, in the array at cell 1.\<close>

definition hub_heap :: heap where
  "hub_heap =
     (let flag = VBase (BBool False); zero = VBase (BInt 0); e = go_str []; nil = VRef None;
          container = VStruct [nil, nil, e, e, VRef (Some 1), VStruct [go_str ''mod'', nil, e, nil, nil, e], VStruct [flag, flag]];
          spec = VStruct [nil, VStruct [container, e], nil, nil]
      in \<lparr>h_cells = [
        0 \<mapsto> CPtr (VStruct [VStruct [e, e], VStruct [go_str ''mcm'', e, e, e, e, e, zero, zero, nil, nil, nil, nil, nil, nil, nil],
               VStruct [spec, go_str ''ns'', nil], VStruct [zero, zero, zero]]),
        1 \<mapsto> CSlice [VStruct [VRef (Some 2), nil, go_str ''quay.io/kmod:v1'', e, nil, go_str ''.*'']],
        2 \<mapsto> CPtr (VStruct [nil, nil, VStruct [flag, flag], nil, nil])], h_next = 3\<rparr>)"

definition hub_cache :: cache_reader where
  "hub_cache = \<lparr>cr_indexer = [''mcm'' \<mapsto> VRef (Some 0)], cr_kind = ''ManagedClusterModule'',
     cr_apiVersion = ''hub.kmm.sigs.x-k8s.io/v1beta1'', cr_root_scope = True, cr_disableDeepCopy = False,
     cr_DeepCopyObject = ManagedClusterModule_DeepCopyObject sample_vendored\<rparr>"

lemmas mcm_types = ManagedClusterModule_type_def ManagedClusterModuleSpec_type_def ManagedClusterModuleStatus_type_def
  ModuleSpec_type_def ModuleLoaderSpec_type_def ModuleLoaderContainerSpec_type_def ModprobeSpec_type_def
  TypeMeta_type_def ObjectMeta_type_def Time_type_def mapping_types

lemmas mcm_copiers = ManagedClusterModule_DeepCopy_def ManagedClusterModule_DeepCopyInto_def
  ManagedClusterModuleSpec_DeepCopyInto_def ModuleSpec_DeepCopyInto_def ModuleLoaderSpec_DeepCopyInto_def
  ModuleLoaderContainerSpec_DeepCopyInto_def ModprobeSpec_DeepCopyInto_def ObjectMeta_DeepCopyInto_def
  Time_DeepCopyInto_def copy_map_def mapping_copiers

lemma hub_heap_ok: "heap_ok hub_heap"
  by (simp add: heap_ok_def hub_heap_def Let_def)

lemma hub_heap_reads: "\<exists>n. read (TPtr (ManagedClusterModule_type V)) hub_heap (VRef (Some 0)) = Some n"
  by (simp add: hub_heap_def Let_def mcm_types read_ref_def read_base_def go_str_def)

lemma hub_cache_Get: "\<exists>mcm h1. CacheReader_Get hub_cache \<lparr>nn_Namespace = [], nn_Name = ''mcm''\<rparr> hub_heap = (Ok mcm, h1)"
  by (simp add: CacheReader_Get_def hub_cache_def objectKeyToStoreKey_def ManagedClusterModule_DeepCopyObject_def
      hub_heap_def Let_def mcm_copiers deref_def)

theorem cache_untouched_by_stripping_witness:
  "\<exists>mcm h1 n. CacheReader_Get hub_cache \<lparr>nn_Namespace = [], nn_Name = ''mcm''\<rparr> hub_heap = (Ok mcm, h1) \<and>
     read (TPtr (ManagedClusterModule_type sample_vendored)) hub_heap (VRef (Some 0)) = Some n \<and>
     read (TPtr (ManagedClusterModule_type sample_vendored)) (fst (strip_in_place h1 mcm)) (VRef (Some 0)) = Some n"
proof -
  obtain mcm h1 where g: "CacheReader_Get hub_cache \<lparr>nn_Namespace = [], nn_Name = ''mcm''\<rparr> hub_heap = (Ok mcm, h1)"
    using hub_cache_Get by blast
  obtain n where n: "read (TPtr (ManagedClusterModule_type sample_vendored)) hub_heap (VRef (Some 0)) = Some n"
    using hub_heap_reads by blast
  have "\<forall>k obj. cr_indexer hub_cache k = Some obj \<longrightarrow>
      (\<exists>n. read (TPtr (ManagedClusterModule_type sample_vendored)) hub_heap obj = Some n)"
    using n by (auto simp: hub_cache_def split: if_split_asm simp del: read.simps)
  from cache_untouched_by_stripping[OF sample_vendored_ok hub_heap_ok _ _ this g prod.collapse[symmetric] n]
  have "read (TPtr (ManagedClusterModule_type sample_vendored)) (fst (strip_in_place h1 mcm)) (VRef (Some 0)) = Some n"
    by (simp add: hub_cache_def)
  with g n show ?thesis by blast
qed


text \<open>The mapping of the sample as a record, and the sample itself as the caller holds it.\<close>

definition hub_mapping :: KernelMapping where
  "hub_mapping = \<lparr>km_Build = Some \<lparr>b_BuildArgs = [], b_DockerfileConfigMap = None,
       b_BaseImageRegistryTLS = \<lparr>tls_Insecure = False, tls_InsecureSkipTLSVerify = False\<rparr>, b_Secrets = [], b_KanikoParams = None\<rparr>,
     km_Sign = None, km_ContainerImage = ''quay.io/kmod:v1'', km_Literal = [], km_RegistryTLS = None, km_Regexp = ''.*''\<rparr>"

lemma hub_heap_mcm:
  "\<exists>v n ns. h_cells hub_heap 0 = Some (CPtr v) \<and> read (ManagedClusterModule_type sample_vendored) hub_heap v = Some n \<and>
     get_tree (container_path @ [4]) n = Some ns \<and> as_slice as_KernelMapping ns = Some [hub_mapping]"
  by (simp add: hub_heap_def Let_def mcm_types read_ref_def read_base_def go_str_def container_path_def hub_mapping_def)

theorem hub_sharing_refines_witness:
  "\<exists>v x ns'. h_cells hub_heap 0 = Some (CPtr v) \<and> get_field (container_path @ [4]) v = Some x \<and>
     read (TSlice KernelMapping_type) (fst (strip_in_place hub_heap v)) x = Some ns' \<and>
     as_slice as_KernelMapping ns' = Some (mcm_mappings (share_stripped (sample_mcm [hub_mapping])))"
proof -
  obtain v n ns where v: "h_cells hub_heap 0 = Some (CPtr v)" "read (ManagedClusterModule_type sample_vendored) hub_heap v = Some n"
      "get_tree (container_path @ [4]) n = Some ns" "as_slice as_KernelMapping ns = Some [hub_mapping]"
    using hub_heap_mcm by blast
  have "as_slice as_KernelMapping ns = Some (mcm_mappings (sample_mcm [hub_mapping]))"
    using v(4) by (simp add: sample_mcm_def sample_module_def sample_container_def)
  from hub_sharing_refines[OF v(2,3) this prod.collapse[symmetric]] v(1) show ?thesis by blast
qed

end
