(* ===== verification/Sign_Image.thy ===== *)
theory Sign_Image
  imports Registry
begin

text \<open>
  The signimage program (cmd/signimage/signimage.go), which runs in the signing Job: it pulls the
  unsigned image, extracts the kernel modules to sign from its layers, topmost layer first, signs each,
  and appends one layer with the signed files; and the two extraction functions of the registry package
  it uses (internal/registry/registry.go).

  It runs on the world of the registry client and its own memory: the files it has written and the map
  of modules to sign. A file is addressed by its cleaned path. The kernel's \<^verbatim>\<open>sign-file\<close> tool, the JSON
  decoder, the tar encoder and the layer packages are parameters; so are failures of the file system.
\<close>

section \<open>Reading an entry of a tar stream\<close>

datatype read_end = ReadMore | ReadEOF | ReadErr goerr

text \<open>
  \<^verbatim>\<open>tar.Reader.Read\<close> into a buffer of \<open>n\<close> bytes: at least one byte and at most what the underlying stream
  has at hand (\<open>chunk\<close>) and the buffer holds. The read that takes the last byte reports EOF, or the
  error with which the stream is cut off.
\<close>

definition tar_read :: "(nat \<Rightarrow> nat) \<Rightarrow> nat \<Rightarrow> string \<times> goerr option \<Rightarrow> string \<times> read_end \<times> (string \<times> goerr option)" where
  "tar_read chunk n = (\<lambda>(data, err).
     let k = min n (max 1 (chunk (length data))) in
     (take k data,
      if drop k data = [] then (case err of None \<Rightarrow> ReadEOF | Some e \<Rightarrow> ReadErr e) else ReadMore,
      (drop k data, err)))"

definition write_at :: "string \<Rightarrow> nat \<Rightarrow> string \<Rightarrow> string" where
  "write_at contents offset b = take offset contents @ b @ drop (offset + length b) contents"

text \<open>The loop has no bound of its own: a reader that keeps returning nothing keeps it running.\<close>

partial_function (option) extract_loop ::
    "(nat \<Rightarrow> nat) \<Rightarrow> string \<times> goerr option \<Rightarrow> string \<Rightarrow> nat \<Rightarrow> string result option" where
  "extract_loop chunk rd contents offset =
     (case tar_read chunk (length contents - offset) rd of (b, fin, rd') \<Rightarrow>
        (case fin of
           ReadErr e \<Rightarrow> Some (Err (Errorf_v ''could not read from tar'' e))
         | ReadEOF \<Rightarrow> Some (Ok (write_at contents offset b))
         | ReadMore \<Rightarrow> extract_loop chunk rd' (write_at contents offset b) (offset + length b)))"

definition ExtractBytesFromTar ::
    "(nat \<Rightarrow> nat) \<Rightarrow> nat \<Rightarrow> string \<times> goerr option \<Rightarrow> string result option" where
  "ExtractBytesFromTar chunk sz rd = extract_loop chunk rd (replicate sz (CHR 0x00)) 0"

section \<open>State and environment\<close>

datatype fsnode = FsFile "string result" | FsDir "(string \<times> fsnode) list"

record ('w, 'k, 'a) signimage_env =
  sie_crane :: "('w, 'k, 'a) crane"
  sie_tempDir :: "string result"
  sie_secrets :: "string \<Rightarrow> fsnode option"
  sie_json_raw :: "string \<Rightarrow> string assoc result"
  sie_json_auths :: "string \<Rightarrow> 'a assoc result"
  sie_Anonymous :: 'a
  sie_MkdirAll :: "string \<Rightarrow> goerr option"
  sie_WriteFile :: "string \<Rightarrow> goerr option"
  sie_chunk :: "nat \<Rightarrow> nat"
  sie_sign_file :: "string \<Rightarrow> string \<Rightarrow> string \<Rightarrow> string result"
  sie_tar :: "(string \<times> string) list \<Rightarrow> string"
  sie_LayerFromFile :: "string \<Rightarrow> string \<Rightarrow> Layer result"
  sie_AppendLayers :: "Image \<Rightarrow> Layer \<Rightarrow> Image result"
  sie_MediaType :: "Image \<Rightarrow> string \<Rightarrow> Image"

record sign_mem =
  sg_files :: strmap
  sg_kmods :: "string assoc"

section \<open>Files\<close>

definition write_file ::
    "('w, 'k, 'a) signimage_env \<Rightarrow> string \<Rightarrow> string \<Rightarrow> ('w \<times> sign_mem, unit) io" where
  "write_file env path contents =
     (case sie_WriteFile env path of
        Some e \<Rightarrow> fail_io e
      | None \<Rightarrow> modify_mem (\<lambda>m. m\<lparr>sg_files := fmupd (filepath_Clean path) contents (sg_files m)\<rparr>))"

definition read_file :: "string \<Rightarrow> ('w \<times> sign_mem, string) io" where
  "read_file path = read_mem (\<lambda>m.
     case fmlookup (sg_files m) (filepath_Clean path) of
       None \<Rightarrow> Err (ErrorMsg (''stat '' @ path @ '': no such file or directory'')) | Some c \<Rightarrow> Ok c)"

text \<open>The header's size is the length of the entry. Not returning would be the panic here.\<close>

definition ExtractFileToFile ::
    "('w, 'k, 'a) signimage_env \<Rightarrow> string \<Rightarrow> tar_entry \<Rightarrow> ('w \<times> sign_mem, unit) io" where
  "ExtractFileToFile env destination h =
     bind_io (lift_io (map_err (Errorf_v (''could not read file '' @ destination))
       (case ExtractBytesFromTar (sie_chunk env) (length (te_Data h)) (te_Data h, te_ReadErr h) of
          Some r \<Rightarrow> r | None \<Rightarrow> Panic ''does not return''))) (\<lambda>contents.
     case sie_MkdirAll env destination of
       Some e \<Rightarrow> fail_io (Errorf_v (''could not create directory structure for '' @ destination) e)
     | None \<Rightarrow> wrap_io (Errorf_v (''could not create temp '' @ destination)) (write_file env destination contents))"

section \<open>Credentials\<close>

record 'a repoAuth =
  ra_pullRepo :: string
  ra_pushRepo :: string
  ra_PullAuth :: "'a option"
  ra_PushAuth :: "'a option"
  ra_configDir :: string

text \<open>A file that cannot be read or decoded is logged and skipped.\<close>

definition getAuthFromSingleFile ::
    "('w, 'k, 'a) signimage_env \<Rightarrow> string result \<Rightarrow> 'a repoAuth \<Rightarrow> 'a repoAuth result" where
  "getAuthFromSingleFile env file r =
     bind_res (map_err (Errorf_v ''unable to open secret file'') file) (\<lambda>byteValue.
     bind_res (map_err (Errorf_v ''error unmarshalling'') (sie_json_raw env byteValue)) (\<lambda>res.
     bind_res (map_err (Errorf_v ''error unmarshalling file to authconfig'')
       (case map_of res ''auths'' of
          Some raw \<Rightarrow> sie_json_auths env raw | None \<Rightarrow> sie_json_auths env byteValue)) (\<lambda>allAuthConfigs.
     let r1 = (case map_of allAuthConfigs (ra_pullRepo r) of Some a \<Rightarrow> r\<lparr>ra_PullAuth := Some a\<rparr> | None \<Rightarrow> r) in
     Ok (case map_of allAuthConfigs (ra_pushRepo r1) of Some a \<Rightarrow> r1\<lparr>ra_PushAuth := Some a\<rparr> | None \<Rightarrow> r1))))"

text \<open>The handler returns whether the walk skips the directory.\<close>

fun authDirFileHandler ::
    "('w, 'k, 'a) signimage_env \<Rightarrow> string \<Rightarrow> fsnode \<Rightarrow> 'a repoAuth \<Rightarrow> bool \<times> 'a repoAuth" where
  "authDirFileHandler env path (FsDir kids) r =
     (if path = ra_configDir r then (False, r) else (strings_Contains path ''..'', r))"
| "authDirFileHandler env path (FsFile file) r =
     (if path = ra_configDir r \<or> strings_Contains path ''..'' then (False, r)
      else (False, case getAuthFromSingleFile env file r of Ok r' \<Rightarrow> r' | _ \<Rightarrow> r))"

text \<open>\<^verbatim>\<open>filepath.WalkDir\<close>: a directory before what it contains, entries in order.\<close>

fun walk_dir :: "(string \<Rightarrow> fsnode \<Rightarrow> 's \<Rightarrow> bool \<times> 's) \<Rightarrow> string \<Rightarrow> fsnode \<Rightarrow> 's \<Rightarrow> bool \<times> 's"
  and walk_kids :: "(string \<Rightarrow> fsnode \<Rightarrow> 's \<Rightarrow> bool \<times> 's) \<Rightarrow> string \<Rightarrow> (string \<times> fsnode) list \<Rightarrow> 's \<Rightarrow> 's" where
  "walk_dir h path (FsFile f) s = h path (FsFile f) s"
| "walk_dir h path (FsDir kids) s =
     (case h path (FsDir kids) s of (skip, s1) \<Rightarrow> (False, if skip then s1 else walk_kids h path kids s1))"
| "walk_kids h path [] s = s"
| "walk_kids h path ((n, k) # ks) s =
     (case walk_dir h (filepath_Join [path, n]) k s of (skip, s1) \<Rightarrow> if skip then s1 else walk_kids h path ks s1)"

definition PopulateAuthFromFileList :: "('w, 'k, 'a) signimage_env \<Rightarrow> 'a repoAuth \<Rightarrow> 'a repoAuth" where
  "PopulateAuthFromFileList env r =
     (if ra_configDir r = [] then r
      else case sie_secrets env (ra_configDir r) of
             None \<Rightarrow> r
           | Some root \<Rightarrow> snd (walk_dir (authDirFileHandler env) (ra_configDir r) root r))"

definition NewRepoAuth :: "('w, 'k, 'a) signimage_env \<Rightarrow> string \<Rightarrow> string \<Rightarrow> string \<Rightarrow> 'a \<times> 'a" where
  "NewRepoAuth env configDir pullRepo pushRepo =
     (let r = PopulateAuthFromFileList env
            \<lparr>ra_pullRepo = pullRepo, ra_pushRepo = (if pushRepo = [] then pullRepo else pushRepo),
             ra_PullAuth = None, ra_PushAuth = None, ra_configDir = filepath_Clean configDir\<rparr> in
      (case ra_PullAuth r of Some a \<Rightarrow> a | None \<Rightarrow> sie_Anonymous env,
       case ra_PushAuth r of Some a \<Rightarrow> a | None \<Rightarrow> sie_Anonymous env))"

section \<open>Signing\<close>

definition canonicalisePath :: "string \<Rightarrow> string" where
  "canonicalisePath path = filepath_Clean (''/'' @ path)"

definition signFile ::
    "('w, 'k, 'a) signimage_env \<Rightarrow> string \<Rightarrow> string \<Rightarrow> string \<Rightarrow> ('w \<times> sign_mem, unit) io" where
  "signFile env filename publickey privatekey =
     bind_io (read_file filename) (\<lambda>contents.
     bind_io (lift_io (map_err (Errorf_v (''signing '' @ filename @ '' returned''))
       (sie_sign_file env privatekey publickey contents))) (\<lambda>signed_contents.
     modify_mem (\<lambda>m. m\<lparr>sg_files := fmupd (filepath_Clean filename) signed_contents (sg_files m)\<rparr>)))"

text \<open>Whether an entry is to be signed: it is listed and not yet found, or there is no list and it is a
  kernel module not seen before. The suffix is cut off by index, which panics on a shorter name.\<close>

definition wants_signing :: "string \<Rightarrow> string assoc \<Rightarrow> string \<Rightarrow> bool result" where
  "wants_signing filesList kmodsToSign canonfilename =
     (let cur = (case map_of kmodsToSign canonfilename of Some v \<Rightarrow> v | None \<Rightarrow> []) in
      if cur = ''not found'' then Ok True
      else if filesList = [] \<and> cur = []
      then (if length canonfilename < 3 then Panic ''slice bounds out of range''
            else Ok (drop (length canonfilename - 3) canonfilename = ''.ko''))
      else Ok False)"

definition processFile ::
    "('w, 'k, 'a) signimage_env \<Rightarrow> string \<Rightarrow> string \<Rightarrow> string \<Rightarrow> string \<Rightarrow> tar_entry \<Rightarrow> ('w \<times> sign_mem, unit) io" where
  "processFile env extractionDir filesList privKeyFile pubKeyFile header =
     (let canonfilename = canonicalisePath (te_Name header);
          destination = extractionDir @ ''/'' @ te_Name header in
      bind_io (read_mem (\<lambda>m. wants_signing filesList (sg_kmods m) canonfilename)) (\<lambda>wanted.
      if \<not> wanted then return_io ()
      else bind_io (ExtractFileToFile env destination header) (\<lambda>_.
           bind_io (modify_mem (\<lambda>m. m\<lparr>sg_kmods := AList.update canonfilename destination (sg_kmods m)\<rparr>)) (\<lambda>_.
           wrap_io (Errorf_v (''error signing file '' @ canonfilename))
             (signFile env destination pubKeyFile privKeyFile)))))"

text \<open>The tar writer fills a buffer in memory, so only the file can be missing.\<close>

definition addFileToTarball ::
    "string \<Rightarrow> string \<Rightarrow> (string \<times> string) list \<Rightarrow> ('w \<times> sign_mem, (string \<times> string) list) io" where
  "addFileToTarball sourcename filename tarball =
     bind_io (wrap_io (Errorf_w (''failed to stat '' @ filename)) (read_file sourcename)) (\<lambda>contents.
     return_io (tarball @ [(filename, contents)]))"

section \<open>The program\<close>

record signimage_args =
  arg_unsignedimage :: string
  arg_signedimage :: string
  arg_filestosign :: string
  arg_key :: string
  arg_cert :: string
  arg_secretdir :: string
  arg_nopush :: bool
  arg_insecurePull :: bool
  arg_skipTlsVerifyPull :: bool
  arg_insecurePush :: bool
  arg_skipTlsVerifyPush :: bool

text \<open>None is the exit of the program.\<close>

definition checkArg :: "string \<Rightarrow> string \<Rightarrow> string option" where
  "checkArg arg fallback =
     (if arg = [] then (if fallback \<noteq> [] then Some fallback else None) else Some arg)"

fun kmods_to_sign :: "string list \<Rightarrow> string assoc \<Rightarrow> string assoc option" where
  "kmods_to_sign [] m = Some m"
| "kmods_to_sign (x # xs) m =
     (if canonicalisePath x \<noteq> x then None else kmods_to_sign xs (AList.update x ''not found'' m))"

text \<open>One step of collecting the signed files; the flag remembers a missing one.\<close>

definition collect_kmod ::
    "bool \<times> (string \<times> string) list \<Rightarrow> string \<times> string \<Rightarrow> ('w \<times> sign_mem, bool \<times> (string \<times> string) list) io" where
  "collect_kmod = (\<lambda>(missing, tarball) (k, v).
     if v = ''not found'' then return_io (True, tarball)
     else bind_io (addFileToTarball v k tarball) (\<lambda>tarball'. return_io (missing, tarball')))"

text \<open>An error ends the program with an exit code.\<close>

definition or_die :: "nat \<Rightarrow> ('w, 'b) io \<Rightarrow> ('b \<Rightarrow> ('w, nat) io) \<Rightarrow> ('w, nat) io" where
  "or_die code m f = bind_io (attempt_io m) (\<lambda>r. case r of Inl e \<Rightarrow> return_io code | Inr a \<Rightarrow> f a)"

definition layer_from_file ::
    "('w, 'k, 'a) signimage_env \<Rightarrow> string \<Rightarrow> string \<Rightarrow> ('w \<times> sign_mem, Layer) io" where
  "layer_from_file env tarfile mt =
     bind_io (read_file tarfile) (\<lambda>bytes. lift_io (sie_LayerFromFile env bytes mt))"

text \<open>The new layer, on top of the image, pushed under the new name.\<close>

definition publish_layer ::
    "('w, 'k, 'a) signimage_env \<Rightarrow> signimage_args \<Rightarrow> string \<Rightarrow> 'a \<Rightarrow> string \<Rightarrow> Image \<Rightarrow> (string \<times> string) list \<Rightarrow>
     ('w \<times> sign_mem, nat) io" where
  "publish_layer env args signedImageName pushAuth extractionDir img tarball =
     (let outputTarFile = extractionDir @ ''/layerfile.tar'' in
      or_die 5 (write_file env outputTarFile (sie_tar env tarball)) (\<lambda>_.
      or_die 6 (AddLayerToImage (layer_from_file env) (sie_AppendLayers env) (sie_MediaType env) outputTarFile img) (\<lambda>signedImage.
      if arg_nopush args then return_io 0
      else or_die 8 (on_world (WriteImageByName (sie_crane env) signedImageName signedImage pushAuth
             (arg_insecurePush args) (arg_skipTlsVerifyPush args))) (\<lambda>_. return_io 0))))"

text \<open>From the pulled image to the exit code.\<close>

definition sign_pulled ::
    "('w, 'k, 'a) signimage_env \<Rightarrow> signimage_args \<Rightarrow> string \<Rightarrow> 'a \<Rightarrow> string \<Rightarrow> Image \<Rightarrow> ('w \<times> sign_mem, nat) io" where
  "sign_pulled env args signedImageName pushAuth extractionDir img =
     or_die 9 (WalkFilesInImage img
       (processFile env extractionDir (arg_filestosign args) (arg_key args) (arg_cert args))) (\<lambda>_.
     bind_io (read_mem (\<lambda>m. Ok (sg_kmods m))) (\<lambda>kmodsToSign.
     or_die 1 (for_io collect_kmod (False, []) kmodsToSign) (\<lambda>(missingKmods, tarball).
     if missingKmods then return_io 4
     else publish_layer env args signedImageName pushAuth extractionDir img tarball)))"

definition registry_host :: "string \<Rightarrow> string" where
  "registry_host img = hd (split_chars (\<lambda>c. c = CHR ''/'') img)"

definition signimage_main ::
    "('w, 'k, 'a) signimage_env \<Rightarrow> signimage_args \<Rightarrow> ('w \<times> sign_mem, nat) io" where
  "signimage_main env args =
     (case (checkArg (arg_unsignedimage args) [],
            checkArg (arg_signedimage args) (arg_unsignedimage args @ ''signed''),
            checkArg (arg_filestosign args) [], checkArg (arg_key args) [], checkArg (arg_cert args) [],
            checkArg (arg_secretdir args) []) of
        (Some unsignedImageName, Some signedImageName, Some filesList, Some _, Some _, Some secretDir) \<Rightarrow>
          or_die 1 (lift_io (sie_tempDir env)) (\<lambda>extractionDir.
          case kmods_to_sign (split_chars (\<lambda>c. c = CHR '':'') filesList) [] of
            None \<Rightarrow> return_io 9
          | Some kmods \<Rightarrow>
              bind_io (modify_mem (\<lambda>m. m\<lparr>sg_kmods := kmods\<rparr>)) (\<lambda>_.
              case NewRepoAuth env secretDir (registry_host unsignedImageName) (registry_host signedImageName) of
                (pullAuth, pushAuth) \<Rightarrow>
                  or_die 3 (on_world (GetImageByName (sie_crane env) unsignedImageName pullAuth
                    (arg_insecurePull args) (arg_skipTlsVerifyPull args))) (\<lambda>img.
                  sign_pulled env args signedImageName pushAuth extractionDir img)))
      | _ \<Rightarrow> return_io 0)"

section \<open>Lemmas: reading\<close>

lemma extract_loop_tar:
  assumes "length contents = offset + length data"
  shows "extract_loop chunk (data, err) contents offset =
    Some (case err of None \<Rightarrow> Ok (take offset contents @ data) | Some e \<Rightarrow> Err (Errorf_v ''could not read from tar'' e))"
  using assms
proof (induction "length data" arbitrary: data contents offset rule: less_induct)
  case less
  let ?k = "min (length data) (max 1 (chunk (length data)))"
  let ?c = "write_at contents offset (take ?k data)"
  have buf: "length contents - offset = length data" using less.prems by simp
  show ?case
  proof (cases "drop ?k data = []")
    case True
    then have "take ?k data = data" by (metis append_Nil2 append_take_drop_id)
    with True less.prems show ?thesis
      by (subst extract_loop.simps)
         (simp add: tar_read_def buf Let_def write_at_def split: option.split)
  next
    case False
    then have "data \<noteq> []" by auto
    then have "length (drop ?k data) < length data" by simp
    moreover have "length ?c = offset + ?k + length (drop ?k data)"
      using less.prems by (simp add: write_at_def)
    ultimately have "extract_loop chunk (drop ?k data, err) ?c (offset + ?k) =
        Some (case err of None \<Rightarrow> Ok (take (offset + ?k) ?c @ drop ?k data)
              | Some e \<Rightarrow> Err (Errorf_v ''could not read from tar'' e))"
      by (rule less.hyps)
    moreover have len: "length (take ?k data) = ?k" by simp
    moreover have "take (offset + ?k) ?c = take offset contents @ take ?k data"
      using less.prems by (simp add: write_at_def)
    ultimately have "extract_loop chunk (drop ?k data, err) ?c (offset + length (take ?k data)) =
        Some (case err of None \<Rightarrow> Ok (take offset contents @ data)
              | Some e \<Rightarrow> Err (Errorf_v ''could not read from tar'' e))"
      unfolding len by (metis append.assoc append_take_drop_id)
    with False show ?thesis
      by (subst extract_loop.simps) (simp add: tar_read_def buf Let_def del: length_take)
  qed
qed

lemma ExtractFileToFile_Ok_iff:
  "ExtractFileToFile env dst h (w, m) = (Ok (), s') \<longleftrightarrow>
     te_ReadErr h = None \<and> sie_MkdirAll env dst = None \<and> sie_WriteFile env dst = None \<and>
     s' = (w, m\<lparr>sg_files := fmupd (filepath_Clean dst) (te_Data h) (sg_files m)\<rparr>)"
  by (auto simp: ExtractFileToFile_def ExtractBytesFromTar_def extract_loop_tar write_file_def io_elims
      split: option.split_asm option.split)

lemma signFile_Ok_iff:
  "signFile env f pub priv (w, m) = (Ok (), s') \<longleftrightarrow>
     (\<exists>c c'. fmlookup (sg_files m) (filepath_Clean f) = Some c \<and> sie_sign_file env priv pub c = Ok c' \<and>
        s' = (w, m\<lparr>sg_files := fmupd (filepath_Clean f) c' (sg_files m)\<rparr>))"
  by (auto simp: signFile_def read_file_def io_elims split: option.split_asm)

section \<open>Lemmas: paths\<close>

lemma split_chars_append:
  "P d \<Longrightarrow> split_chars P (a @ d # b) = split_chars P a @ split_chars P b"
proof (induction a)
  case (Cons c a)
  then show ?case by (cases "split_chars P a") auto
qed simp

definition plain_elem :: "string \<Rightarrow> bool" where
  "plain_elem x \<longleftrightarrow> x \<noteq> [] \<and> x \<noteq> ''.''"

lemma clean_elems_append: "clean_elems r acc (xs @ ys) = clean_elems r (rev (clean_elems r acc xs)) ys"
  by (induction r acc xs rule: clean_elems.induct) (auto split: list.splits)

lemma clean_elems_plain: "''..'' \<notin> set xs \<Longrightarrow> clean_elems r acc xs = rev acc @ filter plain_elem xs"
  by (induction r acc xs rule: clean_elems.induct) (auto simp: plain_elem_def)

lemma set_clean_elems: "set (clean_elems r acc xs) \<subseteq> set acc \<union> {x \<in> set xs. x \<noteq> []}"
  by (induction r acc xs rule: clean_elems.induct) (auto split: list.splits if_splits)

lemma Join_slash_inj:
  assumes "\<forall>x \<in> set xs \<union> set ys. x \<noteq> [] \<and> CHR ''/'' \<notin> set x" and "strings_Join xs ''/'' = strings_Join ys ''/''"
  shows "xs = ys"
proof -
  have nonempty: "strings_Join zs ''/'' = [] \<longleftrightarrow> zs = []" if "\<forall>x \<in> set zs. x \<noteq> []" for zs
    using that by (cases "(zs, ''/'')" rule: strings_Join.cases) auto
  show ?thesis
  proof (cases "xs = [] \<or> ys = []")
    case True
    with assms(2) show ?thesis using nonempty[of xs] nonempty[of ys] assms(1)
      by (metis UnI1 UnI2 strings_Join.simps(1))
  next
    case False
    then have "split_chars (\<lambda>c. c = CHR ''/'') (strings_Join xs ''/'') = xs"
      "split_chars (\<lambda>c. c = CHR ''/'') (strings_Join ys ''/'') = ys"
      using assms(1) by (intro split_Join; blast)+
    with assms(2) show ?thesis by metis
  qed
qed

text \<open>Two entries that do not climb out of the extraction directory and end up in the same file have
  the same absolute path in the image.\<close>

lemma extraction_path_inj:
  assumes "has_prefix dir ''/''"
    and "''..'' \<notin> set (split_chars (\<lambda>c. c = CHR ''/'') n1)" and "''..'' \<notin> set (split_chars (\<lambda>c. c = CHR ''/'') n2)"
    and "filepath_Clean (dir @ ''/'' @ n1) = filepath_Clean (dir @ ''/'' @ n2)"
  shows "canonicalisePath n1 = canonicalisePath n2"
proof -
  let ?split = "split_chars (\<lambda>c. c = CHR ''/'')"
  let ?base = "clean_elems True [] (?split dir)"
  obtain d where d: "dir = CHR ''/'' # d" using assms(1) by (auto simp: has_prefix_iff)
  have elems: "clean_elems True [] (?split (dir @ ''/'' @ n)) = ?base @ filter plain_elem (?split n)"
    if "''..'' \<notin> set (?split n)" for n
    using that by (simp add: split_chars_append clean_elems_append clean_elems_plain)
  have ok: "\<forall>x \<in> set (clean_elems True [] (?split s)). x \<noteq> [] \<and> CHR ''/'' \<notin> set x" for s
    using set_clean_elems[of True "[]" "?split s"] split_chars_pieces[of _ "\<lambda>c. c = CHR ''/''" s] by fastforce
  have "strings_Join (clean_elems True [] (?split (dir @ ''/'' @ n1))) ''/'' =
      strings_Join (clean_elems True [] (?split (dir @ ''/'' @ n2))) ''/''"
    using assms(4) d by (simp add: filepath_Clean_def Let_def)
  then have "clean_elems True [] (?split (dir @ ''/'' @ n1)) = clean_elems True [] (?split (dir @ ''/'' @ n2))"
    using ok by (intro Join_slash_inj) auto
  then have "filter plain_elem (?split n1) = filter plain_elem (?split n2)"
    using elems assms(2,3) by simp
  moreover have "canonicalisePath n = ''/'' @ strings_Join (filter plain_elem (?split n)) ''/''"
    if "''..'' \<notin> set (?split n)" for n
    using that clean_elems_plain[of "?split n" True "[]"]
    by (simp add: canonicalisePath_def filepath_Clean_def)
  ultimately show ?thesis using assms(2,3) by simp
qed

section \<open>Lemmas: the walk\<close>

definition entries_of :: "Layer \<Rightarrow> tar_entry list" where
  "entries_of l = (case layer_Uncompressed l of Ok (es, _) \<Rightarrow> es | _ \<Rightarrow> [])"

text \<open>All entries of an image in the order of the walk: the top layer first.\<close>

definition image_entries :: "Image \<Rightarrow> tar_entry list" where
  "image_entries img = (case img_Layers img of Ok ls \<Rightarrow> concat (map entries_of (rev ls)) | _ \<Rightarrow> [])"

lemma walk_entries_append_Ok_iff:
  "walk_entries fn (xs @ ys) w = (Ok (), w') \<longleftrightarrow>
     (\<exists>w1. walk_entries fn xs w = (Ok (), w1) \<and> walk_entries fn ys w1 = (Ok (), w'))"
  by (induction xs arbitrary: w) (auto simp: io_elims)

lemma walk_layers_Ok:
  "walk_layers fn ls w = (Ok (), w') \<Longrightarrow> walk_entries fn (concat (map entries_of ls)) w = (Ok (), w')"
proof (induction ls arbitrary: w)
  case (Cons l ls)
  from Cons.prems obtain es ending w1 where "layer_Uncompressed l = Ok (es, ending)"
      "walk_entries fn es w = (Ok (), w1)" "walk_layers fn ls w1 = (Ok (), w')"
    by (auto simp: io_elims)
  with Cons.IH show ?case by (auto simp: entries_of_def walk_entries_append_Ok_iff)
qed simp

lemma WalkFilesInImage_Ok:
  assumes "WalkFilesInImage img fn w = (Ok (), w')"
  shows "\<exists>ls. img_Layers img = Ok ls" and "walk_entries fn (image_entries img) w = (Ok (), w')"
  using assms by (auto simp: WalkFilesInImage_def image_entries_def io_elims walk_layers_Ok)

section \<open>Lemmas: the invariant of the walk\<close>

definition stays_inside :: "tar_entry \<Rightarrow> bool" where
  "stays_inside e \<longleftrightarrow> ''..'' \<notin> set (split_chars (\<lambda>c. c = CHR ''/'') (te_Name e))"

definition first_at :: "string \<Rightarrow> tar_entry list \<Rightarrow> tar_entry option" where
  "first_at p es = find (\<lambda>e. canonicalisePath (te_Name e) = p) es"

text \<open>After the entries \<open>es\<close>: a listed path is marked as not found, or its first entry has been extracted
  and signed, and no later extraction has overwritten it.\<close>

definition kmod_state ::
    "('w, 'k, 'a) signimage_env \<Rightarrow> string \<Rightarrow> string \<Rightarrow> string \<Rightarrow> tar_entry list \<Rightarrow> sign_mem \<Rightarrow> string \<Rightarrow> bool" where
  "kmod_state env dir priv pub es m p \<longleftrightarrow>
     (case first_at p es of
        None \<Rightarrow> map_of (sg_kmods m) p = Some ''not found''
      | Some e \<Rightarrow> stays_inside e \<and> map_of (sg_kmods m) p = Some (dir @ ''/'' @ te_Name e) \<and>
          (\<exists>c. sie_sign_file env priv pub (te_Data e) = Ok c \<and>
               fmlookup (sg_files m) (filepath_Clean (dir @ ''/'' @ te_Name e)) = Some c))"

definition sign_inv ::
    "('w, 'k, 'a) signimage_env \<Rightarrow> string \<Rightarrow> string \<Rightarrow> string \<Rightarrow> string list \<Rightarrow> tar_entry list \<Rightarrow> sign_mem \<Rightarrow> bool" where
  "sign_inv env dir priv pub ps es m \<longleftrightarrow>
     map fst (sg_kmods m) = ps \<and> (\<forall>p \<in> set ps. kmod_state env dir priv pub es m p)"

lemma not_found_has_no_slash: "dir @ ''/'' @ n \<noteq> ''not found''"
proof -
  have "CHR ''/'' \<in> set (dir @ ''/'' @ n)" and "CHR ''/'' \<notin> set ''not found''" by simp_all
  then show ?thesis by metis
qed

lemma first_at_snoc:
  "first_at p (es @ [e]) =
     (case first_at p es of Some x \<Rightarrow> Some x | None \<Rightarrow> if canonicalisePath (te_Name e) = p then Some e else None)"
  by (simp add: first_at_def find_append split: option.split)

lemma kmod_state_found:
  assumes "kmod_state env dir priv pub es m p"
  shows "map_of (sg_kmods m) p = Some ''not found'' \<longleftrightarrow> first_at p es = None"
  using assms not_found_has_no_slash by (auto simp: kmod_state_def split: option.split_asm)

lemma wants_signing_list:
  "fl \<noteq> [] \<Longrightarrow> wants_signing fl ks p = Ok (map_of ks p = Some ''not found'')"
  by (simp add: wants_signing_def split: option.split)

lemma processFile_OkE:
  assumes "processFile env dir fl priv pub e (w, m) = (Ok (), s')" and "fl \<noteq> []"
  obtains (skipped) "s' = (w, m)" "map_of (sg_kmods m) (canonicalisePath (te_Name e)) \<noteq> Some ''not found''"
  | (signed) c where "map_of (sg_kmods m) (canonicalisePath (te_Name e)) = Some ''not found''"
      "sie_sign_file env priv pub (te_Data e) = Ok c"
      "s' = (w, \<lparr>sg_files = fmupd (filepath_Clean (dir @ ''/'' @ te_Name e)) c (sg_files m),
                 sg_kmods = AList.update (canonicalisePath (te_Name e)) (dir @ ''/'' @ te_Name e) (sg_kmods m)\<rparr>)"
proof (cases "map_of (sg_kmods m) (canonicalisePath (te_Name e)) = Some ''not found''")
  case True
  with assms(1) obtain c where "sie_sign_file env priv pub (te_Data e) = Ok c"
    and "s' = (w, \<lparr>sg_files = fmupd (filepath_Clean (dir @ ''/'' @ te_Name e)) c (sg_files m),
                 sg_kmods = AList.update (canonicalisePath (te_Name e)) (dir @ ''/'' @ te_Name e) (sg_kmods m)\<rparr>)"
    by (cases m) (auto simp: processFile_def wants_signing_list[OF assms(2)] Let_def ExtractFileToFile_Ok_iff signFile_Ok_iff
        bind_io_Ok_iff wrap_io_Ok_iff)
  with True show thesis by (intro signed)
next
  case False
  with assms(1) show thesis
    by (intro skipped) (simp_all add: processFile_def wants_signing_list[OF assms(2)] Let_def)
qed

lemma processFile_inv:
  assumes run: "processFile env dir fl priv pub e (w, m) = (Ok (), (w', m'))" and "fl \<noteq> []"
    and dir: "has_prefix dir ''/''" and inside: "stays_inside e" and inv: "sign_inv env dir priv pub ps es m"
  shows "w' = w \<and> sign_inv env dir priv pub ps (es @ [e]) m'"
  using run assms(2)
proof (cases rule: processFile_OkE)
  case skipped
  have "kmod_state env dir priv pub (es @ [e]) m p" if "p \<in> set ps" for p
  proof -
    from inv that have st: "kmod_state env dir priv pub es m p" by (simp add: sign_inv_def)
    with kmod_state_found[OF st] skipped(2) show ?thesis
      by (auto simp: kmod_state_def first_at_snoc split: option.splits)
  qed
  with inv skipped(1) show ?thesis by (simp add: sign_inv_def)
next
  case (signed c)
  let ?q = "canonicalisePath (te_Name e)" and ?dst = "dir @ ''/'' @ te_Name e"
  have "?q \<in> fst ` set (sg_kmods m)" unfolding dom_map_of_keys[symmetric] using signed(1) by blast
  with inv have q: "?q \<in> set ps" unfolding sign_inv_def by (metis set_map)
  have keys: "map fst (sg_kmods m') = ps"
    using inv signed(3) q by (simp add: sign_inv_def update_keys)
  have "kmod_state env dir priv pub (es @ [e]) m' p" if p: "p \<in> set ps" for p
  proof (cases "p = ?q")
    case True
    from inv q have "kmod_state env dir priv pub es m ?q" by (simp add: sign_inv_def)
    from kmod_state_found[OF this] signed(1) have "first_at p (es @ [e]) = Some e"
      using True by (simp add: first_at_snoc)
    with True signed(2,3) inside show ?thesis by (simp add: kmod_state_def)
  next
    case False
    from inv p have st: "kmod_state env dir priv pub es m p" by (simp add: sign_inv_def)
    have same: "first_at p (es @ [e]) = first_at p es" using False by (simp add: first_at_snoc split: option.split)
    have "filepath_Clean (dir @ ''/'' @ te_Name x) \<noteq> filepath_Clean ?dst"
      if x: "first_at p es = Some x" "stays_inside x" for x
    proof
      assume "filepath_Clean (dir @ ''/'' @ te_Name x) = filepath_Clean ?dst"
      then have "canonicalisePath (te_Name x) = ?q"
        using dir inside x(2) unfolding stays_inside_def by (rule_tac extraction_path_inj)
      moreover have "canonicalisePath (te_Name x) = p" using x(1) by (auto simp: first_at_def dest: find_SomeD)
      ultimately show False using False by simp
    qed
    with st same False signed(3) show ?thesis by (auto simp: kmod_state_def split: option.split)
  qed
  with keys signed(3) show ?thesis by (simp add: sign_inv_def)
qed

lemma walk_inv:
  assumes "walk_entries (processFile env dir fl priv pub) xs (w, m) = (Ok (), (w', m'))" and "fl \<noteq> []"
    and "has_prefix dir ''/''" and "\<forall>e \<in> set xs. stays_inside e" and "sign_inv env dir priv pub ps es m"
  shows "w' = w \<and> sign_inv env dir priv pub ps (es @ xs) m'"
  using assms
proof (induction xs arbitrary: es w m)
  case (Cons e xs)
  from Cons.prems(1) obtain w1 m1 where
      first: "processFile env dir fl priv pub e (w, m) = (Ok (), (w1, m1))"
    and rest: "walk_entries (processFile env dir fl priv pub) xs (w1, m1) = (Ok (), (w', m'))"
    by (auto simp: io_elims)
  from Cons.prems(4) have inside: "stays_inside e" "\<forall>e \<in> set xs. stays_inside e" by auto
  from processFile_inv[OF first Cons.prems(2,3) inside(1) Cons.prems(5)]
  have step: "w1 = w" "sign_inv env dir priv pub ps (es @ [e]) m1" by auto
  from Cons.IH[OF rest Cons.prems(2,3) inside(2) step(2)] step(1) show ?case by simp
qed simp

section \<open>Lemmas: the program\<close>

lemma map_of_kmods_to_sign:
  "kmods_to_sign xs m = Some m' \<Longrightarrow> map_of m' p = (if p \<in> set xs then Some ''not found'' else map_of m p)"
  by (induction xs arbitrary: m) (auto split: if_split_asm)

lemma distinct_kmods_to_sign: "kmods_to_sign xs m = Some m' \<Longrightarrow> distinct_keys m \<Longrightarrow> distinct_keys m'"
  by (induction xs arbitrary: m) (auto split: if_split_asm)

lemma set_kmods_to_sign: "kmods_to_sign xs [] = Some m' \<Longrightarrow> fst ` set m' = set xs"
  unfolding dom_map_of_keys[symmetric] by (auto simp: map_of_kmods_to_sign dom_def)

lemma sign_inv_start:
  assumes "kmods_to_sign xs [] = Some (sg_kmods m)"
  shows "sign_inv env dir priv pub (map fst (sg_kmods m)) [] m"
  using set_kmods_to_sign[OF assms] map_of_kmods_to_sign[OF assms]
  by (auto simp: sign_inv_def kmod_state_def first_at_def)

text \<open>The layer is complete when nothing is missing.\<close>

definition file_at :: "sign_mem \<Rightarrow> string \<Rightarrow> string option" where
  "file_at m path = fmlookup (sg_files m) (filepath_Clean path)"

lemma collect_kmods_Ok:
  assumes "for_io collect_kmod (missing, tb) ks (w, m) = (Ok (miss', tb'), s')"
  shows "s' = (w, m) \<and> (\<not> miss' \<longrightarrow> \<not> missing \<and>
    (\<forall>(k, v) \<in> set ks. v \<noteq> ''not found'' \<and> file_at m v \<noteq> None) \<and> tb' = tb @ map (\<lambda>(k, v). (k, the (file_at m v))) ks)"
  using assms
proof (induction ks arbitrary: missing tb)
  case (Cons x ks)
  obtain k v where x: "x = (k, v)" by (cases x)
  show ?case
  proof (cases "v = ''not found''")
    case True
    with Cons.prems x have "for_io collect_kmod (True, tb) ks (w, m) = (Ok (miss', tb'), s')"
      by (simp add: collect_kmod_def)
    from Cons.IH[OF this] show ?thesis by simp
  next
    case False
    with Cons.prems x obtain c where "file_at m v = Some c"
      "for_io collect_kmod (missing, tb @ [(k, c)]) ks (w, m) = (Ok (miss', tb'), s')"
      by (auto simp: collect_kmod_def addFileToTarball_def read_file_def file_at_def io_elims split: option.split_asm)
    with Cons.IH[OF this(2)] False x show ?thesis by simp
  qed
qed simp

lemma or_die_0_iff:
  assumes "code \<noteq> 0"
  shows "or_die code m f w = (Ok 0, w') \<longleftrightarrow> (\<exists>a w1. m w = (Ok a, w1) \<and> f a w1 = (Ok 0, w'))"
  using assms by (cases "m w", cases "fst (m w)") (auto simp: or_die_def bind_io_def attempt_io_def)

text \<open>What the layer packages promise: a layer read from a tar file has the entries of the tar, appending
  puts it on top, and setting the media type keeps the layers.\<close>

definition layer_contents :: "Layer \<Rightarrow> (string \<times> string) list" where
  "layer_contents l = map (\<lambda>e. (te_Name e, te_Data e)) (entries_of l)"

definition layer_packages :: "('w, 'k, 'a) signimage_env \<Rightarrow> bool" where
  "layer_packages env \<longleftrightarrow>
     (\<forall>es mt l. sie_LayerFromFile env (sie_tar env es) mt = Ok l \<longrightarrow> layer_contents l = es) \<and>
     (\<forall>img l img' ls. sie_AppendLayers env img l = Ok img' \<longrightarrow> img_Layers img = Ok ls \<longrightarrow> img_Layers img' = Ok (ls @ [l])) \<and>
     (\<forall>img t. img_Layers (sie_MediaType env img t) = img_Layers img)"

text \<open>The contents of the layer of signed files: every listed path once, with its topmost entry signed.\<close>

definition signed_contents ::
    "('w, 'k, 'a) signimage_env \<Rightarrow> signimage_args \<Rightarrow> Image \<Rightarrow> (string \<times> string) list \<Rightarrow> bool" where
  "signed_contents env args img es \<longleftrightarrow>
     distinct (map fst es) \<and> set (map fst es) = set (split_chars (\<lambda>c. c = CHR '':'') (arg_filestosign args)) \<and>
     (\<forall>(p, c) \<in> set es. \<exists>e. first_at p (image_entries img) = Some e \<and>
        sie_sign_file env (arg_key args) (arg_cert args) (te_Data e) = Ok c)"

lemma collected_contents:
  assumes inv: "sign_inv env dir (arg_key args) (arg_cert args) (map fst (sg_kmods m)) (image_entries img) m"
    and dist: "distinct_keys (sg_kmods m)"
    and keys: "fst ` set (sg_kmods m) = set (split_chars (\<lambda>c. c = CHR '':'') (arg_filestosign args))"
    and found: "\<forall>(k, v) \<in> set (sg_kmods m). v \<noteq> ''not found'' \<and> file_at m v \<noteq> None"
  shows "signed_contents env args img (map (\<lambda>(k, v). (k, the (file_at m v))) (sg_kmods m))"
proof -
  have fst: "map fst (map (\<lambda>(k, v). (k, the (file_at m v))) (sg_kmods m)) = map fst (sg_kmods m)"
    by (simp add: case_prod_beta comp_def)
  have "\<exists>e. first_at p (image_entries img) = Some e \<and> sie_sign_file env (arg_key args) (arg_cert args) (te_Data e) = Ok (the (file_at m v))"
    if pv: "(p, v) \<in> set (sg_kmods m)" for p v
  proof -
    from pv have "p \<in> set (map fst (sg_kmods m))" by force
    with inv have st: "kmod_state env dir (arg_key args) (arg_cert args) (image_entries img) m p"
      unfolding sign_inv_def by blast
    from pv dist have v: "map_of (sg_kmods m) p = Some v" by (simp add: map_of_in_set)
    from found pv have "v \<noteq> ''not found''" by auto
    with st v show ?thesis by (auto simp: kmod_state_def file_at_def split: option.split_asm)
  qed
  with fst keys dist show ?thesis by (auto simp: signed_contents_def distinct_keys_def simp del: map_map)
qed

lemma AddLayerToImage_OkE:
  assumes "AddLayerToImage lf app mt tarfile img w = (Ok img', w')"
  obtains t l n u w1 where "lf tarfile t w = (Ok l, w')" and "app img l = Ok n" and "img' = mt n u"
  using assms by (auto simp: AddLayerToImage_def io_elims)

lemma publish_layer_0:
  assumes run: "publish_layer env args name auth dir img tb (w, m) = (Ok 0, (w', m'))" and "\<not> arg_nopush args"
    and pkgs: "layer_packages env" and ls: "img_Layers img = Ok ls"
  shows "\<exists>img' l opts. crane_Push (sie_crane env) img' name opts w = (Ok (), w') \<and>
    img_Layers img' = Ok (ls @ [l]) \<and> layer_contents l = tb"
proof -
  let ?file = "dir @ ''/layerfile.tar''"
  from run assms(2) obtain s3 img' s4 opts where
      wr: "write_file env ?file (sie_tar env tb) (w, m) = (Ok (), s3)"
    and add: "AddLayerToImage (layer_from_file env) (sie_AppendLayers env) (sie_MediaType env) ?file img s3 = (Ok img', s4)"
    and push: "crane_Push (sie_crane env) img' name opts (fst s4) = (Ok (), w')"
    by (auto simp: publish_layer_def Let_def or_die_0_iff WriteImageByName_def wrap_io_Ok_iff on_world_Ok_iff)
  from wr have s3: "fst s3 = w" "fmlookup (sg_files (snd s3)) (filepath_Clean ?file) = Some (sie_tar env tb)"
    by (auto simp: write_file_def split: option.split_asm)
  from add obtain t l n v where layer: "layer_from_file env ?file t s3 = (Ok l, s4)"
    and app: "sie_AppendLayers env img l = Ok n" "img' = sie_MediaType env n v"
    by (rule AddLayerToImage_OkE)
  from layer s3 have "sie_LayerFromFile env (sie_tar env tb) t = Ok l" and s4: "fst s4 = w"
    by (cases s3, auto simp: layer_from_file_def read_file_def io_elims)
  with pkgs have "layer_contents l = tb" unfolding layer_packages_def by blast
  moreover have "img_Layers img' = Ok (ls @ [l])" using pkgs app ls unfolding layer_packages_def by auto
  ultimately show ?thesis using push s4 by blast
qed

lemma sign_pulled_0:
  assumes run: "sign_pulled env args name auth dir img (w, m) = (Ok 0, (w', m'))"
    and kmods: "kmods_to_sign (split_chars (\<lambda>c. c = CHR '':'') (arg_filestosign args)) [] = Some (sg_kmods m)"
    and "arg_filestosign args \<noteq> []" and "\<not> arg_nopush args" and "has_prefix dir ''/''"
    and pkgs: "layer_packages env" and inside: "\<forall>e \<in> set (image_entries img). stays_inside e"
  shows "\<exists>ls img' l opts. img_Layers img = Ok ls \<and> crane_Push (sie_crane env) img' name opts w = (Ok (), w') \<and>
    img_Layers img' = Ok (ls @ [l]) \<and> signed_contents env args img (layer_contents l)"
proof -
  let ?walk = "processFile env dir (arg_filestosign args) (arg_key args) (arg_cert args)"
  from run obtain w1 m1 missing tb s2 where
      walk: "WalkFilesInImage img ?walk (w, m) = (Ok (), (w1, m1))"
    and coll: "for_io collect_kmod (False, []) (sg_kmods m1) (w1, m1) = (Ok (missing, tb), s2)"
    and rest: "(if missing then return_io 4 else publish_layer env args name auth dir img tb) s2 = (Ok 0, (w', m'))"
    by (auto simp: sign_pulled_def or_die_0_iff bind_io_Ok_iff read_mem_Ok_iff)
  from WalkFilesInImage_Ok[OF walk] obtain ls where ls: "img_Layers img = Ok ls"
    and "walk_entries ?walk (image_entries img) (w, m) = (Ok (), (w1, m1))" by auto
  from walk_inv[OF this(2) assms(3,5) inside sign_inv_start[OF kmods]]
  have w1: "w1 = w" and inv: "sign_inv env dir (arg_key args) (arg_cert args) (map fst (sg_kmods m)) (image_entries img) m1"
    by simp_all
  have keys: "map fst (sg_kmods m1) = map fst (sg_kmods m)" using inv by (simp add: sign_inv_def)
  have "\<not> missing" using rest by auto
  with collect_kmods_Ok[OF coll] have s2: "s2 = (w1, m1)"
    and found: "\<forall>(k, v) \<in> set (sg_kmods m1). v \<noteq> ''not found'' \<and> file_at m1 v \<noteq> None"
    and tb: "tb = map (\<lambda>(k, v). (k, the (file_at m1 v))) (sg_kmods m1)"
    by simp_all
  have dist: "distinct_keys (sg_kmods m1)"
    using distinct_kmods_to_sign[OF kmods] keys by (simp add: distinct_keys_def)
  have "fst ` set (sg_kmods m1) = set (split_chars (\<lambda>c. c = CHR '':'') (arg_filestosign args))"
    using set_kmods_to_sign[OF kmods] keys by (metis set_map)
  from collected_contents[OF inv[folded keys] dist this found]
  have "signed_contents env args img tb" unfolding tb .
  moreover from rest \<open>\<not> missing\<close> s2 w1 have "publish_layer env args name auth dir img tb (w, m1) = (Ok 0, (w', m'))" by simp
  ultimately show ?thesis using publish_layer_0[OF _ assms(4) pkgs ls] ls by blast
qed

section \<open>Properties\<close>

text \<open>
  C21. Extracting an entry of a tar stream always returns, however the stream hands out its bytes: with
  the bytes of the file, or with the error that cut the stream off.
\<close>

theorem extraction_returns_file:
  "ExtractBytesFromTar chunk (length data) (data, err) =
     Some (case err of None \<Rightarrow> Ok data | Some e \<Rightarrow> Err (Errorf_v ''could not read from tar'' e))"
  using extract_loop_tar[of "replicate (length data) (CHR 0x00)" 0 data chunk err]
  by (simp add: ExtractBytesFromTar_def split: option.split)


text \<open>Without a list of files the program ends with success and has done nothing: the branch of the walk
  that signs every kernel module is never reached.\<close>

lemma no_file_list_does_nothing:
  "arg_filestosign args = [] \<Longrightarrow> signimage_main env args s = (Ok 0, s)"
  by (simp add: signimage_main_def checkArg_def split: option.split)

section \<open>Samples\<close>

definition sample_elf_layer :: "string \<Rightarrow> string \<Rightarrow> Layer" where
  "sample_elf_layer n d = \<lparr>layer_Uncompressed = Ok ([\<lparr>te_Name = n, te_Data = d, te_ReadErr = None\<rparr>], None), layer_MediaType = Ok []\<rparr>"

definition sample_elf_image :: Image where
  "sample_elf_image = \<lparr>img_Layers = Ok [sample_elf_layer ''opt/a.ko'' ''elf''], img_MediaType = Ok []\<rparr>"

text \<open>A tar encoding that knows one archive, and layers read from it.\<close>

definition sample_signimage :: "(nat, unit, unit) signimage_env" where
  "sample_signimage =
     \<lparr>sie_crane = \<lparr>crane_Manifest = \<lambda>_ _. fail_io (TransportError 404), crane_PullLayer = \<lambda>_ _. fail_io (TransportError 404),
        crane_Pull = \<lambda>_ _. return_io sample_elf_image, crane_Push = \<lambda>_ _ _ w. (Ok (), w + 1)\<rparr>,
      sie_tempDir = Ok ''/tmp/d'', sie_secrets = \<lambda>_. None, sie_json_raw = \<lambda>_. Ok [], sie_json_auths = \<lambda>_. Ok [],
      sie_Anonymous = (), sie_MkdirAll = \<lambda>_. None, sie_WriteFile = \<lambda>_. None, sie_chunk = \<lambda>n. n,
      sie_sign_file = \<lambda>_ _ c. Ok (c @ ''sig''),
      sie_tar = \<lambda>es. if es = [(''/opt/a.ko'', ''elfsig'')] then ''tar'' else [],
      sie_LayerFromFile = \<lambda>b _. if b = ''tar'' then Ok (sample_elf_layer ''/opt/a.ko'' ''elfsig'') else Err (ErrorMsg ''not a tar''),
      sie_AppendLayers = \<lambda>img l. bind_res (img_Layers img) (\<lambda>ls. Ok (img\<lparr>img_Layers := Ok (ls @ [l])\<rparr>)),
      sie_MediaType = \<lambda>img t. img\<lparr>img_MediaType := Ok t\<rparr>\<rparr>"

definition sample_sign_args :: signimage_args where
  "sample_sign_args =
     \<lparr>arg_unsignedimage = ''quay.io/img:v1'', arg_signedimage = ''quay.io/img:v2'', arg_filestosign = ''/opt/a.ko'',
      arg_key = ''key'', arg_cert = ''cert'', arg_secretdir = ''secrets'', arg_nopush = False, arg_insecurePull = False,
      arg_skipTlsVerifyPull = False, arg_insecurePush = False, arg_skipTlsVerifyPush = False\<rparr>"

lemma sample_paths:
  "canonicalisePath ''opt/a.ko'' = ''/opt/a.ko''" "canonicalisePath ''/opt/a.ko'' = ''/opt/a.ko''"
  "filepath_Clean ''/tmp/d/opt/a.ko'' = ''/tmp/d/opt/a.ko''" "filepath_Clean ''/tmp/d/layerfile.tar'' = ''/tmp/d/layerfile.tar''"
  "filepath_Clean ''secrets'' = ''secrets''"
  by code_simp+

lemma sample_image_entries:
  "image_entries sample_elf_image = [\<lparr>te_Name = ''opt/a.ko'', te_Data = ''elf'', te_ReadErr = None\<rparr>]"
  by (simp add: image_entries_def sample_elf_image_def sample_elf_layer_def entries_of_def)

lemma sample_signed: "signimage_main sample_signimage sample_sign_args (0, \<lparr>sg_files = fmempty, sg_kmods = []\<rparr>)
    = (Ok 0, (1, \<lparr>sg_files = fmupd ''/tmp/d/layerfile.tar'' ''tar'' (fmupd ''/tmp/d/opt/a.ko'' ''elfsig'' fmempty),
        sg_kmods = [(''/opt/a.ko'', ''/tmp/d/opt/a.ko'')]\<rparr>))"
proof -
  let ?m = "\<lparr>sg_files = fmempty, sg_kmods = [(''/opt/a.ko'', ''not found'')]\<rparr>"
  let ?m1 = "\<lparr>sg_files = fmupd ''/tmp/d/opt/a.ko'' ''elfsig'' fmempty, sg_kmods = [(''/opt/a.ko'', ''/tmp/d/opt/a.ko'')]\<rparr>"
  have "ExtractFileToFile sample_signimage ''/tmp/d/opt/a.ko'' \<lparr>te_Name = ''opt/a.ko'', te_Data = ''elf'', te_ReadErr = None\<rparr> (w, ?m)
      = (Ok (), (w, ?m\<lparr>sg_files := fmupd ''/tmp/d/opt/a.ko'' ''elf'' fmempty\<rparr>))" for w
    by (subst ExtractFileToFile_Ok_iff) (simp add: sample_signimage_def sample_paths)
  then have walk: "WalkFilesInImage sample_elf_image (processFile sample_signimage ''/tmp/d'' ''/opt/a.ko'' ''key'' ''cert'') (w, ?m)
      = (Ok (), (w, ?m1))" for w
    by (simp add: WalkFilesInImage_def sample_elf_image_def sample_elf_layer_def processFile_def wants_signing_def sample_paths
        signFile_def read_file_def sample_signimage_def Let_def bind_io_def wrap_io_def)
  have args: "arg_filestosign sample_sign_args = ''/opt/a.ko''" "arg_key sample_sign_args = ''key''" "arg_cert sample_sign_args = ''cert''"
    by (simp_all add: sample_sign_args_def)
  have publish: "publish_layer sample_signimage sample_sign_args ''quay.io/img:v2'' () ''/tmp/d'' sample_elf_image
      [(''/opt/a.ko'', ''elfsig'')] (0, ?m1) = (Ok 0, (1, ?m1\<lparr>sg_files := fmupd ''/tmp/d/layerfile.tar'' ''tar'' (sg_files ?m1)\<rparr>))"
    by (simp add: publish_layer_def write_file_def AddLayerToImage_def GetLayerMediaType_def layer_from_file_def read_file_def
        sample_signimage_def sample_sign_args_def sample_elf_image_def sample_elf_layer_def WriteImageByName_def sample_paths
        or_die_def bind_io_def attempt_io_def wrap_io_def Let_def)
  have "sign_pulled sample_signimage sample_sign_args ''quay.io/img:v2'' () ''/tmp/d'' sample_elf_image (0, ?m)
      = (Ok 0, (1, ?m1\<lparr>sg_files := fmupd ''/tmp/d/layerfile.tar'' ''tar'' (sg_files ?m1)\<rparr>))"
    using publish
    by (simp add: sign_pulled_def args walk or_die_def collect_kmod_def addFileToTarball_def read_file_def sample_paths
        bind_io_def attempt_io_def wrap_io_def)
  moreover have "arg_unsignedimage sample_sign_args = ''quay.io/img:v1''" "arg_signedimage sample_sign_args = ''quay.io/img:v2''"
    "arg_secretdir sample_sign_args = ''secrets''"
    by (simp_all add: sample_sign_args_def)
  moreover have "GetImageByName (sie_crane sample_signimage) n a i t w = (Ok sample_elf_image, w)"
    "sie_tempDir sample_signimage = Ok ''/tmp/d''" for n a i t w
    by (simp_all add: GetImageByName_def sample_signimage_def)
  ultimately show ?thesis
    by (simp add: signimage_main_def checkArg_def args sample_paths or_die_def bind_io_def attempt_io_def on_world_def)
qed


end
