(* ===== verification/Node_Label_System.thy ===== *)
theory Node_Label_System
  imports Node_Labels
begin

text \<open>
  The pod reconciler at work: a node, the pod of a Module on it, and the queue of the reconciler as a
  transition system. Pods appear, change and are deleted under the rules of the API server, the event
  filter decides which changes enqueue the pod, and the reconciler runs whenever a request is pending,
  with any of its API calls failing or not. Reads see the current objects.

  A pod of a DaemonSet is replaced only when it is gone, so the system has one pod at a time. The
  system is defined by the operations of the component theories; the step relation adds no behaviour
  of its own to them.
\<close>

section \<open>The API server\<close>

record node_world =
  nw_pod :: "Pod option"
  nw_node :: Node
  nw_fails :: "bool list"

text \<open>Each call consumes one of the given failures.\<close>

definition api_call :: "(node_world, 'a) io \<Rightarrow> (node_world, 'a) io" where
  "api_call f = (\<lambda>w. case nw_fails w of
      [] \<Rightarrow> f w
    | b # bs \<Rightarrow> if b then (Err (ErrorMsg ''timeout''), w\<lparr>nw_fails := bs\<rparr>) else f (w\<lparr>nw_fails := bs\<rparr>))"

text \<open>A pod under deletion is removed when its last finalizer goes.\<close>

definition settle :: "Pod \<Rightarrow> Pod option" where
  "settle pod = (if om_DeletionTimestamp (pod_meta pod) \<noteq> None \<and> om_Finalizers (pod_meta pod) = [] then None else Some pod)"

definition pod_client :: "(node_world, Pod) kclient" where
  "pod_client = \<lparr>
     k_get = \<lambda>_. api_call (\<lambda>w. (case nw_pod w of Some p \<Rightarrow> Ok p | None \<Rightarrow> Err (StatusError StatusReasonNotFound []), w)),
     k_list = \<lambda>_ _. api_call (\<lambda>w. (Ok (case nw_pod w of Some p \<Rightarrow> [p] | None \<Rightarrow> []), w)),
     k_create = \<lambda>_. fail_io (ErrorMsg ''not allowed''), k_delete = \<lambda>_. fail_io (ErrorMsg ''not allowed''),
     k_patch = \<lambda>new _. api_call (\<lambda>w. case nw_pod w of
         None \<Rightarrow> (Err (StatusError StatusReasonNotFound []), w)
       | Some _ \<Rightarrow> (Ok new, w\<lparr>nw_pod := settle new\<rparr>)),
     k_status_patch = \<lambda>_ _. fail_io (ErrorMsg ''not allowed''), k_status_update = \<lambda>_. fail_io (ErrorMsg ''not allowed'')\<rparr>"

definition node_client :: "(node_world, Node) kclient" where
  "node_client = \<lparr>
     k_get = \<lambda>key. api_call (\<lambda>w. (if nn_Name key = om_Name (node_meta (nw_node w)) then Ok (nw_node w)
                                   else Err (StatusError StatusReasonNotFound []), w)),
     k_list = \<lambda>_ _. api_call (\<lambda>w. (Ok [nw_node w], w)),
     k_create = \<lambda>_. fail_io (ErrorMsg ''not allowed''), k_delete = \<lambda>_. fail_io (ErrorMsg ''not allowed''),
     k_patch = \<lambda>new _. api_call (\<lambda>w. (Ok new, w\<lparr>nw_node := new\<rparr>)),
     k_status_patch = \<lambda>_ _. fail_io (ErrorMsg ''not allowed''), k_status_update = \<lambda>_. fail_io (ErrorMsg ''not allowed'')\<rparr>"

section \<open>The system\<close>

record label_system =
  ls_world :: node_world
  ls_pending :: bool

text \<open>Whether a change of the pod enqueues it.\<close>

fun notify :: "Pod option \<Rightarrow> Pod option \<Rightarrow> bool" where
  "notify None None = False"
| "notify None (Some new) = (pod_event_filter (CreateEvent (PodObj new)) = Ok True)"
| "notify (Some old) None = (pod_event_filter (DeleteEvent (PodObj old)) = Ok True)"
| "notify (Some old) (Some new) = (old \<noteq> new \<and> pod_event_filter (UpdateEvent (PodObj old) (PodObj new)) = Ok True)"

definition set_pod :: "Pod option \<Rightarrow> label_system \<Rightarrow> label_system" where
  "set_pod p s = s\<lparr>ls_world := (ls_world s)\<lparr>nw_pod := p\<rparr>, ls_pending := ls_pending s \<or> notify (nw_pod (ls_world s)) p\<rparr>"

definition is_deleting :: "Pod \<Rightarrow> bool" where
  "is_deleting pod \<longleftrightarrow> om_DeletionTimestamp (pod_meta pod) \<noteq> None"

text \<open>A pod as a DaemonSet of the operator makes it: labelled with the Module, so that its node label is
  \<open>l\<close>, with the node labeller's finalizer, and not ready yet.\<close>

definition pod_of :: "string \<Rightarrow> string \<Rightarrow> string \<Rightarrow> Pod \<Rightarrow> bool" where
  "pod_of kernelLabel md l pod \<longleftrightarrow>
     fmlookup (nil_map (om_Labels (pod_meta pod))) ModuleNameLabel = Some md \<and>
     GetNodeLabelFromPod kernelLabel (pod_meta pod) md = l"

definition fresh_pod :: "Pod \<Rightarrow> bool" where
  "fresh_pod pod \<longleftrightarrow>
     NodeLabelerFinalizer \<in> set (om_Finalizers (pod_meta pod)) \<and> \<not> is_deleting pod \<and> \<not> IsPodReady pod"

text \<open>What others may do to a pod: its labels, its node once it has one, its deletion and the node
  labeller's finalizer stay, and it is not ready without a node.\<close>

definition may_become :: "Pod \<Rightarrow> Pod \<Rightarrow> bool" where
  "may_become old new \<longleftrightarrow>
     om_Labels (pod_meta new) = om_Labels (pod_meta old) \<and>
     (pod_NodeName old \<noteq> [] \<longrightarrow> pod_NodeName new = pod_NodeName old) \<and>
     (is_deleting old \<longrightarrow> is_deleting new) \<and>
     (NodeLabelerFinalizer \<in> set (om_Finalizers (pod_meta old)) \<longleftrightarrow>
      NodeLabelerFinalizer \<in> set (om_Finalizers (pod_meta new))) \<and>
     (IsPodReady new \<longrightarrow> pod_NodeName new \<noteq> [])"

text \<open>A request stays pending until a reconciliation succeeds.\<close>

definition run_reconciler :: "string \<Rightarrow> NamespacedName \<Rightarrow> bool list \<Rightarrow> label_system \<Rightarrow> label_system" where
  "run_reconciler kernelLabel req fails s =
     (case PodNodeModule_Reconcile pod_client node_client kernelLabel req ((ls_world s)\<lparr>nw_fails := fails\<rparr>) of
        (r, w') \<Rightarrow> \<lparr>ls_world = w', ls_pending = (\<not> is_ok r \<or> notify (nw_pod (ls_world s)) (nw_pod w'))\<rparr>)"

inductive label_step :: "string \<Rightarrow> string \<Rightarrow> string \<Rightarrow> label_system \<Rightarrow> label_system \<Rightarrow> bool" for kernelLabel md l where
  pod_created: "label_step kernelLabel md l s (set_pod (Some pod) s)"
    if "nw_pod (ls_world s) = None" and "pod_of kernelLabel md l pod" and "fresh_pod pod"
| pod_updated: "label_step kernelLabel md l s (set_pod (settle new) s)"
    if "nw_pod (ls_world s) = Some old" and "may_become old new"
| reconciled: "label_step kernelLabel md l s (run_reconciler kernelLabel req fails s)" if "ls_pending s"

section \<open>Lemmas\<close>

definition labelled :: "string \<Rightarrow> node_world \<Rightarrow> bool" where
  "labelled l w \<longleftrightarrow> fmlookup (nil_map (om_Labels (node_meta (nw_node w)))) l \<noteq> None"

lemma api_call_cases:
  assumes "api_call f w = (r, w')"
  obtains (failed) e bs where "r = Err e" "\<not> IsNotFound e" "w' = w\<lparr>nw_fails := bs\<rparr>"
  | (answered) bs where "f (w\<lparr>nw_fails := bs\<rparr>) = (r, w')"
proof (cases "nw_fails w")
  case Nil
  then have "w\<lparr>nw_fails := []\<rparr> = w" by (cases w) simp
  with Nil assms answered[of "[]"] show thesis by (simp add: api_call_def)
next
  case (Cons b bs)
  show thesis
  proof (cases b)
    case True
    with Cons assms have "r = Err (ErrorMsg ''timeout'')" "w' = w\<lparr>nw_fails := bs\<rparr>" by (simp_all add: api_call_def)
    then show thesis by (intro failed[of "ErrorMsg ''timeout''" bs]) simp_all
  next
    case False
    with Cons assms show thesis by (intro answered[of bs]) (simp add: api_call_def)
  qed
qed

lemma labelled_update [simp]:
  "labelled l (w\<lparr>nw_fails := bs\<rparr>) = labelled l w" "labelled l (w\<lparr>nw_pod := p\<rparr>) = labelled l w"
  by (simp_all add: labelled_def)

text \<open>What a change of one label of the node does: it happens, or the node stays as it is and the call
  reports an error.\<close>

definition changes_label :: "string \<Rightarrow> bool \<Rightarrow> (node_world, unit) io \<Rightarrow> bool" where
  "changes_label l b m \<longleftrightarrow> (\<forall>w r w'. m w = (r, w') \<longrightarrow>
     nw_pod w' = nw_pod w \<and> (if is_ok r then labelled l w' = b else nw_node w' = nw_node w) \<and> \<not> is_panic r)"

lemma node_get_cases:
  assumes "k_get node_client key w = (r, w')"
  shows "\<exists>bs. w' = w\<lparr>nw_fails := bs\<rparr> \<and> (r = Ok (nw_node w) \<or> (\<exists>e. r = Err e))"
proof -
  from assms have "api_call (\<lambda>w. (if nn_Name key = om_Name (node_meta (nw_node w)) then Ok (nw_node w)
      else Err (StatusError StatusReasonNotFound []), w)) w = (r, w')" by (simp add: node_client_def)
  then show ?thesis by (cases rule: api_call_cases) (auto split: if_split_asm)
qed

lemma node_patch_cases:
  assumes "k_patch node_client new old w = (r, w')"
  shows "\<exists>bs. (\<exists>e. r = Err e \<and> w' = w\<lparr>nw_fails := bs\<rparr>) \<or> (r = Ok new \<and> w' = w\<lparr>nw_fails := bs, nw_node := new\<rparr>)"
proof -
  from assms have "api_call (\<lambda>w. (Ok new, w\<lparr>nw_node := new\<rparr>)) w = (r, w')" by (simp add: node_client_def)
  then show ?thesis by (cases rule: api_call_cases) auto
qed

text \<open>Both label operations read the node, compute its labels and patch it.\<close>

lemma patch_labels_changes:
  assumes "\<And>n. fmlookup (nil_map (om_Labels (node_meta (g n)))) l = (if b then Some [] else None)"
  shows "changes_label l b (bind_io (wrap_io h (k_get node_client key)) (\<lambda>node.
    bind_io (k_patch node_client (g node) node) (\<lambda>_. return_io ())))"
  unfolding changes_label_def
proof (intro allI impI)
  fix w r w'
  assume run: "bind_io (wrap_io h (k_get node_client key)) (\<lambda>node.
    bind_io (k_patch node_client (g node) node) (\<lambda>_. return_io ())) w = (r, w')"
  obtain r1 w1 where get: "k_get node_client key w = (r1, w1)" by force
  from node_get_cases[OF get] obtain bs where w1: "w1 = w\<lparr>nw_fails := bs\<rparr>"
    and "r1 = Ok (nw_node w) \<or> (\<exists>e. r1 = Err e)" by blast
  then consider (err) e where "r1 = Err e" | (node) "r1 = Ok (nw_node w)" by blast
  then show "nw_pod w' = nw_pod w \<and> (if is_ok r then labelled l w' = b else nw_node w' = nw_node w) \<and> \<not> is_panic r"
  proof cases
    case err
    with run get w1 show ?thesis by auto
  next
    case node
    obtain r2 w2 where patch: "k_patch node_client (g (nw_node w)) (nw_node w) w1 = (r2, w2)" by force
    from node_patch_cases[OF patch] obtain bs2 where
      "(\<exists>e. r2 = Err e \<and> w2 = w1\<lparr>nw_fails := bs2\<rparr>) \<or> (r2 = Ok (g (nw_node w)) \<and> w2 = w1\<lparr>nw_fails := bs2, nw_node := g (nw_node w)\<rparr>)"
      by blast
    then show ?thesis
    proof
      assume "\<exists>e. r2 = Err e \<and> w2 = w1\<lparr>nw_fails := bs2\<rparr>"
      with run get node w1 patch show ?thesis by auto
    next
      assume "r2 = Ok (g (nw_node w)) \<and> w2 = w1\<lparr>nw_fails := bs2, nw_node := g (nw_node w)\<rparr>"
      with run get node w1 patch assms[of "nw_node w"] show ?thesis by (cases b) (auto simp: labelled_def)
    qed
  qed
qed

lemma addLabel_changes: "changes_label l True (addLabel node_client n l)"
  unfolding addLabel_def Let_def by (rule patch_labels_changes) simp

lemma deleteLabel_changes: "changes_label l False (deleteLabel node_client n l)"
  unfolding deleteLabel_def Let_def 
proof (rule patch_labels_changes)
  fix n :: Node
  show "fmlookup (nil_map (om_Labels (node_meta (n\<lparr>node_meta := (node_meta n)\<lparr>
      om_Labels := map_option (fmdrop l) (om_Labels (node_meta n))\<rparr>\<rparr>)))) l = (if False then Some [] else None)"
    by (cases "om_Labels (node_meta n)") simp_all
qed

lemma is_ok_map_err [simp]: "is_ok (map_err h r) = is_ok r"
  by (cases r) simp_all

lemma changes_labelD:
  assumes "changes_label l b m" and "wrap_io h m w = (r, w')"
  shows "nw_pod w' = nw_pod w" "is_ok r \<Longrightarrow> labelled l w' = b"
    "\<not> is_ok r \<Longrightarrow> nw_node w' = nw_node w" "\<not> is_panic r"
  using assms by (auto simp: changes_label_def wrap_io_def split: prod.splits)

lemma pod_get_cases:
  assumes "k_get pod_client req w = (r, w')"
  shows "\<exists>bs. w' = w\<lparr>nw_fails := bs\<rparr> \<and> ((\<exists>e. r = Err e \<and> \<not> IsNotFound e) \<or>
    r = (case nw_pod w of Some p \<Rightarrow> Ok p | None \<Rightarrow> Err (StatusError StatusReasonNotFound [])))"
proof -
  from assms have "api_call (\<lambda>w. (case nw_pod w of Some p \<Rightarrow> Ok p | None \<Rightarrow> Err (StatusError StatusReasonNotFound []), w)) w = (r, w')"
    by (simp add: pod_client_def)
  then show ?thesis by (cases rule: api_call_cases) auto
qed

lemma pod_patch_cases:
  assumes "k_patch pod_client new old w = (r, w')" and "nw_pod w = Some p"
  shows "\<exists>bs. (\<exists>e. r = Err e \<and> \<not> IsNotFound e \<and> w' = w\<lparr>nw_fails := bs\<rparr>) \<or>
    (r = Ok new \<and> w' = w\<lparr>nw_fails := bs, nw_pod := settle new\<rparr>)"
proof -
  from assms(1) have "api_call (\<lambda>w. case nw_pod w of None \<Rightarrow> (Err (StatusError StatusReasonNotFound []), w)
       | Some _ \<Rightarrow> (Ok new, w\<lparr>nw_pod := settle new\<rparr>)) w = (r, w')" by (simp add: pod_client_def)
  then show ?thesis by (cases rule: api_call_cases) (use assms(2) in auto)
qed

definition without_finalizer :: "Pod \<Rightarrow> Pod" where
  "without_finalizer pod = pod\<lparr>pod_meta := RemoveFinalizer NodeLabelerFinalizer (pod_meta pod)\<rparr>"

lemma without_finalizer_simps [simp]:
  "pod_of kl md l (without_finalizer p) = pod_of kl md l p"
  "IsPodReady (without_finalizer p) = IsPodReady p"
  "pod_NodeName (without_finalizer p) = pod_NodeName p"
  "is_deleting (without_finalizer p) = is_deleting p"
  by (simp_all add: without_finalizer_def pod_of_def IsPodReady_def is_deleting_def RemoveFinalizer_def GetNodeLabelFromPod_def
      get_label_def)

lemma settle_is: "settle p = (if is_deleting p \<and> om_Finalizers (pod_meta p) = [] then None else Some p)"
  by (simp add: settle_def is_deleting_def)

lemma wants_label_is: "wants_label p \<longleftrightarrow> IsPodReady p \<and> \<not> is_deleting p"
  by (simp add: wants_label_def is_deleting_def)

text \<open>What one reconciliation does to the node and the pod, whichever of its calls fail.\<close>

lemma reconcile_gone:
  assumes "PodNodeModule_Reconcile pod_client node_client kl req w = (r, w')" and "nw_pod w = None"
  shows "nw_pod w' = None \<and> nw_node w' = nw_node w"
proof -
  obtain g w1 where get: "k_get pod_client req w = (g, w1)" by force
  from pod_get_cases[OF get] assms(2) obtain bs e where "w1 = w\<lparr>nw_fails := bs\<rparr>" "g = Err e" by auto
  with assms get show ?thesis
    by (auto simp: PodNodeModule_Reconcile_def bind_io_def attempt_io_def split: if_split_asm)
qed

text \<open>The branch of the reconciler for pods that do not want the label.\<close>

lemma unlabel_cases:
  assumes rest: "unlabel_node pod_client node_client p l w = (r, w')" and p: "nw_pod w = Some p"
  shows "(nw_pod w' = Some p \<and> (labelled l w' \<longrightarrow> labelled l w) \<and> (is_ok r \<longrightarrow> \<not> labelled l w' \<and> \<not> is_deleting p)) \<or>
    (is_deleting p \<and> nw_pod w' = settle (without_finalizer p) \<and> \<not> labelled l w')"
proof -
  let ?del = "wrap_io (Errorf_v (''could not unlabel node '' @ pod_NodeName p)) (deleteLabel node_client (pod_NodeName p) l)"
  obtain d w2 where del: "?del w = (d, w2)" by force
  note d = changes_labelD[OF deleteLabel_changes del]
  show ?thesis
  proof (cases "is_ok d \<and> is_deleting p")
    case True
    obtain f w3 where patch: "k_patch pod_client (without_finalizer p) p w2 = (f, w3)" by force
    from pod_patch_cases[OF patch, of p] d(1) p obtain bs where
      "(\<exists>e. f = Err e \<and> \<not> IsNotFound e \<and> w3 = w2\<lparr>nw_fails := bs\<rparr>) \<or>
       (f = Ok (without_finalizer p) \<and> w3 = w2\<lparr>nw_fails := bs, nw_pod := settle (without_finalizer p)\<rparr>)" by auto
    moreover from True rest del patch have "w' = w3 \<and> (is_ok r = is_ok f \<or> (\<exists>e. f = Err e \<and> IsNotFound e))"
      by (cases d; cases f)
         (auto simp: bind_io_def attempt_io_def deleteFinalizer_def without_finalizer_def[symmetric] is_deleting_def
            unlabel_node_def split: if_split_asm)
    ultimately show ?thesis using True d p by auto
  next
    case False
    with rest del have "w' = w2 \<and> is_ok r = is_ok d"
      by (cases d) (auto simp: bind_io_def is_deleting_def unlabel_node_def)
    with False d p show ?thesis by (auto simp: labelled_def)
  qed
qed

lemma reconcile_present:
  assumes run: "PodNodeModule_Reconcile pod_client node_client kl req w = (r, w')"
    and p: "nw_pod w = Some p" and of: "pod_of kl md l p"
  shows "(nw_pod w' = Some p \<and> (labelled l w' \<longrightarrow> labelled l w \<or> wants_label p) \<and>
          (is_ok r \<longrightarrow> labelled l w' = wants_label p \<and> \<not> is_deleting p)) \<or>
    (is_deleting p \<and> nw_pod w' = settle (without_finalizer p) \<and> \<not> labelled l w')"
proof -
  obtain g w1 where get: "k_get pod_client req w = (g, w1)" by force
  from pod_get_cases[OF get] p obtain bs where w1: "w1 = w\<lparr>nw_fails := bs\<rparr>"
    and "(\<exists>e. g = Err e \<and> \<not> IsNotFound e) \<or> g = Ok p" by auto
  then consider (err) e where "g = Err e" "\<not> IsNotFound e" | (wants) "g = Ok p" "wants_label p"
    | (other) "g = Ok p" "\<not> wants_label p" by blast
  then show ?thesis
  proof cases
    case err
    with run get w1 p show ?thesis
      by (auto simp: PodNodeModule_Reconcile_def bind_io_def attempt_io_def)
  next
    case wants
    with run reconcile_found[of pod_client req w p w1 md kl l node_client] get of
    have "wrap_io (Errorf_v (''could not label node '' @ pod_NodeName p)) (addLabel node_client (pod_NodeName p) l) w1 = (r, w')"
      by (simp add: pod_of_def)
    from changes_labelD[OF addLabel_changes this] wants p w1 show ?thesis
      by (auto simp: wants_label_def is_deleting_def)
  next
    case other
    with run reconcile_found[of pod_client req w p w1 md kl l node_client] get of
    have "unlabel_node pod_client node_client p l w1 = (r, w')" by (simp add: pod_of_def)
    from unlabel_cases[OF this] other p w1 show ?thesis by auto
  qed
qed

section \<open>The invariant\<close>

definition label_inv :: "string \<Rightarrow> string \<Rightarrow> string \<Rightarrow> label_system \<Rightarrow> bool" where
  "label_inv kernelLabel md l s \<longleftrightarrow>
     (case nw_pod (ls_world s) of
        None \<Rightarrow> \<not> labelled l (ls_world s)
      | Some p \<Rightarrow> pod_of kernelLabel md l p \<and> (IsPodReady p \<longrightarrow> pod_NodeName p \<noteq> []) \<and>
          (NodeLabelerFinalizer \<in> set (om_Finalizers (pod_meta p)) \<or> is_deleting p \<and> \<not> labelled l (ls_world s)) \<and>
          (ls_pending s \<or> labelled l (ls_world s) = wants_label p))"

lemma label_inv_created:
  assumes "label_inv kl md l s" and "nw_pod (ls_world s) = None" and "pod_of kl md l pod" and "fresh_pod pod"
  shows "label_inv kl md l (set_pod (Some pod) s)"
  using assms by (auto simp: label_inv_def set_pod_def fresh_pod_def wants_label_def labelled_def)

text \<open>An update that is not enqueued leaves what the pod asks for as it was.\<close>

lemma notify_update:
  assumes "\<not> notify (Some old) (Some new)" and "may_become old new" and "pod_of kl md l old" and "md \<noteq> []"
    and "IsPodReady old \<longrightarrow> pod_NodeName old \<noteq> []"
  shows "wants_label new = wants_label old"
  using assms
  by (auto simp: pod_event_filter_def predicate_defs wants_label_def may_become_def pod_of_def is_deleting_def get_label_def
      sm_get_def split: if_split_asm)

lemma label_inv_updated:
  assumes inv: "label_inv kl md l s" and old: "nw_pod (ls_world s) = Some old" and "may_become old new" and "md \<noteq> []"
  shows "label_inv kl md l (set_pod (settle new) s)"
proof (cases "settle new")
  case None
  then have "om_Finalizers (pod_meta new) = []" by (simp add: settle_is split: if_split_asm)
  with assms(3) have "NodeLabelerFinalizer \<notin> set (om_Finalizers (pod_meta old))" by (simp add: may_become_def)
  with inv old have "\<not> labelled l (ls_world s)" by (simp add: label_inv_def)
  with None show ?thesis by (simp add: label_inv_def set_pod_def)
next
  case (Some p)
  then have p: "p = new" by (simp add: settle_is split: if_split_asm)
  from inv old assms(3) have "pod_of kl md l new"
    by (simp add: label_inv_def may_become_def pod_of_def GetNodeLabelFromPod_def get_label_def)
  moreover from inv old notify_update[OF _ assms(3) _ assms(4), of kl l]
  have "ls_pending s \<or> notify (Some old) (Some new) \<or> labelled l (ls_world s) = wants_label new"
    by (auto simp: label_inv_def)
  ultimately show ?thesis using inv old assms(3) Some p
    by (auto simp: label_inv_def set_pod_def may_become_def)
qed

lemma label_inv_reconciled:
  assumes "label_inv kl md l s" and "ls_pending s"
  shows "label_inv kl md l (run_reconciler kl req fails s)"
proof -
  obtain r w' where run: "PodNodeModule_Reconcile pod_client node_client kl req ((ls_world s)\<lparr>nw_fails := fails\<rparr>) = (r, w')"
    by force
  show ?thesis
  proof (cases "nw_pod (ls_world s)")
    case None
    with reconcile_gone[OF run] assms run show ?thesis
      by (simp add: run_reconciler_def label_inv_def labelled_def)
  next
    case (Some p)
    with assms(1) have "pod_of kl md l p" by (simp add: label_inv_def)
    from reconcile_present[OF run _ this] Some assms run show ?thesis
      by (auto simp: run_reconciler_def label_inv_def settle_is wants_label_is)
  qed
qed

text \<open>An empty Module name is not enqueued; the API server does not admit one.\<close>

definition guarded_inv :: "string \<Rightarrow> string \<Rightarrow> string \<Rightarrow> label_system \<Rightarrow> bool" where
  "guarded_inv kernelLabel md l s \<longleftrightarrow> (md \<noteq> [] \<longrightarrow> label_inv kernelLabel md l s)"

interpretation label_sys: step_invariant "label_step kl md l" "guarded_inv kl md l" for kl md l
  by unfold_locales
     (auto simp: guarded_inv_def elim!: label_step.cases intro: label_inv_created label_inv_updated label_inv_reconciled)

text \<open>A pod without a node is never enqueued. One that is deleted before it is scheduled therefore keeps its
  finalizer until somebody else removes it.\<close>

lemma unscheduled_pod_is_ignored:
  assumes "pod_NodeName new = []"
  shows "\<not> notify None (Some new)" "\<not> notify (Some old) (Some new)"
  using assms by (auto simp: pod_event_filter_def predicate_defs split: if_split_asm)

text \<open>A reconciliation without failing calls settles the request of a pod that is not being deleted.\<close>

lemma failure_free_reconcile_settles:
  assumes "nw_pod (ls_world s) = Some p" and "pod_of kl md l p" and "\<not> is_deleting p"
    and "pod_NodeName p = om_Name (node_meta (nw_node (ls_world s)))"
  shows "\<not> ls_pending (run_reconciler kl req [] s)"
  using assms
  by (auto simp: run_reconciler_def PodNodeModule_Reconcile_def pod_of_def is_deleting_def pod_client_def node_client_def
      api_call_def addLabel_def deleteLabel_def Let_def bind_io_def attempt_io_def wrap_io_def)

lemma reconcile_keeps_pod:
  assumes "nw_pod (ls_world s) = Some p" and "pod_of kl md l p" and "\<not> is_deleting p"
  shows "nw_pod (ls_world (run_reconciler kl req fails s)) = Some p"
proof -
  obtain r w' where run: "PodNodeModule_Reconcile pod_client node_client kl req ((ls_world s)\<lparr>nw_fails := fails\<rparr>) = (r, w')"
    by force
  from reconcile_present[OF run _ assms(2)] assms(1,3) run show ?thesis by (simp add: run_reconciler_def)
qed

section \<open>Properties\<close>


section \<open>Samples\<close>

definition sample_system :: label_system where
  "sample_system = \<lparr>ls_world = \<lparr>nw_pod = None, nw_node = sample_node\<lparr>node_meta := sample_meta ''node''\<rparr>, nw_fails = []\<rparr>,
     ls_pending = False\<rparr>"

definition labeller_pod :: "string \<Rightarrow> Pod" where
  "labeller_pod ready = (sample_pod ready)\<lparr>pod_meta := (pod_meta (sample_pod ready))\<lparr>om_Finalizers := [NodeLabelerFinalizer]\<rparr>\<rparr>"

definition sample_req :: NamespacedName where
  "sample_req = \<lparr>nn_Namespace = ''ns'', nn_Name = ''pod''\<rparr>"

definition ready_system :: label_system where
  "ready_system = set_pod (settle (labeller_pod ''True'')) (set_pod (Some (labeller_pod ''False'')) sample_system)"

lemmas labeller_defs = labeller_pod_def sample_pod_def sample_meta_def empty_meta_def IsPodReady_def is_deleting_def

lemma ready_system_is:
  "nw_pod (ls_world ready_system) = Some (labeller_pod ''True'')" "ls_pending ready_system"
  "pod_of KernelLabel ''md'' (getDevicePluginNodeLabel ''md'') (labeller_pod ''True'')"
  "nw_node (ls_world ready_system) = sample_node\<lparr>node_meta := sample_meta ''node''\<rparr>"
  by (simp_all add: ready_system_def set_pod_def settle_is sample_system_def labeller_defs pod_of_def
      GetNodeLabelFromPod_def get_label_def sm_get_def devicePluginKernelVersion_def pod_event_filter_def predicate_defs)

lemma ready_system_reachable:
  "reachable_from (label_step KernelLabel ''md'' (getDevicePluginNodeLabel ''md'')) sample_system ready_system"
  unfolding ready_system_def
proof (rule reachable_from.next_step, rule reachable_from.next_step, rule reachable_from.start)
  show "label_step KernelLabel ''md'' (getDevicePluginNodeLabel ''md'') sample_system
     (set_pod (Some (labeller_pod ''False'')) sample_system)"
    by (rule label_step.pod_created)
       (simp_all add: sample_system_def labeller_defs pod_of_def GetNodeLabelFromPod_def get_label_def sm_get_def
         devicePluginKernelVersion_def fresh_pod_def)
  show "label_step KernelLabel ''md'' (getDevicePluginNodeLabel ''md'') (set_pod (Some (labeller_pod ''False'')) sample_system)
     (set_pod (settle (labeller_pod ''True'')) (set_pod (Some (labeller_pod ''False'')) sample_system))"
    by (rule label_step.pod_updated[of _ "labeller_pod ''False''"]) (simp_all add: set_pod_def may_become_def labeller_defs)
qed


end
