(* ===== verification/Dtk_Concurrent.thy ===== *)
theory Dtk_Concurrent
  imports Dtk_Mapping
begin

text \<open>
  The driver-toolkit mapping under concurrent use. Its two tables have a read-write lock each
  (internal/syncronizedmap), and a lookup reads them one after the other while it keeps the lock of the
  first. The transition system has any number of goroutines in a lookup and any order of writes; the
  specification is a register that answers every lookup at once from the history of writes.
\<close>

section \<open>The specification\<close>

datatype dtk_op = NodeInfo string string | StreamInfo string string | Lookup string "string result"

text \<open>Histories have the newest operation first.\<close>

primrec last_os :: "dtk_op list \<Rightarrow> string \<Rightarrow> string option" where
  "last_os [] k = None"
| "last_os (e # h) k = (case e of NodeInfo k' os \<Rightarrow> if k' = k then Some os else last_os h k | _ \<Rightarrow> last_os h k)"

primrec last_dtk :: "dtk_op list \<Rightarrow> string \<Rightarrow> string option" where
  "last_dtk [] os = None"
| "last_dtk (e # h) os = (case e of StreamInfo os' img \<Rightarrow> if os' = os then Some img else last_dtk h os | _ \<Rightarrow> last_dtk h os)"

definition registered_image :: "dtk_op list \<Rightarrow> string \<Rightarrow> string option" where
  "registered_image h k = Option.bind (last_os h k) (last_dtk h)"

text \<open>Every lookup has the answer of the writes before it.\<close>

primrec legal_history :: "dtk_op list \<Rightarrow> bool" where
  "legal_history [] = True"
| "legal_history (e # h) = (legal_history h \<and>
     (case e of Lookup k r \<Rightarrow> (case registered_image h k of Some img \<Rightarrow> r = Ok img | None \<Rightarrow> \<not> is_ok r \<and> \<not> is_panic r)
      | _ \<Rightarrow> True))"

section \<open>The concurrent mapping\<close>

text \<open>The two halves of a lookup: the first reads the OS of the kernel and returns on a miss, the second
  reads the image of the OS.\<close>

definition get_os :: "kernelOsDtkMapping \<Rightarrow> string \<Rightarrow> string result" where
  "get_os skom kernelVersion =
     (case fmlookup (kernelToOs skom) kernelVersion of
        None \<Rightarrow> Err (ErrorMsg (''could not find kernel '' @ kernelVersion @ '' in kernel --> OS mapping''))
      | Some osImage \<Rightarrow> Ok osImage)"

definition get_dtk :: "kernelOsDtkMapping \<Rightarrow> string \<Rightarrow> string result" where
  "get_dtk skom osImage =
     (case fmlookup (osToDtk skom) osImage of
        None \<Rightarrow> Err (ErrorMsg (''could not find osImage '' @ osImage @ '' in OS --> DTK mapping''))
      | Some dtk \<Rightarrow> Ok dtk)"

text \<open>A goroutine is outside of a lookup, or inside between the two reads, with the read lock of the
  first table.\<close>

datatype getter = Outside | Holding string string

record dtk_system =
  dtk_map :: kernelOsDtkMapping
  dtk_getter :: "nat \<Rightarrow> getter"
  dtk_history :: "dtk_op list"

definition dtk_start :: dtk_system where
  "dtk_start = \<lparr>dtk_map = NewKernelOsDtkMapping, dtk_getter = \<lambda>_. Outside, dtk_history = []\<rparr>"

text \<open>A write of the first table waits until no goroutine has its read lock. The second table is locked
  for the one read only.\<close>

inductive dtk_step :: "dtk_system \<Rightarrow> dtk_system \<Rightarrow> bool" where
  set_node: "dtk_step s (s\<lparr>dtk_map := SetNodeInfo k os (dtk_map s), dtk_history := NodeInfo k os # dtk_history s\<rparr>)"
    if "\<forall>t. dtk_getter s t = Outside"
| set_stream: "dtk_step s (s\<lparr>dtk_map := SetImageStreamInfo os img (dtk_map s), dtk_history := StreamInfo os img # dtk_history s\<rparr>)"
| get_miss: "dtk_step s (s\<lparr>dtk_history := Lookup k (Err e) # dtk_history s\<rparr>)"
    if "dtk_getter s t = Outside" and "get_os (dtk_map s) k = Err e"
| get_first: "dtk_step s (s\<lparr>dtk_getter := (dtk_getter s)(t := Holding k os)\<rparr>)"
    if "dtk_getter s t = Outside" and "get_os (dtk_map s) k = Ok os"
| get_second: "dtk_step s (s\<lparr>dtk_getter := (dtk_getter s)(t := Outside), dtk_history := Lookup k (get_dtk (dtk_map s) os) # dtk_history s\<rparr>)"
    if "dtk_getter s t = Holding k os"

section \<open>Lemmas\<close>

lemma GetImage_in_two_halves: "GetImage m k = bind_res (get_os m k) (get_dtk m)"
  by (simp add: GetImage_def get_os_def get_dtk_def split: option.split)

lemma get_os_cases [simp]:
  "get_os m k = Ok os \<longleftrightarrow> fmlookup (kernelToOs m) k = Some os"
  "get_os m k = Err e \<Longrightarrow> fmlookup (kernelToOs m) k = None"
  by (auto simp: get_os_def split: option.split_asm)

text \<open>The simulation relation: the tables hold what the history says, and what a goroutine has read of the
  first table is still there.\<close>

definition refines_history :: "dtk_system \<Rightarrow> bool" where
  "refines_history s \<longleftrightarrow> legal_history (dtk_history s) \<and>
     (\<forall>k. fmlookup (kernelToOs (dtk_map s)) k = last_os (dtk_history s) k) \<and>
     (\<forall>os. fmlookup (osToDtk (dtk_map s)) os = last_dtk (dtk_history s) os) \<and>
     (\<forall>t k os. dtk_getter s t = Holding k os \<longrightarrow> last_os (dtk_history s) k = Some os)"

lemma dtk_step_refines:
  assumes "dtk_step s s'" and "refines_history s"
  shows "refines_history s'"
  using assms
  by (induction rule: dtk_step.induct)
     (auto simp: refines_history_def SetNodeInfo_def SetImageStreamInfo_def registered_image_def get_dtk_def
       split: option.split if_split_asm dest: get_os_cases(2))

interpretation dtk_sys: step_invariant dtk_step refines_history
  by unfold_locales (rule dtk_step_refines)

section \<open>Properties\<close>

text \<open>
  C27. The mapping refines an atomic register under concurrency: in every execution of any number of
  goroutines, each lookup answers with the image last registered for the OS last registered for its
  kernel, or with an error when there is none, as if it had happened at one moment among the writes, and
  the tables hold exactly what was last written.
\<close>

theorem concurrent_lookups_are_atomic:
  assumes "reachable_from dtk_step dtk_start s"
  shows "legal_history (dtk_history s) \<and>
    (\<forall>k img. GetImage (dtk_map s) k = Ok img \<longleftrightarrow> registered_image (dtk_history s) k = Some img)"
proof -
  have "refines_history dtk_start"
    by (simp add: refines_history_def dtk_start_def NewKernelOsDtkMapping_def)
  with assms have "refines_history s" by (rule dtk_sys.reachable_inv)
  then show ?thesis
    by (auto simp: refines_history_def registered_image_def dtk.get_image_Ok bind_eq_Some_conv)
qed

section \<open>Samples\<close>

definition sample_dtk_run :: dtk_system where
  "sample_dtk_run = \<lparr>dtk_map = SetImageStreamInfo ''os'' ''new'' (SetNodeInfo ''k'' ''os'' NewKernelOsDtkMapping),
     dtk_getter = (\<lambda>_. Outside)(0 := Outside), dtk_history = [Lookup ''k'' (Ok ''new''), StreamInfo ''os'' ''new'', NodeInfo ''k'' ''os'']\<rparr>"

text \<open>A lookup that overlaps with a write of the second table.\<close>

theorem concurrent_lookups_are_atomic_witness: "GetImage (dtk_map sample_dtk_run) ''k'' = Ok ''new''"
proof -
  let ?s1 = "dtk_start\<lparr>dtk_map := SetNodeInfo ''k'' ''os'' (dtk_map dtk_start), dtk_history := NodeInfo ''k'' ''os'' # dtk_history dtk_start\<rparr>"
  let ?s2 = "?s1\<lparr>dtk_getter := (dtk_getter ?s1)(0 := Holding ''k'' ''os'')\<rparr>"
  let ?s3 = "?s2\<lparr>dtk_map := SetImageStreamInfo ''os'' ''new'' (dtk_map ?s2), dtk_history := StreamInfo ''os'' ''new'' # dtk_history ?s2\<rparr>"
  let ?s4 = "?s3\<lparr>dtk_getter := (dtk_getter ?s3)(0 := Outside), dtk_history := Lookup ''k'' (get_dtk (dtk_map ?s3) ''os'') # dtk_history ?s3\<rparr>"
  have "dtk_step dtk_start ?s1" by (rule dtk_step.set_node) (simp add: dtk_start_def)
  then have "reachable_from dtk_step dtk_start ?s1" by (rule reachable_from.next_step[OF reachable_from.start])
  moreover have "dtk_step ?s1 ?s2" by (rule dtk_step.get_first) (simp_all add: dtk_start_def SetNodeInfo_def)
  ultimately have "reachable_from dtk_step dtk_start ?s2" by (rule reachable_from.next_step)
  moreover have "dtk_step ?s2 ?s3" by (rule dtk_step.set_stream)
  ultimately have "reachable_from dtk_step dtk_start ?s3" by (rule reachable_from.next_step)
  moreover have "dtk_step ?s3 ?s4" by (rule dtk_step.get_second) simp
  ultimately have "reachable_from dtk_step dtk_start ?s4" by (rule reachable_from.next_step)
  moreover have "?s4 = sample_dtk_run"
    by (simp add: sample_dtk_run_def dtk_start_def get_dtk_def SetNodeInfo_def SetImageStreamInfo_def)
  ultimately have "reachable_from dtk_step dtk_start sample_dtk_run" by (simp only:)
  from concurrent_lookups_are_atomic[OF this] show ?thesis
    by (simp add: sample_dtk_run_def registered_image_def)
qed

end
