(* ===== verification/Spec2Isabelle.thy ===== *)
theory Spec2Isabelle
  imports Module_Convergence Rate_Limiter Object_Cache Sign_Image Node_Label_System Dtk_Concurrent
begin

text \<open>
  The Kernel Module Management operator: a verification development.

  The operator runs kernel modules on the nodes of an OpenShift cluster. A user declares a Module (a
  driver container image per kernel, optionally a Dockerfile to build it from, keys to sign it with, and
  a device plugin). The module reconciler finds the kernels of the selected nodes, maps each to its
  image, has the image built and signed in the cluster when asked to, and then keeps one DaemonSet per
  kernel, which loads the module. Around it run the reconcilers of node kernels, of the driver-toolkit
  image stream, of driver pods (which label nodes), of upgrade preflights, and, on a hub cluster, the
  reconciler that prepares the images for many spoke clusters and ships Modules to them.

  \<^bold>\<open>How the code is modelled.\<close> A Go function that talks to the API server, the registry or the file
  system is a function on a state that returns a result, \<^theory_text>\<open>'w \<Rightarrow> 'a result \<times> 'w\<close>, where a result is a
  value, an error or a panic (theory Prelude); wrapping an error keeps what \<^verbatim>\<open>errors.Is\<close> and
  \<^verbatim>\<open>IsNotFound\<close> see of it. The world \<^theory_text>\<open>'w\<close> is a parameter: a client is a record of functions (get, list,
  create, delete, patch) on it, so that a theorem holds for every behaviour of the API server, failures
  included, and says which calls were made, in which order, with which objects. Objects are records with
  the fields the code uses; nil pointers, slices and maps are options where the code tells nil from
  empty. Counters of statuses are 32-bit words. Loops over slices are folds or recursive functions and
  need no fuel; the loop that reads a tar stream, which could run for ever, is a partial function whose
  termination is proved. Where it matters which values share memory, the same structs are values on a heap.

  \<^bold>\<open>The theories\<close>, each with its definitions first and its properties at the end:

  \<^item> Prelude: results, the state-passing combinators and their laws, Go's string functions, transition
    systems and the locale of their invariants. Kube: metadata, owner references, label selectors, the
    client and \<^verbatim>\<open>CreateOrPatch\<close>, with the locale of desired objects. Api_Types: the custom resources
    (api/v1beta1, api-hub/v1beta1, internal/api).
  \<^item> Kernel_Mapper (internal/module, internal/utils/replaceStrings.go, the helpers of internal/build and
    internal/sign): the first mapping that matches a kernel, merged settings, image names.
  \<^item> Dtk_Mapping and Dtk_Concurrent (internal/syncronizedmap, node_kernel_reconciler.go,
    imagestream_reconciler.go): the in-memory map to driver-toolkit images, its writers, and its two
    locks under concurrent lookups.
  \<^item> Jobs (internal/utils), Registry (internal/registry, internal/auth), Ca_Helper (internal/ca).
  \<^item> Build_Manager (internal/build) and Sign_Manager (internal/sign): the two stages that make an image,
    both instances of the locales of hashed objects and of image stages. Sign_Image
    (cmd/signimage): the program a signing job runs.
  \<^item> Daemon_Sets (internal/daemonset), Metrics (internal/metrics), Status_Updater
    (internal/statusupdater), Module_Reconciler (controllers/module_reconciler.go).
  \<^item> Event_Filter (internal/filter), Node_Labels and Node_Label_System
    (pod_node_module_reconciler.go, node_kernel_clusterclaim.go): events, node labels, cluster claims, and
    the transition system of pods, node and reconciler.
  \<^item> Preflight and Preflight_Ocp (internal/preflight and the two preflight reconcilers).
  \<^item> Cluster_Hub and Hub_Reconciler (internal/cluster, internal/manifestwork, controllers/hub).
  \<^item> Controllers (the \<^verbatim>\<open>SetupWithManager\<close> methods, on the builder and event handlers of the controller
    runtime): which event enqueues which request. Work_Queue (the work queue of client-go and the workers of
    controller-runtime): from a request to its reconciliation, as a transition system with the locks' granularity.
    Rate_Limiter: the delays of the default rate limiter.
  \<^item> Startup (cmd/manager, cmd/manager-hub, internal/cmd): the controllers each program runs, and its exit
    codes. Operator (the same programs, and the groupversion_info.go of the two APIs): the schemes, and every
    component built from the others as main does it.
  \<^item> Stage_System: the build and sign managers over time, against a server whose objects they see through a
    cache that may lag behind; the locale of stored objects, with both managers as instances. Stage_Convergence: from
    which objects the two stages complete, in rounds of cluster, cache and manager.
  \<^item> Server: one API server for Builds, jobs and DaemonSets, with the locale of its views, so that the managers on the
    server are the managers of Stage_System on a view. Stage_Moves: what one synchronisation does to the objects of a stage, and that
    it leaves those of other kernels alone. Driver_Store: the DaemonSets of one Module. Kernel_Steps and Kernel_Loop: the
    body of the Module reconciler's loop and the loop. Round_End: device plugin, garbage collection and status. Module_Convergence: whole
    reconciliations, one after the other, of the operator that theory Operator builds.
  \<^item> Go_Heap: Go's structs, pointers, slices and maps on a heap of cells, values read through their types as
    trees, and the locale of deep copies with the laws that build one from the copies of the fields.
    Deep_Copy (the zz_generated.deepcopy.go of the two APIs): every generated copy function, on the types of all structs.
    Object_Cache: the cache reader of controller-runtime and the hub's in-place clearing of kernel mappings on
    that heap, which the record-level Hub_Reconciler abstracts.

  \<^bold>\<open>What is shown.\<close> A driver is started only from an image that exists, is built or is signed for the
  current inputs, and signing starts from what the build pushed; the kernels handled, the DaemonSets and
  their garbage collection are exactly those of the targeted nodes; reconciling a converged object
  writes nothing. The build and sign stages report completion exactly for a finished object with the
  current hash, and the signing program pushes exactly the requested modules, signed. A node carries a
  Module's label exactly while its pod is ready, in every execution with failing API calls; the
  driver-toolkit mapping behaves as an atomic register; preflights pass only when an image holds the
  module or its stages complete, and are queued again until then; the hub ships a Module only after
  all its images are ready, and the spoke resolves each kernel to the same image. Events of what a
  reconciliation started, and kernel upgrades of nodes, reach the Modules that wait for them; in the queue
  no request is lost, a failed one comes back, after a delay that doubles up to a bound, and no two workers
  have the same one. A Module has at most one Build for a kernel as long as the manager's reads are current, and with a lagging cache it can have two. The stages
  complete within three rounds from exactly the states without a failed object of the current inputs, an object without
  annotations or duplicates. From such a state every kernel of a Module has its driver after seven reconciliations: two for each of
  deletion and creation of a Build, because the signing job may be collected meanwhile, one for each of those of
  the job, and one for the DaemonSet. Keys of objects are unique there, the names the server generates next are free, the Module has
  one DaemonSet per kernel, and the registries answer, differently each time if they like. Every generated copy has the type and
  value of its original and shares no memory with it, so that what a reconciler writes into its object does not reach the
  cache. Errors are covered as results: what becomes success, what is returned, where the code panics.

  \<^bold>\<open>Parameters.\<close> Code outside of the repository is an argument of the definitions that use it: the
  API server, the registry client (crane) and its layer packages, regular expressions in mappings, the
  envsubst parser, hashstructure, JSON decoding, \<^verbatim>\<open>sign-file\<close>, the temporary directory, the clock. Where
  a theorem relies on one of them its hypothesis says so, and a sample instance shows that it can hold.
  Of the vendored libraries, the owner-reference helpers, \<^verbatim>\<open>CreateOrPatch\<close>, the predicate combinators, the
  controller builder with its event handlers, the work queue with the default rate limiter (the token bucket of golang.org/x/time
  in it is a parameter), the workers of a controller, the cache reader's Get, the structs that custom
  resources contain, and the pod readiness test are translated from their sources.

  \<^bold>\<open>Not modelled.\<close> Of the controller runtime: informers and the watches behind them, leader election, and metrics
  of the queue. Two vendored structs, \<^verbatim>\<open>resource.Quantity\<close> and \<^verbatim>\<open>VolumeSource\<close>,
  are parameters of the copies. Logging; interface declarations; constructors
  that only fill a struct, which the wiring of theory Operator stands for; the generated mocks, which only tests use;
  tests. Text of log messages, and of errors where nothing reads it, is abbreviated. A Go map is iterated in no fixed order: where the code does so, the model fixes one order
  and no property depends on which.
\<close>

end
